(* ===== verification/Prelude.thy ===== *)
theory Prelude
  imports Main "HOL-Library.Word"
begin

text \<open>
  Shared vocabulary of the development.

  \<^item> Machine integers: \<open>u8\<close>, \<open>u16\<close>, \<open>u32\<close>, \<open>u64\<close> are words of that width, and a
    \<open>Vec<u8>\<close> or \<open>&[u8]\<close> is a list of \<open>u8\<close>.
  \<^item> Outcomes: a Rust call returns \<open>Ok\<close>, returns \<open>Err\<close>, or panics.  The type \<open>res\<close> has one
    constructor for each, so that an out-of-range index or slice of the source is a value
    of the model and the absence of panics is a statement that can be proved.
  \<^item> Checked access: \<open>idx\<close> is \<open>data[i]\<close>, \<open>slice\<close> is \<open>data[a..b]\<close>.
  \<^item> Byte order: \<open>from_be_bytes\<close> and \<open>to_be_bytes\<close> for 16-bit values.
  \<^item> Text: decimal printing, \<open>str::parse\<close> of an unsigned number and \<open>str::split\<close>.

  The collection \<open>res_simps\<close> holds the rules that run a definition symbolically; \<open>codec_simps\<close>
  holds what the encode/decode proofs of the components share.
\<close>

unbundle bit_operations_syntax

named_theorems res_simps \<open>evaluation of outcomes, indexing and slicing\<close>
named_theorems codec_simps \<open>byte-level encode and decode rules\<close>

type_synonym u8 = "8 word"
type_synonym u16 = "16 word"
type_synonym u32 = "32 word"
type_synonym u64 = "64 word"
type_synonym bytes = "u8 list"

section \<open>Outcomes\<close>

datatype ('e, 'a) res = Ok 'a | Err 'e | Panic

fun bind_res :: "('e, 'a) res \<Rightarrow> ('a \<Rightarrow> ('e, 'b) res) \<Rightarrow> ('e, 'b) res" where
  "bind_res (Ok x) f = f x"
| "bind_res (Err e) f = Err e"
| "bind_res Panic f = Panic"

fun map_err :: "('d \<Rightarrow> 'e) \<Rightarrow> ('d, 'a) res \<Rightarrow> ('e, 'a) res" where
  "map_err g (Ok x) = Ok x"
| "map_err g (Err e) = Err (g e)"
| "map_err g Panic = Panic"

definition guard_res :: "bool \<Rightarrow> 'e \<Rightarrow> ('e, 'a) res \<Rightarrow> ('e, 'a) res" where
  "guard_res bad e k = (if bad then Err e else k)"

definition idx :: "'a list \<Rightarrow> nat \<Rightarrow> ('e, 'a) res" where
  "idx xs i = (if i < length xs then Ok (xs ! i) else Panic)"

definition slice :: "'a list \<Rightarrow> nat \<Rightarrow> nat \<Rightarrow> ('e, 'a list) res" where
  "slice xs a b = (if a \<le> b \<and> b \<le> length xs then Ok (take (b - a) (drop a xs)) else Panic)"

definition slice_from :: "'a list \<Rightarrow> nat \<Rightarrow> ('e, 'a list) res" where
  "slice_from xs a = slice xs a (length xs)"

definition is_ok :: "('e, 'a) res \<Rightarrow> bool" where
  "is_ok r = (case r of Ok _ \<Rightarrow> True | _ \<Rightarrow> False)"

definition to_option :: "('e, 'a) res \<Rightarrow> 'a option" where
  "to_option r = (case r of Ok x \<Rightarrow> Some x | _ \<Rightarrow> None)"

declare bind_res.simps [res_simps] map_err.simps [res_simps]

lemma bind_res_Ok_iff [simp]:
  "bind_res m f = Ok y \<longleftrightarrow> (\<exists>x. m = Ok x \<and> f x = Ok y)"
  by (cases m) auto

lemma bind_res_Panic_iff [simp]:
  "bind_res m f = Panic \<longleftrightarrow> m = Panic \<or> (\<exists>x. m = Ok x \<and> f x = Panic)"
  by (cases m) auto

lemma bind_res_assoc: "bind_res (bind_res m f) g = bind_res m (\<lambda>x. bind_res (f x) g)"
  by (cases m) auto

lemma bind_res_cong [fundef_cong]:
  "\<lbrakk>m = m'; \<And>x. m' = Ok x \<Longrightarrow> f x = f' x\<rbrakk> \<Longrightarrow> bind_res m f = bind_res m' f'"
  by (cases m) auto

lemma map_err_iff [simp]:
  "map_err g m = Ok x \<longleftrightarrow> m = Ok x"
  "map_err g m = Panic \<longleftrightarrow> m = Panic"
  by (cases m; auto)+

lemma guard_res_simps [simp, res_simps]:
  "guard_res False e k = k"
  "guard_res True e k = Err e"
  by (simp_all add: guard_res_def)

lemma guard_res_iff [simp]:
  "guard_res b e k = Ok x \<longleftrightarrow> \<not> b \<and> k = Ok x"
  "guard_res b e k = Panic \<longleftrightarrow> \<not> b \<and> k = Panic"
  by (auto simp: guard_res_def)

lemma guard_res_cong [fundef_cong]:
  "\<lbrakk>b = b'; e = e'; \<not> b' \<Longrightarrow> k = k'\<rbrakk> \<Longrightarrow> guard_res b e k = guard_res b' e' k'"
  by (auto simp: guard_res_def)

lemma idx_in [simp, res_simps]: "i < length xs \<Longrightarrow> idx xs i = Ok (xs ! i)"
  by (simp add: idx_def)

lemma idx_iff [simp]:
  "idx xs i = Ok x \<longleftrightarrow> i < length xs \<and> x = xs ! i"
  "idx xs i = Panic \<longleftrightarrow> length xs \<le> i"
  by (auto simp: idx_def)

lemma slice_in [simp, res_simps]:
  "\<lbrakk>a \<le> b; b \<le> length xs\<rbrakk> \<Longrightarrow> slice xs a b = Ok (take (b - a) (drop a xs))"
  by (simp add: slice_def)

lemma slice_iff [simp]:
  "slice xs a b = Ok ys \<longleftrightarrow> a \<le> b \<and> b \<le> length xs \<and> ys = take (b - a) (drop a xs)"
  "slice xs a b = Panic \<longleftrightarrow> b < a \<or> length xs < b"
  by (auto simp: slice_def)

lemma slice_from_in [simp, res_simps]: "a \<le> length xs \<Longrightarrow> slice_from xs a = Ok (drop a xs)"
  by (simp add: slice_from_def)

lemma slice_from_iff [simp]:
  "slice_from xs a = Ok ys \<longleftrightarrow> a \<le> length xs \<and> ys = drop a xs"
  "slice_from xs a = Panic \<longleftrightarrow> length xs < a"
  by (auto simp: slice_from_def)

lemma is_ok_simps [simp]: "is_ok (Ok x)" "\<not> is_ok (Err e)" "\<not> is_ok Panic"
  by (simp_all add: is_ok_def)

lemma is_ok_iff: "is_ok r \<longleftrightarrow> (\<exists>x. r = Ok x)"
  by (cases r) simp_all

lemma to_option_simps [simp]:
  "to_option (Ok x) = Some x" "to_option (Err e) = None" "to_option Panic = None"
  by (simp_all add: to_option_def)

section \<open>Bytes and words\<close>

definition u16_from_be_bytes :: "u8 \<Rightarrow> u8 \<Rightarrow> u16" where
  "u16_from_be_bytes hi lo = push_bit 8 (ucast hi) OR ucast lo"

definition u16_to_be_bytes :: "u16 \<Rightarrow> bytes" where
  "u16_to_be_bytes w = [ucast (drop_bit 8 w), ucast w]"

text \<open>The cast \<open>n as u8\<close> of a \<open>usize\<close>, and \<open>n as u16\<close>: both keep the low bits.\<close>

abbreviation as_u8 :: "nat \<Rightarrow> u8" where
  "as_u8 n \<equiv> word_of_nat n"

abbreviation as_u16 :: "nat \<Rightarrow> u16" where
  "as_u16 n \<equiv> word_of_nat n"

lemma u16_from_be_bytes_split [simp, codec_simps]:
  "u16_from_be_bytes (ucast (drop_bit 8 w)) (ucast w) = w"
  unfolding u16_from_be_bytes_def
  by (rule bit_word_eqI) (auto simp: bit_simps)

lemma u16_split_from_be_bytes [simp, codec_simps]:
  "ucast (drop_bit 8 (u16_from_be_bytes a b)) = a"
  "ucast (u16_from_be_bytes a b) = b"
  unfolding u16_from_be_bytes_def
  by (rule bit_word_eqI; auto simp: bit_simps dest: bit_imp_le_length)+

lemma length_u16_to_be_bytes [simp]: "length (u16_to_be_bytes w) = 2"
  by (simp add: u16_to_be_bytes_def)

lemma u16_to_be_bytes_from_be_bytes [simp]: "u16_to_be_bytes (u16_from_be_bytes a b) = [a, b]"
  by (simp add: u16_to_be_bytes_def)

lemma unat_u8_less [simp]: "unat (b :: u8) < 256"
  using unsigned_less [where 'a = nat and w = b] by simp

lemma unat_u8_le [simp]: "unat (b :: u8) \<le> 255"
  using unat_u8_less [of b] by linarith

lemma unat_u16_from_be_bytes: "unat (u16_from_be_bytes a b) = 256 * unat a + unat b"
proof -
  have disj: "push_bit 8 (ucast a :: u16) AND ucast b = 0"
    by (rule bit_word_eqI) (auto simp: bit_simps dest: bit_imp_le_length)
  have "u16_from_be_bytes a b = push_bit 8 (ucast a) + ucast b"
    by (simp add: u16_from_be_bytes_def disjunctive_add_eq_or [OF disj])
  then have "u16_from_be_bytes a b = word_of_nat (256 * unat a + unat b)"
    by (simp add: push_bit_eq_mult)
  moreover have "256 * unat a + unat b < 2 ^ 16"
    using unat_u8_less [of a] unat_u8_less [of b] by (simp del: unat_u8_less)
  ultimately show ?thesis
    by (simp only: unsigned_of_nat take_bit_nat_eq_self) (simp add: take_bit_nat_eq_self)
qed

lemma unat_as_u8 [simp]: "n < 256 \<Longrightarrow> unat (as_u8 n) = n"
  by (simp add: unsigned_of_nat take_bit_nat_eq_self)

lemma unat_as_u16 [simp]: "n < 65536 \<Longrightarrow> unat (as_u16 n) = n"
  by (simp add: unsigned_of_nat take_bit_nat_eq_self)

lemma take_bit_small: "unat w < 2 ^ n \<Longrightarrow> take_bit n w = w"
  by (simp add: unsigned_word_eqI [where 'a = nat] unsigned_take_bit_eq take_bit_nat_eq_self)

lemma bit_small: "\<lbrakk>bit w k; unat w < 2 ^ n\<rbrakk> \<Longrightarrow> k < n"
  using take_bit_small [of w n] by (metis bit_take_bit_iff)

lemma not_bit_u8 [simp]: "8 \<le> k \<Longrightarrow> \<not> bit (w :: u8) k"
  using bit_imp_le_length [of w k] by auto

lemma not_bit_u16 [simp]: "16 \<le> k \<Longrightarrow> \<not> bit (w :: u16) k"
  using bit_imp_le_length [of w k] by auto

lemma not_bit_le [simp]:
  "w \<le> 15 \<Longrightarrow> 4 \<le> k \<Longrightarrow> \<not> bit (w :: u8) k"
  "w \<le> 7 \<Longrightarrow> 3 \<le> k \<Longrightarrow> \<not> bit (w :: u8) k"
  "w \<le> 3 \<Longrightarrow> 2 \<le> k \<Longrightarrow> \<not> bit (w :: u8) k"
  "w \<le> 63 \<Longrightarrow> 6 \<le> k \<Longrightarrow> \<not> bit (w :: u8) k"
  "v \<le> 0x7FFF \<Longrightarrow> 15 \<le> k \<Longrightarrow> \<not> bit (v :: u16) k"
  using bit_small [of w k 4] bit_small [of w k 3] bit_small [of w k 2] bit_small [of w k 6]
    bit_small [of v k 15]
  by (auto simp: word_le_nat_alt)

lemma bit_le_less:
  "bit (w :: u8) k \<Longrightarrow> w \<le> 15 \<Longrightarrow> k < 4"
  "bit (w :: u8) k \<Longrightarrow> w \<le> 7 \<Longrightarrow> k < 3"
  using not_bit_le(1,2) [of w k] not_less by blast+

lemma take_bit_nat_le [simp]:
  "take_bit 6 (n :: nat) \<le> 63" "take_bit 4 n \<le> 15" "take_bit 3 n \<le> 7" "take_bit 2 n \<le> 3"
  using take_bit_nat_less_exp [of 6 n] take_bit_nat_less_exp [of 4 n]
    take_bit_nat_less_exp [of 3 n] take_bit_nat_less_exp [of 2 n] by simp_all

lemma take_bit_u8_le [simp]:
  "take_bit 6 (w :: u8) \<le> 63" "take_bit 4 w \<le> 15" "take_bit 3 w \<le> 7" "take_bit 2 w \<le> 3"
  by (simp_all add: word_le_nat_alt unsigned_take_bit_eq)

lemma and_mask_take_bit [codec_simps]:
  "w AND 1 = take_bit (Suc 0) w" "w AND 3 = take_bit 2 w" "w AND 7 = take_bit 3 w"
  "w AND 15 = take_bit 4 w" "w AND 0x3F = take_bit 6 w" "w AND 0xFF = take_bit 8 w"
  for w :: "'a::len word"
  by (simp_all add: take_bit_eq_mask mask_eq_exp_minus_1)

lemma u8_le_15_cases:
  "w \<le> (15 :: u8) \<Longrightarrow> w \<in> {0, 1, 2, 3, 4, 5, 6, 7, 8, 9, 10, 11, 12, 13, 14, 15}"
proof -
  assume "w \<le> 15"
  then have "unat w \<in> set [0..<16]"
    by (simp add: word_le_nat_alt)
  then have "word_of_nat (unat w) \<in> (word_of_nat :: nat \<Rightarrow> u8) ` set [0..<16]"
    by (rule imageI)
  then show ?thesis
    by (simp add: upt_rec)
qed

lemma u8_le_7_cases: "w \<le> (7 :: u8) \<Longrightarrow> w \<in> {0, 1, 2, 3, 4, 5, 6, 7}"
  using u8_le_15_cases [OF order_trans [of w 7 15]] by auto

section \<open>Lists\<close>

lemma nth_append_left [simp]: "i < length xs \<Longrightarrow> (xs @ ys) ! i = xs ! i"
  by (simp add: nth_append)

lemma length_filter_mono:
  "(\<And>x. x \<in> set xs \<Longrightarrow> P x \<Longrightarrow> Q x) \<Longrightarrow> length (filter P xs) \<le> length (filter Q xs)"
  by (induction xs) (auto intro: le_SucI)

lemma length_ge_split: "n \<le> length xs \<Longrightarrow> \<exists>ys zs. xs = ys @ zs \<and> length ys = n"
  by (metis append_take_drop_id length_take min.absorb2)

section \<open>Text\<close>

definition digit_char :: "nat \<Rightarrow> char" where
  "digit_char d = char_of (d + 48)"

definition hex_char :: "nat \<Rightarrow> char" where
  "hex_char d = (if d < 10 then char_of (d + 48) else char_of (d + 55))"

text \<open>The format \<open>0x{:04X}\<close> of a \<open>u16\<close>.\<close>

definition show_hex4 :: "u16 \<Rightarrow> string" where
  "show_hex4 w = (let n = unat w in
     ''0x'' @ map hex_char [n div 4096 mod 16, n div 256 mod 16, n div 16 mod 16, n mod 16])"

definition digit_val :: "char \<Rightarrow> nat option" where
  "digit_val c = (let n = (of_char c :: nat) in if 48 \<le> n \<and> n \<le> 57 then Some (n - 48) else None)"

fun show_nat :: "nat \<Rightarrow> string" where
  "show_nat n = (if n < 10 then [digit_char n] else show_nat (n div 10) @ [digit_char (n mod 10)])"

declare show_nat.simps [simp del]

fun parse_digits :: "nat \<Rightarrow> nat \<Rightarrow> string \<Rightarrow> nat option" where
  "parse_digits m acc [] = Some acc"
| "parse_digits m acc (c # cs) =
     (case digit_val c of
        None \<Rightarrow> None
      | Some d \<Rightarrow> if acc * 10 + d \<le> m then parse_digits m (acc * 10 + d) cs else None)"

text \<open>
  \<open>str::parse\<close> for an unsigned type with largest value \<open>m\<close>: the empty string and a lone sign are
  errors, one leading plus sign is skipped, every other character must be a digit and the value
  must not overflow.
\<close>

definition parse_unsigned :: "nat \<Rightarrow> string \<Rightarrow> nat option" where
  "parse_unsigned m s =
     (case s of
        [] \<Rightarrow> None
      | c # cs \<Rightarrow> if c = CHR ''+'' then (if cs = [] then None else parse_digits m 0 cs)
                  else parse_digits m 0 s)"

definition parse_u8 :: "string \<Rightarrow> u8 option" where
  "parse_u8 s = map_option word_of_nat (parse_unsigned 255 s)"

definition show_u8 :: "u8 \<Rightarrow> string" where
  "show_u8 b = show_nat (unat b)"

fun split_on :: "char \<Rightarrow> string \<Rightarrow> string list" where
  "split_on c [] = [[]]"
| "split_on c (x # xs) =
     (if x = c then [] # split_on c xs
      else (case split_on c xs of [] \<Rightarrow> [[x]] | p # ps \<Rightarrow> (x # p) # ps))"

lemma digit_val_digit_char [simp]: "d < 10 \<Longrightarrow> digit_val (digit_char d) = Some d"
  by (simp add: digit_val_def digit_char_def Let_def)

lemma digit_val_eq_Some: "digit_val c = Some d \<Longrightarrow> d < 10 \<and> c = digit_char d"
  by (auto simp: digit_val_def digit_char_def Let_def split: if_splits)

lemma digit_char_neq [simp]:
  "d < 10 \<Longrightarrow> digit_char d \<noteq> CHR ''/''"
  "d < 10 \<Longrightarrow> digit_char d \<noteq> CHR ''.''"
  "d < 10 \<Longrightarrow> digit_char d \<noteq> CHR ''+''"
  using digit_val_digit_char [of d] by (auto simp: digit_val_def Let_def)

lemma parse_digits_append:
  "parse_digits m a (xs @ ys) =
     (case parse_digits m a xs of None \<Rightarrow> None | Some b \<Rightarrow> parse_digits m b ys)"
  by (induction xs arbitrary: a) (auto split: option.splits)

lemma parse_digits_show_nat: "n \<le> m \<Longrightarrow> parse_digits m 0 (show_nat n) = Some n"
proof (induction n rule: show_nat.induct)
  case (1 n)
  then show ?case
    by (cases "n < 10") (simp_all add: show_nat.simps [of n] parse_digits_append)
qed

lemma show_nat_digits: "c \<in> set (show_nat n) \<Longrightarrow> \<exists>d < 10. c = digit_char d"
proof (induction n rule: show_nat.induct)
  case (1 n)
  then show ?case
    using mod_less_divisor [of 10 n]
    by (cases "n < 10") (auto simp: show_nat.simps [of n] simp del: mod_less_divisor)
qed

lemma show_nat_neq_Nil [simp]: "show_nat n \<noteq> []"
  by (subst show_nat.simps) simp

lemma parse_unsigned_show_nat: "n \<le> m \<Longrightarrow> parse_unsigned m (show_nat n) = Some n"
proof -
  assume le: "n \<le> m"
  obtain c cs where s: "show_nat n = c # cs"
    by (cases "show_nat n") auto
  then have "c \<noteq> CHR ''+''"
    using show_nat_digits [of c n] by auto
  with le show ?thesis
    using parse_digits_show_nat [of n m] by (simp add: parse_unsigned_def s)
qed

lemma parse_u8_show_u8 [simp]: "parse_u8 (show_u8 b) = Some b"
  using unat_u8_less [of b] parse_unsigned_show_nat [of "unat b" 255]
  by (simp add: parse_u8_def show_u8_def del: unat_u8_less)

lemma show_u8_no_sep [simp]:
  "CHR ''/'' \<notin> set (show_u8 b)" "CHR ''.'' \<notin> set (show_u8 b)"
  by (auto simp: show_u8_def dest!: show_nat_digits)
     (metis digit_char_neq)+

lemma split_on_no_sep [simp]: "c \<notin> set s \<Longrightarrow> split_on c s = [s]"
  by (induction s) auto

lemma split_on_append [simp]:
  "c \<notin> set s \<Longrightarrow> split_on c (s @ c # t) = s # split_on c t"
  by (induction s) auto

end
