(* ===== verification/Errors.thy ===== *)
theory Errors
  imports Prelude
begin

text \<open>
  The error hierarchy of \<open>src/error.rs\<close> and \<open>AddressError\<close> of \<open>src/protocol/address.rs\<close>.

  Every variant is a constructor and carries the structured fields of the source (offset, version,
  offending address, component with value and bound, DPT name, time-out).  Free-text fields
  (\<open>reason\<close>, \<open>details\<close>, \<open>message\<close>, \<open>operation\<close>) and the wrapped \<open>std::io::Error\<close> only feed
  \<open>Display\<close>; they are left out.  Variants of different enums that share a name get the enum as
  suffix.
\<close>

datatype address_error =
    InvalidRange (ae_component: string) (ae_value: u32) (ae_max: u32)
  | InvalidFormat (ae_input: string) (ae_expected: string)

datatype transport_error =
    ConnectionFailed
  | SocketError
  | Timeout_Transport u64
  | ConnectionClosed
  | InvalidConfiguration_Transport
  | QueueFull
  | QueueClosed
  | QueueTimeout u64

datatype protocol_error =
    ParseError nat
  | InvalidFrame
  | UnsupportedVersion u8
  | CemiError
  | DptError string
  | InvalidAddress string
  | NotATelegram

datatype device_error = CommunicationTimeout string u64

datatype security_error =
    AuthenticationFailed
  | InvalidCredentials
  | CryptographicError
  | SessionExpired
  | InvalidConfiguration_Security

datatype configuration_error =
    MissingParameter string
  | InvalidValue string
  | ParseError_Configuration
  | ValidationError

datatype discovery_error =
    NoGatewaysFound
  | Timeout_Discovery u64
  | InvalidResponse string
  | NetworkError

datatype knx_error =
    Transport transport_error
  | Protocol protocol_error
  | Device device_error
  | Security security_error
  | Configuration configuration_error
  | Discovery discovery_error
  | Address_Error address_error

type_synonym 'a result = "(knx_error, 'a) res"

fun is_recoverable :: "knx_error \<Rightarrow> bool" where
  "is_recoverable (Transport (Timeout_Transport _)) = True"
| "is_recoverable (Transport ConnectionClosed) = True"
| "is_recoverable (Discovery (Timeout_Discovery _)) = True"
| "is_recoverable (Security SessionExpired) = True"
| "is_recoverable _ = False"

fun category :: "knx_error \<Rightarrow> string" where
  "category (Transport _) = ''transport''"
| "category (Protocol _) = ''protocol''"
| "category (Device _) = ''device''"
| "category (Security _) = ''security''"
| "category (Configuration _) = ''configuration''"
| "category (Discovery _) = ''discovery''"
| "category (Address_Error _) = ''address''"

abbreviation err_parse :: "nat \<Rightarrow> knx_error" where
  "err_parse n \<equiv> Protocol (ParseError n)"

abbreviation err_invalid_frame :: knx_error where
  "err_invalid_frame \<equiv> Protocol InvalidFrame"

text \<open>Recoverable errors never come from the protocol layer.\<close>

lemma is_recoverable_category:
  "is_recoverable e \<Longrightarrow> category e \<in> {''transport'', ''discovery'', ''security''}"
  by (cases e rule: is_recoverable.cases) auto

end
