(* ===== verification/Tpci.thy ===== *)
theory Tpci
  imports Errors
begin

text \<open>
  Transport control bytes (\<open>src/protocol/tpci.rs\<close>) and the device-descriptor management services
  carried by them (\<open>src/protocol/management.rs\<close>).

  Shown: each control frame with a 4-bit sequence number and each descriptor response with a 6-bit
  descriptor is recovered by \<open>decode\<close>; \<open>decode\<close> is total on bytes.
\<close>

section \<open>TPCI\<close>

datatype tpci_frame =
    Connect | Disconnect | DataConnected (tf_sequence: u8) | Ack u8 | Nak u8

fun TpciFrame_encode :: "tpci_frame \<Rightarrow> u8" where
  "TpciFrame_encode Connect = 0x80"
| "TpciFrame_encode Disconnect = 0x81"
| "TpciFrame_encode (DataConnected sequence) = 0x40 OR push_bit 2 (sequence AND 0x0F)"
| "TpciFrame_encode (Ack sequence) = 0xC2 OR push_bit 2 (sequence AND 0x0F)"
| "TpciFrame_encode (Nak sequence) = 0xC3 OR push_bit 2 (sequence AND 0x0F)"

definition TpciFrame_decode :: "u8 \<Rightarrow> tpci_frame" where
  "TpciFrame_decode byte =
     (let sequence = drop_bit 2 byte AND 0x0F in
      if byte = 0x80 then Connect
      else if byte = 0x81 then Disconnect
      else if byte AND 0xC3 = 0xC2 then Ack sequence
      else if byte AND 0xC3 = 0xC3 then Nak sequence
      else if byte AND 0xC3 = 0x40 then DataConnected sequence
      else DataConnected sequence)"

section \<open>Device descriptors\<close>

record device_descriptor_read =
  ddr_descriptor :: u8

record device_descriptor_response =
  ddresp_descriptor :: u8
  ddresp_data :: bytes

definition DeviceDescriptorRead_encode :: "device_descriptor_read \<Rightarrow> bytes" where
  "DeviceDescriptorRead_encode r =
     [ucast (drop_bit 8 (0x0300 :: u16) AND 0x03),
      ucast (0x0300 :: u16) OR (ddr_descriptor r AND 0x3F)]"

definition DeviceDescriptorResponse_encode :: "device_descriptor_response \<Rightarrow> bytes" where
  "DeviceDescriptorResponse_encode r =
     [0x03, 0x40 OR (ddresp_descriptor r AND 0x3F)] @ ddresp_data r"

definition DeviceDescriptorResponse_decode :: "bytes \<Rightarrow> device_descriptor_response result" where
  "DeviceDescriptorResponse_decode apci_bytes =
     guard_res (length apci_bytes < 2) err_invalid_frame
      (bind_res (idx apci_bytes 0) (\<lambda>byte0.
       bind_res (idx apci_bytes 1) (\<lambda>byte1.
       let apci = push_bit 8 (ucast (byte0 AND 0x03) :: u16) OR ucast byte1 in
       guard_res (apci AND 0x03C0 \<noteq> 0x0340) err_invalid_frame
        (bind_res (slice_from apci_bytes 2) (\<lambda>data.
         Ok \<lparr>ddresp_descriptor = byte1 AND 0x3F, ddresp_data = data\<rparr>)))))"

section \<open>Round trips\<close>

fun tpci_valid :: "tpci_frame \<Rightarrow> bool" where
  "tpci_valid (DataConnected s) = (s \<le> 15)"
| "tpci_valid (Ack s) = (s \<le> 15)"
| "tpci_valid (Nak s) = (s \<le> 15)"
| "tpci_valid _ = True"

lemma TpciFrame_decode_encode: "tpci_valid f \<Longrightarrow> TpciFrame_decode (TpciFrame_encode f) = f"
  by (cases f) (auto dest!: u8_le_15_cases simp: TpciFrame_decode_def)

lemma TpciFrame_decode_valid: "tpci_valid (TpciFrame_decode b)"
  by (simp add: TpciFrame_decode_def Let_def codec_simps)

lemma descriptor_bits:
  "(((0x300 :: u16) OR ucast (0x40 OR (d AND 0x3F) :: u8)) AND 0x3C0) = 0x340"
  "(0x40 OR (d AND 0x3F) :: u8) AND 0x3F = d AND 0x3F"
  by (simp_all add: unsigned_or_eq unsigned_and_eq bit.conj_disj_distrib2 and.assoc)

lemma DeviceDescriptorResponse_decode_encode:
  "DeviceDescriptorResponse_decode (DeviceDescriptorResponse_encode r) =
     Ok (r\<lparr>ddresp_descriptor := ddresp_descriptor r AND 0x3F\<rparr>)"
  by (simp add: DeviceDescriptorResponse_decode_def DeviceDescriptorResponse_encode_def
      descriptor_bits Let_def)

lemma DeviceDescriptorResponse_decode_no_panic: "DeviceDescriptorResponse_decode bs \<noteq> Panic"
  by (auto simp: DeviceDescriptorResponse_decode_def Let_def)

lemma DeviceDescriptorRead_not_response:
  "DeviceDescriptorResponse_decode (DeviceDescriptorRead_encode r) = Err err_invalid_frame"
  by (simp add: DeviceDescriptorResponse_decode_def DeviceDescriptorRead_encode_def Let_def
      unsigned_or_eq unsigned_and_eq bit.conj_disj_distrib2 and.assoc)

section \<open>Properties\<close>

text \<open>
  Transport control bytes.  A control frame is recovered from its byte exactly when its sequence
  number fits the four bits of the field; \<open>decode\<close> returns only such frames, so decoding, encoding
  and decoding again is decoding once.
\<close>

lemma tpci_byte_roundtrip:
  "(TpciFrame_decode (TpciFrame_encode f) = f \<longleftrightarrow> tpci_valid f)
   \<and> TpciFrame_decode (TpciFrame_encode (TpciFrame_decode b)) = TpciFrame_decode b"
  using TpciFrame_decode_encode TpciFrame_decode_valid by metis

text \<open>
  Device descriptors.  A descriptor response comes back from its bytes with all data and the
  descriptor type reduced to six bits, the bytes of a descriptor read are refused, and no input makes
  the decoder panic.
\<close>

lemma descriptor_roundtrip:
  "DeviceDescriptorResponse_decode (DeviceDescriptorResponse_encode r) =
     Ok (r\<lparr>ddresp_descriptor := ddresp_descriptor r AND 0x3F\<rparr>)
   \<and> DeviceDescriptorResponse_decode (DeviceDescriptorRead_encode q) = Err err_invalid_frame
   \<and> DeviceDescriptorResponse_decode bs \<noteq> Panic"
  by (simp add: DeviceDescriptorResponse_decode_encode DeviceDescriptorRead_not_response
      DeviceDescriptorResponse_decode_no_panic)

end
