(* ===== verification/Codec.thy ===== *)
theory Codec
  imports Errors
begin

text \<open>
  The contract of a wire format: a pair of \<open>serialize\<close> and \<open>parse\<close> functions with the set of values
  that can be carried.  Every message type of the library that has both functions is shown to meet
  it (\<open>Cemi\<close>, \<open>Knxip\<close>, \<open>Knxip_Messages\<close>); the clients use the consequences.

  \<^item> a value that fits is recovered from its bytes;
  \<^item> parsing returns only values that fit;
  \<^item> no input makes the parser panic.
\<close>

locale wire_format =
  fixes ser :: "'a \<Rightarrow> bytes"
    and parse :: "bytes \<Rightarrow> 'a result"
    and fits :: "'a \<Rightarrow> bool"
  assumes parse_ser: "fits x \<Longrightarrow> parse (ser x) = Ok x"
    and parse_fits: "parse bs = Ok x \<Longrightarrow> fits x"
    and parse_no_panic: "parse bs \<noteq> Panic"
begin

lemma ser_inj: "\<lbrakk>fits x; fits y; ser x = ser y\<rbrakk> \<Longrightarrow> x = y"
  using parse_ser by (metis res.inject(1))

lemma reparse: "parse bs = Ok x \<Longrightarrow> parse (ser x) = Ok x"
  by (rule parse_ser) (rule parse_fits)

lemma carried_iff: "(\<exists>bs. parse bs = Ok x) \<longleftrightarrow> fits x"
  using parse_ser parse_fits by blast

lemma parse_total: "(\<exists>x. parse bs = Ok x) \<or> (\<exists>e. parse bs = Err e)"
  using parse_no_panic [of bs] by (cases "parse bs") auto

end

text \<open>
  A self-delimiting format also parses when other bytes follow, so that a value can be the first
  part of a longer message.
\<close>

locale prefix_format = wire_format +
  assumes parse_ser_append: "fits x \<Longrightarrow> parse (ser x @ rest) = Ok x"
begin

lemma ser_prefix_free: "\<lbrakk>fits x; fits y; ser y = ser x @ rest\<rbrakk> \<Longrightarrow> x = y"
  using parse_ser_append [of x rest] parse_ser [of y] by simp

end

lemma prefix_formatI:
  assumes "\<And>x rest. fits x \<Longrightarrow> parse (ser x @ rest) = Ok x"
    and "\<And>bs x. parse bs = Ok x \<Longrightarrow> fits x"
    and "\<And>bs. parse bs \<noteq> Panic"
  shows "prefix_format ser parse fits"
  using assms assms(1) [where rest = "[]"] by unfold_locales simp_all

end
