(* ===== verification/Knxip.thy ===== *)
theory Knxip
  imports Codec
begin

text \<open>
  KNX/IP framing, \<open>src/protocol/knxip.rs\<close> lines 12--176 and 611--663: service types, the six-byte
  header and whole frames.

  \<open>KnxIpHeader::new\<close> adds in \<open>u16\<close>; the model wraps, as a release build does.

  Shown: header and frame round trips (also with trailing bytes), the exact inputs on which
  \<open>KnxIpFrame::parse\<close> panics, and that a frame carries any message whose format meets
  \<open>wire_format\<close>.
\<close>

section \<open>Service types\<close>

datatype service_type =
    SearchRequest | SearchResponse | DescriptionRequest | DescriptionResponse
  | ConnectRequest | ConnectResponse | ConnectionstateRequest | ConnectionstateResponse
  | DisconnectRequest | DisconnectResponse | DeviceConfigurationRequest | DeviceConfigurationAck
  | TunnellingRequest | TunnellingAck | RoutingIndication | RoutingLostMessage | RoutingBusy
  | SecureWrapper | SessionRequest | SessionResponse | SessionAuthenticate | SessionStatus

fun service_code :: "service_type \<Rightarrow> u16" where
  "service_code SearchRequest = 0x0201"
| "service_code SearchResponse = 0x0202"
| "service_code DescriptionRequest = 0x0203"
| "service_code DescriptionResponse = 0x0204"
| "service_code ConnectRequest = 0x0205"
| "service_code ConnectResponse = 0x0206"
| "service_code ConnectionstateRequest = 0x0207"
| "service_code ConnectionstateResponse = 0x0208"
| "service_code DisconnectRequest = 0x0209"
| "service_code DisconnectResponse = 0x020A"
| "service_code DeviceConfigurationRequest = 0x0310"
| "service_code DeviceConfigurationAck = 0x0311"
| "service_code TunnellingRequest = 0x0420"
| "service_code TunnellingAck = 0x0421"
| "service_code RoutingIndication = 0x0530"
| "service_code RoutingLostMessage = 0x0531"
| "service_code RoutingBusy = 0x0532"
| "service_code SecureWrapper = 0x0950"
| "service_code SessionRequest = 0x0951"
| "service_code SessionResponse = 0x0952"
| "service_code SessionAuthenticate = 0x0953"
| "service_code SessionStatus = 0x0954"

definition ServiceType_from_u16 :: "u16 \<Rightarrow> service_type option" where
  "ServiceType_from_u16 v =
     (if v = 0x0201 then Some SearchRequest
      else if v = 0x0202 then Some SearchResponse
      else if v = 0x0203 then Some DescriptionRequest
      else if v = 0x0204 then Some DescriptionResponse
      else if v = 0x0205 then Some ConnectRequest
      else if v = 0x0206 then Some ConnectResponse
      else if v = 0x0207 then Some ConnectionstateRequest
      else if v = 0x0208 then Some ConnectionstateResponse
      else if v = 0x0209 then Some DisconnectRequest
      else if v = 0x020A then Some DisconnectResponse
      else if v = 0x0310 then Some DeviceConfigurationRequest
      else if v = 0x0311 then Some DeviceConfigurationAck
      else if v = 0x0420 then Some TunnellingRequest
      else if v = 0x0421 then Some TunnellingAck
      else if v = 0x0530 then Some RoutingIndication
      else if v = 0x0531 then Some RoutingLostMessage
      else if v = 0x0532 then Some RoutingBusy
      else if v = 0x0950 then Some SecureWrapper
      else if v = 0x0951 then Some SessionRequest
      else if v = 0x0952 then Some SessionResponse
      else if v = 0x0953 then Some SessionAuthenticate
      else if v = 0x0954 then Some SessionStatus
      else None)"

section \<open>Header and frame\<close>

record knxip_header =
  kh_header_length :: u8
  kh_protocol_version :: u8
  kh_service_type :: service_type
  kh_total_length :: u16

definition KnxIpHeader_new :: "service_type \<Rightarrow> u16 \<Rightarrow> knxip_header" where
  "KnxIpHeader_new st body_length =
     \<lparr>kh_header_length = 6, kh_protocol_version = 0x10, kh_service_type = st,
      kh_total_length = 6 + body_length\<rparr>"

definition KnxIpHeader_parse :: "bytes \<Rightarrow> knxip_header result" where
  "KnxIpHeader_parse data =
     guard_res (length data < 6) (err_parse 0)
      (bind_res (idx data 0) (\<lambda>header_length.
       bind_res (idx data 1) (\<lambda>protocol_version.
       bind_res (idx data 2) (\<lambda>t0.
       bind_res (idx data 3) (\<lambda>t1.
       bind_res (idx data 4) (\<lambda>l0.
       bind_res (idx data 5) (\<lambda>l1.
       guard_res (header_length \<noteq> 6) (err_parse 0)
        (guard_res (protocol_version \<noteq> 0x10) (Protocol (UnsupportedVersion protocol_version))
          (case ServiceType_from_u16 (u16_from_be_bytes t0 t1) of
             None \<Rightarrow> Err (err_parse 2)
           | Some st \<Rightarrow>
               Ok \<lparr>kh_header_length = header_length, kh_protocol_version = protocol_version,
                   kh_service_type = st, kh_total_length = u16_from_be_bytes l0 l1\<rparr>)))))))))"

definition KnxIpHeader_serialize :: "knxip_header \<Rightarrow> bytes" where
  "KnxIpHeader_serialize h =
     [kh_header_length h, kh_protocol_version h]
     @ u16_to_be_bytes (service_code (kh_service_type h)) @ u16_to_be_bytes (kh_total_length h)"

record knxip_frame =
  kf_header :: knxip_header
  kf_body :: bytes

definition KnxIpFrame_new :: "service_type \<Rightarrow> bytes \<Rightarrow> knxip_frame" where
  "KnxIpFrame_new st body =
     \<lparr>kf_header = KnxIpHeader_new st (as_u16 (length body)), kf_body = body\<rparr>"

definition KnxIpFrame_parse :: "bytes \<Rightarrow> knxip_frame result" where
  "KnxIpFrame_parse data =
     bind_res (KnxIpHeader_parse data) (\<lambda>header.
     guard_res (length data < unat (kh_total_length header)) (err_parse 0)
      (bind_res (slice data 6 (unat (kh_total_length header))) (\<lambda>body.
       Ok \<lparr>kf_header = header, kf_body = body\<rparr>)))"

definition KnxIpFrame_serialize :: "knxip_frame \<Rightarrow> bytes" where
  "KnxIpFrame_serialize f = KnxIpHeader_serialize (kf_header f) @ kf_body f"

section \<open>Header lemmas\<close>

lemma ServiceType_from_code [simp, codec_simps]: "ServiceType_from_u16 (service_code st) = Some st"
  by (cases st) (simp_all add: ServiceType_from_u16_def)

lemma ServiceType_from_u16_Some: "ServiceType_from_u16 v = Some st \<longleftrightarrow> v = service_code st"
  by (auto simp: ServiceType_from_u16_def split: if_splits)
     (cases st; simp)+

definition header_fits :: "knxip_header \<Rightarrow> bool" where
  "header_fits h = (kh_header_length h = 6 \<and> kh_protocol_version h = 0x10)"

lemma length_header [simp]: "length (KnxIpHeader_serialize h) = 6"
  by (simp add: KnxIpHeader_serialize_def)

lemma KnxIpHeader_parse_serialize:
  "header_fits h \<Longrightarrow> KnxIpHeader_parse (KnxIpHeader_serialize h @ rest) = Ok h"
  by (simp add: KnxIpHeader_parse_def KnxIpHeader_serialize_def header_fits_def u16_to_be_bytes_def)

lemma length_ge_6D: "6 \<le> length xs \<Longrightarrow> \<exists>a b c d e f r. xs = a # b # c # d # e # f # r"
  by (auto simp: Suc_le_length_iff numeral_eq_Suc)

lemma KnxIpHeader_parse_ok:
  assumes "KnxIpHeader_parse data = Ok h"
  shows "header_fits h" "\<exists>rest. data = KnxIpHeader_serialize h @ rest"
proof -
  from assms have "6 \<le> length data"
    by (simp add: KnxIpHeader_parse_def)
  then obtain a b c d e f r where data: "data = a # b # c # d # e # f # r"
    using length_ge_6D by blast
  from assms have h: "h = \<lparr>kh_header_length = 6, kh_protocol_version = 0x10,
      kh_service_type = kh_service_type h, kh_total_length = u16_from_be_bytes e f\<rparr>"
    and st: "u16_from_be_bytes c d = service_code (kh_service_type h)" "a = 6" "b = 0x10"
    by (auto simp: KnxIpHeader_parse_def data ServiceType_from_u16_Some split: option.splits)
  from h show "header_fits h"
    by (metis header_fits_def knxip_header.select_convs(1,2))
  have "kh_header_length h = 6" "kh_protocol_version h = 0x10"
    "kh_total_length h = u16_from_be_bytes e f"
    by (subst h, simp)+
  then have "KnxIpHeader_serialize h = [a, b, c, d, e, f]"
    by (simp add: KnxIpHeader_serialize_def st(2,3) flip: st(1))
  then show "\<exists>rest. data = KnxIpHeader_serialize h @ rest"
    by (simp add: data)
qed

lemma KnxIpHeader_parse_no_panic [simp]: "KnxIpHeader_parse data \<noteq> Panic"
  by (auto simp: KnxIpHeader_parse_def split: option.splits)

interpretation header: prefix_format KnxIpHeader_serialize KnxIpHeader_parse header_fits
  by (rule prefix_formatI) (auto simp: KnxIpHeader_parse_serialize dest: KnxIpHeader_parse_ok)

section \<open>Frame lemmas\<close>

definition frame_fits :: "knxip_frame \<Rightarrow> bool" where
  "frame_fits f =
     (header_fits (kf_header f) \<and> unat (kh_total_length (kf_header f)) = 6 + length (kf_body f))"

lemma KnxIpFrame_parse_serialize:
  "frame_fits f \<Longrightarrow> KnxIpFrame_parse (KnxIpFrame_serialize f @ rest) = Ok f"
  using KnxIpHeader_parse_serialize [of "kf_header f" "kf_body f @ rest"]
  by (simp add: KnxIpFrame_parse_def KnxIpFrame_serialize_def frame_fits_def)

lemma unat_total_new:
  "n \<le> 65529 \<Longrightarrow> unat (6 + as_u16 n) = 6 + n"
  using unat_as_u16 [of "6 + n"] by (simp del: unat_as_u16)

lemma KnxIpFrame_new_fields [simp]:
  "kh_service_type (kf_header (KnxIpFrame_new st b)) = st" "kf_body (KnxIpFrame_new st b) = b"
  by (simp_all add: KnxIpFrame_new_def KnxIpHeader_new_def)

lemma KnxIpFrame_new_fits: "length body \<le> 65529 \<Longrightarrow> frame_fits (KnxIpFrame_new st body)"
  by (simp add: frame_fits_def KnxIpFrame_new_def KnxIpHeader_new_def header_fits_def unat_total_new)

lemma new_frame_parsed:
  "length body \<le> 65529 \<Longrightarrow> KnxIpFrame_parse (KnxIpFrame_serialize (KnxIpFrame_new st body)) = Ok (KnxIpFrame_new st body)"
  using KnxIpFrame_parse_serialize [OF KnxIpFrame_new_fits, of body st "[]"] by simp

lemma length_new_frame: "length (KnxIpFrame_serialize (KnxIpFrame_new st body)) = 6 + length body"
  by (simp add: KnxIpFrame_serialize_def KnxIpFrame_new_def)

lemma KnxIpFrame_parse_panic_iff:
  "KnxIpFrame_parse data = Panic \<longleftrightarrow>
     (\<exists>h. KnxIpHeader_parse data = Ok h \<and> unat (kh_total_length h) < 6)"
  using KnxIpHeader_parse_ok(2) [of data]
  by (fastforce simp: KnxIpFrame_parse_def)

lemma KnxIpFrame_parse_ok:
  assumes "KnxIpFrame_parse data = Ok f"
  shows "frame_fits f" "\<exists>rest. data = KnxIpFrame_serialize f @ rest"
proof -
  from assms obtain h where h: "KnxIpHeader_parse data = Ok h"
    and len: "6 \<le> unat (kh_total_length h)" "unat (kh_total_length h) \<le> length data"
    and f: "f = \<lparr>kf_header = h, kf_body = take (unat (kh_total_length h) - 6) (drop 6 data)\<rparr>"
    by (auto simp: KnxIpFrame_parse_def)
  show "frame_fits f"
    using KnxIpHeader_parse_ok(1) [OF h] len by (simp add: f frame_fits_def)
  obtain rest where "data = KnxIpHeader_serialize h @ rest"
    using KnxIpHeader_parse_ok(2) [OF h] by blast
  then have "data = KnxIpFrame_serialize f @ drop (unat (kh_total_length h) - 6) rest"
    by (simp add: f KnxIpFrame_serialize_def)
  then show "\<exists>rest. data = KnxIpFrame_serialize f @ rest"
    by blast
qed

text \<open>A frame carries whatever its body format carries.\<close>

context wire_format
begin

lemma framed_parse:
  assumes "fits x" "length (ser x) \<le> 65529"
  shows "bind_res (KnxIpFrame_parse (KnxIpFrame_serialize (KnxIpFrame_new st (ser x)) @ rest))
           (\<lambda>f. parse (kf_body f)) = Ok x"
  using KnxIpFrame_parse_serialize [OF KnxIpFrame_new_fits [OF assms(2)], of st rest]
    parse_ser [OF assms(1)]
  by (simp add: KnxIpFrame_new_def)

end

section \<open>Properties\<close>

text \<open>
  KNX/IP frames survive the wire.  A frame made by \<open>KnxIpFrame::new\<close> from any service type and any
  body of at most 65529 bytes is recovered from its bytes, with anything behind them: header, declared
  length and body.
\<close>

lemma frame_roundtrip:
  assumes "length body \<le> 65529"
  shows "KnxIpFrame_parse (KnxIpFrame_serialize (KnxIpFrame_new st body) @ rest) = Ok (KnxIpFrame_new st body)"
  by (rule KnxIpFrame_parse_serialize) (rule KnxIpFrame_new_fits [OF assms])

text \<open>
  When the frame parser panics.  \<open>KnxIpFrame::parse\<close> panics on exactly those inputs that start with
  a valid header whose total length is below six (the slice \<open>data[6..total_length]\<close> is then reversed);
  six bytes are enough.  Everything it accepts starts with the bytes of the frame returned.
\<close>

lemma frame_parse_panics:
  "(KnxIpFrame_parse data = Panic \<longleftrightarrow>
      (\<exists>h. KnxIpHeader_parse data = Ok h \<and> unat (kh_total_length h) < 6))
   \<and> KnxIpFrame_parse [0x06, 0x10, 0x02, 0x05, 0x00, 0x00] = Panic
   \<and> ((\<exists>rest. data = KnxIpFrame_serialize f @ rest \<and> frame_fits f) \<longleftrightarrow> KnxIpFrame_parse data = Ok f)"
proof -
  have "KnxIpFrame_parse [0x06, 0x10, 0x02, 0x05, 0x00, 0x00] = Panic"
    by (simp add: KnxIpFrame_parse_def KnxIpHeader_parse_def ServiceType_from_u16_def
        u16_from_be_bytes_def)
  moreover have "(\<exists>rest. data = KnxIpFrame_serialize f @ rest \<and> frame_fits f) \<longleftrightarrow>
      KnxIpFrame_parse data = Ok f"
    using KnxIpFrame_parse_serialize [of f] KnxIpFrame_parse_ok [of data f] by auto
  ultimately show ?thesis
    using KnxIpFrame_parse_panic_iff [of data] by blast
qed

end
