(* ===== verification/Frame_Transport.thy ===== *)
theory Frame_Transport
  imports Knxip
begin

text \<open>
  Splitting a TCP byte stream into KNX/IP frames, \<open>src/transport/frame_transport.rs\<close>.

  The receive buffer is a byte list; \<open>try_extract_frame\<close> returns the outcome and the buffer it leaves.
  The stream half of \<open>TcpFrameTransport::recv_frame\<close> is a script of read results: a chunk (an empty
  one is end of file) or an error; \<open>None\<close> is the state in which the call still waits for data.

  Shown: whatever way the stream is cut into chunks, consecutive calls return exactly the frames
  that were sent, in order, and keep the rest for the next call.
\<close>

definition try_extract_frame :: "bytes \<Rightarrow> bytes option result \<times> bytes" where
  "try_extract_frame buf =
     (if length buf < 6 then (Ok None, buf)
      else
        let total_length = unat (u16_from_be_bytes (buf ! 4) (buf ! 5)) in
        if total_length < 6 then (Err (Transport InvalidConfiguration_Transport), buf)
        else if length buf < total_length then (Ok None, buf)
        else (Ok (Some (take total_length buf)), drop total_length buf))"

datatype read_result = Chunk bytes | ReadError

fun tcp_recv_frame :: "bytes \<Rightarrow> read_result list \<Rightarrow> bytes result option \<times> bytes \<times> read_result list" where
  "tcp_recv_frame buf reads =
     (case try_extract_frame buf of
        (Ok (Some frame), buf') \<Rightarrow> (Some (Ok frame), buf', reads)
      | (Ok None, buf') \<Rightarrow>
          (case reads of
             [] \<Rightarrow> (None, buf', [])
           | ReadError # reads' \<Rightarrow> (Some (Err (Transport SocketError)), buf', reads')
           | Chunk tmp # reads' \<Rightarrow>
               if tmp = [] then (Some (Err (Transport ConnectionClosed)), buf', reads')
               else tcp_recv_frame (buf' @ tmp) reads')
      | (Err e, buf') \<Rightarrow> (Some (Err e), buf', reads)
      | (Panic, buf') \<Rightarrow> (Some Panic, buf', reads))"

declare tcp_recv_frame.simps [simp del]

text \<open>A client that asks for \<open>n\<close> frames and stops at the first error.\<close>

fun recv_frames :: "nat \<Rightarrow> bytes \<Rightarrow> read_result list \<Rightarrow> (bytes list \<times> bytes \<times> read_result list) option" where
  "recv_frames 0 buf reads = Some ([], buf, reads)"
| "recv_frames (Suc n) buf reads =
     (case tcp_recv_frame buf reads of
        (Some (Ok f), buf', reads') \<Rightarrow>
          (case recv_frames n buf' reads' of
             Some (fs, buf'', reads'') \<Rightarrow> Some (f # fs, buf'', reads'')
           | None \<Rightarrow> None)
      | _ \<Rightarrow> None)"

section \<open>Reassembly\<close>

definition well_framed :: "bytes \<Rightarrow> bool" where
  "well_framed f = (6 \<le> length f \<and> unat (u16_from_be_bytes (f ! 4) (f ! 5)) = length f)"

lemma try_extract_frame_complete:
  "well_framed f \<Longrightarrow> try_extract_frame (f @ rest) = (Ok (Some f), rest)"
  by (auto simp: try_extract_frame_def well_framed_def Let_def)

lemma try_extract_frame_partial:
  assumes "well_framed (buf @ tail)" "tail \<noteq> []"
  shows "try_extract_frame buf = (Ok None, buf)"
  using assms
  by (cases "length buf < 6") (auto simp: try_extract_frame_def well_framed_def Let_def)

lemma try_extract_frame_sound:
  assumes "try_extract_frame buf = (Ok (Some f), buf')"
  shows "buf = f @ buf' \<and> well_framed f"
  using assms by (auto simp: try_extract_frame_def well_framed_def Let_def split: if_splits)

lemma append_eq_cases:
  assumes "buf @ xs = f @ rest"
  obtains (complete) r where "buf = f @ r" "rest = r @ xs"
    | (partial) tail where "f = buf @ tail" "tail \<noteq> []" "xs = tail @ rest"
  using assms by (auto simp: append_eq_append_conv2) (metis append_Nil2)

lemma tcp_recv_frame_one:
  assumes "well_framed f" "buf @ concat cs = f @ rest" "[] \<notin> set cs"
  shows "\<exists>buf' cs'. tcp_recv_frame buf (map Chunk cs) = (Some (Ok f), buf', map Chunk cs')
           \<and> buf' @ concat cs' = rest \<and> [] \<notin> set cs'"
  using assms(2,3)
proof (induction cs arbitrary: buf)
  case Nil
  then show ?case
    using assms(1) by (subst tcp_recv_frame.simps) (auto simp: try_extract_frame_complete)
next
  case (Cons c cs)
  from Cons.prems(1) show ?case
  proof (cases rule: append_eq_cases)
    case (complete r)
    then show ?thesis
      using assms(1) Cons.prems
      by (subst tcp_recv_frame.simps)
         (auto simp: try_extract_frame_complete intro!: exI [of _ "c # cs"])
  next
    case (partial tail)
    then have "try_extract_frame buf = (Ok None, buf)"
      using assms(1) by (intro try_extract_frame_partial) auto
    then have "tcp_recv_frame buf (map Chunk (c # cs)) = tcp_recv_frame (buf @ c) (map Chunk cs)"
      using Cons.prems(2) by (subst tcp_recv_frame.simps) auto
    moreover have "(buf @ c) @ concat cs = f @ rest" "[] \<notin> set cs"
      using Cons.prems by auto
    ultimately show ?thesis
      using Cons.IH by metis
  qed
qed

lemma recv_frames_reassemble:
  assumes "\<forall>f \<in> set fs. well_framed f" "buf @ concat cs = concat fs @ rest" "[] \<notin> set cs"
  shows "\<exists>buf' cs'. recv_frames (length fs) buf (map Chunk cs) = Some (fs, buf', map Chunk cs')
           \<and> buf' @ concat cs' = rest"
  using assms
proof (induction fs arbitrary: buf cs)
  case Nil
  then show ?case by auto
next
  case (Cons f fs)
  then have "well_framed f" "buf @ concat cs = f @ (concat fs @ rest)"
    by auto
  from tcp_recv_frame_one [OF this Cons.prems(3)]
  obtain buf1 cs1 where one: "tcp_recv_frame buf (map Chunk cs) = (Some (Ok f), buf1, map Chunk cs1)"
    "buf1 @ concat cs1 = concat fs @ rest" "[] \<notin> set cs1"
    by blast
  from Cons.IH [OF _ one(2,3)] Cons.prems(1)
  obtain buf2 cs2 where "recv_frames (length fs) buf1 (map Chunk cs1) = Some (fs, buf2, map Chunk cs2)"
    "buf2 @ concat cs2 = rest"
    by auto
  with one(1) show ?case
    by auto
qed

lemma frame_bytes_well_framed: "frame_fits f \<Longrightarrow> well_framed (KnxIpFrame_serialize f)"
  by (simp add: well_framed_def frame_fits_def KnxIpFrame_serialize_def KnxIpHeader_serialize_def
      u16_to_be_bytes_def)

text \<open>What the splitter lets through never makes the frame parser panic.\<close>

lemma well_framed_no_panic:
  assumes "well_framed data"
  shows "KnxIpFrame_parse data \<noteq> Panic"
proof
  assume "KnxIpFrame_parse data = Panic"
  then obtain h where h: "KnxIpHeader_parse data = Ok h" "unat (kh_total_length h) < 6"
    by (auto simp: KnxIpFrame_parse_panic_iff)
  from KnxIpHeader_parse_ok(2) [OF h(1)] obtain rest where "data = KnxIpHeader_serialize h @ rest"
    by blast
  with assms h(2) show False
    by (simp add: well_framed_def KnxIpHeader_serialize_def u16_to_be_bytes_def)
qed

section \<open>Properties\<close>

text \<open>
  C8: Reassembly of the TCP stream.  However the stream is cut into non-empty chunks, and whatever part
  of it already is in the buffer, asking for as many frames as were sent returns exactly these frames
  in order; the bytes behind them stay in the buffer or unread.
\<close>

theorem tcp_reassembly:
  assumes "\<forall>f \<in> set fs. well_framed f" "buf @ concat cs = concat fs @ rest" "[] \<notin> set cs"
  shows "\<exists>buf' cs'. recv_frames (length fs) buf (map Chunk cs) = Some (fs, buf', map Chunk cs')
           \<and> buf' @ concat cs' = rest"
  using assms by (rule recv_frames_reassemble)

theorem tcp_reassembly_witness:
  "\<exists>buf' cs'. recv_frames (length [[6, 16, 2, 8, 0, 8, 1, 0], [6, 16, 2, 10, 0, 7, 1 :: u8]]) [6, 16]
       (map Chunk [[2, 8, 0, 8, 1], [0, 6, 16, 2, 10, 0, 7, 1, 99]]) =
     Some ([[6, 16, 2, 8, 0, 8, 1, 0], [6, 16, 2, 10, 0, 7, 1]], buf', map Chunk cs')
   \<and> buf' @ concat cs' = [99]"
  by (rule tcp_reassembly) (simp_all add: well_framed_def u16_from_be_bytes_def)

end
