(* ===== verification/Router.thy ===== *)
theory Router
  imports Knxip
begin

text \<open>
  Correlation of responses with waiting callers, \<open>src/transport/router.rs\<close>.

  A one-shot channel is a token; \<open>live\<close> says whether its receiver still exists, so that
  \<open>tx.send(frame)\<close> succeeds exactly on live tokens.  The \<open>HashMap\<close> is a map from the service code to
  the queue of tokens.

  Shown: the map refines one first-in first-out queue per service type, a frame goes to the oldest
  live waiter of its own service type and to nobody else, and is handed back exactly when there is
  none.
\<close>

type_synonym token = nat

record frame_router =
  fr_waiters :: "u16 \<rightharpoonup> token list"
  fr_next_token :: token

definition FrameRouter_new :: frame_router where
  "FrameRouter_new = \<lparr>fr_waiters = Map.empty, fr_next_token = 0\<rparr>"

definition router_register :: "service_type \<Rightarrow> frame_router \<Rightarrow> token \<times> frame_router" where
  "router_register st r =
     (let tx = fr_next_token r; key = service_code st;
          queue = (case fr_waiters r key of None \<Rightarrow> [] | Some q \<Rightarrow> q) in
      (tx, \<lparr>fr_waiters = (fr_waiters r)(key \<mapsto> queue @ [tx]), fr_next_token = tx + 1\<rparr>))"

text \<open>The \<open>while !queue.is_empty()\<close> loop: the token that took the frame, and the queue left.\<close>

fun deliver_loop :: "(token \<Rightarrow> bool) \<Rightarrow> token list \<Rightarrow> token option \<times> token list" where
  "deliver_loop live [] = (None, [])"
| "deliver_loop live (tx # queue) =
     (if live tx then (Some tx, queue) else deliver_loop live queue)"

definition router_dispatch ::
  "(token \<Rightarrow> bool) \<Rightarrow> knxip_frame \<Rightarrow> frame_router
     \<Rightarrow> knxip_frame option \<times> token option \<times> frame_router" where
  "router_dispatch live frame r =
     (let key = service_code (kh_service_type (kf_header frame)) in
      case fr_waiters r key of
        None \<Rightarrow> (Some frame, None, r)
      | Some queue \<Rightarrow>
          (case deliver_loop live queue of
             (Some tx, queue') \<Rightarrow>
               (None, Some tx,
                r\<lparr>fr_waiters := (if queue' = [] then (fr_waiters r)(key := None)
                                 else (fr_waiters r)(key \<mapsto> queue'))\<rparr>)
           | (None, _) \<Rightarrow> (Some frame, None, r\<lparr>fr_waiters := (fr_waiters r)(key := None)\<rparr>)))"

section \<open>Refinement to one queue per service\<close>

definition waiting :: "frame_router \<Rightarrow> service_type \<Rightarrow> token list" where
  "waiting r st = (case fr_waiters r (service_code st) of None \<Rightarrow> [] | Some q \<Rightarrow> q)"

definition router_inv :: "frame_router \<Rightarrow> bool" where
  "router_inv r =
     ((\<forall>key q. fr_waiters r key = Some q \<longrightarrow> q \<noteq> [] \<and> distinct q \<and> (\<forall>tx \<in> set q. tx < fr_next_token r))
      \<and> (\<forall>k1 k2 q1 q2. fr_waiters r k1 = Some q1 \<longrightarrow> fr_waiters r k2 = Some q2 \<longrightarrow> k1 \<noteq> k2
           \<longrightarrow> set q1 \<inter> set q2 = {}))"

lemma service_code_inj [simp]: "service_code a = service_code b \<longleftrightarrow> a = b"
  by (metis ServiceType_from_code option.inject)

lemma deliver_loop_fst: "fst (deliver_loop live q) = find live q"
  by (induction q) auto

lemma deliver_loop_snd: "snd (deliver_loop live q) = tl (dropWhile (\<lambda>tx. \<not> live tx) q)"
  by (induction q) auto

lemma deliver_loop_subset: "set (snd (deliver_loop live q)) \<subseteq> set q"
  by (induction q) auto

lemma deliver_loop_distinct: "distinct q \<Longrightarrow> distinct (snd (deliver_loop live q))"
  by (induction q) auto

lemma waiting_register:
  "waiting (snd (router_register st r)) =
     (waiting r)(st := waiting r st @ [fst (router_register st r)])"
  by (auto simp: waiting_def router_register_def Let_def fun_eq_iff)

lemma waiting_dispatch:
  assumes "router_dispatch live frame r = (returned, taken, r')"
  defines "st \<equiv> kh_service_type (kf_header frame)"
  shows "taken = find live (waiting r st)"
    and "returned = (if taken = None then Some frame else None)"
    and "waiting r' = (waiting r)(st := tl (dropWhile (\<lambda>tx. \<not> live tx) (waiting r st)))"
proof -
  have tl_none: "find live q = None \<Longrightarrow> tl (dropWhile (\<lambda>tx. \<not> live tx) q) = []" for q
    by (induction q) (auto split: if_splits)
  show "taken = find live (waiting r st)" "returned = (if taken = None then Some frame else None)"
    "waiting r' = (waiting r)(st := tl (dropWhile (\<lambda>tx. \<not> live tx) (waiting r st)))"
    using assms(1) deliver_loop_fst [of live "waiting r st"] deliver_loop_snd [of live "waiting r st"]
      tl_none [of "waiting r st"]
    by (auto simp: router_dispatch_def waiting_def Let_def st_def fun_eq_iff
        split: option.splits prod.splits if_splits) (metis option.exhaust option.distinct(1))+
qed

lemma router_inv_new: "router_inv FrameRouter_new"
  by (simp add: router_inv_def FrameRouter_new_def)

lemma router_inv_register: "router_inv r \<Longrightarrow> router_inv (snd (router_register st r))"
  unfolding router_inv_def router_register_def Let_def
  by (auto split: option.splits if_splits simp: less_Suc_eq)

lemma router_inv_dispatch:
  assumes "router_inv r" "router_dispatch live frame r = (returned, taken, r')"
  shows "router_inv r'"
proof -
  let ?k = "service_code (kh_service_type (kf_header frame))"
  have sub: "set q' \<subseteq> set q" "distinct q \<Longrightarrow> distinct q'" if "deliver_loop live q = (t, q')" for q t q'
    using that deliver_loop_subset [of live q] deliver_loop_distinct [of q live] by auto
  show ?thesis
  proof (cases "fr_waiters r ?k")
    case None
    with assms show ?thesis by (simp add: router_dispatch_def Let_def)
  next
    case (Some q)
    obtain t q' where d: "deliver_loop live q = (t, q')" by fastforce
    note s = sub [OF d]
    have r': "r' = r\<lparr>fr_waiters := (fr_waiters r)(?k := (if t = None \<or> q' = [] then None else Some q'))\<rparr>"
      using assms(2) Some d by (auto simp: router_dispatch_def Let_def split: option.splits if_splits)
    show ?thesis
      using assms(1) Some s unfolding router_inv_def r'
      by (auto split: if_splits) blast+
  qed
qed

section \<open>Properties\<close>

datatype router_op = Op_Register service_type | Op_Dispatch "token \<Rightarrow> bool" knxip_frame

fun router_step :: "router_op \<Rightarrow> frame_router \<Rightarrow> frame_router" where
  "router_step (Op_Register st) r = snd (router_register st r)"
| "router_step (Op_Dispatch live frame) r = snd (snd (router_dispatch live frame r))"

lemma router_inv_history: "router_inv (fold router_step ops FrameRouter_new)"
proof (induction ops rule: rev_induct)
  case (snoc op ops)
  then show ?case
    by (cases op)
       (simp_all add: router_inv_register, metis prod.collapse router_inv_dispatch)
qed (simp add: router_inv_new)

text \<open>
  C38: Delivery of responses.  A frame is taken by the oldest waiter of its own service type whose
  receiver still exists, the waiters before it (all gone) are dropped, the queues of all other
  service types stay as they are, and the frame is handed back exactly when nobody takes it.
  Registering appends one waiter to one queue.
\<close>

theorem router_delivery:
  "(case router_dispatch live frame r of
      (returned, taken, r') \<Rightarrow>
        let st = kh_service_type (kf_header frame) in
        taken = find live (waiting r st)
        \<and> returned = (if taken = None then Some frame else None)
        \<and> waiting r' = (waiting r)(st := tl (dropWhile (\<lambda>tx. \<not> live tx) (waiting r st))))
   \<and> waiting (snd (router_register st r)) =
       (waiting r)(st := waiting r st @ [fst (router_register st r)])
   \<and> router_inv (fold router_step ops FrameRouter_new)"
  by (auto simp: waiting_register router_inv_history Let_def waiting_dispatch split: prod.splits)

end
