(* ===== verification/Heartbeat.thy ===== *)
theory Heartbeat
  imports Prelude
begin

text \<open>
  Heartbeat supervision of a tunnel, \<open>src/transport/heartbeat.rs\<close>.

  The atomics and the lock are fields of a record.  \<open>fetch_add\<close> on an \<open>AtomicU8\<close> wraps, so the stored
  counter is a \<open>u8\<close>; the local \<open>failures = fetch_add(1) + 1\<close> is a plain \<open>u8\<close> addition, which wraps in a
  release build as modelled here.

  Shown: over any history of heartbeat outcomes the tunnel is declared lost exactly when the
  configured number of consecutive failures has occurred, and this verdict is final.
\<close>

record heartbeat_config =
  hc_interval :: nat
  hc_timeout :: nat
  hc_max_failures :: u8

definition HeartbeatConfig_default :: heartbeat_config where
  "HeartbeatConfig_default = \<lparr>hc_interval = 60, hc_timeout = 10, hc_max_failures = 3\<rparr>"

record heartbeat_monitor =
  hm_config :: heartbeat_config
  hm_channel_id :: u8
  hm_consecutive_failures :: u8
  hm_tunnel_lost :: bool
  hm_last_success :: "nat option"

definition HeartbeatMonitor_new :: "heartbeat_config \<Rightarrow> u8 \<Rightarrow> heartbeat_monitor" where
  "HeartbeatMonitor_new config channel_id =
     \<lparr>hm_config = config, hm_channel_id = channel_id, hm_consecutive_failures = 0,
      hm_tunnel_lost = False, hm_last_success = None\<rparr>"

definition record_success :: "nat \<Rightarrow> heartbeat_monitor \<Rightarrow> heartbeat_monitor" where
  "record_success now m = m\<lparr>hm_consecutive_failures := 0, hm_last_success := Some now\<rparr>"

definition record_failure :: "heartbeat_monitor \<Rightarrow> bool \<times> heartbeat_monitor" where
  "record_failure m =
     (let failures = hm_consecutive_failures m + 1;
          m' = m\<lparr>hm_consecutive_failures := failures\<rparr> in
      if failures \<ge> hc_max_failures (hm_config m) then (True, m'\<lparr>hm_tunnel_lost := True\<rparr>)
      else (False, m'))"

section \<open>Histories\<close>

datatype beat = Success nat | Failure

fun beat_step :: "beat \<Rightarrow> heartbeat_monitor \<Rightarrow> heartbeat_monitor" where
  "beat_step (Success now) m = record_success now m"
| "beat_step Failure m = snd (record_failure m)"

definition beats :: "beat list \<Rightarrow> heartbeat_monitor \<Rightarrow> heartbeat_monitor" where
  "beats bs m = fold beat_step bs m"

text \<open>Length of the run of failures a history ends with.\<close>

definition trailing_failures :: "beat list \<Rightarrow> nat" where
  "trailing_failures bs = length (takeWhile ((=) Failure) (rev bs))"

definition lost_by :: "nat \<Rightarrow> beat list \<Rightarrow> bool" where
  "lost_by k bs = (\<exists>pre post. bs = pre @ post \<and> k \<le> trailing_failures pre)"

lemma beats_snoc: "beats (bs @ [b]) m = beat_step b (beats bs m)"
  by (simp add: beats_def)

lemma trailing_failures_simps [simp]:
  "trailing_failures [] = 0"
  "trailing_failures (bs @ [Failure]) = Suc (trailing_failures bs)"
  "trailing_failures (bs @ [Success t]) = 0"
  by (simp_all add: trailing_failures_def)

lemma lost_by_Nil [simp]: "0 < k \<Longrightarrow> \<not> lost_by k []"
  by (simp add: lost_by_def)

lemma lost_by_snoc: "lost_by k (bs @ [b]) \<longleftrightarrow> lost_by k bs \<or> k \<le> trailing_failures (bs @ [b])"
proof
  assume "lost_by k (bs @ [b])"
  then obtain pre post where split: "bs @ [b] = pre @ post" "k \<le> trailing_failures pre"
    by (auto simp: lost_by_def)
  then show "lost_by k bs \<or> k \<le> trailing_failures (bs @ [b])"
  proof (cases post rule: rev_cases)
    case (snoc post' c)
    then have "bs = pre @ post'" using split(1) by simp
    with split(2) show ?thesis by (auto simp: lost_by_def)
  qed simp
next
  assume "lost_by k bs \<or> k \<le> trailing_failures (bs @ [b])"
  then show "lost_by k (bs @ [b])"
    unfolding lost_by_def by (metis append.assoc append_Nil2)
qed

lemma config_beats [simp]: "hm_config (beats bs m) = hm_config m"
proof (induction bs rule: rev_induct)
  case (snoc b bs)
  then show ?case
    by (cases b) (simp_all add: beats_snoc record_success_def record_failure_def Let_def)
qed (simp add: beats_def)

lemma counter_beats:
  "trailing_failures bs < 256 \<Longrightarrow>
     hm_consecutive_failures (beats bs (HeartbeatMonitor_new config ch)) = as_u8 (trailing_failures bs)"
proof (induction bs rule: rev_induct)
  case (snoc b bs)
  then show ?case
    by (cases b) (simp_all add: beats_snoc record_success_def record_failure_def Let_def add.commute)
qed (simp add: beats_def HeartbeatMonitor_new_def)

lemma lost_stays: "hm_tunnel_lost m \<Longrightarrow> hm_tunnel_lost (beat_step b m)"
  by (cases b) (simp_all add: record_success_def record_failure_def Let_def)

lemma failure_verdict:
  assumes "trailing_failures bs < 255" "m = beats bs (HeartbeatMonitor_new config ch)"
  shows "fst (record_failure m) \<longleftrightarrow> unat (hc_max_failures config) \<le> Suc (trailing_failures bs)"
proof -
  have "hm_consecutive_failures m + 1 = as_u8 (Suc (trailing_failures bs))"
    using counter_beats [of bs config ch] assms by (simp add: add.commute)
  moreover have "unat (as_u8 (Suc (trailing_failures bs))) = Suc (trailing_failures bs)"
    using assms(1) by (intro unat_as_u8) simp
  ultimately show ?thesis
    using assms
    by (simp add: record_failure_def Let_def word_le_nat_alt HeartbeatMonitor_new_def add.commute)
qed

lemma tunnel_lost_iff:
  assumes "0 < hc_max_failures config"
  shows "hm_tunnel_lost (beats bs (HeartbeatMonitor_new config ch)) \<longleftrightarrow>
           lost_by (unat (hc_max_failures config)) bs"
proof (induction bs rule: rev_induct)
  case Nil
  then show ?case
    using assms by (simp add: beats_def HeartbeatMonitor_new_def unat_gt_0 word_gt_0)
next
  case (snoc b bs)
  let ?m = "beats bs (HeartbeatMonitor_new config ch)"
  show ?case
  proof (cases b)
    case (Success t)
    then show ?thesis
      using snoc assms
      by (simp add: beats_snoc lost_by_snoc record_success_def unsigned_eq_0_iff word_gt_0)
  next
    case Failure
    have lost: "hm_tunnel_lost (snd (record_failure ?m)) \<longleftrightarrow>
        hm_tunnel_lost ?m \<or> fst (record_failure ?m)"
      by (auto simp: record_failure_def Let_def)
    show ?thesis
    proof (cases "trailing_failures bs < 255")
      case True
      then show ?thesis
        using failure_verdict [OF True refl, of config ch] lost snoc Failure
        by (simp add: beats_snoc lost_by_snoc)
    next
      case False
      then have "lost_by (unat (hc_max_failures config)) bs"
        unfolding lost_by_def using unat_u8_le [of "hc_max_failures config"]
        by (intro exI [of _ bs] exI [of _ "[]"]) (simp del: unat_u8_le)
      then show ?thesis
        using lost snoc Failure by (simp add: beats_snoc lost_by_snoc)
    qed
  qed
qed

section \<open>Properties\<close>

text \<open>
  When a tunnel is lost.  After any history of heartbeat outcomes the monitor reports the tunnel
  as lost exactly when at some point the configured number of failures came in a row, also for
  histories longer than the range of the \<open>u8\<close> failure counter.
\<close>

lemma heartbeat_verdict:
  assumes "0 < hc_max_failures config"
  shows "hm_tunnel_lost (beats bs (HeartbeatMonitor_new config ch)) \<longleftrightarrow>
           lost_by (unat (hc_max_failures config)) bs"
  using assms by (rule tunnel_lost_iff)

end
