(* ===== verification/Address.thy ===== *)
theory Address
  imports Errors
begin

text \<open>
  KNX addresses, \<open>src/protocol/address.rs\<close>: the newtypes over \<open>u16\<close>, their checked and unchecked
  constructors, component accessors, \<open>Display\<close> and \<open>FromStr\<close>.  The panicking constructors
  (\<open>assert!\<close>) return \<open>Panic\<close> on the values they reject.

  Shown: constructors and accessors are inverse on the valid range, the checked constructors accept
  exactly that range, printing followed by parsing is the identity on valid addresses, and whatever
  parses is valid.
\<close>

section \<open>Definitions\<close>

datatype main_group = MainGroup (main_get: u8)
datatype middle_group = MiddleGroup (middle_get: u8)
datatype group_address = GroupAddress (ga_raw: u16)
datatype individual_address = IndividualAddress (ia_raw: u16)

datatype address = Group group_address | Individual individual_address

definition MainGroup_new :: "u8 \<Rightarrow> ('e, main_group) res" where
  "MainGroup_new v = (if v \<le> 15 then Ok (MainGroup v) else Panic)"

definition MiddleGroup_new :: "u8 \<Rightarrow> ('e, middle_group) res" where
  "MiddleGroup_new v = (if v \<le> 7 then Ok (MiddleGroup v) else Panic)"

definition ga_pack :: "u8 \<Rightarrow> u8 \<Rightarrow> u8 \<Rightarrow> u16" where
  "ga_pack main middle sub = push_bit 11 (ucast main) OR push_bit 8 (ucast middle) OR ucast sub"

definition GroupAddress_new :: "main_group \<Rightarrow> middle_group \<Rightarrow> u8 \<Rightarrow> group_address" where
  "GroupAddress_new main middle sub = GroupAddress (ga_pack (main_get main) (middle_get middle) sub)"

definition GroupAddress_try_new :: "u8 \<Rightarrow> u8 \<Rightarrow> u8 \<Rightarrow> (address_error, group_address) res" where
  "GroupAddress_try_new main middle sub =
     (if main > 15 then Err (InvalidRange ''main'' (ucast main) 15)
      else if middle > 7 then Err (InvalidRange ''middle'' (ucast middle) 7)
      else Ok (GroupAddress (ga_pack main middle sub)))"

definition GroupAddress_try_from_raw :: "u16 \<Rightarrow> (address_error, group_address) res" where
  "GroupAddress_try_from_raw raw =
     (if raw > 0x7FFF then Err (InvalidRange ''raw'' (ucast raw) 0x7FFF) else Ok (GroupAddress raw))"

definition GroupAddress_from_raw_unchecked :: "u16 \<Rightarrow> group_address" where
  "GroupAddress_from_raw_unchecked raw = GroupAddress raw"

definition ga_main :: "group_address \<Rightarrow> u8" where
  "ga_main a = ucast (drop_bit 11 (ga_raw a) AND 0x0F)"

definition ga_middle :: "group_address \<Rightarrow> u8" where
  "ga_middle a = ucast (drop_bit 8 (ga_raw a) AND 0x07)"

definition ga_sub :: "group_address \<Rightarrow> u8" where
  "ga_sub a = ucast (ga_raw a AND 0xFF)"

definition ga_parts :: "group_address \<Rightarrow> u8 \<times> u8 \<times> u8" where
  "ga_parts a = (ga_main a, ga_middle a, ga_sub a)"

definition ga_is_broadcast :: "group_address \<Rightarrow> bool" where
  "ga_is_broadcast a = (ga_raw a = 0)"

definition ga_broadcast :: group_address where
  "ga_broadcast = GroupAddress 0"

definition ga_display :: "group_address \<Rightarrow> string" where
  "ga_display a =
     show_u8 (ga_main a) @ ''/'' @ show_u8 (ga_middle a) @ ''/'' @ show_u8 (ga_sub a)"

text \<open>\<open>parts[i].parse::<u8>()\<close> with the error mapped to \<open>InvalidAddress\<close>, as in both \<open>from_str\<close>.\<close>

definition parse_component :: "string \<Rightarrow> string \<Rightarrow> u8 result" where
  "parse_component s part =
     (case parse_u8 part of Some v \<Rightarrow> Ok v | None \<Rightarrow> Err (Protocol (InvalidAddress s)))"

definition GroupAddress_from_str :: "string \<Rightarrow> group_address result" where
  "GroupAddress_from_str s =
     (let parts = split_on CHR ''/'' s in
      guard_res (length parts \<noteq> 3) (Protocol (InvalidAddress s))
       (bind_res (bind_res (idx parts 0) (parse_component s)) (\<lambda>main.
        bind_res (bind_res (idx parts 1) (parse_component s)) (\<lambda>middle.
        bind_res (bind_res (idx parts 2) (parse_component s)) (\<lambda>sub.
        map_err (\<lambda>_. Protocol (InvalidAddress s)) (GroupAddress_try_new main middle sub))))))"

definition ia_pack :: "u8 \<Rightarrow> u8 \<Rightarrow> u8 \<Rightarrow> u16" where
  "ia_pack area line device = push_bit 12 (ucast area) OR push_bit 8 (ucast line) OR ucast device"

text \<open>\<open>IndividualAddress::new\<close> only has \<open>debug_assert!\<close>; \<open>debug\<close> says whether they are compiled in.\<close>

definition IndividualAddress_new :: "bool \<Rightarrow> u8 \<Rightarrow> u8 \<Rightarrow> u8 \<Rightarrow> ('e, individual_address) res" where
  "IndividualAddress_new debug area line device =
     (if debug \<and> (area > 15 \<or> line > 15) then Panic
      else Ok (IndividualAddress (ia_pack area line device)))"

definition IndividualAddress_try_new ::
  "u8 \<Rightarrow> u8 \<Rightarrow> u8 \<Rightarrow> (address_error, individual_address) res" where
  "IndividualAddress_try_new area line device =
     (if area > 15 then Err (InvalidRange ''area'' (ucast area) 15)
      else if line > 15 then Err (InvalidRange ''line'' (ucast line) 15)
      else Ok (IndividualAddress (ia_pack area line device)))"

definition IndividualAddress_from_raw :: "u16 \<Rightarrow> individual_address" where
  "IndividualAddress_from_raw raw = IndividualAddress raw"

definition IndividualAddress_from_parts_unchecked :: "u8 \<Rightarrow> u8 \<Rightarrow> u8 \<Rightarrow> individual_address" where
  "IndividualAddress_from_parts_unchecked area line device =
     IndividualAddress (ia_pack area line device)"

definition ia_area :: "individual_address \<Rightarrow> u8" where
  "ia_area a = ucast (drop_bit 12 (ia_raw a) AND 0x0F)"

definition ia_line :: "individual_address \<Rightarrow> u8" where
  "ia_line a = ucast (drop_bit 8 (ia_raw a) AND 0x0F)"

definition ia_device :: "individual_address \<Rightarrow> u8" where
  "ia_device a = ucast (ia_raw a AND 0xFF)"

definition ia_parts :: "individual_address \<Rightarrow> u8 \<times> u8 \<times> u8" where
  "ia_parts a = (ia_area a, ia_line a, ia_device a)"

definition ia_is_broadcast :: "individual_address \<Rightarrow> bool" where
  "ia_is_broadcast a = (ia_raw a = 0)"

definition ia_broadcast :: individual_address where
  "ia_broadcast = IndividualAddress 0"

definition ia_display :: "individual_address \<Rightarrow> string" where
  "ia_display a =
     show_u8 (ia_area a) @ ''.'' @ show_u8 (ia_line a) @ ''.'' @ show_u8 (ia_device a)"

definition IndividualAddress_from_str :: "string \<Rightarrow> individual_address result" where
  "IndividualAddress_from_str s =
     (let parts = split_on CHR ''.'' s in
      guard_res (length parts \<noteq> 3) (Protocol (InvalidAddress s))
       (bind_res (bind_res (idx parts 0) (parse_component s)) (\<lambda>area.
        bind_res (bind_res (idx parts 1) (parse_component s)) (\<lambda>line.
        bind_res (bind_res (idx parts 2) (parse_component s)) (\<lambda>device.
        map_err (\<lambda>_. Protocol (InvalidAddress s)) (IndividualAddress_try_new area line device))))))"

fun address_display :: "address \<Rightarrow> string" where
  "address_display (Group a) = ga_display a"
| "address_display (Individual a) = ia_display a"

definition address_try_from :: "string \<Rightarrow> address result" where
  "address_try_from s =
     (if CHR ''/'' \<in> set s then bind_res (GroupAddress_from_str s) (\<lambda>a. Ok (Group a))
      else if CHR ''.'' \<in> set s then bind_res (IndividualAddress_from_str s) (\<lambda>a. Ok (Individual a))
      else Err (Protocol (InvalidAddress s)))"

fun address_error_display :: "address_error \<Rightarrow> string" where
  "address_error_display (InvalidRange c v m) =
     ''Invalid '' @ c @ '' value: '' @ show_nat (unat v) @ '' (max: '' @ show_nat (unat m) @ '')''"
| "address_error_display (InvalidFormat i e) =
     ''Invalid address format: '' @ [CHR 0x27] @ i @ [CHR 0x27] @ '' (expected: '' @ e @ '')''"

section \<open>Packing and unpacking\<close>

definition ga_valid :: "group_address \<Rightarrow> bool" where
  "ga_valid a = (ga_raw a \<le> 0x7FFF)"

lemma ga_accessors_pack [simp]:
  assumes "main \<le> 15" "middle \<le> 7"
  shows "ga_main (GroupAddress (ga_pack main middle sub)) = main"
    and "ga_middle (GroupAddress (ga_pack main middle sub)) = middle"
    and "ga_sub (GroupAddress (ga_pack main middle sub)) = sub"
  using assms bit_le_less(1) [of main] unfolding ga_main_def ga_middle_def ga_sub_def ga_pack_def codec_simps
  by (auto intro!: bit_word_eqI simp: bit_simps dest: bit_le_less(2)) fastforce+

lemma ia_accessors_pack [simp]:
  assumes "area \<le> 15" "line \<le> 15"
  shows "ia_area (IndividualAddress (ia_pack area line device)) = area"
    and "ia_line (IndividualAddress (ia_pack area line device)) = line"
    and "ia_device (IndividualAddress (ia_pack area line device)) = device"
  using assms unfolding ia_area_def ia_line_def ia_device_def ia_pack_def codec_simps
  by (auto intro!: bit_word_eqI simp: bit_simps dest: bit_le_less)

lemma ga_pack_accessors [simp]:
  assumes "ga_valid a"
  shows "ga_pack (ga_main a) (ga_middle a) (ga_sub a) = ga_raw a"
proof (rule bit_word_eqI)
  fix n
  show "bit (ga_pack (ga_main a) (ga_middle a) (ga_sub a)) n = bit (ga_raw a) n"
    using assms unfolding ga_main_def ga_middle_def ga_sub_def ga_pack_def ga_valid_def codec_simps
    by (cases "n < 8"; cases "n < 11"; cases "n < 15"; auto simp: bit_simps)
qed

lemma ia_pack_accessors [simp]: "ia_pack (ia_area a) (ia_line a) (ia_device a) = ia_raw a"
proof (rule bit_word_eqI)
  fix n
  show "bit (ia_pack (ia_area a) (ia_line a) (ia_device a)) n = bit (ia_raw a) n"
    unfolding ia_area_def ia_line_def ia_device_def ia_pack_def codec_simps
    by (cases "n < 8"; cases "n < 12"; cases "n < 16"; auto simp: bit_simps)
qed

lemma address_component_bounds [simp]:
  "ga_main a \<le> 15" "ga_middle a \<le> 7" "ia_area i \<le> 15" "ia_line i \<le> 15"
  unfolding ga_main_def ga_middle_def ia_area_def ia_line_def codec_simps
  by (simp_all add: word_le_nat_alt unsigned_take_bit_eq)

lemma ga_valid_pack:
  assumes "main \<le> 15" "middle \<le> 7"
  shows "ga_valid (GroupAddress (ga_pack main middle sub))"
proof -
  have "take_bit 15 (ga_pack main middle sub) = ga_pack main middle sub"
    unfolding ga_pack_def using assms
    by (auto intro!: bit_word_eqI simp: bit_simps dest: bit_le_less)
  then have "unat (ga_pack main middle sub) < 2 ^ 15"
    by (metis take_bit_nat_less_exp unsigned_take_bit_eq)
  then show ?thesis
    by (simp add: ga_valid_def word_le_nat_alt)
qed

section \<open>Derived orders\<close>

text \<open>\<open>derive(PartialOrd, Ord)\<close> compares the raw values.\<close>

instantiation group_address :: linorder
begin

definition less_eq_group_address :: "group_address \<Rightarrow> group_address \<Rightarrow> bool" where
  "less_eq_group_address a b = (ga_raw a \<le> ga_raw b)"

definition less_group_address :: "group_address \<Rightarrow> group_address \<Rightarrow> bool" where
  "less_group_address a b = (ga_raw a < ga_raw b)"

instance
  by standard (auto simp: less_eq_group_address_def less_group_address_def group_address.expand)

end

instantiation individual_address :: linorder
begin

definition less_eq_individual_address :: "individual_address \<Rightarrow> individual_address \<Rightarrow> bool" where
  "less_eq_individual_address a b = (ia_raw a \<le> ia_raw b)"

definition less_individual_address :: "individual_address \<Rightarrow> individual_address \<Rightarrow> bool" where
  "less_individual_address a b = (ia_raw a < ia_raw b)"

instance
  by standard
     (auto simp: less_eq_individual_address_def less_individual_address_def individual_address.expand)

end

section \<open>Textual addresses\<close>

lemma parse_component_show_u8 [simp]: "parse_component s (show_u8 b) = Ok b"
  by (simp add: parse_component_def)

lemma GroupAddress_try_new_ok_iff:
  "GroupAddress_try_new main middle sub = Ok a \<longleftrightarrow>
     main \<le> 15 \<and> middle \<le> 7 \<and> a = GroupAddress (ga_pack main middle sub)"
  by (auto simp: GroupAddress_try_new_def)

lemma IndividualAddress_try_new_ok_iff:
  "IndividualAddress_try_new area line device = Ok a \<longleftrightarrow>
     area \<le> 15 \<and> line \<le> 15 \<and> a = IndividualAddress (ia_pack area line device)"
  by (auto simp: IndividualAddress_try_new_def)

lemma ga_display_sep: "CHR ''/'' \<in> set (ga_display a)"
  by (simp add: ga_display_def)

lemma ia_display_sep: "CHR ''/'' \<notin> set (ia_display a)" "CHR ''.'' \<in> set (ia_display a)"
  by (simp_all add: ia_display_def)

lemma split_ga_display:
  "split_on CHR ''/'' (ga_display a) = [show_u8 (ga_main a), show_u8 (ga_middle a), show_u8 (ga_sub a)]"
  by (simp add: ga_display_def)

lemma split_ia_display:
  "split_on CHR ''.'' (ia_display a) = [show_u8 (ia_area a), show_u8 (ia_line a), show_u8 (ia_device a)]"
  by (simp add: ia_display_def)

lemma GroupAddress_from_str_display:
  "ga_valid a \<Longrightarrow> GroupAddress_from_str (ga_display a) = Ok a"
  by (simp add: GroupAddress_from_str_def split_ga_display GroupAddress_try_new_def not_less)

lemma IndividualAddress_from_str_display: "IndividualAddress_from_str (ia_display a) = Ok a"
  by (simp add: IndividualAddress_from_str_def split_ia_display IndividualAddress_try_new_def not_less)

lemma GroupAddress_from_str_valid: "GroupAddress_from_str s = Ok a \<Longrightarrow> ga_valid a"
  by (auto simp: GroupAddress_from_str_def GroupAddress_try_new_ok_iff Let_def intro: ga_valid_pack)

lemma parse_component_no_panic [simp]: "parse_component s p \<noteq> Panic"
  by (simp add: parse_component_def split: option.splits)

lemma address_try_from_no_panic: "address_try_from s \<noteq> Panic"
  by (auto simp: address_try_from_def GroupAddress_from_str_def IndividualAddress_from_str_def
      GroupAddress_try_new_def IndividualAddress_try_new_def Let_def)

definition address_valid :: "address \<Rightarrow> bool" where
  "address_valid a = (case a of Group g \<Rightarrow> ga_valid g | Individual _ \<Rightarrow> True)"

section \<open>Properties\<close>

text \<open>
  Text of group addresses.  A group address is read back from the text that \<open>Display\<close> prints
  exactly when it is in range, and an address is the meaning of some text exactly when it is in
  range.  So \<open>FromStr\<close> yields every valid address and no other.
\<close>

lemma group_address_text:
  "(GroupAddress_from_str (ga_display a) = Ok a \<longleftrightarrow> ga_valid a)
   \<and> ((\<exists>s. GroupAddress_from_str s = Ok a) \<longleftrightarrow> ga_valid a)"
  using GroupAddress_from_str_display GroupAddress_from_str_valid by blast

text \<open>
  Text of addresses of both kinds.  What \<open>Display\<close> prints for an individual address, or for a
  group address in range, \<open>Address::try_from\<close> reads back as the same address of the same kind; no
  text makes it panic.
\<close>

lemma address_text_roundtrip:
  "(address_try_from (address_display a) = Ok a \<longleftrightarrow> address_valid a) \<and> address_try_from s \<noteq> Panic"
proof (cases a)
  case (Group g)
  then show ?thesis
    using GroupAddress_from_str_display [of g] GroupAddress_from_str_valid [of "ga_display g" g]
      address_try_from_no_panic
    by (auto simp: address_valid_def address_try_from_def ga_display_sep)
next
  case (Individual i)
  then show ?thesis
    using address_try_from_no_panic
    by (simp add: address_valid_def address_try_from_def ia_display_sep IndividualAddress_from_str_display)
qed

text \<open>
  Construction from components.  \<open>GroupAddress::try_new\<close> and \<open>IndividualAddress::try_new\<close> succeed
  exactly on components within their bit widths, and then the accessors return the components given.
\<close>

lemma address_try_new_parts:
  "((\<exists>a. GroupAddress_try_new x y z = Ok a \<and> ga_parts a = (x, y, z)) \<longleftrightarrow> x \<le> 15 \<and> y \<le> 7)
   \<and> ((\<exists>a. GroupAddress_try_new x y z = Ok a) \<longleftrightarrow> x \<le> 15 \<and> y \<le> 7)
   \<and> ((\<exists>a. IndividualAddress_try_new x y z = Ok a \<and> ia_parts a = (x, y, z)) \<longleftrightarrow> x \<le> 15 \<and> y \<le> 15)
   \<and> ((\<exists>a. IndividualAddress_try_new x y z = Ok a) \<longleftrightarrow> x \<le> 15 \<and> y \<le> 15)"
  by (auto simp: GroupAddress_try_new_ok_iff IndividualAddress_try_new_ok_iff ga_parts_def ia_parts_def)

end
