(* ===== verification/Telegram.thy ===== *)
theory Telegram
  imports Address
begin

text \<open>
  Telegrams, \<open>src/protocol/telegram.rs\<close>: constructors, predicates, staleness, and the priority type
  with its hand-written order.

  \<open>SystemTime\<close> is a number of nanoseconds; the constructors that call \<open>SystemTime::now()\<close> take the
  current time as an argument.  The DPT-typed constructors take the encoding step
  (\<open>resolve\<close>, \<open>validate\<close>, \<open>encode\<close> of the \<open>DptValue\<close> trait) as a function argument.
\<close>

datatype telegram_type = GroupValueRead | GroupValueResponse | GroupValueWrite
datatype priority = System | Normal | Urgent | Low
datatype direction = Incoming | Outgoing

type_synonym system_time = int

record telegram =
  tg_source :: individual_address
  tg_destination :: address
  tg_payload :: bytes
  tg_priority :: priority
  tg_direction :: direction
  tg_type :: telegram_type
  tg_timestamp :: system_time

definition Telegram_group_read :: "system_time \<Rightarrow> group_address \<Rightarrow> telegram" where
  "Telegram_group_read now dest =
     \<lparr>tg_source = ia_broadcast, tg_destination = Group dest, tg_payload = [],
      tg_priority = Normal, tg_direction = Outgoing, tg_type = GroupValueRead, tg_timestamp = now\<rparr>"

definition Telegram_group_write :: "system_time \<Rightarrow> group_address \<Rightarrow> bytes \<Rightarrow> telegram" where
  "Telegram_group_write now dest payload =
     \<lparr>tg_source = ia_broadcast, tg_destination = Group dest, tg_payload = payload,
      tg_priority = Normal, tg_direction = Outgoing, tg_type = GroupValueWrite, tg_timestamp = now\<rparr>"

definition Telegram_received ::
  "system_time \<Rightarrow> individual_address \<Rightarrow> group_address \<Rightarrow> telegram_type \<Rightarrow> bytes \<Rightarrow> telegram" where
  "Telegram_received now src dest ty payload =
     \<lparr>tg_source = src, tg_destination = Group dest, tg_payload = payload,
      tg_priority = Normal, tg_direction = Incoming, tg_type = ty, tg_timestamp = now\<rparr>"

definition is_group_telegram :: "telegram \<Rightarrow> bool" where
  "is_group_telegram t = (case tg_destination t of Group _ \<Rightarrow> True | Individual _ \<Rightarrow> False)"

definition is_individual_telegram :: "telegram \<Rightarrow> bool" where
  "is_individual_telegram t = (case tg_destination t of Group _ \<Rightarrow> False | Individual _ \<Rightarrow> True)"

text \<open>\<open>timestamp.elapsed()\<close> fails when the time stamp lies in the future.\<close>

definition is_older_than :: "system_time \<Rightarrow> telegram \<Rightarrow> nat \<Rightarrow> bool" where
  "is_older_than now t max_age =
     (if tg_timestamp t \<le> now then now - tg_timestamp t > int max_age else True)"

definition Telegram_group_write_value ::
  "(unit \<Rightarrow> bytes result) \<Rightarrow> system_time \<Rightarrow> group_address \<Rightarrow> telegram result" where
  "Telegram_group_write_value encode_value now dest =
     bind_res (encode_value ()) (\<lambda>payload. Ok (Telegram_group_write now dest payload))"

definition Telegram_group_response_value ::
  "(unit \<Rightarrow> bytes result) \<Rightarrow> system_time \<Rightarrow> group_address \<Rightarrow> telegram result" where
  "Telegram_group_response_value encode_value now dest =
     bind_res (Telegram_group_write_value encode_value now dest)
       (\<lambda>t. Ok (t\<lparr>tg_type := GroupValueResponse\<rparr>))"

fun priority_rank :: "priority \<Rightarrow> nat" where
  "priority_rank System = 0"
| "priority_rank Urgent = 1"
| "priority_rank Normal = 2"
| "priority_rank Low = 3"

instantiation priority :: linorder
begin

definition less_eq_priority :: "priority \<Rightarrow> priority \<Rightarrow> bool" where
  "less_eq_priority a b = (priority_rank a \<le> priority_rank b)"

definition less_priority :: "priority \<Rightarrow> priority \<Rightarrow> bool" where
  "less_priority a b = (priority_rank a < priority_rank b)"

instance
proof
  fix a b :: priority
  show "a \<le> b \<Longrightarrow> b \<le> a \<Longrightarrow> a = b"
    by (cases a; cases b) (simp_all add: less_eq_priority_def)
qed (auto simp: less_eq_priority_def less_priority_def)

end

definition Priority_from_u8 :: "u8 \<Rightarrow> priority" where
  "Priority_from_u8 v =
     (let w = v AND 0x03 in
      if w = 0 then System else if w = 2 then Urgent else if w = 3 then Low else Normal)"

fun Priority_to_u8 :: "priority \<Rightarrow> u8" where
  "Priority_to_u8 System = 0"
| "Priority_to_u8 Normal = 1"
| "Priority_to_u8 Urgent = 2"
| "Priority_to_u8 Low = 3"

lemma Priority_from_to [simp]: "Priority_from_u8 (Priority_to_u8 p) = p"
  by (cases p) (simp_all add: Priority_from_u8_def)

lemma u8_le_3_cases: "w \<le> (3 :: u8) \<Longrightarrow> w \<in> {0, 1, 2, 3}"
  using u8_le_7_cases [OF order_trans [of w 3 7]] by auto

lemma Priority_to_from: "Priority_to_u8 (Priority_from_u8 v) = v AND 0x03"
  using u8_le_3_cases [of "v AND 3"] by (auto simp: Priority_from_u8_def Let_def codec_simps)

lemma System_least [simp]: "System \<le> p"
  by (simp add: less_eq_priority_def)

lemma Low_greatest [simp]: "p \<le> Low"
  by (cases p) (simp_all add: less_eq_priority_def)

text \<open>A telegram that is fresh stays classified by its age alone; a clock error counts as stale.\<close>

lemma is_older_than_iff:
  "is_older_than now t a \<longleftrightarrow> now < tg_timestamp t \<or> tg_timestamp t + int a < now"
  by (auto simp: is_older_than_def)

end
