(* ===== verification/Queue.thy ===== *)
theory Queue
  imports Telegram "HOL-Library.Multiset" "HOL-Library.Product_Lexorder"
begin

text \<open>
  The telegram queue, \<open>src/transport/queue.rs\<close>.

  \<open>BinaryHeap\<close> is modelled by what the standard library promises of it: \<open>push\<close> adds an element and
  \<open>pop\<close> removes a greatest one with respect to \<open>Ord\<close>; the elements are kept in a list.  Every
  method body runs under the mutex and is one function on the state.  A \<open>dequeue\<close> call is a loop
  around one attempt; the attempt returns \<open>Pending\<close> where the source goes to sleep.  Counters of type
  \<open>u64\<close> and \<open>usize\<close> are natural numbers.  The moving average of the processing time is computed in
  \<open>f64\<close>; that step is the argument \<open>ema\<close>.

  Shown: the heap meets the contract of a priority queue; telegrams leave the queue in priority
  order and, within one priority, in the order they were enqueued; the size limits and statistics are
  invariants of every operation.
\<close>

section \<open>State\<close>

record prio_telegram =
  pt_telegram :: telegram
  pt_sequence :: nat
  pt_enqueued_at :: nat

text \<open>\<open>self.cmp(other) == Greater\<close> of \<open>impl Ord for PriorityTelegram\<close>.\<close>

definition pt_greater :: "prio_telegram \<Rightarrow> prio_telegram \<Rightarrow> bool" where
  "pt_greater self other =
     (let p = tg_priority (pt_telegram self); q = tg_priority (pt_telegram other) in
      if q = p then pt_sequence other > pt_sequence self else q > p)"

record queue_config =
  qc_max_size :: nat
  qc_processing_timeout :: nat
  qc_strict_incoming_order :: bool
  qc_priority_processing :: bool

definition QueueConfig_default :: queue_config where
  "QueueConfig_default =
     \<lparr>qc_max_size = 1000, qc_processing_timeout = 30, qc_strict_incoming_order = True,
      qc_priority_processing = True\<rparr>"

record queue_stats =
  qs_total_enqueued :: nat
  qs_total_dequeued :: nat
  qs_current_size :: nat
  qs_peak_size :: nat
  qs_dropped_count :: nat
  qs_avg_processing_time :: nat
  qs_sequence_counter :: nat

record queue_state =
  q_outgoing :: "prio_telegram list"
  q_incoming :: "telegram list"
  q_stats :: queue_stats
  q_closed :: bool

definition queue_new :: queue_state where
  "queue_new =
     \<lparr>q_outgoing = [], q_incoming = [],
      q_stats = \<lparr>qs_total_enqueued = 0, qs_total_dequeued = 0, qs_current_size = 0,
                 qs_peak_size = 0, qs_dropped_count = 0, qs_avg_processing_time = 0,
                 qs_sequence_counter = 0\<rparr>,
      q_closed = False\<rparr>"

section \<open>Operations\<close>

definition heap_push :: "prio_telegram \<Rightarrow> prio_telegram list \<Rightarrow> prio_telegram list" where
  "heap_push x h = h @ [x]"

fun heap_max :: "prio_telegram \<Rightarrow> prio_telegram list \<Rightarrow> prio_telegram" where
  "heap_max m [] = m"
| "heap_max m (x # xs) = heap_max (if pt_greater x m then x else m) xs"

definition heap_pop :: "prio_telegram list \<Rightarrow> (prio_telegram \<times> prio_telegram list) option" where
  "heap_pop h =
     (case h of [] \<Rightarrow> None | x # xs \<Rightarrow> (let m = heap_max x xs in Some (m, remove1 m h)))"

text \<open>\<open>current_size\<close> and \<open>peak_size\<close> after a successful enqueue.\<close>

definition note_size :: "nat \<Rightarrow> queue_stats \<Rightarrow> queue_stats" where
  "note_size n st =
     st\<lparr>qs_current_size := n, qs_peak_size := (if n > qs_peak_size st then n else qs_peak_size st)\<rparr>"

definition enqueue_outgoing ::
  "queue_config \<Rightarrow> nat \<Rightarrow> telegram \<Rightarrow> queue_state \<Rightarrow> unit result \<times> queue_state" where
  "enqueue_outgoing cfg now t s =
     (if q_closed s then (Err (Transport QueueClosed), s)
      else if length (q_outgoing s) \<ge> qc_max_size cfg then
        (Err (Transport QueueFull),
         s\<lparr>q_stats := (q_stats s)\<lparr>qs_dropped_count := qs_dropped_count (q_stats s) + 1\<rparr>\<rparr>)
      else
        let pt = \<lparr>pt_telegram = t, pt_sequence = qs_sequence_counter (q_stats s),
                  pt_enqueued_at = now\<rparr>;
            st = (q_stats s)\<lparr>qs_sequence_counter := qs_sequence_counter (q_stats s) + 1,
                             qs_total_enqueued := qs_total_enqueued (q_stats s) + 1\<rparr>;
            out = (if qc_priority_processing cfg then heap_push pt (q_outgoing s)
                   else heap_push pt (q_outgoing s)) in
        (Ok (), s\<lparr>q_outgoing := out, q_stats := note_size (length out + length (q_incoming s)) st\<rparr>))"

definition enqueue_incoming ::
  "queue_config \<Rightarrow> telegram \<Rightarrow> queue_state \<Rightarrow> unit result \<times> queue_state" where
  "enqueue_incoming cfg t s =
     (if q_closed s then (Err (Transport QueueClosed), s)
      else if length (q_incoming s) \<ge> qc_max_size cfg then
        (Err (Transport QueueFull),
         s\<lparr>q_stats := (q_stats s)\<lparr>qs_dropped_count := qs_dropped_count (q_stats s) + 1\<rparr>\<rparr>)
      else
        let inc = q_incoming s @ [t];
            st = (q_stats s)\<lparr>qs_total_enqueued := qs_total_enqueued (q_stats s) + 1\<rparr> in
        (Ok (), s\<lparr>q_incoming := inc, q_stats := note_size (length (q_outgoing s) + length inc) st\<rparr>))"

datatype 'a poll = Ready "'a option" | Pending

definition update_avg_processing_time :: "(nat \<Rightarrow> nat \<Rightarrow> nat) \<Rightarrow> nat \<Rightarrow> queue_stats \<Rightarrow> queue_stats" where
  "update_avg_processing_time ema new_time st =
     (if qs_total_dequeued st = 1 then st\<lparr>qs_avg_processing_time := new_time\<rparr>
      else st\<lparr>qs_avg_processing_time := ema new_time (qs_avg_processing_time st)\<rparr>)"

definition dequeue_outgoing ::
  "(nat \<Rightarrow> nat \<Rightarrow> nat) \<Rightarrow> nat \<Rightarrow> queue_state \<Rightarrow> telegram poll \<times> queue_state" where
  "dequeue_outgoing ema now s =
     (case heap_pop (q_outgoing s) of
        Some (pt, out) \<Rightarrow>
          let st = (q_stats s)\<lparr>qs_total_dequeued := qs_total_dequeued (q_stats s) + 1,
                               qs_current_size := length out + length (q_incoming s)\<rparr> in
          (Ready (Some (pt_telegram pt)),
           s\<lparr>q_outgoing := out,
             q_stats := update_avg_processing_time ema (now - pt_enqueued_at pt) st\<rparr>)
      | None \<Rightarrow> if q_closed s then (Ready None, s) else (Pending, s))"

definition dequeue_incoming :: "queue_state \<Rightarrow> telegram poll \<times> queue_state" where
  "dequeue_incoming s =
     (case q_incoming s of
        t # inc \<Rightarrow>
          let st = (q_stats s)\<lparr>qs_total_dequeued := qs_total_dequeued (q_stats s) + 1,
                               qs_current_size := length (q_outgoing s) + length inc\<rparr> in
          (Ready (Some t), s\<lparr>q_incoming := inc, q_stats := st\<rparr>)
      | [] \<Rightarrow> if q_closed s then (Ready None, s) else (Pending, s))"

definition queue_is_empty :: "queue_state \<Rightarrow> bool" where
  "queue_is_empty s = (q_outgoing s = [] \<and> q_incoming s = [])"

definition queue_len :: "queue_state \<Rightarrow> nat" where
  "queue_len s = length (q_outgoing s) + length (q_incoming s)"

definition queue_close :: "queue_state \<Rightarrow> queue_state" where
  "queue_close s = s\<lparr>q_closed := True\<rparr>"

definition queue_clear :: "queue_state \<Rightarrow> queue_state" where
  "queue_clear s =
     s\<lparr>q_outgoing := [], q_incoming := [], q_stats := (q_stats s)\<lparr>qs_current_size := 0\<rparr>\<rparr>"

section \<open>The contract of a priority queue\<close>

locale priority_heap =
  fixes empty :: 'q
    and push :: "'a \<Rightarrow> 'q \<Rightarrow> 'q"
    and pop :: "'q \<Rightarrow> ('a \<times> 'q) option"
    and items :: "'q \<Rightarrow> 'a multiset"
    and key :: "'a \<Rightarrow> 'k::linorder"
  assumes items_empty: "items empty = {#}"
    and items_push: "items (push x q) = add_mset x (items q)"
    and pop_None: "pop q = None \<longleftrightarrow> items q = {#}"
    and pop_Some: "pop q = Some (x, q') \<Longrightarrow>
          items q = add_mset x (items q') \<and> (\<forall>y \<in># items q. key x \<le> key y)"
begin

primrec drain :: "nat \<Rightarrow> 'q \<Rightarrow> 'a list" where
  "drain 0 q = []"
| "drain (Suc n) q = (case pop q of None \<Rightarrow> [] | Some (x, q') \<Rightarrow> x # drain n q')"

lemma drain_mset: "size (items q) \<le> n \<Longrightarrow> mset (drain n q) = items q"
proof (induction n arbitrary: q)
  case (Suc n)
  show ?case
  proof (cases "pop q")
    case None
    then show ?thesis using pop_None [of q] by simp
  next
    case (Some p)
    then obtain x q' where "pop q = Some (x, q')" by (cases p) auto
    then show ?thesis
      using pop_Some [of q x q'] Suc by auto
  qed
qed simp

lemma drain_subset: "set (drain n q) \<subseteq> set_mset (items q)"
proof (induction n arbitrary: q)
  case (Suc n)
  show ?case
  proof (cases "pop q")
    case (Some p)
    then obtain x q' where "pop q = Some (x, q')" by (cases p) auto
    then show ?thesis
      using pop_Some [of q x q'] Suc [of q'] by auto
  qed simp
qed simp

lemma drain_sorted: "sorted (map key (drain n q))"
proof (induction n arbitrary: q)
  case (Suc n)
  show ?case
  proof (cases "pop q")
    case (Some p)
    then obtain x q' where "pop q = Some (x, q')" by (cases p) auto
    then show ?thesis
      using pop_Some [of q x q'] Suc [of q'] drain_subset [of n q'] by auto
  qed simp
qed simp

lemma items_fold_push: "items (fold push xs q) = mset xs + items q"
  by (induction xs arbitrary: q) (auto simp: items_push)

end

definition pt_key :: "prio_telegram \<Rightarrow> nat \<times> nat" where
  "pt_key p = (priority_rank (tg_priority (pt_telegram p)), pt_sequence p)"

lemma priority_rank_inj [simp]: "priority_rank a = priority_rank b \<longleftrightarrow> a = b"
  by (cases a; cases b) simp_all

lemma pt_greater_iff: "pt_greater a b \<longleftrightarrow> pt_key a < pt_key b"
  by (auto simp: pt_greater_def pt_key_def less_prod_def' less_priority_def Let_def)

lemma heap_max_in: "heap_max m xs \<in> insert m (set xs)"
  by (induction xs arbitrary: m) (auto split: if_splits)

lemma heap_max_least: "y \<in> insert m (set xs) \<Longrightarrow> pt_key (heap_max m xs) \<le> pt_key y"
proof (induction xs arbitrary: m y)
  case (Cons x xs)
  let ?m = "if pt_greater x m then x else m"
  have m: "pt_key ?m \<le> pt_key x" "pt_key ?m \<le> pt_key m"
    by (auto simp: pt_greater_iff)
  have max: "pt_key (heap_max ?m xs) \<le> pt_key ?m"
    by (rule Cons.IH) simp
  consider "y = m" | "y = x" | "y \<in> set xs"
    using Cons.prems by auto
  then have "pt_key (heap_max ?m xs) \<le> pt_key y"
  proof cases
    case 3
    then show ?thesis by (intro Cons.IH) simp
  qed (use order_trans [OF max m(1)] order_trans [OF max m(2)] in simp_all)
  then show ?case by simp
qed simp

lemma heap_pop_Some:
  assumes "heap_pop h = Some (x, h')"
  shows "x \<in> set h" "h' = remove1 x h" "\<forall>y \<in> set h. pt_key x \<le> pt_key y"
  using assms heap_max_in heap_max_least
  by (auto simp: heap_pop_def Let_def split: list.splits)

interpretation heap: priority_heap "[]" heap_push heap_pop mset pt_key
proof
  fix h h' :: "prio_telegram list" and x
  show "heap_pop h = None \<longleftrightarrow> mset h = {#}"
    by (simp add: heap_pop_def Let_def split: list.splits)
  assume pop: "heap_pop h = Some (x, h')"
  show "mset h = add_mset x (mset h') \<and> (\<forall>y \<in># mset h. pt_key x \<le> pt_key y)"
    using heap_pop_Some [OF pop] by simp
qed (simp_all add: heap_push_def)

section \<open>Order of delivery\<close>

lemma map_insort_key: "map g (insort_key (f \<circ> g) x xs) = insort_key f (g x) (map g xs)"
  by (induction xs) auto

lemma map_sort_key: "map g (sort_key (f \<circ> g) xs) = sort_key f (map g xs)"
  by (induction xs) (simp_all add: map_insort_key del: comp_apply)

lemma sorted_lex_filter:
  assumes "sorted (map pt_key ys)"
  shows "sorted (map pt_sequence (filter (\<lambda>y. fst (pt_key y) = k) ys))"
  using assms by (induction ys) (auto simp: pt_key_def less_eq_prod_def)

lemma sorted_lex_fst: "sorted (map pt_key ys) \<Longrightarrow> sorted (map (fst \<circ> pt_key) ys)"
  by (induction ys) (auto simp: less_eq_prod_def)

lemma sorted_map_inj_unique:
  fixes f :: "'a \<Rightarrow> 'b::linorder"
  assumes "mset xs = mset ys" "sorted (map f xs)" "sorted (map f ys)" "distinct (map f xs)"
  shows "xs = ys"
proof -
  have "map f xs = map f ys"
    using assms by (metis mset_map properties_for_sort sorted_sort_id)
  moreover have "inj_on f (set xs \<union> set ys)"
    using assms(1,4) by (metis distinct_map mset_eq_setD sup.idem)
  ultimately show ?thesis
    using map_inj_on by blast
qed

text \<open>
  Items whose sequence numbers increase in the order of the list are drained in the stable order by
  priority.
\<close>

lemma drain_stable:
  assumes "mset h = mset ps" "sorted (map pt_sequence ps)" "distinct (map pt_sequence ps)"
    "length ps \<le> n"
  shows "heap.drain n h = sort_key (fst \<circ> pt_key) ps"
proof (rule properties_for_sort_key [symmetric])
  let ?ys = "heap.drain n h"
  have m: "mset ?ys = mset ps"
    using heap.drain_mset [of h n] assms(1,4) by (metis size_mset)
  then show "mset ?ys = mset ps" .
  show "sorted (map (fst \<circ> pt_key) ?ys)"
    by (intro sorted_lex_fst heap.drain_sorted)
  fix k
  show "filter (\<lambda>x. (fst \<circ> pt_key) k = (fst \<circ> pt_key) x) ?ys =
        filter (\<lambda>x. (fst \<circ> pt_key) k = (fst \<circ> pt_key) x) ps"
  proof (rule sorted_map_inj_unique [where f = pt_sequence])
    show "mset (filter (\<lambda>x. (fst \<circ> pt_key) k = (fst \<circ> pt_key) x) ?ys) =
          mset (filter (\<lambda>x. (fst \<circ> pt_key) k = (fst \<circ> pt_key) x) ps)"
      using m by simp
    show "sorted (map pt_sequence (filter (\<lambda>x. (fst \<circ> pt_key) k = (fst \<circ> pt_key) x) ?ys))"
      using sorted_lex_filter [OF heap.drain_sorted [of n h], of "fst (pt_key k)"]
      by (simp add: eq_commute)
    show "sorted (map pt_sequence (filter (\<lambda>x. (fst \<circ> pt_key) k = (fst \<circ> pt_key) x) ps))"
      using assms(2) by (rule sorted_filter)
    have "distinct (map pt_sequence ?ys)"
      using m assms(3) by (metis mset_eq_imp_distinct_iff mset_map)
    then show "distinct (map pt_sequence (filter (\<lambda>x. (fst \<circ> pt_key) k = (fst \<circ> pt_key) x) ?ys))"
      by (rule distinct_map_filter)
  qed
qed

text \<open>A consumer that dequeues up to \<open>n\<close> telegrams and stops when none is ready.\<close>

fun dequeue_n :: "(nat \<Rightarrow> nat \<Rightarrow> nat) \<Rightarrow> nat \<Rightarrow> nat \<Rightarrow> queue_state \<Rightarrow> telegram list" where
  "dequeue_n ema now 0 s = []"
| "dequeue_n ema now (Suc n) s =
     (case dequeue_outgoing ema now s of
        (Ready (Some t), s') \<Rightarrow> t # dequeue_n ema now n s'
      | _ \<Rightarrow> [])"

definition enqueue_all :: "queue_config \<Rightarrow> nat \<Rightarrow> telegram list \<Rightarrow> queue_state \<Rightarrow> queue_state" where
  "enqueue_all cfg now ts s = fold (\<lambda>t s. snd (enqueue_outgoing cfg now t s)) ts s"

lemma dequeue_n_drain: "dequeue_n ema now n s = map pt_telegram (heap.drain n (q_outgoing s))"
  by (induction n arbitrary: s)
     (auto simp: dequeue_outgoing_def Let_def split: option.splits)

definition numbered :: "nat \<Rightarrow> nat \<Rightarrow> telegram list \<Rightarrow> prio_telegram list" where
  "numbered now k ts =
     map (\<lambda>(i, t). \<lparr>pt_telegram = t, pt_sequence = i, pt_enqueued_at = now\<rparr>) (enumerate k ts)"

lemma enqueue_all_outgoing:
  "\<lbrakk>\<not> q_closed s; length (q_outgoing s) + length ts \<le> qc_max_size cfg\<rbrakk> \<Longrightarrow>
     q_outgoing (enqueue_all cfg now ts s) =
       q_outgoing s @ numbered now (qs_sequence_counter (q_stats s)) ts"
proof (induction ts arbitrary: s)
  case (Cons t ts)
  let ?s = "snd (enqueue_outgoing cfg now t s)"
  have "q_outgoing ?s = q_outgoing s @ [\<lparr>pt_telegram = t,
      pt_sequence = qs_sequence_counter (q_stats s), pt_enqueued_at = now\<rparr>]"
    "\<not> q_closed ?s" "qs_sequence_counter (q_stats ?s) = Suc (qs_sequence_counter (q_stats s))"
    using Cons.prems by (simp_all add: enqueue_outgoing_def heap_push_def note_size_def Let_def)
  then show ?case
    using Cons.IH [of ?s] Cons.prems by (simp add: enqueue_all_def numbered_def)
qed (simp add: enqueue_all_def numbered_def)

lemma numbered_facts:
  "map pt_telegram (numbered now k ts) = ts"
  "map pt_sequence (numbered now k ts) = [k..<k + length ts]"
  "length (numbered now k ts) = length ts"
  by (auto simp: numbered_def comp_def case_prod_unfold enumerate_eq_zip intro: map_snd_zip map_fst_zip)

lemma delivery_order:
  assumes "length ts \<le> qc_max_size cfg" "length ts \<le> n"
  shows "dequeue_n ema now' n (enqueue_all cfg now ts queue_new) =
           sort_key (priority_rank \<circ> tg_priority) ts"
proof -
  let ?ps = "numbered now 0 ts"
  have "q_outgoing (enqueue_all cfg now ts queue_new) = ?ps"
    using enqueue_all_outgoing [of queue_new ts cfg now] assms(1) by (simp add: queue_new_def)
  moreover have "heap.drain n ?ps = sort_key (fst \<circ> pt_key) ?ps"
    using assms(2) by (intro drain_stable) (simp_all add: numbered_facts)
  moreover have "fst \<circ> pt_key = (priority_rank \<circ> tg_priority) \<circ> pt_telegram"
    by (simp add: fun_eq_iff pt_key_def)
  ultimately show ?thesis
    using map_sort_key [of pt_telegram "priority_rank \<circ> tg_priority" ?ps]
    by (simp add: dequeue_n_drain numbered_facts)
qed

section \<open>Invariant\<close>

definition queue_inv :: "queue_config \<Rightarrow> queue_state \<Rightarrow> bool" where
  "queue_inv cfg s =
     (length (q_outgoing s) \<le> qc_max_size cfg \<and> length (q_incoming s) \<le> qc_max_size cfg
      \<and> qs_current_size (q_stats s) = queue_len s
      \<and> qs_current_size (q_stats s) \<le> qs_peak_size (q_stats s)
      \<and> qs_total_dequeued (q_stats s) + queue_len s \<le> qs_total_enqueued (q_stats s)
      \<and> distinct (map pt_sequence (q_outgoing s))
      \<and> (\<forall>p \<in> set (q_outgoing s). pt_sequence p < qs_sequence_counter (q_stats s)))"

lemma queue_inv_new: "queue_inv cfg queue_new"
  by (simp add: queue_inv_def queue_new_def queue_len_def)

lemma queue_inv_enqueue_outgoing:
  "queue_inv cfg s \<Longrightarrow> queue_inv cfg (snd (enqueue_outgoing cfg now t s))"
  by (auto simp: queue_inv_def enqueue_outgoing_def queue_len_def note_size_def heap_push_def Let_def)

lemma queue_inv_enqueue_incoming:
  "queue_inv cfg s \<Longrightarrow> queue_inv cfg (snd (enqueue_incoming cfg t s))"
  by (auto simp: queue_inv_def enqueue_incoming_def queue_len_def note_size_def Let_def)

lemma heap_pop_length: "heap_pop h = Some (x, h') \<Longrightarrow> length h = Suc (length h')"
  using heap_pop_Some [of h x h'] length_pos_if_in_set [of x h] by (auto simp: length_remove1)

lemma queue_inv_dequeue_outgoing:
  assumes "queue_inv cfg s"
  shows "queue_inv cfg (snd (dequeue_outgoing ema now s))"
proof (cases "heap_pop (q_outgoing s)")
  case None
  then show ?thesis
    using assms by (simp add: dequeue_outgoing_def)
next
  case (Some p)
  then obtain x out where pop: "heap_pop (q_outgoing s) = Some (x, out)"
    by (cases p) auto
  note x = heap_pop_Some [OF pop] heap_pop_length [OF pop]
  have "distinct (map pt_sequence out)" "set out \<subseteq> set (q_outgoing s)"
    using assms x(2) by (auto simp: queue_inv_def distinct_map distinct_remove1 inj_on_def
        dest: notin_set_remove1 intro: set_remove1_subset [THEN subsetD])
  then show ?thesis
    using assms pop x(4)
    by (auto simp: queue_inv_def dequeue_outgoing_def queue_len_def update_avg_processing_time_def
        Let_def)
qed

lemma queue_inv_dequeue_incoming: "queue_inv cfg s \<Longrightarrow> queue_inv cfg (snd (dequeue_incoming s))"
  by (auto simp: queue_inv_def dequeue_incoming_def queue_len_def Let_def split: list.splits)

lemma queue_inv_close: "queue_inv cfg s \<Longrightarrow> queue_inv cfg (queue_close s)"
  by (simp add: queue_inv_def queue_close_def queue_len_def)

lemma queue_inv_clear: "queue_inv cfg s \<Longrightarrow> queue_inv cfg (queue_clear s)"
  by (simp add: queue_inv_def queue_clear_def queue_len_def)

section \<open>Properties\<close>



text \<open>Every operation of the queue, for histories.\<close>

datatype queue_op =
    Op_Enqueue_Outgoing nat telegram | Op_Enqueue_Incoming telegram
  | Op_Dequeue_Outgoing nat | Op_Dequeue_Incoming | Op_Close | Op_Clear

fun queue_step :: "queue_config \<Rightarrow> (nat \<Rightarrow> nat \<Rightarrow> nat) \<Rightarrow> queue_op \<Rightarrow> queue_state \<Rightarrow> queue_state" where
  "queue_step cfg ema (Op_Enqueue_Outgoing now t) s = snd (enqueue_outgoing cfg now t s)"
| "queue_step cfg ema (Op_Enqueue_Incoming t) s = snd (enqueue_incoming cfg t s)"
| "queue_step cfg ema (Op_Dequeue_Outgoing now) s = snd (dequeue_outgoing ema now s)"
| "queue_step cfg ema Op_Dequeue_Incoming s = snd (dequeue_incoming s)"
| "queue_step cfg ema Op_Close s = queue_close s"
| "queue_step cfg ema Op_Clear s = queue_clear s"

lemma queue_inv_step: "queue_inv cfg s \<Longrightarrow> queue_inv cfg (queue_step cfg ema op s)"
  by (cases op) (simp_all add: queue_inv_enqueue_outgoing queue_inv_enqueue_incoming
      queue_inv_dequeue_outgoing queue_inv_dequeue_incoming queue_inv_close queue_inv_clear)

text \<open>
  Queue invariant.  After any sequence of operations both directions are within the configured
  size, the reported current size is the number of telegrams in the queue and at most the reported
  peak, no more telegrams have been taken out than put in, and the sequence numbers in the heap are
  distinct and below the counter.
\<close>

lemma queue_invariant: "queue_inv cfg (fold (queue_step cfg ema) ops queue_new)"
  by (induction ops rule: rev_induct) (simp_all add: queue_inv_new queue_inv_step)

end
