(* ===== verification/Queue_Wakeup.thy ===== *)
theory Queue_Wakeup
  imports Queue
begin

text \<open>
  The sleep and wake-up protocol of \<open>dequeue_incoming\<close> against \<open>enqueue_incoming\<close> and \<open>close\<close>
  (\<open>src/transport/queue.rs\<close> lines 231--273, 310--333, 355--361), as an interleaving of atomic steps.

  A consumer that finds the queue empty first drops the lock and only then calls
  \<open>self.notify.notified()\<close>; a producer or \<open>close\<close> calls \<open>notify_waiters()\<close> after dropping the lock.
  \<open>tokio::sync::Notify\<close> is a parameter: a state type with \<open>register\<close> (the call of \<open>notified()\<close>),
  \<open>notify_waiters\<close> and \<open>woken\<close> (the future is ready).  Its documentation says that
  \<open>notify_waiters\<close> wakes the futures that exist at that time and stores no permit for later ones; the
  hypothesis used is that a freshly registered future is not ready.
\<close>

datatype consumer = Running | Released | Sleeping | Returned "telegram option"

record 'n wake_sys =
  ws_queue :: queue_state
  ws_notify :: 'n
  ws_consumer :: consumer

inductive wake_step ::
  "('n \<Rightarrow> 'n) \<Rightarrow> ('n \<Rightarrow> 'n) \<Rightarrow> ('n \<Rightarrow> bool) \<Rightarrow> queue_config \<Rightarrow> 'n wake_sys \<Rightarrow> 'n wake_sys \<Rightarrow> bool"
  for register notify_waiters woken cfg where
  attempt_ready:
    "\<lbrakk>ws_consumer s = Running; dequeue_incoming (ws_queue s) = (Ready r, q)\<rbrakk> \<Longrightarrow>
     wake_step register notify_waiters woken cfg s (s\<lparr>ws_queue := q, ws_consumer := Returned r\<rparr>)"
| attempt_pending:
    "\<lbrakk>ws_consumer s = Running; dequeue_incoming (ws_queue s) = (Pending, q)\<rbrakk> \<Longrightarrow>
     wake_step register notify_waiters woken cfg s (s\<lparr>ws_queue := q, ws_consumer := Released\<rparr>)"
| sleep:
    "ws_consumer s = Released \<Longrightarrow>
     wake_step register notify_waiters woken cfg s
       (s\<lparr>ws_notify := register (ws_notify s), ws_consumer := Sleeping\<rparr>)"
| wake:
    "\<lbrakk>ws_consumer s = Sleeping; woken (ws_notify s)\<rbrakk> \<Longrightarrow>
     wake_step register notify_waiters woken cfg s (s\<lparr>ws_consumer := Running\<rparr>)"
| produce:
    "enqueue_incoming cfg t (ws_queue s) = (Ok (), q) \<Longrightarrow>
     wake_step register notify_waiters woken cfg s
       (s\<lparr>ws_queue := q, ws_notify := notify_waiters (ws_notify s)\<rparr>)"
| close_step:
    "\<not> q_closed (ws_queue s) \<Longrightarrow>
     wake_step register notify_waiters woken cfg s
       (s\<lparr>ws_queue := queue_close (ws_queue s), ws_notify := notify_waiters (ws_notify s)\<rparr>)"

inductive_cases wake_stepE: "wake_step register notify_waiters woken cfg s s'"

definition wake_init :: "'n \<Rightarrow> 'n wake_sys" where
  "wake_init n = \<lparr>ws_queue = queue_new, ws_notify = n, ws_consumer = Running\<rparr>"

text \<open>The consumer sleeps although the queue is closed: it should return \<open>None\<close>.\<close>

definition stranded :: "('n \<Rightarrow> bool) \<Rightarrow> 'n wake_sys \<Rightarrow> bool" where
  "stranded woken s =
     (ws_consumer s = Sleeping \<and> q_closed (ws_queue s) \<and> \<not> woken (ws_notify s))"

lemma stranded_stuck: "stranded woken s \<Longrightarrow> \<not> wake_step register notify_waiters woken cfg s s'"
  by (auto simp: stranded_def enqueue_incoming_def elim!: wake_stepE)

lemma stranded_reachable:
  assumes "\<And>n. \<not> woken (register n)"
  shows "\<exists>s. (wake_step register notify_waiters woken cfg)\<^sup>*\<^sup>* (wake_init n) s \<and> stranded woken s"
proof -
  let ?s1 = "\<lparr>ws_queue = queue_new, ws_notify = n, ws_consumer = Released\<rparr>"
  let ?s2 = "\<lparr>ws_queue = queue_close queue_new, ws_notify = notify_waiters n, ws_consumer = Released\<rparr>"
  let ?s3 = "\<lparr>ws_queue = queue_close queue_new, ws_notify = register (notify_waiters n), ws_consumer = Sleeping\<rparr>"
  let ?step = "wake_step register notify_waiters woken cfg"
  have "?step (wake_init n) ?s1"
    using attempt_pending [of "wake_init n" queue_new register notify_waiters woken cfg]
    by (simp add: wake_init_def dequeue_incoming_def queue_new_def)
  moreover have "?step ?s1 ?s2"
    using close_step [of ?s1 register notify_waiters woken cfg] by (simp add: queue_new_def)
  moreover have "?step ?s2 ?s3"
    using sleep [of ?s2 register notify_waiters woken cfg] by simp
  ultimately have "?step\<^sup>*\<^sup>* (wake_init n) ?s3"
    by (meson converse_rtranclp_into_rtranclp rtranclp.rtrancl_refl)
  moreover have "stranded woken ?s3"
    using assms by (simp add: stranded_def queue_close_def)
  ultimately show ?thesis by blast
qed

section \<open>Properties\<close>



end
