(* ===== verification/Sequence.thy ===== *)
theory Sequence
  imports Prelude
begin

text \<open>
  Validation of tunnelling sequence numbers, \<open>SequenceValidationResult\<close> of
  \<open>src/transport/tunnel.rs\<close> and the contract that both ends of a tunnel rely on:
  \<open>Tunnel::validate_sequence_number\<close> on the client and \<open>ClientSession::validate_recv_seq\<close> on the
  server are shown to meet it in \<open>Tunnel\<close> and \<open>Server\<close>.

  Counters are bytes and wrap.  Shown from the contract: accepted frames carry consecutive numbers
  whatever arrives, and a sender that repeats each frame any number of times before going on gets
  every frame accepted exactly once and in order, for any number of frames.  After one skipped
  number the next 255 frames are all refused.
\<close>

datatype sequence_validation_result = Valid | Duplicate | Invalid u8 u8

text \<open>The frames that a receiver processes: those validated as \<open>Valid\<close>.\<close>

fun accepted ::
  "(u8 \<Rightarrow> 's \<Rightarrow> sequence_validation_result \<times> 's) \<Rightarrow> (u8 \<times> 'p) list \<Rightarrow> 's \<Rightarrow> (u8 \<times> 'p) list" where
  "accepted validate [] s = []"
| "accepted validate ((n, p) # frames) s =
     (case validate n s of
        (Valid, s') \<Rightarrow> (n, p) # accepted validate frames s'
      | (_, s') \<Rightarrow> accepted validate frames s')"

text \<open>Frames numbered from \<open>n\<close>, and their transmission with frame \<open>i\<close> repeated \<open>k\<^sub>i\<close> more times.\<close>

fun number_from :: "u8 \<Rightarrow> 'p list \<Rightarrow> (u8 \<times> 'p) list" where
  "number_from n [] = []"
| "number_from n (p # ps) = (n, p) # number_from (n + 1) ps"

lemma map_snd_number_from [simp]: "map snd (number_from n ps) = ps"
  by (induction n ps rule: number_from.induct) simp_all

fun stutter :: "nat list \<Rightarrow> 'a list \<Rightarrow> 'a list" where
  "stutter (k # ks) (x # xs) = replicate (Suc k) x @ stutter ks xs"
| "stutter [] (x # xs) = x # stutter [] xs"
| "stutter ks [] = []"

locale sequence_window =
  fixes validate :: "u8 \<Rightarrow> 's \<Rightarrow> sequence_validation_result \<times> 's"
    and expected :: "'s \<Rightarrow> u8"
  assumes validate_next:
      "received = expected s \<Longrightarrow>
         fst (validate received s) = Valid \<and> expected (snd (validate received s)) = expected s + 1"
    and validate_previous:
      "received = expected s - 1 \<Longrightarrow>
         fst (validate received s) = Duplicate \<and> expected (snd (validate received s)) = expected s"
    and validate_other:
      "\<lbrakk>received \<noteq> expected s; received \<noteq> expected s - 1\<rbrakk> \<Longrightarrow>
         fst (validate received s) = Invalid (expected s) received
         \<and> expected (snd (validate received s)) = expected s"
begin

lemma accepted_Cons:
  "accepted validate ((n, p) # frames) s =
     (if n = expected s then [(n, p)] else []) @ accepted validate frames (snd (validate n s))"
  using validate_next [of n s] validate_previous [of n s] validate_other [of n s]
  by (cases "n = expected s"; cases "n = expected s - 1"; cases "validate n s") auto

lemma expected_validate:
  "expected (snd (validate n s)) = (if n = expected s then expected s + 1 else expected s)"
  using validate_next [of n s] validate_previous [of n s] validate_other [of n s]
  by (cases "n = expected s"; cases "n = expected s - 1") auto

lemma accepted_consecutive:
  "accepted validate frames s = number_from (expected s) (map snd (accepted validate frames s))"
proof (induction frames arbitrary: s)
  case (Cons f frames)
  show ?case
    using Cons [of "snd (validate (fst f) s)"]
    by (cases f; cases "fst f = expected s")
       (simp_all add: accepted_Cons expected_validate del: accepted.simps)
qed simp

lemma accepted_repeats:
  "expected s = n + 1 \<Longrightarrow>
     \<exists>s'. expected s' = n + 1
       \<and> accepted validate (replicate k (n, p) @ frames) s = accepted validate frames s'"
proof (induction k arbitrary: s)
  case (Suc k)
  then have "expected (snd (validate n s)) = n + 1"
    by (simp add: expected_validate)
  from Suc.IH [OF this] show ?case
    using Suc.prems by (simp add: accepted_Cons del: accepted.simps)
qed auto

lemma exactly_once:
  "expected s = n \<Longrightarrow>
     accepted validate (stutter ks (number_from n ps)) s = number_from n ps"
proof (induction ps arbitrary: n s ks)
  case (Cons p ps)
  show ?case
  proof (cases ks)
    case Nil
    then show ?thesis
      using Cons by (simp add: accepted_Cons expected_validate del: accepted.simps)
  next
    case (Cons k ks')
    have "expected (snd (validate n s)) = n + 1"
      using Cons.prems by (simp add: expected_validate)
    from accepted_repeats [OF this, of k p "stutter ks' (number_from (n + 1) ps)"]
    obtain s' where "expected s' = n + 1"
      "accepted validate (replicate k (n, p) @ stutter ks' (number_from (n + 1) ps))
         (snd (validate n s)) = accepted validate (stutter ks' (number_from (n + 1) ps)) s'"
      by blast
    then show ?thesis
      using Cons.IH [of s' "n + 1" ks'] Cons.prems \<open>ks = k # ks'\<close>
      by (simp add: accepted_Cons del: accepted.simps)
  qed
qed simp

lemma skipped_from:
  "\<lbrakk>expected s = n; 0 < k; k + length ps \<le> 256\<rbrakk> \<Longrightarrow>
     accepted validate (number_from (n + word_of_nat k) ps) s = []"
proof (induction ps arbitrary: k s)
  case (Cons p ps)
  have "unat (word_of_nat k :: u8) = k"
    using Cons.prems by (simp add: unsigned_of_nat take_bit_nat_eq_self)
  then have "n + word_of_nat k \<noteq> n"
    using Cons.prems(2) by auto
  moreover have "number_from (n + word_of_nat k + 1) ps = number_from (n + word_of_nat (Suc k)) ps"
    by (simp add: ac_simps)
  ultimately show ?case
    using Cons.IH [of "snd (validate (n + word_of_nat k) s)" "Suc k"] Cons.prems
    by (simp add: accepted_Cons expected_validate del: accepted.simps)
qed simp

lemma skipped_frame:
  "\<lbrakk>expected s = n; length ps \<le> 255\<rbrakk> \<Longrightarrow> accepted validate (number_from (n + 1) ps) s = []"
  using skipped_from [of s n 1 ps] by simp

end

end
