(* ===== verification/Apci.thy ===== *)
theory Apci
  imports Errors
begin

text \<open>
  Application-layer group services, \<open>src/protocol/apci.rs\<close>.

  Shown: what \<open>decode\<close> returns for every encoded service, exactly which services survive the trip
  (a one-byte payload only when it fits the six data bits of the APCI byte), and that \<open>decode\<close>
  never panics although \<open>decode_payload\<close> slices.
\<close>

datatype group_value_service = Read | Response bytes | Write bytes

definition encode_payload :: "u8 \<Rightarrow> bytes \<Rightarrow> bytes" where
  "encode_payload service_bits payload =
     (if length payload \<le> 1
      then [service_bits OR ((case payload of [] \<Rightarrow> 0 | b # _ \<Rightarrow> b) AND 0x3F)]
      else service_bits # payload)"

definition decode_payload :: "u8 \<Rightarrow> bytes \<Rightarrow> bytes result" where
  "decode_payload first_apci apci_data =
     (if length apci_data = 1 then Ok [first_apci AND 0x3F] else slice_from apci_data 1)"

fun GroupValueService_encode :: "group_value_service \<Rightarrow> bytes" where
  "GroupValueService_encode Read = [0x00]"
| "GroupValueService_encode (Response payload) = encode_payload 0x40 payload"
| "GroupValueService_encode (Write payload) = encode_payload 0x80 payload"

definition GroupValueService_decode :: "u8 \<Rightarrow> bytes \<Rightarrow> group_value_service result" where
  "GroupValueService_decode tpci apci_data =
     (case apci_data of
        [] \<Rightarrow> Err (Protocol (DptError ''APCI''))
      | first_apci # _ \<Rightarrow>
          (let service = push_bit 8 (ucast (tpci AND 0x03) :: u16) OR ucast (first_apci AND 0xC0) in
           if service = 0x0000 then Ok Read
           else if service = 0x0040 then
             bind_res (decode_payload first_apci apci_data) (\<lambda>p. Ok (Response p))
           else if service = 0x0080 then
             bind_res (decode_payload first_apci apci_data) (\<lambda>p. Ok (Write p))
           else Err (Protocol (DptError ''APCI''))))"

fun gvs_payload :: "group_value_service \<Rightarrow> bytes option" where
  "gvs_payload Read = None"
| "gvs_payload (Response payload) = Some payload"
| "gvs_payload (Write payload) = Some payload"

section \<open>Round trip\<close>

text \<open>What the receiver gets for a payload, and the payloads it gets unchanged.\<close>

definition wire_payload :: "bytes \<Rightarrow> bytes" where
  "wire_payload p = (case p of [] \<Rightarrow> [0] | [b] \<Rightarrow> [b AND 0x3F] | _ \<Rightarrow> p)"

fun on_wire :: "group_value_service \<Rightarrow> group_value_service" where
  "on_wire Read = Read"
| "on_wire (Response p) = Response (wire_payload p)"
| "on_wire (Write p) = Write (wire_payload p)"

definition fits_wire :: "bytes \<Rightarrow> bool" where
  "fits_wire p = (2 \<le> length p \<or> (\<exists>b. p = [b] \<and> b \<le> 0x3F))"

lemma and_63_eq_iff: "b AND 0x3F = b \<longleftrightarrow> b \<le> 0x3F" for b :: u8
proof
  assume "b AND 0x3F = b"
  then show "b \<le> 0x3F"
    by (metis take_bit_u8_le(1) and_mask_take_bit(5))
next
  assume "b \<le> 0x3F"
  then show "b AND 0x3F = b"
    by (simp add: codec_simps take_bit_small word_le_nat_alt)
qed

lemma wire_payload_id_iff: "wire_payload p = p \<longleftrightarrow> fits_wire p"
  by (auto simp: wire_payload_def fits_wire_def and_63_eq_iff Suc_le_eq split: list.splits)

lemma service_bits_and:
  "((0x40 OR (x AND 0x3F)) AND 0xC0 :: u8) = 0x40" "((0x80 OR (x AND 0x3F)) AND 0xC0 :: u8) = 0x80"
  "((0x40 OR (x AND 0x3F)) AND 0x3F :: u8) = x AND 0x3F"
  "((0x80 OR (x AND 0x3F)) AND 0x3F :: u8) = x AND 0x3F"
  by (simp_all add: bit.conj_disj_distrib2 and.assoc)

lemma decode_encode_payload:
  assumes "s = 0x40 \<or> s = 0x80" "tpci AND 0x03 = 0"
  shows "GroupValueService_decode tpci (encode_payload s p) =
           Ok ((if s = 0x40 then Response else Write) (wire_payload p))"
  using assms
  by (auto simp: GroupValueService_decode_def encode_payload_def decode_payload_def wire_payload_def
      service_bits_and split: list.splits)

lemma GroupValueService_decode_encode:
  "tpci AND 0x03 = 0 \<Longrightarrow>
     GroupValueService_decode tpci (GroupValueService_encode s) = Ok (on_wire s)"
  by (cases s) (simp_all add: decode_encode_payload, simp add: GroupValueService_decode_def)

lemma GroupValueService_decode_no_panic: "GroupValueService_decode tpci d \<noteq> Panic"
  by (auto simp: GroupValueService_decode_def decode_payload_def Let_def split: list.splits)

section \<open>Properties\<close>

text \<open>
  Group services on the wire.  With clear service bits in the TPCI byte, decoding the encoding of
  a service gives the service back exactly when it is a read, or its payload has at least two bytes,
  or its payload is one byte below 64.  A one-byte payload from 64 on (a DPT 5 percentage, say) comes
  back with its top two bits cleared, and an empty payload as a zero byte; decoding never panics.
\<close>

lemma group_service_wire:
  "(GroupValueService_decode 0 (GroupValueService_encode s) = Ok s \<longleftrightarrow>
      (case gvs_payload s of None \<Rightarrow> True | Some p \<Rightarrow> fits_wire p))
   \<and> GroupValueService_decode 0 (GroupValueService_encode (Write [b])) = Ok (Write [b AND 0x3F])
   \<and> GroupValueService_decode tpci bs \<noteq> Panic"
proof -
  have "GroupValueService_decode 0 (GroupValueService_encode s') = Ok (on_wire s')" for s'
    by (rule GroupValueService_decode_encode) simp
  then show ?thesis
    by (cases s) (simp_all add: wire_payload_id_iff wire_payload_def [of "[b]"]
        GroupValueService_decode_no_panic del: GroupValueService_encode.simps)
qed

end
