(* ===== verification/Cemi.thy ===== *)
theory Cemi
  imports Address Codec
begin

text \<open>
  CEMI frames, \<open>src/protocol/cemi.rs\<close>: message codes, the two-byte control field, the extended
  control field, additional-information fields, and \<open>CemiFrame::parse\<close>, \<open>serialize\<close>, \<open>new\<close>.

  \<open>parse\<close> is translated statement by statement: every length check is a guard with the offset of the
  source, every \<open>data[i]\<close> and \<open>data[a..b]\<close> is a checked access that can panic, and the
  \<open>while offset < additional_info_end\<close> loop is the terminating function \<open>parse_additional_info\<close>.
  Logging and timers have no effect on the result and are left out.

  Shown: no input makes \<open>parse\<close> panic; every frame it returns is well formed; serialising a
  well-formed frame and parsing the bytes, also with bytes following, returns the frame.
\<close>

section \<open>Definitions\<close>

datatype message_code =
    LDataReq | LDataCon | LDataInd | LBusmonInd | LRawReq | LRawInd | LRawCon
  | MPropReadReq | MPropReadCon | MPropWriteReq | MPropWriteCon

datatype frame_type = Extended | Standard
datatype address_type = IndividualType | GroupType
datatype cemi_priority = CemiSystem | CemiNormal | CemiUrgent | CemiLow

record control_field =
  cf_frame_type :: frame_type
  cf_repeat :: bool
  cf_system_broadcast :: bool
  cf_priority :: cemi_priority
  cf_ack_request :: bool
  cf_confirm :: bool
  cf_destination_address_type :: address_type
  cf_hop_count :: u8

record extended_control_field =
  ecf_destination_address_type :: address_type
  ecf_hop_count :: u8
  ecf_extended_frame_format :: u8

record additional_info =
  info_type :: u8
  info_data :: bytes

record cemi_frame =
  cm_message_code :: message_code
  cm_additional_info :: "additional_info list"
  cm_control_field :: control_field
  cm_extended_control_field :: "extended_control_field option"
  cm_source_addr :: individual_address
  cm_dest_addr :: address
  cm_data_length :: u8
  cm_tpci :: u8
  cm_apci_data :: bytes

definition MessageCode_from_u8 :: "u8 \<Rightarrow> message_code result" where
  "MessageCode_from_u8 v =
     (if v = 0x11 then Ok LDataReq
      else if v = 0x2E then Ok LDataCon
      else if v = 0x29 then Ok LDataInd
      else if v = 0x2B then Ok LBusmonInd
      else if v = 0x10 then Ok LRawReq
      else if v = 0x2D then Ok LRawInd
      else if v = 0x2F then Ok LRawCon
      else if v = 0xFC then Ok MPropReadReq
      else if v = 0xFB then Ok MPropReadCon
      else if v = 0xF6 then Ok MPropWriteReq
      else if v = 0xF5 then Ok MPropWriteCon
      else Err (Protocol CemiError))"

fun MessageCode_to_u8 :: "message_code \<Rightarrow> u8" where
  "MessageCode_to_u8 LDataReq = 0x11"
| "MessageCode_to_u8 LDataCon = 0x2E"
| "MessageCode_to_u8 LDataInd = 0x29"
| "MessageCode_to_u8 LBusmonInd = 0x2B"
| "MessageCode_to_u8 LRawReq = 0x10"
| "MessageCode_to_u8 LRawInd = 0x2D"
| "MessageCode_to_u8 LRawCon = 0x2F"
| "MessageCode_to_u8 MPropReadReq = 0xFC"
| "MessageCode_to_u8 MPropReadCon = 0xFB"
| "MessageCode_to_u8 MPropWriteReq = 0xF6"
| "MessageCode_to_u8 MPropWriteCon = 0xF5"

text \<open>The match on \<open>(high_byte >> 2) & 0x03\<close>; its fifth arm is \<open>unreachable!()\<close> on a masked value.\<close>

definition cemi_priority_of :: "u8 \<Rightarrow> cemi_priority" where
  "cemi_priority_of p =
     (if p = 0 then CemiSystem else if p = 1 then CemiNormal else if p = 2 then CemiUrgent
      else CemiLow)"

fun cemi_priority_bits :: "cemi_priority \<Rightarrow> u8" where
  "cemi_priority_bits CemiSystem = 0"
| "cemi_priority_bits CemiNormal = 1"
| "cemi_priority_bits CemiUrgent = 2"
| "cemi_priority_bits CemiLow = 3"

definition ControlField_from_flags :: "u16 \<Rightarrow> control_field" where
  "ControlField_from_flags flags =
     (let high_byte = ucast (drop_bit 8 flags) :: u8; low_byte = ucast flags :: u8 in
      \<lparr>cf_frame_type = (if high_byte AND 0x80 \<noteq> 0 then Standard else Extended),
       cf_repeat = (high_byte AND 0x20 = 0),
       cf_system_broadcast = (high_byte AND 0x10 = 0),
       cf_priority = cemi_priority_of (drop_bit 2 high_byte AND 0x03),
       cf_ack_request = (high_byte AND 0x02 \<noteq> 0),
       cf_confirm = (high_byte AND 0x01 \<noteq> 0),
       cf_destination_address_type = (if low_byte AND 0x80 \<noteq> 0 then GroupType else IndividualType),
       cf_hop_count = drop_bit 4 low_byte AND 0x07\<rparr>)"

definition ControlField_to_flags :: "control_field \<Rightarrow> u16" where
  "ControlField_to_flags c =
     (let high_byte =
            (if cf_frame_type c = Standard then 0x80 else 0)
            OR (if \<not> cf_repeat c then 0x20 else 0)
            OR (if \<not> cf_system_broadcast c then 0x10 else 0)
            OR push_bit 2 (cemi_priority_bits (cf_priority c))
            OR (if cf_ack_request c then 0x02 else 0)
            OR (if cf_confirm c then 0x01 else 0) :: u8;
          low_byte =
            (if cf_destination_address_type c = GroupType then 0x80 else 0)
            OR push_bit 4 (cf_hop_count c AND 0x07) :: u8
      in push_bit 8 (ucast high_byte) OR ucast low_byte)"

definition ExtendedControlField_from_u8 :: "u8 \<Rightarrow> extended_control_field" where
  "ExtendedControlField_from_u8 v =
     \<lparr>ecf_destination_address_type = (if v AND 0x80 \<noteq> 0 then GroupType else IndividualType),
      ecf_hop_count = drop_bit 4 v AND 0x07,
      ecf_extended_frame_format = v AND 0x0F\<rparr>"

definition ExtendedControlField_to_u8 :: "extended_control_field \<Rightarrow> u8" where
  "ExtendedControlField_to_u8 e =
     (if ecf_destination_address_type e = GroupType then 0x80 else 0)
     OR push_bit 4 (ecf_hop_count e AND 0x07)
     OR (ecf_extended_frame_format e AND 0x0F)"

definition AdditionalInfo_total_length :: "additional_info \<Rightarrow> nat" where
  "AdditionalInfo_total_length i = 2 + length (info_data i)"

function parse_additional_info ::
  "bytes \<Rightarrow> nat \<Rightarrow> nat \<Rightarrow> additional_info list \<Rightarrow> (additional_info list \<times> nat) result" where
  "parse_additional_info data offset info_end acc =
     (if offset < info_end then
        guard_res (offset + 1 \<ge> length data) (err_parse offset)
         (bind_res (idx data offset) (\<lambda>ty.
          bind_res (idx data (offset + 1)) (\<lambda>len.
          guard_res (offset + 2 + unat len > info_end) (err_parse (offset + 1))
           (bind_res (slice data (offset + 2) (offset + 2 + unat len)) (\<lambda>d.
            parse_additional_info data (offset + 2 + unat len) info_end
              (acc @ [\<lparr>info_type = ty, info_data = d\<rparr>]))))))
      else Ok (acc, offset))"
  by pat_completeness auto
termination
  by (relation "measure (\<lambda>(data, offset, info_end, acc). info_end - offset)") auto

declare parse_additional_info.simps [simp del]

text \<open>The destination address, read according to the address type of the control field.\<close>

definition parse_dest_addr :: "address_type \<Rightarrow> u16 \<Rightarrow> address result" where
  "parse_dest_addr ty dest_raw =
     (if ty = GroupType then
        bind_res (map_err (\<lambda>_. Protocol (InvalidAddress (show_hex4 dest_raw)))
                   (GroupAddress_try_from_raw dest_raw))
          (\<lambda>g. Ok (Group g))
      else Ok (Individual (IndividualAddress_from_raw dest_raw)))"

text \<open>\<open>CemiFrame::parse\<close> from the end of the additional information on.\<close>

definition parse_cemi_body ::
  "bytes \<Rightarrow> nat \<Rightarrow> message_code \<Rightarrow> additional_info list \<Rightarrow> cemi_frame result" where
  "parse_cemi_body data offset mc infos =
     guard_res (length data < offset + 7) (err_parse offset)
      (bind_res (idx data offset) (\<lambda>f0.
       bind_res (idx data (offset + 1)) (\<lambda>f1.
       let control0 = ControlField_from_flags (u16_from_be_bytes f0 f1); offset = offset + 2 in
       bind_res
        (if cf_frame_type control0 = Extended then
           guard_res (offset \<ge> length data) (err_parse offset)
            (bind_res (idx data offset) (\<lambda>b.
             let ext = ExtendedControlField_from_u8 b in
             Ok (control0\<lparr>cf_destination_address_type := ecf_destination_address_type ext,
                          cf_hop_count := ecf_hop_count ext\<rparr>,
                 Some ext, offset + 1)))
         else Ok (control0, None, offset)) (\<lambda>(control, ext, offset).
       guard_res (offset + 1 \<ge> length data) (err_parse offset)
        (bind_res (idx data offset) (\<lambda>s0.
         bind_res (idx data (offset + 1)) (\<lambda>s1.
         let source = IndividualAddress_from_raw (u16_from_be_bytes s0 s1); offset = offset + 2 in
         guard_res (offset + 1 \<ge> length data) (err_parse offset)
          (bind_res (idx data offset) (\<lambda>d0.
           bind_res (idx data (offset + 1)) (\<lambda>d1.
           bind_res (parse_dest_addr (cf_destination_address_type control)
                      (u16_from_be_bytes d0 d1)) (\<lambda>dest.
           let offset = offset + 2 in
           guard_res (offset \<ge> length data) (err_parse offset)
            (bind_res (idx data offset) (\<lambda>dl.
             let offset = offset + 1;
                 tpdu_length = (if dl = 0 then 0 else unat dl + 1) in
             guard_res (length data < offset + tpdu_length) (err_parse offset)
              (bind_res
                (if dl > 0 then
                   bind_res (idx data offset) (\<lambda>t.
                   bind_res (slice data (offset + 1) (offset + 1 + unat dl)) (\<lambda>a. Ok (t, a)))
                 else Ok (0, [])) (\<lambda>(t, a).
               Ok \<lparr>cm_message_code = mc, cm_additional_info = infos, cm_control_field = control,
                   cm_extended_control_field = ext, cm_source_addr = source, cm_dest_addr = dest,
                   cm_data_length = dl, cm_tpci = t, cm_apci_data = a\<rparr>)))))))))))))))"

definition CemiFrame_parse :: "bytes \<Rightarrow> cemi_frame result" where
  "CemiFrame_parse data =
     guard_res (data = []) (err_parse 0)
      (guard_res (length data < 2) (err_parse 0)
        (bind_res (bind_res (idx data 0) MessageCode_from_u8) (\<lambda>mc.
         bind_res (idx data 1) (\<lambda>b1.
         guard_res (length data < 2 + unat b1) (err_parse 1)
          (bind_res (parse_additional_info data 2 (2 + unat b1) []) (\<lambda>(infos, offset).
           parse_cemi_body data offset mc infos))))))"

definition info_bytes :: "additional_info \<Rightarrow> bytes" where
  "info_bytes i = [info_type i, as_u8 (length (info_data i))] @ info_data i"

definition CemiFrame_serialize :: "cemi_frame \<Rightarrow> bytes" where
  "CemiFrame_serialize f =
     (let additional_info_data = concat (map info_bytes (cm_additional_info f)) in
      [MessageCode_to_u8 (cm_message_code f), as_u8 (length additional_info_data)]
      @ additional_info_data
      @ u16_to_be_bytes (ControlField_to_flags (cm_control_field f))
      @ (case cm_extended_control_field f of
           Some e \<Rightarrow> [ExtendedControlField_to_u8 e] | None \<Rightarrow> [])
      @ u16_to_be_bytes (ia_raw (cm_source_addr f))
      @ (case cm_dest_addr f of
           Group a \<Rightarrow> u16_to_be_bytes (ga_raw a) | Individual a \<Rightarrow> u16_to_be_bytes (ia_raw a))
      @ [cm_data_length f]
      @ (if cm_data_length f > 0 then cm_tpci f # cm_apci_data f else []))"

definition CemiFrame_new ::
  "message_code \<Rightarrow> individual_address \<Rightarrow> address \<Rightarrow> bytes \<Rightarrow> cemi_frame" where
  "CemiFrame_new mc src dest data =
     \<lparr>cm_message_code = mc, cm_additional_info = [],
      cm_control_field =
        \<lparr>cf_frame_type = Standard, cf_repeat = False, cf_system_broadcast = False,
         cf_priority = CemiNormal, cf_ack_request = False, cf_confirm = False,
         cf_destination_address_type =
           (case dest of Group _ \<Rightarrow> GroupType | Individual _ \<Rightarrow> IndividualType),
         cf_hop_count = 6\<rparr>,
      cm_extended_control_field = None, cm_source_addr = src, cm_dest_addr = dest,
      cm_data_length = as_u8 (length data), cm_tpci = 0,
      cm_apci_data = (if data = [] then [] else data)\<rparr>"

section \<open>Fields\<close>

lemma MessageCode_from_to [simp, codec_simps]: "MessageCode_from_u8 (MessageCode_to_u8 m) = Ok m"
  by (cases m) (simp_all add: MessageCode_from_u8_def)

lemma MessageCode_from_no_panic [simp]: "MessageCode_from_u8 v \<noteq> Panic"
  by (simp add: MessageCode_from_u8_def)

lemma cemi_priority_roundtrip [simp]: "cemi_priority_of (cemi_priority_bits p) = p"
  by (cases p) (simp_all add: cemi_priority_of_def)

text \<open>One byte of the control field at a time.\<close>

definition control_high :: "control_field \<Rightarrow> u8" where
  "control_high c =
     (if cf_frame_type c = Standard then 0x80 else 0)
     OR (if \<not> cf_repeat c then 0x20 else 0)
     OR (if \<not> cf_system_broadcast c then 0x10 else 0)
     OR push_bit 2 (cemi_priority_bits (cf_priority c))
     OR (if cf_ack_request c then 0x02 else 0)
     OR (if cf_confirm c then 0x01 else 0)"

definition type_hop_byte :: "address_type \<Rightarrow> u8 \<Rightarrow> u8" where
  "type_hop_byte ty hop = (if ty = GroupType then 0x80 else 0) OR push_bit 4 (hop AND 0x07)"

lemma to_flags_bytes:
  "ControlField_to_flags c =
     u16_from_be_bytes (control_high c)
       (type_hop_byte (cf_destination_address_type c) (cf_hop_count c))"
  by (simp add: ControlField_to_flags_def control_high_def type_hop_byte_def u16_from_be_bytes_def
      Let_def)

lemma control_high_bits:
  "(control_high c AND 0x80 \<noteq> 0) = (cf_frame_type c = Standard)"
  "(control_high c AND 0x20 = 0) = cf_repeat c"
  "(control_high c AND 0x10 = 0) = cf_system_broadcast c"
  "drop_bit 2 (control_high c) AND 0x03 = cemi_priority_bits (cf_priority c)"
  "(control_high c AND 0x02 \<noteq> 0) = cf_ack_request c"
  "(control_high c AND 0x01 \<noteq> 0) = cf_confirm c"
  by (cases "cf_priority c"; cases "cf_frame_type c"; cases "cf_repeat c";
      cases "cf_system_broadcast c"; cases "cf_ack_request c"; cases "cf_confirm c";
      simp add: control_high_def)+

lemma type_hop_byte_bits:
  assumes "hop \<le> 7"
  shows "(type_hop_byte ty hop AND 0x80 \<noteq> 0) = (ty = GroupType)"
    and "drop_bit 4 (type_hop_byte ty hop) AND 0x07 = hop"
  using assms by (auto dest!: u8_le_7_cases simp: type_hop_byte_def)

lemma ControlField_from_to_flags:
  "cf_hop_count c \<le> 7 \<Longrightarrow> ControlField_from_flags (ControlField_to_flags c) = c"
  by (cases "cf_frame_type c"; cases "cf_destination_address_type c")
     (simp_all add: ControlField_from_flags_def to_flags_bytes control_high_bits type_hop_byte_bits)

lemma ext_byte:
  assumes "fmt \<le> 15" "hop \<le> 7"
  shows "((type_hop_byte ty hop OR (fmt AND 0x0F)) AND 0x80 \<noteq> 0) = (ty = GroupType)"
    and "drop_bit 4 (type_hop_byte ty hop OR (fmt AND 0x0F)) AND 0x07 = hop"
    and "(type_hop_byte ty hop OR (fmt AND 0x0F)) AND 0x0F = fmt"
  using assms
  by (auto dest!: u8_le_15_cases u8_le_7_cases simp: type_hop_byte_def bit.conj_disj_distrib2 and.assoc)

lemma ExtendedControlField_from_to:
  assumes "ecf_hop_count e \<le> 7" "ecf_extended_frame_format e \<le> 15"
  shows "ExtendedControlField_from_u8 (ExtendedControlField_to_u8 e) = e"
proof -
  have "ExtendedControlField_to_u8 e =
          type_hop_byte (ecf_destination_address_type e) (ecf_hop_count e)
          OR (ecf_extended_frame_format e AND 0x0F)"
    by (simp add: ExtendedControlField_to_u8_def type_hop_byte_def or.assoc)
  with assms show ?thesis
    by (cases "ecf_destination_address_type e")
       (simp_all add: ExtendedControlField_from_u8_def ext_byte type_hop_byte_bits)
qed

section \<open>Additional information\<close>

definition infos_length :: "additional_info list \<Rightarrow> nat" where
  "infos_length is = (\<Sum>i\<leftarrow>is. AdditionalInfo_total_length i)"

lemma infos_length_simps [simp]:
  "infos_length [] = 0"
  "infos_length (i # is) = 2 + length (info_data i) + infos_length is"
  "infos_length (is @ js) = infos_length is + infos_length js"
  by (simp_all add: infos_length_def AdditionalInfo_total_length_def)

lemma length_concat_info_bytes [simp]: "length (concat (map info_bytes is)) = infos_length is"
  by (induction "is") (simp_all add: info_bytes_def)

lemma parse_additional_info_step:
  assumes "length d < 256"
    and "length pre + 2 + length d \<le> e"
  shows "parse_additional_info (pre @ info_bytes \<lparr>info_type = ty, info_data = d\<rparr> @ rest) (length pre) e acc =
         parse_additional_info (pre @ info_bytes \<lparr>info_type = ty, info_data = d\<rparr> @ rest)
           (length pre + 2 + length d) e (acc @ [\<lparr>info_type = ty, info_data = d\<rparr>])"
  using assms
  by (subst parse_additional_info.simps) (simp add: info_bytes_def nth_append)

lemma parse_additional_info_append:
  assumes "e = length pre + infos_length is" "infos_length is < 256"
  shows "parse_additional_info (pre @ concat (map info_bytes is) @ rest) (length pre) e acc =
           Ok (acc @ is, e)"
  using assms
proof (induction "is" arbitrary: pre acc)
  case Nil
  then show ?case by (simp add: parse_additional_info.simps)
next
  case (Cons i "is")
  obtain ty d where i: "i = \<lparr>info_type = ty, info_data = d\<rparr>" by (cases i) auto
  have "parse_additional_info (pre @ concat (map info_bytes (i # is)) @ rest) (length pre) e acc =
        parse_additional_info ((pre @ info_bytes i) @ concat (map info_bytes is) @ rest)
          (length (pre @ info_bytes i)) e (acc @ [i])"
    using parse_additional_info_step [of d pre e ty "concat (map info_bytes is) @ rest" acc] Cons.prems i
    by (simp add: info_bytes_def)
  also have "\<dots> = Ok ((acc @ [i]) @ is, e)"
    using Cons.prems by (intro Cons.IH) (simp_all add: i info_bytes_def)
  finally show ?case by simp
qed

lemma parse_additional_info_no_panic:
  "info_end \<le> length data \<Longrightarrow> parse_additional_info data offset info_end acc \<noteq> Panic"
proof (induction data offset info_end acc rule: parse_additional_info.induct)
  case (1 data offset info_end acc)
  then show ?case
    by (subst parse_additional_info.simps) auto
qed

lemma parse_additional_info_ok:
  "\<lbrakk>parse_additional_info data offset info_end acc = Ok (is, o'); offset \<le> info_end\<rbrakk> \<Longrightarrow>
     o' = info_end \<and> infos_length is = infos_length acc + (info_end - offset)"
proof (induction data offset info_end acc rule: parse_additional_info.induct)
  case (1 data offset info_end acc)
  show ?case
  proof (cases "offset < info_end")
    case True
    let ?len = "unat (data ! Suc offset)"
    let ?next = "acc @ [\<lparr>info_type = data ! offset, info_data = take ?len (drop (offset + 2) data)\<rparr>]"
    have step: "offset + 2 + ?len \<le> info_end" "offset + 2 + ?len \<le> length data"
      "parse_additional_info data (offset + 2 + ?len) info_end ?next = Ok (is, o')"
      using "1.prems"(1) True by (auto simp: parse_additional_info.simps [of data offset])
    then show ?thesis
      using "1.IH" [of "data ! offset" "data ! Suc offset"] True by auto
  next
    case False
    with "1.prems" show ?thesis
      by (subst (asm) parse_additional_info.simps) simp
  qed
qed

section \<open>Frames\<close>

definition cemi_wf :: "cemi_frame \<Rightarrow> bool" where
  "cemi_wf f =
     (infos_length (cm_additional_info f) \<le> 255
      \<and> cf_hop_count (cm_control_field f) \<le> 7
      \<and> (case cm_extended_control_field f of
            None \<Rightarrow> cf_frame_type (cm_control_field f) = Standard
          | Some e \<Rightarrow> cf_frame_type (cm_control_field f) = Extended
              \<and> ecf_destination_address_type e = cf_destination_address_type (cm_control_field f)
              \<and> ecf_hop_count e = cf_hop_count (cm_control_field f)
              \<and> ecf_extended_frame_format e \<le> 15)
      \<and> (case cm_dest_addr f of
            Group g \<Rightarrow> cf_destination_address_type (cm_control_field f) = GroupType \<and> ga_valid g
          | Individual _ \<Rightarrow> cf_destination_address_type (cm_control_field f) = IndividualType)
      \<and> unat (cm_data_length f) = length (cm_apci_data f)
      \<and> (cm_data_length f = 0 \<longrightarrow> cm_tpci f = 0))"

definition dest_raw :: "address \<Rightarrow> u16" where
  "dest_raw a = (case a of Group g \<Rightarrow> ga_raw g | Individual i \<Rightarrow> ia_raw i)"

text \<open>The part of the serialised frame that follows the additional information.\<close>

definition body_bytes :: "cemi_frame \<Rightarrow> bytes" where
  "body_bytes f =
     [control_high (cm_control_field f),
      type_hop_byte (cf_destination_address_type (cm_control_field f))
        (cf_hop_count (cm_control_field f))]
     @ (case cm_extended_control_field f of
          Some e \<Rightarrow> [ExtendedControlField_to_u8 e] | None \<Rightarrow> [])
     @ u16_to_be_bytes (ia_raw (cm_source_addr f)) @ u16_to_be_bytes (dest_raw (cm_dest_addr f))
     @ [cm_data_length f] @ (if cm_data_length f > 0 then cm_tpci f # cm_apci_data f else [])"

lemma CemiFrame_serialize_split:
  "CemiFrame_serialize f =
     [MessageCode_to_u8 (cm_message_code f), as_u8 (infos_length (cm_additional_info f))]
     @ concat (map info_bytes (cm_additional_info f)) @ body_bytes f"
  by (simp add: CemiFrame_serialize_def body_bytes_def dest_raw_def to_flags_bytes Let_def
      split: address.splits)

lemma parse_dest_addr_ok:
  assumes "cemi_wf f"
  shows "parse_dest_addr (cf_destination_address_type (cm_control_field f))
           (dest_raw (cm_dest_addr f)) = Ok (cm_dest_addr f)"
  using assms
  by (auto simp: cemi_wf_def parse_dest_addr_def dest_raw_def GroupAddress_try_from_raw_def
      IndividualAddress_from_raw_def ga_valid_def split: address.splits)

lemma from_flags_wf:
  "cf_hop_count c \<le> 7 \<Longrightarrow>
     ControlField_from_flags (u16_from_be_bytes (control_high c)
       (type_hop_byte (cf_destination_address_type c) (cf_hop_count c))) = c"
  using ControlField_from_to_flags [of c] by (simp add: to_flags_bytes)

lemma parse_cemi_body_bytes:
  assumes wf: "cemi_wf f"
  shows "parse_cemi_body (pre @ body_bytes f @ rest) (length pre) (cm_message_code f)
           (cm_additional_info f) = Ok f"
proof (cases "cm_extended_control_field f")
  case None
  with wf show ?thesis
    using parse_dest_addr_ok [OF wf]
    by (cases f) (auto simp: parse_cemi_body_def body_bytes_def from_flags_wf cemi_wf_def nth_append
      u16_to_be_bytes_def IndividualAddress_from_raw_def word_gt_0 Let_def)
next
  case (Some e)
  with wf show ?thesis
    using parse_dest_addr_ok [OF wf] ExtendedControlField_from_to [of e]
    by (cases f) (auto simp: parse_cemi_body_def body_bytes_def from_flags_wf cemi_wf_def nth_append
      u16_to_be_bytes_def IndividualAddress_from_raw_def word_gt_0 Let_def)
qed

lemma CemiFrame_parse_serialize:
  assumes wf: "cemi_wf f"
  shows "CemiFrame_parse (CemiFrame_serialize f @ rest) = Ok f"
proof -
  let ?hdr = "[MessageCode_to_u8 (cm_message_code f), as_u8 (infos_length (cm_additional_info f))]"
  let ?infos = "concat (map info_bytes (cm_additional_info f))"
  have len: "infos_length (cm_additional_info f) < 256"
    using wf by (simp add: cemi_wf_def)
  have loop: "parse_additional_info (?hdr @ ?infos @ body_bytes f @ rest) 2
      (2 + infos_length (cm_additional_info f)) [] =
      Ok (cm_additional_info f, 2 + infos_length (cm_additional_info f))"
    using parse_additional_info_append [of _ ?hdr "cm_additional_info f" "body_bytes f @ rest" "[]"] len
    by (simp add: numeral_2_eq_2)
  have body: "parse_cemi_body (?hdr @ ?infos @ body_bytes f @ rest)
      (2 + infos_length (cm_additional_info f)) (cm_message_code f) (cm_additional_info f) = Ok f"
    using parse_cemi_body_bytes [OF wf, of "?hdr @ ?infos" rest] by simp
  show ?thesis
    using loop body len by (simp add: CemiFrame_parse_def CemiFrame_serialize_split)
qed

lemma parse_cemi_body_no_panic: "parse_cemi_body data offset mc infos \<noteq> Panic"
  by (auto simp: parse_cemi_body_def parse_dest_addr_def GroupAddress_try_from_raw_def Let_def
      split: if_splits)

lemma CemiFrame_parse_no_panic: "CemiFrame_parse data \<noteq> Panic"
  using parse_additional_info_no_panic [of "2 + unat (data ! 1)" data 2 "[]"]
  by (auto simp: CemiFrame_parse_def parse_cemi_body_no_panic Suc_le_eq)

lemma from_flags_hop [simp]:
  "cf_hop_count (ControlField_from_flags w) \<le> 7"
  "ecf_hop_count (ExtendedControlField_from_u8 b) \<le> 7"
  "ecf_extended_frame_format (ExtendedControlField_from_u8 b) \<le> 15"
  by (simp_all add: ControlField_from_flags_def ExtendedControlField_from_u8_def Let_def codec_simps)

lemma parse_dest_addr_wf:
  "parse_dest_addr ty raw = Ok a \<Longrightarrow>
     (case a of Group g \<Rightarrow> ty = GroupType \<and> ga_valid g | Individual _ \<Rightarrow> ty = IndividualType)"
  by (cases ty)
     (auto simp: parse_dest_addr_def GroupAddress_try_from_raw_def ga_valid_def split: if_splits)

lemma neq_Extended [simp]: "t \<noteq> Extended \<longleftrightarrow> t = Standard"
  by (cases t) auto

lemma parse_cemi_body_wf:
  assumes "parse_cemi_body data offset mc infos = Ok f" "infos_length infos \<le> 255"
  shows "cemi_wf f"
proof (cases "cf_frame_type (ControlField_from_flags (u16_from_be_bytes (data ! offset) (data ! Suc offset)))")
  case Extended
  with assms show ?thesis
    by (clarsimp simp: parse_cemi_body_def Let_def)
       (drule parse_dest_addr_wf, auto simp: cemi_wf_def word_gt_0 split: if_splits address.splits)
next
  case Standard
  with assms show ?thesis
    by (clarsimp simp: parse_cemi_body_def Let_def)
       (drule parse_dest_addr_wf, auto simp: cemi_wf_def word_gt_0 split: if_splits address.splits)
qed

lemma CemiFrame_parse_wf:
  assumes "CemiFrame_parse data = Ok f"
  shows "cemi_wf f"
  using assms
  by (auto simp: CemiFrame_parse_def dest!: parse_additional_info_ok parse_cemi_body_wf)

lemma CemiFrame_new_wf:
  "\<lbrakk>length data \<le> 255; address_valid dest\<rbrakk> \<Longrightarrow> cemi_wf (CemiFrame_new mc src dest data)"
  by (auto simp: cemi_wf_def CemiFrame_new_def address_valid_def split: address.splits)

interpretation cemi: prefix_format CemiFrame_serialize CemiFrame_parse cemi_wf
  by (rule prefix_formatI)
     (auto simp: CemiFrame_parse_serialize CemiFrame_parse_no_panic dest: CemiFrame_parse_wf)

section \<open>Properties\<close>

text \<open>
  C3: CEMI frames survive the wire.  Serializing a well-formed frame and parsing the bytes, with
  anything behind them, gives the same frame: message code, additional information, control fields,
  addresses, TPCI and data.
\<close>

theorem cemi_roundtrip:
  assumes "cemi_wf f"
  shows "CemiFrame_parse (CemiFrame_serialize f @ rest) = Ok f"
  using assms by (rule CemiFrame_parse_serialize)

theorem cemi_roundtrip_witness:
  "CemiFrame_parse (CemiFrame_serialize (CemiFrame_new LDataReq (IndividualAddress 0x1101)
       (Group (GroupAddress 0x0A03)) [0x81]) @ [0xAA, 0xBB]) =
   Ok (CemiFrame_new LDataReq (IndividualAddress 0x1101) (Group (GroupAddress 0x0A03)) [0x81])"
  by (rule cemi_roundtrip) (simp add: cemi_wf_def CemiFrame_new_def ga_valid_def)

text \<open>
  Parsing CEMI is safe and canonical.  No byte string makes the parser panic, although it indexes
  and slices throughout; whatever it accepts is well-formed, and a frame can be the result of parsing
  exactly when it is well-formed.
\<close>

lemma cemi_parse_safe:
  "CemiFrame_parse bs \<noteq> Panic \<and> ((\<exists>data. CemiFrame_parse data = Ok f) \<longleftrightarrow> cemi_wf f)"
  using cemi.carried_iff [of f] CemiFrame_parse_no_panic by blast

text \<open>
  Control field bits.  Writing a control field as its two bytes and reading them again gives the
  same field exactly when the hop count fits its three bits; the hop count is the only component
  that can be lost.
\<close>

lemma control_field_roundtrip:
  "ControlField_from_flags (ControlField_to_flags c) = c \<longleftrightarrow> cf_hop_count c \<le> 7"
  using ControlField_from_to_flags [of c] from_flags_hop(1) [of "ControlField_to_flags c"] by metis

end
