(* ===== verification/Knxip_Messages.thy ===== *)
theory Knxip_Messages
  imports Knxip Address
begin

text \<open>
  The bodies of KNX/IP messages, \<open>src/protocol/knxip.rs\<close> lines 178--609 and 665--1215: host
  address information, connection requests and responses, session handshake messages, connection
  state, disconnect and tunnelling messages.  Fixed-size arrays are lists whose length is part of
  the format's \<open>fits\<close> predicate.

  Shown: each message type meets the \<open>wire_format\<close> contract.  What does \<^emph>\<open>not\<close> fit is stated too:
  a connection request that asks for a specific address is serialised in a form that the parser
  rejects.
\<close>

section \<open>HPAI\<close>

datatype ip_addr = V4 u8 u8 u8 u8 | V6 "128 word"

type_synonym socket_addr = "ip_addr \<times> u16"

record hpai =
  hp_host_protocol_code :: u8
  hp_ip_addr :: ip_addr
  hp_port :: u16

definition Hpai_new :: "socket_addr \<Rightarrow> hpai" where
  "Hpai_new addr = \<lparr>hp_host_protocol_code = 0x01, hp_ip_addr = fst addr, hp_port = snd addr\<rparr>"

definition Hpai_route_back :: hpai where
  "Hpai_route_back = \<lparr>hp_host_protocol_code = 0x01, hp_ip_addr = V4 0 0 0 0, hp_port = 0\<rparr>"

definition Hpai_new_tcp_route_back :: hpai where
  "Hpai_new_tcp_route_back = \<lparr>hp_host_protocol_code = 0x02, hp_ip_addr = V4 0 0 0 0, hp_port = 0\<rparr>"

definition Hpai_parse :: "bytes \<Rightarrow> hpai result" where
  "Hpai_parse data =
     guard_res (length data < 8) (err_parse 0)
      (bind_res (idx data 0) (\<lambda>structure_length.
       bind_res (idx data 1) (\<lambda>code.
       bind_res (idx data 2) (\<lambda>a. bind_res (idx data 3) (\<lambda>b.
       bind_res (idx data 4) (\<lambda>c. bind_res (idx data 5) (\<lambda>d.
       bind_res (idx data 6) (\<lambda>p0. bind_res (idx data 7) (\<lambda>p1.
       guard_res (structure_length \<noteq> 8) (err_parse 0)
        (Ok \<lparr>hp_host_protocol_code = code, hp_ip_addr = V4 a b c d,
             hp_port = u16_from_be_bytes p0 p1\<rparr>))))))))))"

definition Hpai_serialize :: "hpai \<Rightarrow> bytes" where
  "Hpai_serialize h =
     [8, hp_host_protocol_code h]
     @ (case hp_ip_addr h of V4 a b c d \<Rightarrow> [a, b, c, d] | V6 _ \<Rightarrow> [0, 0, 0, 0])
     @ u16_to_be_bytes (hp_port h)"

definition Hpai_socket_addr :: "hpai \<Rightarrow> socket_addr" where
  "Hpai_socket_addr h = (hp_ip_addr h, hp_port h)"

section \<open>Connection set-up\<close>

record connection_request_info =
  cri_connection_type :: u8
  cri_knx_layer :: u8
  cri_reserved :: u8
  cri_individual_address :: "individual_address option"

definition ConnectionRequestInfo_new_tunnel :: connection_request_info where
  "ConnectionRequestInfo_new_tunnel =
     \<lparr>cri_connection_type = 0x04, cri_knx_layer = 0x02, cri_reserved = 0,
      cri_individual_address = None\<rparr>"

definition ConnectionRequestInfo_parse :: "bytes \<Rightarrow> connection_request_info result" where
  "ConnectionRequestInfo_parse data =
     guard_res (length data < 4) (err_parse 0)
      (bind_res (idx data 0) (\<lambda>structure_length.
       bind_res (idx data 1) (\<lambda>connection_type.
       bind_res (idx data 2) (\<lambda>layer.
       bind_res (idx data 3) (\<lambda>reserved.
       guard_res (structure_length \<noteq> 4) (err_parse 0)
        (Ok \<lparr>cri_connection_type = connection_type, cri_knx_layer = layer,
             cri_reserved = reserved, cri_individual_address = None\<rparr>))))))"

definition ConnectionRequestInfo_serialize :: "connection_request_info \<Rightarrow> bytes" where
  "ConnectionRequestInfo_serialize c =
     (case cri_individual_address c of
        Some addr \<Rightarrow>
          [6, cri_connection_type c, cri_knx_layer c, cri_reserved c] @ u16_to_be_bytes (ia_raw addr)
      | None \<Rightarrow> [4, cri_connection_type c, cri_knx_layer c, cri_reserved c])"

record connect_request =
  creq_control_endpoint :: hpai
  creq_data_endpoint :: hpai
  creq_cri :: connection_request_info

definition ConnectRequest_new :: "socket_addr \<Rightarrow> socket_addr \<Rightarrow> connect_request" where
  "ConnectRequest_new control_addr data_addr =
     \<lparr>creq_control_endpoint = Hpai_new control_addr, creq_data_endpoint = Hpai_new data_addr,
      creq_cri = ConnectionRequestInfo_new_tunnel\<rparr>"

definition ConnectRequest_new_tcp_route_back :: connect_request where
  "ConnectRequest_new_tcp_route_back =
     \<lparr>creq_control_endpoint = Hpai_new_tcp_route_back,
      creq_data_endpoint = Hpai_new_tcp_route_back, creq_cri = ConnectionRequestInfo_new_tunnel\<rparr>"

definition ConnectRequest_new_route_back :: connect_request where
  "ConnectRequest_new_route_back =
     \<lparr>creq_control_endpoint = Hpai_route_back, creq_data_endpoint = Hpai_route_back,
      creq_cri = ConnectionRequestInfo_new_tunnel\<rparr>"

definition ConnectRequest_parse :: "bytes \<Rightarrow> connect_request result" where
  "ConnectRequest_parse data =
     bind_res (bind_res (slice_from data 0) Hpai_parse) (\<lambda>control.
     bind_res (bind_res (slice_from data 8) Hpai_parse) (\<lambda>dat.
     bind_res (bind_res (slice_from data 16) ConnectionRequestInfo_parse) (\<lambda>cri.
     Ok \<lparr>creq_control_endpoint = control, creq_data_endpoint = dat, creq_cri = cri\<rparr>)))"

definition ConnectRequest_serialize :: "connect_request \<Rightarrow> bytes" where
  "ConnectRequest_serialize r =
     Hpai_serialize (creq_control_endpoint r) @ Hpai_serialize (creq_data_endpoint r)
     @ ConnectionRequestInfo_serialize (creq_cri r)"

record connect_response =
  cresp_channel_id :: u8
  cresp_status :: u8
  cresp_data_endpoint :: hpai
  cresp_crd :: bytes
  cresp_assigned_address :: "individual_address option"

definition parse_assigned_address :: "bytes \<Rightarrow> individual_address option result" where
  "parse_assigned_address crd =
     (if length crd \<ge> 4 then
        bind_res (idx crd 1) (\<lambda>t.
        if t = 0x04 then
          bind_res (idx crd 2) (\<lambda>a. bind_res (idx crd 3) (\<lambda>b.
          Ok (Some (IndividualAddress_from_raw (u16_from_be_bytes a b)))))
        else Ok None)
      else Ok None)"

definition ConnectResponse_parse :: "bytes \<Rightarrow> connect_response result" where
  "ConnectResponse_parse data =
     guard_res (length data < 2) (err_parse 0)
      (bind_res (idx data 0) (\<lambda>channel.
       bind_res (idx data 1) (\<lambda>status.
       bind_res
        (if status = 0 then
           (if length data > 2 then
              bind_res (bind_res (slice_from data 2) Hpai_parse) (\<lambda>hpai.
              bind_res (if length data > 10 then slice_from data 10 else Ok []) (\<lambda>crd.
              Ok (hpai, crd)))
            else Err (err_parse 2))
         else Ok (\<lparr>hp_host_protocol_code = 0x01, hp_ip_addr = V4 0 0 0 0, hp_port = 0\<rparr>, []))
        (\<lambda>(ep, crd).
         bind_res (parse_assigned_address crd) (\<lambda>assigned.
         Ok \<lparr>cresp_channel_id = channel, cresp_status = status, cresp_data_endpoint = ep,
             cresp_crd = crd, cresp_assigned_address = assigned\<rparr>)))))"

definition ConnectResponse_serialize :: "connect_response \<Rightarrow> bytes" where
  "ConnectResponse_serialize r =
     [cresp_channel_id r, cresp_status r] @ Hpai_serialize (cresp_data_endpoint r) @ cresp_crd r"

definition ConnectResponse_is_success :: "connect_response \<Rightarrow> bool" where
  "ConnectResponse_is_success r = (cresp_status r = 0)"

fun status_description :: "u8 \<Rightarrow> string" where
  "status_description s =
     (if s = 0x00 then ''OK''
      else if s = 0x01 then ''Host protocol type not supported''
      else if s = 0x02 then ''Version not supported''
      else if s = 0x04 then ''Sequence number error''
      else if s = 0x0F then ''General error''
      else if s = 0x21 then ''Connection ID error''
      else if s = 0x22 then ''Connection type not supported''
      else if s = 0x23 then ''Connection option not supported''
      else if s = 0x24 then ''No more connections available''
      else if s = 0x25 then ''No more unique connections available''
      else if s = 0x26 then ''Data connection error''
      else if s = 0x27 then ''KNX connection error''
      else if s = 0x28 then ''Authorization error''
      else if s = 0x29 then ''Tunnelling layer not supported''
      else if s = 0x2D then ''No tunnelling address available''
      else if s = 0x2E then ''Connection address already in use''
      else ''Unknown error'')"

declare status_description.simps [simp del]

section \<open>Session handshake\<close>

record session_request =
  sreq_control_endpoint :: hpai
  sreq_public_key :: bytes

definition SessionRequest_parse :: "bytes \<Rightarrow> session_request result" where
  "SessionRequest_parse data =
     guard_res (length data < 40) (err_parse 0)
      (bind_res (Hpai_parse data) (\<lambda>control.
       bind_res (slice data 8 40) (\<lambda>key.
       Ok \<lparr>sreq_control_endpoint = control, sreq_public_key = key\<rparr>)))"

definition SessionRequest_serialize :: "session_request \<Rightarrow> bytes" where
  "SessionRequest_serialize r = Hpai_serialize (sreq_control_endpoint r) @ sreq_public_key r"

record session_response =
  sresp_session_id :: u16
  sresp_public_key :: bytes
  sresp_mac :: bytes

definition SessionResponse_parse :: "bytes \<Rightarrow> session_response result" where
  "SessionResponse_parse data =
     guard_res (length data < 50) (err_parse 0)
      (bind_res (idx data 0) (\<lambda>s0. bind_res (idx data 1) (\<lambda>s1.
       bind_res (slice data 2 34) (\<lambda>key.
       bind_res (slice data 34 50) (\<lambda>mac.
       Ok \<lparr>sresp_session_id = u16_from_be_bytes s0 s1, sresp_public_key = key,
           sresp_mac = mac\<rparr>)))))"

definition SessionResponse_serialize :: "session_response \<Rightarrow> bytes" where
  "SessionResponse_serialize r =
     u16_to_be_bytes (sresp_session_id r) @ sresp_public_key r @ sresp_mac r"

record session_authenticate =
  sauth_user_id :: u8
  sauth_mac :: bytes

definition SessionAuthenticate_parse :: "bytes \<Rightarrow> session_authenticate result" where
  "SessionAuthenticate_parse data =
     guard_res (length data < 18) (err_parse 0)
      (bind_res (idx data 1) (\<lambda>user.
       bind_res (slice data 2 18) (\<lambda>mac.
       Ok \<lparr>sauth_user_id = user, sauth_mac = mac\<rparr>)))"

definition SessionAuthenticate_serialize :: "session_authenticate \<Rightarrow> bytes" where
  "SessionAuthenticate_serialize r = [0x00, sauth_user_id r] @ sauth_mac r"

record session_status =
  sstat_status :: u8

definition SessionStatus_parse :: "bytes \<Rightarrow> session_status result" where
  "SessionStatus_parse data =
     guard_res (length data < 2) (err_parse 0)
      (bind_res (idx data 1) (\<lambda>s. Ok \<lparr>sstat_status = s\<rparr>))"

definition SessionStatus_serialize :: "session_status \<Rightarrow> bytes" where
  "SessionStatus_serialize s = [0x00, sstat_status s]"

section \<open>Connection state and disconnect\<close>

record connectionstate_request =
  csreq_channel_id :: u8
  csreq_control_endpoint :: hpai

definition ConnectionstateRequest_parse :: "bytes \<Rightarrow> connectionstate_request result" where
  "ConnectionstateRequest_parse data =
     guard_res (length data < 10) (err_parse 0)
      (bind_res (idx data 0) (\<lambda>channel.
       bind_res (bind_res (slice_from data 2) Hpai_parse) (\<lambda>control.
       Ok \<lparr>csreq_channel_id = channel, csreq_control_endpoint = control\<rparr>)))"

definition ConnectionstateRequest_serialize :: "connectionstate_request \<Rightarrow> bytes" where
  "ConnectionstateRequest_serialize r =
     [csreq_channel_id r, 0x00] @ Hpai_serialize (csreq_control_endpoint r)"

record connectionstate_response =
  csresp_channel_id :: u8
  csresp_status :: u8

definition ConnectionstateResponse_parse :: "bytes \<Rightarrow> connectionstate_response result" where
  "ConnectionstateResponse_parse data =
     guard_res (length data < 2) (err_parse 0)
      (bind_res (idx data 0) (\<lambda>channel.
       bind_res (idx data 1) (\<lambda>status.
       Ok \<lparr>csresp_channel_id = channel, csresp_status = status\<rparr>)))"

definition ConnectionstateResponse_serialize :: "connectionstate_response \<Rightarrow> bytes" where
  "ConnectionstateResponse_serialize r = [csresp_channel_id r, csresp_status r]"

record disconnect_request =
  dreq_channel_id :: u8
  dreq_control_endpoint :: hpai

definition DisconnectRequest_parse :: "bytes \<Rightarrow> disconnect_request result" where
  "DisconnectRequest_parse data =
     guard_res (length data < 10) (err_parse 0)
      (bind_res (idx data 0) (\<lambda>channel.
       bind_res (bind_res (slice_from data 2) Hpai_parse) (\<lambda>control.
       Ok \<lparr>dreq_channel_id = channel, dreq_control_endpoint = control\<rparr>)))"

definition DisconnectRequest_serialize :: "disconnect_request \<Rightarrow> bytes" where
  "DisconnectRequest_serialize r =
     [dreq_channel_id r, 0x00] @ Hpai_serialize (dreq_control_endpoint r)"

record disconnect_response =
  dresp_channel_id :: u8
  dresp_status :: u8

definition DisconnectResponse_parse :: "bytes \<Rightarrow> disconnect_response result" where
  "DisconnectResponse_parse data =
     guard_res (length data < 2) (err_parse 0)
      (bind_res (idx data 0) (\<lambda>channel.
       bind_res (idx data 1) (\<lambda>status.
       Ok \<lparr>dresp_channel_id = channel, dresp_status = status\<rparr>)))"

definition DisconnectResponse_serialize :: "disconnect_response \<Rightarrow> bytes" where
  "DisconnectResponse_serialize r = [dresp_channel_id r, dresp_status r]"

section \<open>Tunnelling\<close>

record tunnelling_request =
  treq_channel_id :: u8
  treq_sequence_counter :: u8
  treq_raw_cemi :: bytes

definition TunnellingRequest_new :: "u8 \<Rightarrow> u8 \<Rightarrow> bytes \<Rightarrow> tunnelling_request" where
  "TunnellingRequest_new channel sequence raw =
     \<lparr>treq_channel_id = channel, treq_sequence_counter = sequence, treq_raw_cemi = raw\<rparr>"

definition TunnellingRequest_parse :: "bytes \<Rightarrow> tunnelling_request result" where
  "TunnellingRequest_parse data =
     guard_res (length data < 4) (err_parse 0)
      (bind_res (idx data 0) (\<lambda>structure_length.
       guard_res (structure_length \<noteq> 4) (err_parse 0)
        (bind_res (idx data 1) (\<lambda>channel.
         bind_res (idx data 2) (\<lambda>sequence.
         bind_res (slice_from data 4) (\<lambda>raw.
         Ok \<lparr>treq_channel_id = channel, treq_sequence_counter = sequence,
             treq_raw_cemi = raw\<rparr>))))))"

definition TunnellingRequest_serialize :: "tunnelling_request \<Rightarrow> bytes" where
  "TunnellingRequest_serialize r =
     [4, treq_channel_id r, treq_sequence_counter r, 0x00] @ treq_raw_cemi r"

record tunnelling_ack =
  tack_channel_id :: u8
  tack_sequence_counter :: u8
  tack_status_code :: u8

definition TunnellingAck_new :: "u8 \<Rightarrow> u8 \<Rightarrow> u8 \<Rightarrow> tunnelling_ack" where
  "TunnellingAck_new channel sequence status =
     \<lparr>tack_channel_id = channel, tack_sequence_counter = sequence, tack_status_code = status\<rparr>"

definition TunnellingAck_new_ok :: "u8 \<Rightarrow> u8 \<Rightarrow> tunnelling_ack" where
  "TunnellingAck_new_ok channel sequence = TunnellingAck_new channel sequence 0x00"

definition TunnellingAck_new_sequence_error :: "u8 \<Rightarrow> u8 \<Rightarrow> tunnelling_ack" where
  "TunnellingAck_new_sequence_error channel sequence = TunnellingAck_new channel sequence 0x04"

definition TunnellingAck_parse :: "bytes \<Rightarrow> tunnelling_ack result" where
  "TunnellingAck_parse data =
     guard_res (length data < 4) (err_parse 0)
      (bind_res (idx data 0) (\<lambda>structure_length.
       guard_res (structure_length \<noteq> 4) (err_parse 0)
        (bind_res (idx data 1) (\<lambda>channel.
         bind_res (idx data 2) (\<lambda>sequence.
         bind_res (idx data 3) (\<lambda>status.
         Ok \<lparr>tack_channel_id = channel, tack_sequence_counter = sequence,
             tack_status_code = status\<rparr>))))))"

definition TunnellingAck_serialize :: "tunnelling_ack \<Rightarrow> bytes" where
  "TunnellingAck_serialize a =
     [4, tack_channel_id a, tack_sequence_counter a, tack_status_code a]"

definition TunnellingAck_is_success :: "tunnelling_ack \<Rightarrow> bool" where
  "TunnellingAck_is_success a = (tack_status_code a = 0x00)"

section \<open>Formats\<close>

text \<open>What each format can carry.\<close>

definition hpai_fits :: "hpai \<Rightarrow> bool" where
  "hpai_fits h = (case hp_ip_addr h of V4 _ _ _ _ \<Rightarrow> True | V6 _ \<Rightarrow> False)"

definition cri_fits :: "connection_request_info \<Rightarrow> bool" where
  "cri_fits c = (cri_individual_address c = None)"

definition connect_request_fits :: "connect_request \<Rightarrow> bool" where
  "connect_request_fits r =
     (hpai_fits (creq_control_endpoint r) \<and> hpai_fits (creq_data_endpoint r) \<and> cri_fits (creq_cri r))"

definition connect_response_fits :: "connect_response \<Rightarrow> bool" where
  "connect_response_fits r =
     (if cresp_status r = 0
      then hpai_fits (cresp_data_endpoint r)
        \<and> parse_assigned_address (cresp_crd r) = Ok (cresp_assigned_address r)
      else cresp_data_endpoint r = Hpai_route_back \<and> cresp_crd r = []
        \<and> cresp_assigned_address r = None)"

definition session_request_fits :: "session_request \<Rightarrow> bool" where
  "session_request_fits r =
     (hpai_fits (sreq_control_endpoint r) \<and> length (sreq_public_key r) = 32)"

definition session_response_fits :: "session_response \<Rightarrow> bool" where
  "session_response_fits r = (length (sresp_public_key r) = 32 \<and> length (sresp_mac r) = 16)"

definition session_authenticate_fits :: "session_authenticate \<Rightarrow> bool" where
  "session_authenticate_fits r = (length (sauth_mac r) = 16)"

lemma length_Hpai [simp]: "length (Hpai_serialize h) = 8"
  by (simp add: Hpai_serialize_def split: ip_addr.splits)

lemma Hpai_parse_serialize: "hpai_fits h \<Longrightarrow> Hpai_parse (Hpai_serialize h @ rest) = Ok h"
  by (cases h) (auto simp: Hpai_parse_def Hpai_serialize_def hpai_fits_def u16_to_be_bytes_def
      split: ip_addr.splits)

lemma Hpai_parse_fits: "Hpai_parse bs = Ok h \<Longrightarrow> hpai_fits h"
  by (auto simp: Hpai_parse_def hpai_fits_def)

lemma Hpai_parse_no_panic [simp]: "Hpai_parse bs \<noteq> Panic"
  by (auto simp: Hpai_parse_def)

lemma Hpai_parse_length: "Hpai_parse bs = Ok h \<Longrightarrow> 8 \<le> length bs"
  by (simp add: Hpai_parse_def)

interpretation hpai: prefix_format Hpai_serialize Hpai_parse hpai_fits
  by (rule prefix_formatI) (auto simp: Hpai_parse_serialize dest: Hpai_parse_fits)

lemma Hpai_parse_serialize_end [simp]: "hpai_fits h \<Longrightarrow> Hpai_parse (Hpai_serialize h) = Ok h"
  by (rule hpai.parse_ser)

interpretation cri: prefix_format ConnectionRequestInfo_serialize ConnectionRequestInfo_parse cri_fits
  by (rule prefix_formatI)
     (auto simp: ConnectionRequestInfo_parse_def ConnectionRequestInfo_serialize_def cri_fits_def)

interpretation connect_request:
  prefix_format ConnectRequest_serialize ConnectRequest_parse connect_request_fits
  by (rule prefix_formatI)
     (auto simp: ConnectRequest_parse_def ConnectRequest_serialize_def connect_request_fits_def
       Hpai_parse_serialize cri.parse_ser_append cri.parse_no_panic
       dest: Hpai_parse_fits cri.parse_fits Hpai_parse_length)

lemma parse_assigned_address_no_panic [simp]: "parse_assigned_address crd \<noteq> Panic"
  by (auto simp: parse_assigned_address_def split: if_splits)

lemma parse_assigned_address_Nil [simp]: "parse_assigned_address [] = Ok None"
  by (simp add: parse_assigned_address_def)

interpretation connect_response:
  wire_format ConnectResponse_serialize ConnectResponse_parse connect_response_fits
proof
  fix r :: connect_response and bs
  show "connect_response_fits r \<Longrightarrow> ConnectResponse_parse (ConnectResponse_serialize r) = Ok r"
    by (cases r) (auto simp: ConnectResponse_parse_def ConnectResponse_serialize_def
        connect_response_fits_def Hpai_route_back_def Hpai_parse_serialize split: if_splits)
  show "ConnectResponse_parse bs = Ok r \<Longrightarrow> connect_response_fits r"
    by (auto simp: ConnectResponse_parse_def connect_response_fits_def Hpai_route_back_def
        split: if_splits dest: Hpai_parse_fits)
  show "ConnectResponse_parse bs \<noteq> Panic"
    by (auto simp: ConnectResponse_parse_def split: if_splits dest!: Hpai_parse_length)
qed

interpretation session_request:
  prefix_format SessionRequest_serialize SessionRequest_parse session_request_fits
  by (rule prefix_formatI)
     (auto simp: SessionRequest_parse_def SessionRequest_serialize_def session_request_fits_def
       Hpai_parse_serialize dest: Hpai_parse_fits)

interpretation session_response:
  prefix_format SessionResponse_serialize SessionResponse_parse session_response_fits
  by (rule prefix_formatI)
     (auto simp: SessionResponse_parse_def SessionResponse_serialize_def session_response_fits_def
       u16_to_be_bytes_def)

interpretation session_authenticate:
  prefix_format SessionAuthenticate_serialize SessionAuthenticate_parse session_authenticate_fits
  by (rule prefix_formatI)
     (auto simp: SessionAuthenticate_parse_def SessionAuthenticate_serialize_def
       session_authenticate_fits_def)

interpretation session_status:
  prefix_format SessionStatus_serialize SessionStatus_parse "\<lambda>_. True"
  by (rule prefix_formatI) (auto simp: SessionStatus_parse_def SessionStatus_serialize_def)

interpretation connectionstate_request:
  prefix_format ConnectionstateRequest_serialize ConnectionstateRequest_parse
    "\<lambda>r. hpai_fits (csreq_control_endpoint r)"
  by (rule prefix_formatI)
     (auto simp: ConnectionstateRequest_parse_def ConnectionstateRequest_serialize_def
       Hpai_parse_serialize dest: Hpai_parse_fits)

interpretation connectionstate_response:
  prefix_format ConnectionstateResponse_serialize ConnectionstateResponse_parse "\<lambda>_. True"
  by (rule prefix_formatI)
     (auto simp: ConnectionstateResponse_parse_def ConnectionstateResponse_serialize_def)

interpretation disconnect_request:
  prefix_format DisconnectRequest_serialize DisconnectRequest_parse
    "\<lambda>r. hpai_fits (dreq_control_endpoint r)"
  by (rule prefix_formatI)
     (auto simp: DisconnectRequest_parse_def DisconnectRequest_serialize_def
       Hpai_parse_serialize dest: Hpai_parse_fits)

interpretation disconnect_response:
  prefix_format DisconnectResponse_serialize DisconnectResponse_parse "\<lambda>_. True"
  by (rule prefix_formatI)
     (auto simp: DisconnectResponse_parse_def DisconnectResponse_serialize_def)

interpretation tunnelling_request:
  wire_format TunnellingRequest_serialize TunnellingRequest_parse "\<lambda>_. True"
  by unfold_locales (auto simp: TunnellingRequest_parse_def TunnellingRequest_serialize_def)

interpretation tunnelling_ack:
  prefix_format TunnellingAck_serialize TunnellingAck_parse "\<lambda>_. True"
  by (rule prefix_formatI) (auto simp: TunnellingAck_parse_def TunnellingAck_serialize_def)

lemma TunnellingRequest_new_fields [simp]:
  "treq_channel_id (TunnellingRequest_new ch n raw) = ch"
  "treq_sequence_counter (TunnellingRequest_new ch n raw) = n"
  "treq_raw_cemi (TunnellingRequest_new ch n raw) = raw"
  by (simp_all add: TunnellingRequest_new_def)

section \<open>Properties\<close>

text \<open>
  Tunnelling messages.  Every tunnelling request (any channel, counter and CEMI bytes) and every
  acknowledgement is recovered from its body bytes, and no bytes make their parsers panic.
\<close>

lemma tunnelling_messages_roundtrip:
  "TunnellingRequest_parse (TunnellingRequest_serialize r) = Ok r
   \<and> TunnellingAck_parse (TunnellingAck_serialize a @ rest) = Ok a
   \<and> TunnellingRequest_parse bs \<noteq> Panic \<and> TunnellingAck_parse bs \<noteq> Panic"
  by (simp add: tunnelling_request.parse_ser tunnelling_ack.parse_ser_append
      tunnelling_request.parse_no_panic tunnelling_ack.parse_no_panic)

text \<open>
  Connection management messages.  Connect requests and responses, connection-state and
  disconnect requests and responses: a message is what some bytes parse to exactly when its
  endpoints are IPv4 and, for a connect request, it asks for no individual address (for a connect
  response, when the fields agree with its status); each such message is recovered from its own bytes.
\<close>

lemma connection_messages_carried:
  "((\<exists>bs. ConnectRequest_parse bs = Ok q) \<longleftrightarrow> connect_request_fits q)
   \<and> (ConnectRequest_parse (ConnectRequest_serialize q) = Ok q \<longleftrightarrow> connect_request_fits q)
   \<and> ((\<exists>bs. ConnectResponse_parse bs = Ok p) \<longleftrightarrow> connect_response_fits p)
   \<and> (ConnectResponse_parse (ConnectResponse_serialize p) = Ok p \<longleftrightarrow> connect_response_fits p)
   \<and> (ConnectionstateRequest_parse (ConnectionstateRequest_serialize c) = Ok c
        \<longleftrightarrow> hpai_fits (csreq_control_endpoint c))
   \<and> ConnectionstateResponse_parse (ConnectionstateResponse_serialize c') = Ok c'
   \<and> (DisconnectRequest_parse (DisconnectRequest_serialize d) = Ok d
        \<longleftrightarrow> hpai_fits (dreq_control_endpoint d))
   \<and> DisconnectResponse_parse (DisconnectResponse_serialize d') = Ok d'"
  using connect_request.carried_iff [of q] connect_request.parse_ser [of q]
    connect_response.carried_iff [of p] connect_response.parse_ser [of p]
    connectionstate_request.parse_ser [of c] connectionstate_request.parse_fits [of _ c]
    connectionstate_response.parse_ser [of c'] disconnect_request.parse_ser [of d]
    disconnect_request.parse_fits [of _ d] disconnect_response.parse_ser [of d']
  by blast

text \<open>
  Secure session messages.  Session request, response, authenticate and status messages with
  keys of 32 and authentication codes of 16 bytes are recovered from their bytes, whatever follows.
\<close>

lemma session_messages_roundtrip:
  assumes "session_request_fits q" "session_response_fits p" "session_authenticate_fits a"
  shows "SessionRequest_parse (SessionRequest_serialize q @ rest) = Ok q
       \<and> SessionResponse_parse (SessionResponse_serialize p @ rest) = Ok p
       \<and> SessionAuthenticate_parse (SessionAuthenticate_serialize a @ rest) = Ok a
       \<and> SessionStatus_parse (SessionStatus_serialize s @ rest) = Ok s"
  using assms
  by (simp add: session_request.parse_ser_append session_response.parse_ser_append
      session_authenticate.parse_ser_append session_status.parse_ser_append)

end
