(* ===== verification/Telegram_Codec.thy ===== *)
theory Telegram_Codec
  imports Apci Cemi Knxip_Messages Telegram
begin

text \<open>
  Telegrams on the wire: \<open>parse_cemi_to_telegram\<close> and \<open>build_outgoing_frame_for_connection\<close> of the
  client (\<open>src/application/knx.rs\<close>) and their counterparts \<open>parse_cemi_to_telegram\<close> and
  \<open>build_tunnelling_frame_with_code\<close> of the tunnelling server (\<open>src/transport/server.rs\<close>).  The two
  decoders have the same text; the two encoders differ in the message code only.

  Shown: what the receiver of a telegram gets, field by field, for every telegram.
\<close>

fun telegram_priority :: "cemi_priority \<Rightarrow> priority" where
  "telegram_priority CemiSystem = System"
| "telegram_priority CemiNormal = Normal"
| "telegram_priority CemiUrgent = Urgent"
| "telegram_priority CemiLow = Low"

definition parse_cemi_to_telegram :: "system_time \<Rightarrow> bytes \<Rightarrow> telegram result" where
  "parse_cemi_to_telegram now cemi_data =
     bind_res (CemiFrame_parse cemi_data) (\<lambda>cemi.
     bind_res (case GroupValueService_decode (cm_tpci cemi) (cm_apci_data cemi) of
                 Ok s \<Rightarrow> Ok (Some s) | Err _ \<Rightarrow> Ok None | Panic \<Rightarrow> Panic) (\<lambda>service.
     let payload = (case service of
                      None \<Rightarrow> cm_apci_data cemi
                    | Some s \<Rightarrow> (case gvs_payload s of Some p \<Rightarrow> p | None \<Rightarrow> cm_apci_data cemi));
         ty = (case service of
                 Some Read \<Rightarrow> GroupValueRead
               | Some (Response _) \<Rightarrow> GroupValueResponse
               | Some (Write _) \<Rightarrow> GroupValueWrite
               | None \<Rightarrow> GroupValueWrite) in
     Ok \<lparr>tg_source = cm_source_addr cemi, tg_destination = cm_dest_addr cemi,
         tg_payload = payload,
         tg_priority = telegram_priority (cf_priority (cm_control_field cemi)),
         tg_direction = Incoming, tg_type = ty, tg_timestamp = now\<rparr>))"

definition group_service_of :: "telegram \<Rightarrow> group_value_service" where
  "group_service_of t = (if tg_payload t = [] then Read else Write (tg_payload t))"

definition telegram_cemi :: "message_code \<Rightarrow> telegram \<Rightarrow> cemi_frame" where
  "telegram_cemi code t =
     CemiFrame_new code (tg_source t) (tg_destination t) (GroupValueService_encode (group_service_of t))"

text \<open>
  The connection a frame is built for: a tunnel with its channel and the sequence number that
  \<open>next_sequence\<close> returns, or a routing connection.
\<close>

datatype outgoing_link = Via_Tunnel u8 u8 | Via_Routing

definition build_outgoing_frame_for_connection :: "telegram \<Rightarrow> outgoing_link \<Rightarrow> bytes" where
  "build_outgoing_frame_for_connection t link =
     (let raw_cemi = CemiFrame_serialize (telegram_cemi LDataReq t) in
      case link of
        Via_Tunnel channel seq \<Rightarrow>
          KnxIpFrame_serialize (KnxIpFrame_new TunnellingRequest
            (TunnellingRequest_serialize (TunnellingRequest_new channel seq raw_cemi)))
      | Via_Routing \<Rightarrow> KnxIpFrame_serialize (KnxIpFrame_new RoutingIndication raw_cemi))"

definition build_tunnelling_frame_with_code ::
  "telegram \<Rightarrow> u8 \<Rightarrow> u8 \<Rightarrow> message_code \<Rightarrow> bytes" where
  "build_tunnelling_frame_with_code t channel seq code =
     KnxIpFrame_serialize (KnxIpFrame_new TunnellingRequest
       (TunnellingRequest_serialize
         (TunnellingRequest_new channel seq (CemiFrame_serialize (telegram_cemi code t)))))"

section \<open>What the receiver gets\<close>

definition received_as :: "system_time \<Rightarrow> telegram \<Rightarrow> telegram" where
  "received_as now t =
     \<lparr>tg_source = tg_source t, tg_destination = tg_destination t,
      tg_payload = (if tg_payload t = [] then [0] else wire_payload (tg_payload t)),
      tg_priority = Normal, tg_direction = Incoming,
      tg_type = (if tg_payload t = [] then GroupValueRead else GroupValueWrite),
      tg_timestamp = now\<rparr>"

definition sendable :: "telegram \<Rightarrow> bool" where
  "sendable t = (address_valid (tg_destination t) \<and> length (tg_payload t) \<le> 254)"

lemma length_encode_payload: "length (encode_payload b p) \<le> max 1 (Suc (length p))"
  by (simp add: encode_payload_def)

lemma length_encode:
  "length p \<le> 254 \<Longrightarrow> length (GroupValueService_encode (Write p)) \<le> 255"
  using length_encode_payload [of "0x80" p] by simp

lemma encode_neq_Nil [simp]: "GroupValueService_encode s \<noteq> []"
  by (cases s) (simp_all add: encode_payload_def)

lemma telegram_cemi_wf: "sendable t \<Longrightarrow> cemi_wf (telegram_cemi code t)"
  unfolding telegram_cemi_def group_service_of_def sendable_def
  by (rule CemiFrame_new_wf) (auto intro!: length_encode simp del: GroupValueService_encode.simps(3))

lemma parse_telegram_cemi:
  assumes "sendable t"
  shows "parse_cemi_to_telegram now (CemiFrame_serialize (telegram_cemi code t)) = Ok (received_as now t)"
proof -
  have "CemiFrame_parse (CemiFrame_serialize (telegram_cemi code t)) = Ok (telegram_cemi code t)"
    using telegram_cemi_wf [OF assms] by (rule cemi.parse_ser)
  moreover have "GroupValueService_decode 0 (GroupValueService_encode (group_service_of t)) =
      Ok (on_wire (group_service_of t))"
    by (rule GroupValueService_decode_encode) simp
  ultimately show ?thesis
    by (simp add: parse_cemi_to_telegram_def telegram_cemi_def CemiFrame_new_def received_as_def
        group_service_of_def)
qed

lemma parse_cemi_to_telegram_no_panic: "parse_cemi_to_telegram now d \<noteq> Panic"
  by (auto simp: parse_cemi_to_telegram_def CemiFrame_parse_no_panic GroupValueService_decode_no_panic
      Let_def split: res.splits)

lemma length_telegram_cemi:
  assumes "sendable t"
  shows "length (CemiFrame_serialize (telegram_cemi code t)) \<le> 300"
  using assms length_encode [of "tg_payload t"]
  by (auto simp: CemiFrame_serialize_split body_bytes_def telegram_cemi_def CemiFrame_new_def
      group_service_of_def sendable_def simp del: GroupValueService_encode.simps(3))

lemma tunnelling_frame_parse:
  assumes "length raw \<le> 65525"
  shows "KnxIpFrame_parse (KnxIpFrame_serialize (KnxIpFrame_new TunnellingRequest
           (TunnellingRequest_serialize (TunnellingRequest_new ch seq raw)))) =
         Ok (KnxIpFrame_new TunnellingRequest (TunnellingRequest_serialize (TunnellingRequest_new ch seq raw)))"
  using KnxIpFrame_parse_serialize [OF KnxIpFrame_new_fits, where rest = "[]"] assms
  by (simp add: TunnellingRequest_serialize_def TunnellingRequest_new_def)

lemma routing_frame_received:
  assumes "sendable t"
  shows "bind_res (KnxIpFrame_parse (build_outgoing_frame_for_connection t Via_Routing))
      (\<lambda>f. parse_cemi_to_telegram now (kf_body f)) = Ok (received_as now t)"
proof -
  let ?raw = "CemiFrame_serialize (telegram_cemi LDataReq t)"
  have "KnxIpFrame_parse (KnxIpFrame_serialize (KnxIpFrame_new RoutingIndication ?raw)) =
      Ok (KnxIpFrame_new RoutingIndication ?raw)"
    using KnxIpFrame_parse_serialize [OF KnxIpFrame_new_fits, where rest = "[]"] length_telegram_cemi [OF assms, of LDataReq]
    by simp
  then show ?thesis
    using parse_telegram_cemi [OF assms, of now LDataReq]
    by (simp add: build_outgoing_frame_for_connection_def Let_def)
qed

section \<open>Properties\<close>

text \<open>
  C36: A telegram on the wire.  For every telegram with a destination in range and at most 254 bytes of
  payload, the frame built for a routing connection and the one built for a tunnel decode to the same
  telegram: source and destination as sent, the payload in its wire form, the direction incoming.  The
  service is a read for an empty payload and a write otherwise, and the priority is normal, whatever type
  and priority the telegram had: a response arrives as a write.
\<close>

theorem telegram_on_wire:
  assumes "sendable t"
  shows "bind_res (KnxIpFrame_parse (build_outgoing_frame_for_connection t Via_Routing))
           (\<lambda>f. parse_cemi_to_telegram now (kf_body f)) = Ok (received_as now t)
       \<and> bind_res (KnxIpFrame_parse (build_outgoing_frame_for_connection t (Via_Tunnel ch n)))
           (\<lambda>f. bind_res (TunnellingRequest_parse (kf_body f))
             (\<lambda>r. parse_cemi_to_telegram now (treq_raw_cemi r))) = Ok (received_as now t)
       \<and> tg_type (received_as now t) = (if tg_payload t = [] then GroupValueRead else GroupValueWrite)
       \<and> tg_priority (received_as now t) = Normal"
proof -
  let ?raw = "CemiFrame_serialize (telegram_cemi LDataReq t)"
  have len: "length ?raw \<le> 65525"
    using length_telegram_cemi [OF assms, of LDataReq] by simp
  show ?thesis
    using routing_frame_received [OF assms, of now] tunnelling_frame_parse [OF len, of ch n]
      parse_telegram_cemi [OF assms, of now LDataReq] tunnelling_request.parse_ser [of "TunnellingRequest_new ch n ?raw"]
    by (simp add: build_outgoing_frame_for_connection_def Let_def received_as_def)
qed

theorem telegram_on_wire_witness:
  "let t = (Telegram_group_write 0 (GroupAddress 0x0A03) [0x55])
             \<lparr>tg_type := GroupValueResponse, tg_priority := Urgent\<rparr> in
   bind_res (KnxIpFrame_parse (build_outgoing_frame_for_connection t Via_Routing))
     (\<lambda>f. parse_cemi_to_telegram 9 (kf_body f)) = Ok (received_as 9 t)
   \<and> bind_res (KnxIpFrame_parse (build_outgoing_frame_for_connection t (Via_Tunnel 1 4)))
       (\<lambda>f. bind_res (TunnellingRequest_parse (kf_body f))
         (\<lambda>r. parse_cemi_to_telegram 9 (treq_raw_cemi r))) = Ok (received_as 9 t)
   \<and> tg_type (received_as 9 t) = (if tg_payload t = [] then GroupValueRead else GroupValueWrite)
   \<and> tg_priority (received_as 9 t) = Normal"
  unfolding Let_def
  by (rule telegram_on_wire)
     (simp add: sendable_def Telegram_group_write_def address_valid_def ga_valid_def)

end
