(* ===== verification/Server.thy ===== *)
theory Server
  imports Sequence Telegram_Codec
begin

text \<open>
  The tunnelling server, \<open>src/transport/server.rs\<close>, without KNX Secure (see \<open>Secure_Server\<close>): client sessions,
  the handlers of every service, the dispatch of received frames, the UDP loop, the clean-up of a
  closed TCP stream, the sweep of stale clients, and sending to clients with one retry.

  A handler returns its result, what it did to the outside (replies handed to a client link,
  telegrams published to subscribers, an ack passed to a waiting sender) and the new server state.
  \<open>snd_to\<close> gives the outcome of sending on a link; \<open>now\<close> is the time of the call in seconds.  The
  socket inside a UDP link is the server's own; a TCP link is its stream (a number) and the peer.
\<close>

section \<open>State\<close>

datatype client_link = UdpLink socket_addr | TcpLink nat socket_addr

fun link_peer_addr :: "client_link \<Rightarrow> socket_addr" where
  "link_peer_addr (UdpLink a) = a"
| "link_peer_addr (TcpLink _ a) = a"

record client_session =
  ss_channel_id :: u8
  ss_link :: client_link
  ss_send_seq :: u8
  ss_recv_seq :: u8
  ss_last_heartbeat :: nat
  ss_pending_ack :: bool

definition ClientSession_new :: "nat \<Rightarrow> u8 \<Rightarrow> client_link \<Rightarrow> client_session" where
  "ClientSession_new now channel_id link =
     \<lparr>ss_channel_id = channel_id, ss_link = link, ss_send_seq = 0, ss_recv_seq = 0,
      ss_last_heartbeat = now, ss_pending_ack = False\<rparr>"

definition validate_recv_seq :: "u8 \<Rightarrow> client_session \<Rightarrow> sequence_validation_result \<times> client_session" where
  "validate_recv_seq received s =
     (let expected = ss_recv_seq s in
      if received = expected then (Valid, s\<lparr>ss_recv_seq := expected + 1\<rparr>)
      else if received = expected - 1 then (Duplicate, s)
      else (Invalid expected received, s))"

definition session_touch :: "nat \<Rightarrow> client_session \<Rightarrow> client_session" where
  "session_touch now s = s\<lparr>ss_last_heartbeat := now\<rparr>"

definition session_is_stale :: "nat \<Rightarrow> client_session \<Rightarrow> bool" where
  "session_is_stale now s = (now - ss_last_heartbeat s > 120)"

record server =
  sv_local_addr :: socket_addr
  sv_individual_address :: individual_address
  sv_sessions :: "u8 \<rightharpoonup> client_session"

datatype effect = Reply client_link bytes | Publish telegram | Pass_Ack u8 tunnelling_ack

type_synonym 'a handled = "'a result \<times> effect list \<times> server"

type_synonym sender = "client_link \<Rightarrow> unit result"

section \<open>Handlers\<close>

definition send_reply :: "sender \<Rightarrow> service_type \<Rightarrow> bytes \<Rightarrow> client_link \<Rightarrow> unit result \<times> effect list" where
  "send_reply snd_to st body link =
     (snd_to link, [Reply link (KnxIpFrame_serialize (KnxIpFrame_new st body))])"

definition resolve_link :: "hpai \<Rightarrow> client_link \<Rightarrow> client_link" where
  "resolve_link hpai link =
     (case link of
        UdpLink peer \<Rightarrow> UdpLink (if hp_port hpai = 0 then peer else Hpai_socket_addr hpai)
      | TcpLink _ _ \<Rightarrow> link)"

definition allocate_channel_id :: "(u8 \<rightharpoonup> client_session) \<Rightarrow> u8 option" where
  "allocate_channel_id sessions = find (\<lambda>ch. sessions ch = None) (map word_of_nat [1..<256])"

definition build_tunnel_crd :: "individual_address \<Rightarrow> bytes" where
  "build_tunnel_crd addr = [4, 0x04] @ u16_to_be_bytes (ia_raw addr)"

definition server_handle_connect_request ::
  "sender \<Rightarrow> nat \<Rightarrow> bytes \<Rightarrow> client_link \<Rightarrow> server \<Rightarrow> u8 option handled" where
  "server_handle_connect_request snd_to now body link sv =
     (case ConnectRequest_parse body of
        Ok request \<Rightarrow>
          let link = resolve_link (creq_data_endpoint request) link in
          (case allocate_channel_id (sv_sessions sv) of
             Some ch \<Rightarrow>
               let sv = sv\<lparr>sv_sessions := (sv_sessions sv)(ch \<mapsto> ClientSession_new now ch link)\<rparr>;
                   response = \<lparr>cresp_channel_id = ch, cresp_status = 0,
                               cresp_data_endpoint = Hpai_new (sv_local_addr sv),
                               cresp_crd = build_tunnel_crd (sv_individual_address sv),
                               cresp_assigned_address = Some (sv_individual_address sv)\<rparr>;
                   (r, out) = send_reply snd_to ConnectResponse (ConnectResponse_serialize response) link in
               (bind_res r (\<lambda>_. Ok (Some ch)), out, sv)
           | None \<Rightarrow>
               let response = \<lparr>cresp_channel_id = 0, cresp_status = 0x24,
                               cresp_data_endpoint = Hpai_new (sv_local_addr sv), cresp_crd = [],
                               cresp_assigned_address = None\<rparr>;
                   (r, out) = send_reply snd_to ConnectResponse (ConnectResponse_serialize response) link in
               (bind_res r (\<lambda>_. Ok None), out, sv))
      | Err e \<Rightarrow> (Err e, [], sv)
      | Panic \<Rightarrow> (Panic, [], sv))"

definition server_handle_tunnelling_request ::
  "sender \<Rightarrow> nat \<Rightarrow> system_time \<Rightarrow> bytes \<Rightarrow> server \<Rightarrow> unit handled" where
  "server_handle_tunnelling_request snd_to now wall body sv =
     (case TunnellingRequest_parse body of
        Ok request \<Rightarrow>
          let ch = treq_channel_id request; seq = treq_sequence_counter request in
          (case sv_sessions sv ch of
             None \<Rightarrow> (Ok (), [], sv)
           | Some session \<Rightarrow>
               let session = session_touch now session;
                   (verdict, session') = validate_recv_seq seq session;
                   sv = sv\<lparr>sv_sessions := (sv_sessions sv)(ch \<mapsto> session')\<rparr>;
                   ack = (case verdict of
                            Invalid _ _ \<Rightarrow> TunnellingAck_new_sequence_error ch seq
                          | _ \<Rightarrow> TunnellingAck_new_ok ch seq);
                   (r, out) = send_reply snd_to TunnellingAck (TunnellingAck_serialize ack)
                                (ss_link session) in
               (case (verdict, r) of
                  (Valid, Ok _) \<Rightarrow>
                    (case parse_cemi_to_telegram wall (treq_raw_cemi request) of
                       Ok telegram \<Rightarrow> (Ok (), out @ [Publish telegram], sv)
                     | Err _ \<Rightarrow> (Ok (), out, sv)
                     | Panic \<Rightarrow> (Panic, out, sv))
                | _ \<Rightarrow> (r, out, sv)))
      | Err e \<Rightarrow> (Err e, [], sv)
      | Panic \<Rightarrow> (Panic, [], sv))"

definition server_handle_tunnelling_ack :: "bytes \<Rightarrow> server \<Rightarrow> unit handled" where
  "server_handle_tunnelling_ack body sv =
     (case TunnellingAck_parse body of
        Ok ack \<Rightarrow>
          (case sv_sessions sv (tack_channel_id ack) of
             Some session \<Rightarrow>
               if ss_pending_ack session then
                 (Ok (), [Pass_Ack (tack_channel_id ack) ack],
                  sv\<lparr>sv_sessions := (sv_sessions sv)
                       (tack_channel_id ack \<mapsto> session\<lparr>ss_pending_ack := False\<rparr>)\<rparr>)
               else (Ok (), [], sv)
           | None \<Rightarrow> (Ok (), [], sv))
      | Err e \<Rightarrow> (Err e, [], sv)
      | Panic \<Rightarrow> (Panic, [], sv))"

definition server_handle_connectionstate_request ::
  "sender \<Rightarrow> nat \<Rightarrow> bytes \<Rightarrow> client_link \<Rightarrow> server \<Rightarrow> unit handled" where
  "server_handle_connectionstate_request snd_to now body link sv =
     (case ConnectionstateRequest_parse body of
        Ok request \<Rightarrow>
          let ch = csreq_channel_id request;
              (status, reply_link, sv) =
                (case sv_sessions sv ch of
                   Some session \<Rightarrow>
                     (0x00, ss_link session,
                      sv\<lparr>sv_sessions := (sv_sessions sv)(ch \<mapsto> session_touch now session)\<rparr>)
                 | None \<Rightarrow> (0x21, link, sv));
              (r, out) = send_reply snd_to ConnectionstateResponse
                (ConnectionstateResponse_serialize \<lparr>csresp_channel_id = ch, csresp_status = status\<rparr>)
                reply_link in
          (r, out, sv)
      | Err e \<Rightarrow> (Err e, [], sv)
      | Panic \<Rightarrow> (Panic, [], sv))"

definition server_handle_disconnect_request ::
  "sender \<Rightarrow> bytes \<Rightarrow> client_link \<Rightarrow> server \<Rightarrow> unit handled" where
  "server_handle_disconnect_request snd_to body link sv =
     (case DisconnectRequest_parse body of
        Ok request \<Rightarrow>
          let ch = dreq_channel_id request;
              reply_link = (case sv_sessions sv ch of Some s \<Rightarrow> ss_link s | None \<Rightarrow> link);
              sv = sv\<lparr>sv_sessions := (sv_sessions sv)(ch := None)\<rparr>;
              (r, out) = send_reply snd_to DisconnectResponse
                (DisconnectResponse_serialize \<lparr>dresp_channel_id = ch, dresp_status = 0x00\<rparr>) reply_link in
          (r, out, sv)
      | Err e \<Rightarrow> (Err e, [], sv)
      | Panic \<Rightarrow> (Panic, [], sv))"

definition no_channel :: "unit handled \<Rightarrow> u8 option handled" where
  "no_channel h = (case h of (r, out, sv) \<Rightarrow> (bind_res r (\<lambda>_. Ok None), out, sv))"

definition dispatch_plain_frame ::
  "sender \<Rightarrow> nat \<Rightarrow> system_time \<Rightarrow> knxip_frame \<Rightarrow> client_link \<Rightarrow> server \<Rightarrow> u8 option handled" where
  "dispatch_plain_frame snd_to now wall frame link sv =
     (case kh_service_type (kf_header frame) of
        ConnectRequest \<Rightarrow> server_handle_connect_request snd_to now (kf_body frame) link sv
      | TunnellingRequest \<Rightarrow>
          no_channel (server_handle_tunnelling_request snd_to now wall (kf_body frame) sv)
      | TunnellingAck \<Rightarrow> no_channel (server_handle_tunnelling_ack (kf_body frame) sv)
      | ConnectionstateRequest \<Rightarrow>
          no_channel (server_handle_connectionstate_request snd_to now (kf_body frame) link sv)
      | DisconnectRequest \<Rightarrow>
          no_channel (server_handle_disconnect_request snd_to (kf_body frame) link sv)
      | _ \<Rightarrow> (Ok None, [], sv))"

definition server_handle_frame ::
  "sender \<Rightarrow> nat \<Rightarrow> system_time \<Rightarrow> bytes \<Rightarrow> client_link \<Rightarrow> server \<Rightarrow> u8 option handled" where
  "server_handle_frame snd_to now wall data link sv =
     (case KnxIpFrame_parse data of
        Ok frame \<Rightarrow> dispatch_plain_frame snd_to now wall frame link sv
      | Err e \<Rightarrow> (Err e, [], sv)
      | Panic \<Rightarrow> (Panic, [], sv))"

section \<open>Loops and clean-up\<close>

text \<open>
  The UDP task: one buffer of 1024 bytes, errors are logged, a panic ends the task (and with it all
  handling of UDP frames) while the rest of the server keeps running.
\<close>

record datagram =
  dg_data :: bytes
  dg_peer :: socket_addr
  dg_now :: nat
  dg_wall :: system_time

record udp_task =
  ut_running :: bool
  ut_out :: "effect list"
  ut_server :: server

definition dispatch_datagram :: "sender \<Rightarrow> datagram \<Rightarrow> udp_task \<Rightarrow> udp_task" where
  "dispatch_datagram snd_to d u =
     (if ut_running u then
        (case server_handle_frame snd_to (dg_now d) (dg_wall d) (take 1024 (dg_data d))
                (UdpLink (dg_peer d)) (ut_server u) of
           (r, out, sv) \<Rightarrow>
             \<lparr>ut_running = (r \<noteq> Panic), ut_out = ut_out u @ out, ut_server = sv\<rparr>)
      else u)"

definition dispatch_loop :: "sender \<Rightarrow> datagram list \<Rightarrow> udp_task \<Rightarrow> udp_task" where
  "dispatch_loop snd_to ds = fold (dispatch_datagram snd_to) ds"

text \<open>
  One TCP stream: the task keeps the channel of the last successful connect request, and removes
  that channel when the stream ends.
\<close>

definition tcp_frame ::
  "sender \<Rightarrow> nat \<Rightarrow> system_time \<Rightarrow> bytes \<Rightarrow> client_link \<Rightarrow> u8 option \<times> server \<Rightarrow> u8 option \<times> server" where
  "tcp_frame snd_to now wall data link st =
     (case st of (assigned, sv) \<Rightarrow>
        (case server_handle_frame snd_to now wall data link sv of
           (Ok (Some ch), _, sv') \<Rightarrow> (Some ch, sv')
         | (_, _, sv') \<Rightarrow> (assigned, sv')))"

definition tcp_close :: "u8 option \<times> server \<Rightarrow> server" where
  "tcp_close st =
     (case st of
        (Some ch, sv) \<Rightarrow> sv\<lparr>sv_sessions := (sv_sessions sv)(ch := None)\<rparr>
      | (None, sv) \<Rightarrow> sv)"

definition sweep :: "nat \<Rightarrow> server \<Rightarrow> server" where
  "sweep now sv =
     sv\<lparr>sv_sessions := (\<lambda>ch. case sv_sessions sv ch of
                              Some s \<Rightarrow> (if session_is_stale now s then None else Some s)
                            | None \<Rightarrow> None)\<rparr>"

section \<open>Sending to clients\<close>

text \<open>
  Each attempt: the outcome of sending the frame, and the ack passed to the sender within the
  timeout (None: no ack in time).  After a timeout the correlator stays in the session.
\<close>

fun send_attempts ::
  "u8 \<Rightarrow> (unit result \<times> tunnelling_ack option) list \<Rightarrow> client_session \<Rightarrow> unit result \<times> client_session" where
  "send_attempts seq [] s = (Err (Transport (Timeout_Transport 1000)), s)"
| "send_attempts seq ((sent, answer) # attempts) s =
     (case sent of
        Ok _ \<Rightarrow>
          (case answer of
             Some ack \<Rightarrow>
               if tack_status_code ack = 0
               then (Ok (), s\<lparr>ss_send_seq := seq + 1, ss_pending_ack := False\<rparr>)
               else (Err (Transport InvalidConfiguration_Transport), s\<lparr>ss_pending_ack := False\<rparr>)
           | None \<Rightarrow> send_attempts seq attempts (s\<lparr>ss_pending_ack := True\<rparr>))
      | Err e \<Rightarrow> (Err e, s\<lparr>ss_pending_ack := True\<rparr>)
      | Panic \<Rightarrow> (Panic, s\<lparr>ss_pending_ack := True\<rparr>))"

definition send_to_session ::
  "telegram \<Rightarrow> unit result \<times> tunnelling_ack option \<Rightarrow> unit result \<times> tunnelling_ack option \<Rightarrow>
   client_session \<Rightarrow> unit result \<times> bytes \<times> client_session" where
  "send_to_session t first second s =
     (let seq = ss_send_seq s;
          frame = build_tunnelling_frame_with_code t (ss_channel_id s) seq LDataInd;
          (r, s') = send_attempts seq [first, second] s in
      (r, frame, s'))"

text \<open>
  \<open>TunnelServer::send\<close>: \<open>order\<close> is the order in which the hash map yields its sessions, and
  \<open>tries ch\<close> the two attempts on channel \<open>ch\<close>.
\<close>

fun server_send ::
  "telegram \<Rightarrow> (u8 \<Rightarrow> (unit result \<times> tunnelling_ack option) \<times> (unit result \<times> tunnelling_ack option)) \<Rightarrow>
   u8 list \<Rightarrow> server \<Rightarrow> server" where
  "server_send t tries [] sv = sv"
| "server_send t tries (ch # order) sv =
     (case sv_sessions sv ch of
        None \<Rightarrow> server_send t tries order sv
      | Some s \<Rightarrow>
          (case send_to_session t (fst (tries ch)) (snd (tries ch)) s of
             (Ok _, _, s') \<Rightarrow>
               server_send t tries order (sv\<lparr>sv_sessions := (sv_sessions sv)(ch \<mapsto> s')\<rparr>)
           | (_, _, s') \<Rightarrow>
               server_send t tries order
                 (sv\<lparr>sv_sessions := (sv_sessions sv)(ss_channel_id s := None)\<rparr>)))"

section \<open>Lemmas\<close>

interpretation server_window: sequence_window validate_recv_seq ss_recv_seq
  by unfold_locales (auto simp: validate_recv_seq_def Let_def)

lemma u8_nonzero_range: "ch \<noteq> 0 \<longleftrightarrow> ch \<in> set (map word_of_nat [1..<256] :: u8 list)"
proof
  assume "ch \<noteq> 0"
  then have "unat ch \<in> {1..<256}" "ch = word_of_nat (unat ch)"
    using unat_u8_le [of ch] by (auto simp: Suc_le_eq unat_gt_0)
  then show "ch \<in> set (map word_of_nat [1..<256])"
    by (metis (no_types, lifting) image_eqI list.set_map set_upt)
next
  assume "ch \<in> set (map word_of_nat [1..<256] :: u8 list)"
  then obtain n where n: "1 \<le> n" "n < 256" "ch = word_of_nat n"
    by auto
  then have "unat (word_of_nat n :: u8) = n"
    by (simp add: unsigned_of_nat take_bit_nat_eq_self)
  then show "ch \<noteq> 0"
    using n by (metis not_one_le_zero unsigned_0)
qed

lemma find_SomeD: "find P xs = Some x \<Longrightarrow> P x \<and> x \<in> set xs"
  by (auto simp: find_Some_iff)

lemma allocate_channel_id_Some:
  "allocate_channel_id m = Some ch \<Longrightarrow> m ch = None \<and> ch \<noteq> 0"
  unfolding allocate_channel_id_def u8_nonzero_range by (rule find_SomeD)

lemma allocate_channel_id_None:
  "allocate_channel_id m = None \<longleftrightarrow> (\<forall>ch. ch \<noteq> 0 \<longrightarrow> m ch \<noteq> None)"
  unfolding allocate_channel_id_def u8_nonzero_range find_None_iff by metis

text \<open>Sessions sit under their own channel, and channel 0 is never given out.\<close>

definition server_inv :: "server \<Rightarrow> bool" where
  "server_inv sv = (\<forall>ch s. sv_sessions sv ch = Some s \<longrightarrow> ss_channel_id s = ch \<and> ch \<noteq> 0)"

text \<open>The channel that a frame is addressed to.\<close>

definition frame_channel :: "knxip_frame \<Rightarrow> u8 option" where
  "frame_channel frame =
     (case kh_service_type (kf_header frame) of
        TunnellingRequest \<Rightarrow>
          (case TunnellingRequest_parse (kf_body frame) of Ok r \<Rightarrow> Some (treq_channel_id r) | _ \<Rightarrow> None)
      | TunnellingAck \<Rightarrow>
          (case TunnellingAck_parse (kf_body frame) of Ok r \<Rightarrow> Some (tack_channel_id r) | _ \<Rightarrow> None)
      | ConnectionstateRequest \<Rightarrow>
          (case ConnectionstateRequest_parse (kf_body frame) of Ok r \<Rightarrow> Some (csreq_channel_id r) | _ \<Rightarrow> None)
      | DisconnectRequest \<Rightarrow>
          (case DisconnectRequest_parse (kf_body frame) of Ok r \<Rightarrow> Some (dreq_channel_id r) | _ \<Rightarrow> None)
      | _ \<Rightarrow> None)"

lemma validate_recv_seq_fields [simp]:
  "ss_channel_id (snd (validate_recv_seq n s)) = ss_channel_id s"
  "ss_link (snd (validate_recv_seq n s)) = ss_link s"
  "ss_send_seq (snd (validate_recv_seq n s)) = ss_send_seq s"
  "ss_pending_ack (snd (validate_recv_seq n s)) = ss_pending_ack s"
  "ss_last_heartbeat (snd (validate_recv_seq n s)) = ss_last_heartbeat s"
  by (auto simp: validate_recv_seq_def Let_def)

lemma session_touch_fields [simp]:
  "ss_channel_id (session_touch now s) = ss_channel_id s" "ss_link (session_touch now s) = ss_link s"
  "ss_recv_seq (session_touch now s) = ss_recv_seq s" "ss_send_seq (session_touch now s) = ss_send_seq s"
  "ss_pending_ack (session_touch now s) = ss_pending_ack s"
  "ss_last_heartbeat (session_touch now s) = now"
  by (simp_all add: session_touch_def)

text \<open>The server state after each handler.\<close>

abbreviation after :: "'a handled \<Rightarrow> server" where
  "after h \<equiv> snd (snd h)"

lemma after_no_channel [simp]: "after (no_channel h) = after h"
  by (cases h) (simp add: no_channel_def)

lemma after_connect_request:
  "after (server_handle_connect_request snd_to now body link sv) =
     (case (ConnectRequest_parse body, allocate_channel_id (sv_sessions sv)) of
        (Ok req, Some ch) \<Rightarrow>
          sv\<lparr>sv_sessions := (sv_sessions sv)
              (ch \<mapsto> ClientSession_new now ch (resolve_link (creq_data_endpoint req) link))\<rparr>
      | _ \<Rightarrow> sv)"
  by (simp add: server_handle_connect_request_def send_reply_def Let_def split: res.split option.split)

lemma after_tunnelling_request:
  "after (server_handle_tunnelling_request snd_to now wall body sv) =
     (case TunnellingRequest_parse body of
        Ok req \<Rightarrow>
          (case sv_sessions sv (treq_channel_id req) of
             Some s \<Rightarrow> sv\<lparr>sv_sessions := (sv_sessions sv)(treq_channel_id req \<mapsto>
                         snd (validate_recv_seq (treq_sequence_counter req) (session_touch now s)))\<rparr>
           | None \<Rightarrow> sv)
      | _ \<Rightarrow> sv)"
  by (simp add: server_handle_tunnelling_request_def send_reply_def Let_def
      split: res.split option.split prod.split sequence_validation_result.split)

lemma after_tunnelling_ack:
  "after (server_handle_tunnelling_ack body sv) =
     (case TunnellingAck_parse body of
        Ok ack \<Rightarrow>
          (case sv_sessions sv (tack_channel_id ack) of
             Some s \<Rightarrow> (if ss_pending_ack s
               then sv\<lparr>sv_sessions := (sv_sessions sv)(tack_channel_id ack \<mapsto> s\<lparr>ss_pending_ack := False\<rparr>)\<rparr>
               else sv)
           | None \<Rightarrow> sv)
      | _ \<Rightarrow> sv)"
  by (simp add: server_handle_tunnelling_ack_def split: res.split option.split)

lemma after_connectionstate_request:
  "after (server_handle_connectionstate_request snd_to now body link sv) =
     (case ConnectionstateRequest_parse body of
        Ok req \<Rightarrow>
          (case sv_sessions sv (csreq_channel_id req) of
             Some s \<Rightarrow> sv\<lparr>sv_sessions := (sv_sessions sv)(csreq_channel_id req \<mapsto> session_touch now s)\<rparr>
           | None \<Rightarrow> sv)
      | _ \<Rightarrow> sv)"
  by (simp add: server_handle_connectionstate_request_def send_reply_def Let_def
      split: res.split option.split)

lemma after_disconnect_request:
  "after (server_handle_disconnect_request snd_to body link sv) =
     (case DisconnectRequest_parse body of
        Ok req \<Rightarrow> sv\<lparr>sv_sessions := (sv_sessions sv)(dreq_channel_id req := None)\<rparr>
      | _ \<Rightarrow> sv)"
  by (simp add: server_handle_disconnect_request_def send_reply_def Let_def split: res.split)

lemmas after_handlers = after_connect_request after_tunnelling_request after_tunnelling_ack
  after_connectionstate_request after_disconnect_request

lemma server_inv_update:
  "\<lbrakk>server_inv sv; ch \<noteq> 0; ss_channel_id s = ch\<rbrakk> \<Longrightarrow>
     server_inv (sv\<lparr>sv_sessions := (sv_sessions sv)(ch \<mapsto> s)\<rparr>)"
  "server_inv sv \<Longrightarrow> server_inv (sv\<lparr>sv_sessions := (sv_sessions sv)(ch := None)\<rparr>)"
  "\<lbrakk>server_inv sv; sv_sessions sv ch = Some s0; ss_channel_id s = ss_channel_id s0\<rbrakk> \<Longrightarrow>
     server_inv (sv\<lparr>sv_sessions := (sv_sessions sv)(ch \<mapsto> s)\<rparr>)"
  by (simp_all add: server_inv_def)

lemma server_inv_handlers:
  assumes "server_inv sv"
  shows "server_inv (after (server_handle_connect_request snd_to now body link sv))"
    and "server_inv (after (server_handle_tunnelling_request snd_to now wall body sv))"
    and "server_inv (after (server_handle_tunnelling_ack body sv))"
    and "server_inv (after (server_handle_connectionstate_request snd_to now body link sv))"
    and "server_inv (after (server_handle_disconnect_request snd_to body link sv))"
  using assms allocate_channel_id_Some [of "sv_sessions sv"]
  by (simp_all add: after_handlers server_inv_update ClientSession_new_def split: res.split option.split)

lemma server_inv_dispatch:
  "server_inv sv \<Longrightarrow> server_inv (after (dispatch_plain_frame snd_to now wall frame link sv))"
  by (simp add: dispatch_plain_frame_def server_inv_handlers split: service_type.split)

lemma server_inv_handle_frame:
  "server_inv sv \<Longrightarrow> server_inv (after (server_handle_frame snd_to now wall data link sv))"
  by (simp add: server_handle_frame_def server_inv_dispatch split: res.split)

lemma connect_keeps_sessions:
  "sv_sessions sv ch = Some s \<Longrightarrow>
     sv_sessions (after (server_handle_connect_request snd_to now body link sv)) ch = Some s"
  using allocate_channel_id_Some [of "sv_sessions sv"]
  by (auto simp: after_handlers split: res.split option.split)

lemma other_sessions_kept:
  assumes "sv_sessions sv ch = Some s" "frame_channel frame \<noteq> Some ch"
  shows "sv_sessions (after (dispatch_plain_frame snd_to now wall frame link sv)) ch = Some s"
  using assms connect_keeps_sessions [OF assms(1)]
  by (cases "kh_service_type (kf_header frame)")
     (auto simp: dispatch_plain_frame_def frame_channel_def after_tunnelling_request
       after_tunnelling_ack after_connectionstate_request after_disconnect_request
       split: res.splits option.splits)

subsection \<open>Histories of a server\<close>

text \<open>Every way in which the sessions change, in any order.\<close>

inductive server_step :: "sender \<Rightarrow> server \<Rightarrow> server \<Rightarrow> bool" for snd_to :: sender where
  step_frame: "server_step snd_to sv (after (server_handle_frame snd_to now wall data link sv))"
| step_close: "server_step snd_to sv (tcp_close (assigned, sv))"
| step_sweep: "server_step snd_to sv (sweep now sv)"
| step_send: "server_step snd_to sv (server_send t tries order sv)"

definition server_init :: "socket_addr \<Rightarrow> individual_address \<Rightarrow> server" where
  "server_init addr ia =
     \<lparr>sv_local_addr = addr, sv_individual_address = ia, sv_sessions = Map.empty\<rparr>"

lemma send_attempts_fields:
  "send_attempts seq tries s = (r, s') \<Longrightarrow>
     ss_channel_id s' = ss_channel_id s \<and> ss_link s' = ss_link s \<and> ss_recv_seq s' = ss_recv_seq s
     \<and> ss_send_seq s' = (if r = Ok () then seq + 1 else ss_send_seq s)"
  by (induction seq tries s rule: send_attempts.induct)
     (auto split: res.splits option.splits if_splits)

lemma send_to_session_fields:
  "send_to_session t first second s = (r, frame, s') \<Longrightarrow>
     ss_channel_id s' = ss_channel_id s \<and> ss_link s' = ss_link s \<and> ss_recv_seq s' = ss_recv_seq s
     \<and> ss_send_seq s' = (if r = Ok () then ss_send_seq s + 1 else ss_send_seq s)"
  unfolding send_to_session_def Let_def
  by (cases "send_attempts (ss_send_seq s) [first, second] s") (auto dest: send_attempts_fields)

lemma server_inv_send: "server_inv sv \<Longrightarrow> server_inv (server_send t tries order sv)"
proof (induction t tries order sv rule: server_send.induct)
  case (2 t tries ch order sv)
  show ?case
  proof (cases "sv_sessions sv ch")
    case (Some s)
    obtain r frame s' where st: "send_to_session t (fst (tries ch)) (snd (tries ch)) s = (r, frame, s')"
      by (cases "send_to_session t (fst (tries ch)) (snd (tries ch)) s") auto
    then show ?thesis
      using 2 Some send_to_session_fields [OF st] by (cases r) (simp_all add: server_inv_update)
  qed (use 2 in simp)
qed simp

lemma server_inv_step: "\<lbrakk>server_step snd_to sv sv'; server_inv sv\<rbrakk> \<Longrightarrow> server_inv sv'"
proof (induction rule: server_step.induct)
  case (step_close sv assigned)
  then show ?case
    by (cases assigned) (simp_all add: tcp_close_def server_inv_update)
next
  case (step_sweep sv now)
  then show ?case
    by (auto simp: sweep_def server_inv_def split: option.splits if_splits)
qed (simp_all add: server_inv_handle_frame server_inv_send)

lemma server_inv_reachable: "(server_step snd_to)\<^sup>*\<^sup>* (server_init addr ia) sv \<Longrightarrow> server_inv sv"
  by (induction rule: rtranclp_induct)
     (simp add: server_init_def server_inv_def, blast intro: server_inv_step)

lemma sweep_sessions:
  "sv_sessions (sweep now sv) ch = Some s \<longleftrightarrow>
     sv_sessions sv ch = Some s \<and> now - ss_last_heartbeat s \<le> 120"
  by (auto simp: sweep_def session_is_stale_def split: option.splits)

subsection \<open>Frames of one tunnel\<close>

fun published :: "effect list \<Rightarrow> telegram list" where
  "published [] = []"
| "published (Publish t # es) = t # published es"
| "published (_ # es) = published es"

lemma published_append [simp]: "published (xs @ ys) = published xs @ published ys"
  by (induction xs rule: published.induct) simp_all

text \<open>Frames handled one after the other, each with the time and the link it arrives on.\<close>

record arrival =
  ar_data :: bytes
  ar_link :: client_link
  ar_now :: nat
  ar_wall :: system_time

fun handle_all :: "sender \<Rightarrow> arrival list \<Rightarrow> server \<Rightarrow> effect list \<times> server" where
  "handle_all snd_to [] sv = ([], sv)"
| "handle_all snd_to (a # as) sv =
     (case server_handle_frame snd_to (ar_now a) (ar_wall a) (ar_data a) (ar_link a) sv of
        (_, out, sv') \<Rightarrow> (case handle_all snd_to as sv' of (out', sv'') \<Rightarrow> (out @ out', sv'')))"

lemma fst_handle_all_Cons:
  "fst (handle_all snd_to (a # as) sv) =
     (case server_handle_frame snd_to (ar_now a) (ar_wall a) (ar_data a) (ar_link a) sv of
        (_, out, sv') \<Rightarrow> out @ fst (handle_all snd_to as sv'))"
  by (simp split: prod.split)

lemma handle_tunnelling_frame:
  assumes "sendable t" "sv_sessions sv ch = Some s" "snd_to (ss_link s) = Ok ()"
  shows "server_handle_frame snd_to now wall (build_tunnelling_frame_with_code t ch n code) link sv =
    (Ok None,
     Reply (ss_link s) (KnxIpFrame_serialize (KnxIpFrame_new TunnellingAck (TunnellingAck_serialize
       (if n = ss_recv_seq s \<or> n = ss_recv_seq s - 1 then TunnellingAck_new_ok ch n
        else TunnellingAck_new_sequence_error ch n)))) #
     (if n = ss_recv_seq s then [Publish (received_as wall t)] else []),
     sv\<lparr>sv_sessions := (sv_sessions sv)(ch \<mapsto> snd (validate_recv_seq n (session_touch now s)))\<rparr>)"
proof -
  let ?raw = "CemiFrame_serialize (telegram_cemi code t)"
  have len: "length ?raw \<le> 65525"
    using length_telegram_cemi [OF assms(1), of code] by simp
  have parse: "TunnellingRequest_parse (TunnellingRequest_serialize (TunnellingRequest_new ch n ?raw)) =
      Ok (TunnellingRequest_new ch n ?raw)"
    by (rule tunnelling_request.parse_ser) (simp add: TunnellingRequest_new_def)
  show ?thesis
    unfolding server_handle_frame_def build_tunnelling_frame_with_code_def tunnelling_frame_parse [OF len]
    using assms parse parse_telegram_cemi [OF assms(1), of wall code]
    by (cases "n = ss_recv_seq s"; cases "n = ss_recv_seq s - 1")
       (simp_all add: dispatch_plain_frame_def server_handle_tunnelling_request_def
        no_channel_def send_reply_def validate_recv_seq_def Let_def)
qed

text \<open>
  Whatever numbers a client sends on its channel, the server publishes the telegrams of the frames
  that the sequence check accepts.  Payloads here are the telegram with its arrival.
\<close>

fun tunnel_arrival :: "u8 \<Rightarrow> u8 \<times> telegram \<times> client_link \<times> nat \<times> system_time \<Rightarrow> arrival" where
  "tunnel_arrival ch (n, t, link, now, wall) =
     \<lparr>ar_data = build_outgoing_frame_for_connection t (Via_Tunnel ch n), ar_link = link,
      ar_now = now, ar_wall = wall\<rparr>"

lemma build_outgoing_tunnel:
  "build_outgoing_frame_for_connection t (Via_Tunnel ch n) =
     build_tunnelling_frame_with_code t ch n LDataReq"
  by (simp add: build_outgoing_frame_for_connection_def build_tunnelling_frame_with_code_def Let_def)

lemma published_accepted:
  assumes "sv_sessions sv ch = Some s" "snd_to (ss_link s) = Ok ()" "ss_recv_seq s0 = ss_recv_seq s"
    and "\<forall>f \<in> set fs. sendable (fst (snd f))"
  shows "published (fst (handle_all snd_to (map (tunnel_arrival ch) fs) sv)) =
           map (\<lambda>(n, t, link, now, wall). received_as wall t) (accepted validate_recv_seq fs s0)"
  using assms
proof (induction fs arbitrary: sv s s0)
  case (Cons f fs)
  obtain n t link now wall where f: "f = (n, t, link, now, wall)"
    by (cases f) auto
  let ?s = "snd (validate_recv_seq n (session_touch now s))"
  let ?sv = "sv\<lparr>sv_sessions := (sv_sessions sv)(ch \<mapsto> ?s)\<rparr>"
  have "published (fst (handle_all snd_to (map (tunnel_arrival ch) fs) ?sv)) =
      map (\<lambda>(n, t, link, now, wall). received_as wall t)
        (accepted validate_recv_seq fs (snd (validate_recv_seq n s0)))"
    using Cons.prems by (intro Cons.IH [of ?sv ?s]) (auto simp: server_window.expected_validate)
  moreover have "sendable t"
    using Cons.prems f by simp
  ultimately show ?case
    using Cons.prems f handle_tunnelling_frame [of t sv ch s snd_to now wall n LDataReq link]
    by (simp add: fst_handle_all_Cons build_outgoing_tunnel server_window.accepted_Cons
        del: accepted.simps handle_all.simps)
qed simp

lemma accepted_map:
  "accepted v (map (\<lambda>(n, p). (n, f p)) fs) s = map (\<lambda>(n, p). (n, f p)) (accepted v fs s)"
  by (induction v fs s rule: accepted.induct) (auto split: prod.splits sequence_validation_result.splits)

text \<open>A telegram without the time at which it was taken in.\<close>

definition untimed :: "telegram \<Rightarrow> telegram" where
  "untimed t = t\<lparr>tg_timestamp := 0\<rparr>"

lemma untimed_received_as: "untimed (received_as now t) = received_as 0 t"
  by (simp add: untimed_def received_as_def)

lemma published_exactly_once:
  assumes "sv_sessions sv ch = Some s" "snd_to (ss_link s) = Ok ()"
    and "map (\<lambda>(n, t, _). (n, t)) fs = stutter ks (number_from (ss_recv_seq s) ts)"
    and "\<forall>f \<in> set fs. sendable (fst (snd f))"
  shows "map untimed (published (fst (handle_all snd_to (map (tunnel_arrival ch) fs) sv))) =
           map (received_as 0) ts"
proof -
  have "map (\<lambda>(n, t, _). (n, t)) (accepted validate_recv_seq fs s) =
      accepted validate_recv_seq (map (\<lambda>(n, t, _). (n, t)) fs) s"
    using accepted_map [of validate_recv_seq fst fs s] by (simp add: case_prod_unfold)
  also have "\<dots> = number_from (ss_recv_seq s) ts"
    unfolding assms(3) by (rule server_window.exactly_once) simp
  finally have "map snd (map (\<lambda>(n, t, _). (n, t)) (accepted validate_recv_seq fs s)) = ts"
    by (metis map_snd_number_from)
  then have "map (\<lambda>f. fst (snd f)) (accepted validate_recv_seq fs s) = ts"
    by (simp add: case_prod_unfold comp_def)
  then show ?thesis
    using published_accepted [of sv ch s snd_to s fs] assms(1,2,4)
    by (auto simp: case_prod_unfold untimed_received_as)
qed

subsection \<open>Connecting\<close>

lemma handle_connect_frame:
  assumes "connect_request_fits req" "allocate_channel_id (sv_sessions sv) = Some ch"
    and "snd_to (resolve_link (creq_data_endpoint req) link) = Ok ()"
  shows "server_handle_frame snd_to now wall
      (KnxIpFrame_serialize (KnxIpFrame_new ConnectRequest (ConnectRequest_serialize req))) link sv =
    (Ok (Some ch),
     [Reply (resolve_link (creq_data_endpoint req) link)
        (KnxIpFrame_serialize (KnxIpFrame_new ConnectResponse (ConnectResponse_serialize
           \<lparr>cresp_channel_id = ch, cresp_status = 0,
            cresp_data_endpoint = Hpai_new (sv_local_addr sv),
            cresp_crd = build_tunnel_crd (sv_individual_address sv),
            cresp_assigned_address = Some (sv_individual_address sv)\<rparr>)))],
     sv\<lparr>sv_sessions := (sv_sessions sv)
         (ch \<mapsto> ClientSession_new now ch (resolve_link (creq_data_endpoint req) link))\<rparr>)"
proof -
  have "length (ConnectRequest_serialize req) \<le> 65529"
    by (simp add: ConnectRequest_serialize_def Hpai_serialize_def ConnectionRequestInfo_serialize_def
        split: option.split ip_addr.split)
  from KnxIpFrame_parse_serialize [OF KnxIpFrame_new_fits [OF this], where rest = "[]"]
  show ?thesis
    using assms connect_request.parse_ser [OF assms(1)]
    by (simp add: server_handle_frame_def dispatch_plain_frame_def server_handle_connect_request_def
        send_reply_def Let_def)
qed

lemma handle_disconnect_frame:
  assumes "hpai_fits (dreq_control_endpoint req)"
  shows "after (server_handle_frame snd_to now wall
      (KnxIpFrame_serialize (KnxIpFrame_new DisconnectRequest (DisconnectRequest_serialize req))) link sv) =
    sv\<lparr>sv_sessions := (sv_sessions sv)(dreq_channel_id req := None)\<rparr>
   \<and> (\<forall>ch. fst (server_handle_frame snd_to now wall
      (KnxIpFrame_serialize (KnxIpFrame_new DisconnectRequest (DisconnectRequest_serialize req))) link sv)
      \<noteq> Ok (Some ch))"
proof -
  have "length (DisconnectRequest_serialize req) \<le> 65529"
    by (simp add: DisconnectRequest_serialize_def Hpai_serialize_def split: ip_addr.split)
  from KnxIpFrame_parse_serialize [OF KnxIpFrame_new_fits [OF this], where rest = "[]"]
  show ?thesis
    using disconnect_request.parse_ser [of req] assms
    by (auto simp: server_handle_frame_def dispatch_plain_frame_def after_disconnect_request
        no_channel_def split: prod.splits res.splits)
       (auto simp: server_handle_disconnect_request_def send_reply_def Let_def)
qed

lemma server_handle_frame_panic:
  assumes "\<And>l. snd_to l \<noteq> Panic"
  shows "fst (server_handle_frame snd_to now wall data link sv) = Panic \<longleftrightarrow> KnxIpFrame_parse data = Panic"
proof -
  have "fst (no_channel h) = Panic \<longleftrightarrow> fst h = Panic" for h
    by (cases h; cases "fst h") (simp_all add: no_channel_def)
  moreover have "fst (server_handle_connect_request snd_to now body link sv) \<noteq> Panic" for body
    using assms connect_request.parse_no_panic [of body]
    by (simp add: server_handle_connect_request_def send_reply_def Let_def split: res.split option.split)
  moreover have "fst (server_handle_tunnelling_request snd_to now wall body sv) \<noteq> Panic" for body
    using assms tunnelling_request.parse_no_panic [of body] parse_cemi_to_telegram_no_panic
    by (simp add: server_handle_tunnelling_request_def send_reply_def Let_def
        split: res.split option.split prod.split sequence_validation_result.split)
  moreover have "fst (server_handle_tunnelling_ack body sv) \<noteq> Panic" for body
    using tunnelling_ack.parse_no_panic [of body]
    by (simp add: server_handle_tunnelling_ack_def split: res.split option.split)
  moreover have "fst (server_handle_connectionstate_request snd_to now body link sv) \<noteq> Panic" for body
    using assms connectionstate_request.parse_no_panic [of body]
    by (simp add: server_handle_connectionstate_request_def send_reply_def Let_def
        split: res.split option.split)
  moreover have "fst (server_handle_disconnect_request snd_to body link sv) \<noteq> Panic" for body
    using assms disconnect_request.parse_no_panic [of body]
    by (simp add: server_handle_disconnect_request_def send_reply_def Let_def split: res.split)
  ultimately have "fst (dispatch_plain_frame snd_to now wall frame link sv) \<noteq> Panic" for frame
    by (simp add: dispatch_plain_frame_def split: service_type.split)
  then show ?thesis
    by (simp add: server_handle_frame_def split: res.split)
qed

subsection \<open>Loops\<close>

lemma dispatch_datagram_panic:
  assumes "KnxIpFrame_parse (take 1024 (dg_data d)) = Panic"
  shows "dispatch_datagram snd_to d u = u\<lparr>ut_running := False\<rparr>"
  using assms by (simp add: dispatch_datagram_def server_handle_frame_def)

lemma dispatch_loop_dead: "\<not> ut_running u \<Longrightarrow> dispatch_loop snd_to ds u = u"
  by (induction ds) (simp_all add: dispatch_loop_def dispatch_datagram_def)

lemma server_send_sessions:
  assumes "server_inv sv" "distinct order"
  shows "sv_sessions (server_send t tries order sv) ch =
    (if ch \<in> set order
     then (case sv_sessions sv ch of
             None \<Rightarrow> None
           | Some s \<Rightarrow> (case send_to_session t (fst (tries ch)) (snd (tries ch)) s of
                         (Ok _, _, s') \<Rightarrow> Some s' | _ \<Rightarrow> None))
     else sv_sessions sv ch)"
  using assms
proof (induction t tries order sv rule: server_send.induct)
  case (2 t tries c order sv)
  show ?case
  proof (cases "sv_sessions sv c")
    case None
    then show ?thesis
      using 2 by auto
  next
    case (Some s)
    obtain r frame s' where st: "send_to_session t (fst (tries c)) (snd (tries c)) s = (r, frame, s')"
      by (cases "send_to_session t (fst (tries c)) (snd (tries c)) s") auto
    have c: "ss_channel_id s = c"
      using 2(5) Some by (simp add: server_inv_def)
    show ?thesis
      using 2 Some st c send_to_session_fields [OF st]
      by (cases r) (auto simp: server_inv_update)
  qed
qed simp

section \<open>Properties\<close>

text \<open>A server, a client link and a connect request to run the properties on.\<close>

definition sample_server :: server where
  "sample_server = server_init (V4 10 0 0 1, 3671) (IndividualAddress 0x1101)"

definition sample_connect_frame :: bytes where
  "sample_connect_frame = KnxIpFrame_serialize (KnxIpFrame_new ConnectRequest
     (ConnectRequest_serialize ConnectRequest_new_route_back))"

definition sample_session :: client_session where
  "sample_session = ClientSession_new 0 1 (UdpLink (V4 10 0 0 2, 5000))"

definition sample_connected :: server where
  "sample_connected = sample_server\<lparr>sv_sessions := [1 \<mapsto> sample_session]\<rparr>"

lemma route_back_fits: "connect_request_fits ConnectRequest_new_route_back"
  by (simp add: connect_request_fits_def ConnectRequest_new_route_back_def hpai_fits_def
      Hpai_route_back_def cri_fits_def ConnectionRequestInfo_new_tunnel_def)

lemma allocate_first: "m 1 = None \<Longrightarrow> allocate_channel_id m = Some 1"
  unfolding allocate_channel_id_def by (subst upt_conv_Cons) simp_all

lemma resolve_route_back:
  "resolve_link (creq_data_endpoint ConnectRequest_new_route_back) link = link"
  by (cases link) (simp_all add: resolve_link_def ConnectRequest_new_route_back_def Hpai_route_back_def)

lemma sample_connects:
  assumes "sv_sessions sv 1 = None" "snd_to link = Ok ()"
  shows "\<exists>out. server_handle_frame snd_to now wall sample_connect_frame link sv =
    (Ok (Some 1), out, sv\<lparr>sv_sessions := (sv_sessions sv)(1 \<mapsto> ClientSession_new now 1 link)\<rparr>)"
  using handle_connect_frame [OF route_back_fits allocate_first [of "sv_sessions sv"], of snd_to link now wall]
    assms by (simp add: sample_connect_frame_def resolve_route_back)

text \<open>
  C4: Sessions of the server.  In every state that the server can reach, by any frames on any links, TCP
  closes, sweeps and sends in any order, a session is stored under its own channel and channel 0 is
  never in use.
\<close>

theorem server_invariant:
  assumes "(server_step snd_to)\<^sup>*\<^sup>* (server_init addr ia) sv"
  shows "server_inv sv"
  using assms by (rule server_inv_reachable)

theorem server_invariant_witness: "server_inv sample_connected"
proof (rule server_invariant)
  let ?ok = "\<lambda>_. Ok ()"
  obtain out where "server_handle_frame ?ok 0 0 sample_connect_frame (UdpLink (V4 10 0 0 2, 5000)) sample_server =
      (Ok (Some 1), out, sample_connected)"
    using sample_connects [of sample_server ?ok "UdpLink (V4 10 0 0 2, 5000)" 0 0]
    by (auto simp: sample_connected_def sample_session_def sample_server_def server_init_def)
  then have "server_step ?ok sample_server sample_connected"
    using step_frame [of ?ok sample_server 0 0 sample_connect_frame "UdpLink (V4 10 0 0 2, 5000)"] by simp
  then show "(server_step ?ok)\<^sup>*\<^sup>* (server_init (V4 10 0 0 1, 3671) (IndividualAddress 0x1101)) sample_connected"
    unfolding sample_server_def by (rule r_into_rtranclp)
qed

text \<open>
  C24: Sessions do not interfere.  A frame leaves every session untouched - link, counters, heartbeat,
  pending ack - that is not the session of the channel named in the frame.  In particular a new
  client never takes over a channel in use.
\<close>

theorem sessions_isolated:
  assumes "sv_sessions sv ch = Some s" "frame_channel frame \<noteq> Some ch"
  shows "sv_sessions (after (dispatch_plain_frame snd_to now wall frame link sv)) ch = Some s"
  using assms by (rule other_sessions_kept)

theorem sessions_isolated_witness:
  "sv_sessions (after (dispatch_plain_frame (\<lambda>_. Ok ()) 7 7
     (KnxIpFrame_new DisconnectRequest (DisconnectRequest_serialize
        \<lparr>dreq_channel_id = 2, dreq_control_endpoint = Hpai_route_back\<rparr>)) (TcpLink 4 (V4 1 2 3 4, 9))
     sample_connected)) 1 = Some sample_session"
  by (rule sessions_isolated)
     (simp_all add: sample_connected_def frame_channel_def disconnect_request.parse_ser hpai_fits_def
       Hpai_route_back_def)

text \<open>
  C26: One datagram ends the UDP task.  A datagram on which \<open>KnxIpFrame::parse\<close> panics stops the dispatch
  task for good: whatever datagrams follow, from any client, have no effect and get no reply.
\<close>

theorem udp_task_killed:
  assumes "KnxIpFrame_parse (take 1024 (dg_data d)) = Panic"
  shows "dispatch_loop snd_to (ds @ d # ds') u = (dispatch_loop snd_to ds u)\<lparr>ut_running := False\<rparr>"
proof -
  have "dispatch_loop snd_to (ds @ d # ds') u =
      dispatch_loop snd_to ds' (dispatch_datagram snd_to d (dispatch_loop snd_to ds u))"
    by (simp add: dispatch_loop_def)
  also have "\<dots> = (dispatch_loop snd_to ds u)\<lparr>ut_running := False\<rparr>"
    by (simp add: dispatch_datagram_panic [OF assms] dispatch_loop_dead)
  finally show ?thesis .
qed

theorem udp_task_killed_witness:
  "dispatch_loop (\<lambda>_. Ok ())
     ([] @ \<lparr>dg_data = [0x06, 0x10, 0x02, 0x05, 0x00, 0x00], dg_peer = (V4 1 2 3 4, 9), dg_now = 0, dg_wall = 0\<rparr>
       # [\<lparr>dg_data = sample_connect_frame, dg_peer = (V4 10 0 0 2, 5000), dg_now = 1, dg_wall = 1\<rparr>])
     \<lparr>ut_running = True, ut_out = [], ut_server = sample_server\<rparr> =
   (dispatch_loop (\<lambda>_. Ok ()) [] \<lparr>ut_running = True, ut_out = [], ut_server = sample_server\<rparr>)
     \<lparr>ut_running := False\<rparr>"
  by (rule udp_task_killed)
     (simp add: KnxIpFrame_parse_def KnxIpHeader_parse_def ServiceType_from_u16_def u16_from_be_bytes_def)

text \<open>
  Sending one telegram to a client.  The frame carries the session's counter and is the same in both
  attempts; the send succeeds exactly when the first attempt is acknowledged with status 0, or times
  out and the second is; the counter advances (wrapping) exactly when the send succeeds.
\<close>

lemma send_to_session_outcome:
  "case send_to_session t first second s of
     (r, frame, s') \<Rightarrow>
       frame = build_tunnelling_frame_with_code t (ss_channel_id s) (ss_send_seq s) LDataInd
       \<and> ss_send_seq s' = (if r = Ok () then ss_send_seq s + 1 else ss_send_seq s)
       \<and> (r = Ok () \<longleftrightarrow>
            (\<exists>ack. tack_status_code ack = 0
               \<and> (first = (Ok (), Some ack) \<or> first = (Ok (), None) \<and> second = (Ok (), Some ack))))"
proof -
  obtain r frame s' where st: "send_to_session t first second s = (r, frame, s')"
    by (cases "send_to_session t first second s") auto
  have "r = Ok () \<longleftrightarrow> (\<exists>ack. tack_status_code ack = 0
      \<and> (first = (Ok (), Some ack) \<or> first = (Ok (), None) \<and> second = (Ok (), Some ack)))"
    using st by (cases first; cases second)
      (auto simp: send_to_session_def Let_def split: res.splits option.splits if_splits)
  then show ?thesis
    using st send_to_session_fields [OF st] by (auto simp: send_to_session_def Let_def split: prod.splits)
qed

text \<open>
  Sending to all clients.  In whatever order the sessions are visited, each of them ends up as its
  own send leaves it when that send succeeds and is removed when it fails; no failure affects another
  client.
\<close>

lemma server_send_all:
  assumes "server_inv sv" "distinct order" "dom (sv_sessions sv) \<subseteq> set order"
  shows "sv_sessions (server_send t tries order sv) ch =
    (case sv_sessions sv ch of
       None \<Rightarrow> None
     | Some s \<Rightarrow> (case send_to_session t (fst (tries ch)) (snd (tries ch)) s of
                   (Ok _, _, s') \<Rightarrow> Some s' | _ \<Rightarrow> None))"
proof -
  have "sv_sessions sv ch = None" if "ch \<notin> set order"
    using that assms(3) by blast
  then show ?thesis
    unfolding server_send_sessions [OF assms(1,2)] by simp
qed

text \<open>
  Acknowledgements are not matched by sequence number.  An ack with status 0 for the channel of a
  session that waits for one is passed to the waiting sender whatever its sequence counter is, and
  the send then counts as successful: a late ack of an earlier frame confirms a later one.
\<close>

lemma ack_sequence_unchecked:
  assumes "sv_sessions sv (tack_channel_id ack) = Some s" "ss_pending_ack s" "tack_status_code ack = 0"
  shows "fst (snd (server_handle_tunnelling_ack (TunnellingAck_serialize ack) sv)) =
           [Pass_Ack (tack_channel_id ack) ack]
       \<and> fst (send_to_session t (Ok (), Some ack) second s) = Ok ()"
  using assms tunnelling_ack.parse_ser [of ack]
  by (simp add: server_handle_tunnelling_ack_def send_to_session_def Let_def)

text \<open>
  A closing TCP stream removes another client.  A TCP client connects (channel 1) and disconnects;
  a second client connects and is given channel 1; when the stream of the first client closes, the
  task removes channel 1, which is the session of the second client.
\<close>

lemma tcp_close_evicts_other:
  assumes "linkA = TcpLink n peerA" "snd_to linkA = Ok ()" "snd_to linkB = Ok ()"
    and "disc = KnxIpFrame_serialize (KnxIpFrame_new DisconnectRequest (DisconnectRequest_serialize
           \<lparr>dreq_channel_id = 1, dreq_control_endpoint = Hpai_route_back\<rparr>))"
    and "st1 = tcp_frame snd_to 0 0 sample_connect_frame linkA (None, server_init addr ia)"
    and "st2 = tcp_frame snd_to 1 1 disc linkA st1"
    and "sv = after (server_handle_frame snd_to 2 2 sample_connect_frame linkB (snd st2))"
  shows "map_option ss_link (sv_sessions sv 1) = Some linkB
       \<and> sv_sessions (tcp_close (fst st2, sv)) 1 = None"
proof -
  let ?sv0 = "server_init addr ia"
  let ?sv1 = "?sv0\<lparr>sv_sessions := (sv_sessions ?sv0)(1 \<mapsto> ClientSession_new 0 1 linkA)\<rparr>"
  have st1: "st1 = (Some 1, ?sv1)"
    using sample_connects [of ?sv0 snd_to linkA 0 0] assms(2,5)
    by (auto simp: tcp_frame_def server_init_def)
  have st2: "st2 = (Some 1, ?sv1\<lparr>sv_sessions := (sv_sessions ?sv1)(1 := None)\<rparr>)"
    using handle_disconnect_frame [of "\<lparr>dreq_channel_id = 1, dreq_control_endpoint = Hpai_route_back\<rparr>"
        snd_to 1 1 linkA ?sv1] assms(4,6) st1
    by (auto simp: tcp_frame_def hpai_fits_def Hpai_route_back_def split: prod.splits res.splits option.splits)
  have "sv = (snd st2)\<lparr>sv_sessions := (sv_sessions (snd st2))(1 \<mapsto> ClientSession_new 2 1 linkB)\<rparr>"
    using sample_connects [of "snd st2" snd_to linkB 2 2] assms(3,7) st2 by auto
  then show ?thesis
    by (simp add: st2 tcp_close_def ClientSession_new_def)
qed

end
