(* ===== verification/Address_Registry.thy ===== *)
theory Address_Registry
  imports Address
begin

text \<open>
  Collision-safe claiming of individual addresses, \<open>src/transport/address_registry.rs\<close>, and the use
  the tunnels make of it: \<open>finish_connect\<close> claims an address and stores it, \<open>disconnect\<close> takes the
  stored address and releases it (\<open>src/transport/tunnel.rs\<close> lines 378--398 and 544--550).

  Each registry operation runs under its write lock and is one step; the tunnels interleave
  arbitrarily.

  Shown: the operations refine sets, and in every reachable state no two tunnels hold the same
  address, every held address is claimed, and a held address is never reported as available.
\<close>

record address_registry =
  ar_claimed :: "individual_address set"
  ar_known_occupied :: "individual_address set"

definition AddressRegistry_new :: address_registry where
  "AddressRegistry_new = \<lparr>ar_claimed = {}, ar_known_occupied = {}\<rparr>"

definition registry_claim :: "individual_address \<Rightarrow> address_registry \<Rightarrow> unit result \<times> address_registry" where
  "registry_claim addr r =
     (if addr \<in> ar_claimed r then (Err (Transport InvalidConfiguration_Transport), r)
      else (Ok (), r\<lparr>ar_claimed := insert addr (ar_claimed r)\<rparr>))"

definition registry_release :: "individual_address \<Rightarrow> address_registry \<Rightarrow> address_registry" where
  "registry_release addr r = r\<lparr>ar_claimed := ar_claimed r - {addr}\<rparr>"

definition registry_is_claimed :: "individual_address \<Rightarrow> address_registry \<Rightarrow> bool" where
  "registry_is_claimed addr r = (addr \<in> ar_claimed r)"

definition registry_add_known_occupied :: "individual_address \<Rightarrow> address_registry \<Rightarrow> address_registry" where
  "registry_add_known_occupied addr r = r\<lparr>ar_known_occupied := insert addr (ar_known_occupied r)\<rparr>"

definition registry_is_available :: "individual_address \<Rightarrow> address_registry \<Rightarrow> bool" where
  "registry_is_available addr r =
     (if addr \<in> ar_claimed r then False else addr \<notin> ar_known_occupied r)"

section \<open>The contract of a registry\<close>

text \<open>
  What the tunnels rely on.  \<open>held\<close> is the set of addresses that are taken.
\<close>

locale exclusive_registry =
  fixes claim :: "'addr \<Rightarrow> 'reg \<Rightarrow> 'err option \<times> 'reg"
    and release :: "'addr \<Rightarrow> 'reg \<Rightarrow> 'reg"
    and held :: "'reg \<Rightarrow> 'addr set"
  assumes claim_free: "addr \<notin> held r \<Longrightarrow> fst (claim addr r) = None \<and> held (snd (claim addr r)) = insert addr (held r)"
    and claim_taken: "addr \<in> held r \<Longrightarrow> fst (claim addr r) \<noteq> None \<and> held (snd (claim addr r)) = held r"
    and release_held: "held (release addr r) = held r - {addr}"
begin

lemma claim_twice: "fst (claim addr (snd (claim addr r))) \<noteq> None"
  using claim_free [of addr r] claim_taken [of addr r] claim_taken [of addr "snd (claim addr r)"]
  by (cases "addr \<in> held r") auto

lemma claim_after_release: "fst (claim addr (release addr r)) = None"
  using claim_free [of addr "release addr r"] release_held by simp

text \<open>
  Owners with at most one address each: whatever they own is taken, and no address has two owners.
\<close>

definition owner_inv :: "('c \<Rightarrow> 'addr option) \<Rightarrow> 'reg \<Rightarrow> bool" where
  "owner_inv own r =
     ((\<forall>c addr. own c = Some addr \<longrightarrow> addr \<in> held r)
      \<and> (\<forall>c d addr. own c = Some addr \<longrightarrow> own d = Some addr \<longrightarrow> c = d))"

lemma owner_inv_acquire:
  assumes "owner_inv own r" "fst (claim addr r) = None"
  shows "owner_inv (own(c := Some addr)) (snd (claim addr r))"
proof -
  have "addr \<notin> held r"
    using assms(2) claim_taken [of addr r] by blast
  then show ?thesis
    using assms(1) claim_free [of addr r] by (auto simp: owner_inv_def)
qed

lemma owner_inv_refused:
  assumes "owner_inv own r" "fst (claim addr r) \<noteq> None"
  shows "owner_inv own (snd (claim addr r))"
proof -
  have "addr \<in> held r"
    using assms(2) claim_free [of addr r] by (cases "addr \<in> held r") auto
  then show ?thesis
    using assms(1) claim_taken [of addr r] by (simp add: owner_inv_def)
qed

lemma owner_inv_release:
  "\<lbrakk>owner_inv own r; own c = Some addr\<rbrakk> \<Longrightarrow> owner_inv (own(c := None)) (release addr r)"
  by (auto simp: owner_inv_def release_held)

end

definition claim_opt :: "individual_address \<Rightarrow> address_registry \<Rightarrow> knx_error option \<times> address_registry" where
  "claim_opt addr r =
     (case registry_claim addr r of (Err e, r') \<Rightarrow> (Some e, r') | (_, r') \<Rightarrow> (None, r'))"

interpretation registry: exclusive_registry claim_opt registry_release ar_claimed
  by unfold_locales (auto simp: claim_opt_def registry_claim_def registry_release_def)

section \<open>Tunnels sharing a registry\<close>

text \<open>
  The address a tunnel has stored (\<open>individual_address\<close>), for tunnels named by a number.  \<open>Connect\<close>
  is the claim of \<open>finish_connect\<close>: on success the address is stored (an address stored before is
  overwritten), on failure nothing changes.  \<open>Disconnect\<close> takes the stored address and releases it.
\<close>

datatype registry_op =
    Connect_Claim nat individual_address
  | Disconnect_Release nat
  | Known_Occupied individual_address

record tunnels =
  ts_address :: "nat \<Rightarrow> individual_address option"
  ts_registry :: address_registry

fun registry_step :: "registry_op \<Rightarrow> tunnels \<Rightarrow> tunnels" where
  "registry_step (Connect_Claim c addr) s =
     (case registry_claim addr (ts_registry s) of
        (Ok _, r) \<Rightarrow> \<lparr>ts_address = (ts_address s)(c := Some addr), ts_registry = r\<rparr>
      | (_, r) \<Rightarrow> s\<lparr>ts_registry := r\<rparr>)"
| "registry_step (Disconnect_Release c) s =
     (case ts_address s c of
        Some addr \<Rightarrow> \<lparr>ts_address = (ts_address s)(c := None),
                        ts_registry = registry_release addr (ts_registry s)\<rparr>
      | None \<Rightarrow> s)"
| "registry_step (Known_Occupied addr) s =
     s\<lparr>ts_registry := registry_add_known_occupied addr (ts_registry s)\<rparr>"

definition tunnels_init :: tunnels where
  "tunnels_init = \<lparr>ts_address = (\<lambda>_. None), ts_registry = AddressRegistry_new\<rparr>"

lemma registry_claim_opt:
  "registry_claim addr r =
     (case claim_opt addr r of (None, r') \<Rightarrow> (Ok (), r') | (Some e, r') \<Rightarrow> (Err e, r'))"
  by (auto simp: claim_opt_def registry_claim_def)

lemma owner_inv_registry_step:
  assumes "registry.owner_inv (ts_address s) (ts_registry s)"
  shows "registry.owner_inv (ts_address (registry_step op s)) (ts_registry (registry_step op s))"
proof (cases op)
  case (Connect_Claim c addr)
  then show ?thesis
    using registry.owner_inv_acquire [OF assms, of addr c] registry.owner_inv_refused [OF assms, of addr]
    by (auto simp: registry_claim_opt split: prod.splits option.splits)
next
  case (Disconnect_Release c)
  then show ?thesis
    using registry.owner_inv_release [OF assms, of c] assms by (auto split: option.splits)
next
  case (Known_Occupied addr)
  then show ?thesis
    using assms by (simp add: registry.owner_inv_def registry_add_known_occupied_def)
qed

lemma owner_inv_history:
  "registry.owner_inv (ts_address (fold registry_step ops tunnels_init))
     (ts_registry (fold registry_step ops tunnels_init))"
proof (induction ops rule: rev_induct)
  case Nil
  then show ?case
    by (simp add: tunnels_init_def registry.owner_inv_def)
next
  case (snoc op ops)
  then show ?case
    by (simp add: owner_inv_registry_step)
qed

section \<open>Properties\<close>

text \<open>
  C10: Exclusive addresses.  After any interleaving of connects, disconnects and reports of occupied
  addresses, from any number of tunnels sharing one registry, no two tunnels hold the same address,
  every held address is claimed in the registry, and none of them is reported as available.
\<close>

theorem registry_exclusive:
  "let s = fold registry_step ops tunnels_init in
   inj_on (ts_address s) {c. ts_address s c \<noteq> None}
   \<and> ran (ts_address s) \<subseteq> {addr. registry_is_claimed addr (ts_registry s)}
   \<and> ran (ts_address s) \<inter> {addr. registry_is_available addr (ts_registry s)} = {}"
  using owner_inv_history [of ops]
  by (auto simp: registry.owner_inv_def inj_on_def ran_def registry_is_claimed_def
      registry_is_available_def Let_def)

end
