(* ===== verification/Tunnel.thy ===== *)
theory Tunnel
  imports Sequence Address_Registry Knxip_Messages
begin

text \<open>
  The client side of a tunnel, \<open>src/transport/tunnel.rs\<close>, in a build without KNX Secure: its state,
  the connect handshake with address management, disconnect, sending and receiving with statistics,
  and the sequence counters.

  The network is a record of outcomes: whether the transport can be established, what a send
  returns, what the single receive of the handshake returns (\<open>None\<close> is the timeout), which frames
  arrive while waiting for the disconnect response, and the address that \<open>auto_select_address\<close>
  finds.  An operation returns its result, the frames it handed to the transport, and the new state.
  The shared address registry is passed along.  Locks are never poisoned here.
\<close>

section \<open>State\<close>

datatype transport_kind = Udp | Tcp

datatype connection_state = Connecting | Connected | Disconnecting | Disconnected | Failed

text \<open>
  The errors that the statistics record.  The source stores the text of the error: of a \<open>KnxError\<close>, of an error of
  the socket, or of a control message of a routing connection (lost messages; busy, with device state and wait time).
\<close>

datatype recorded_error = Recorded knx_error | Socket_Failure | Lost_Message | Busy_Message u16 u16

record connection_stats =
  cs_frames_sent :: nat
  cs_frames_received :: nat
  cs_send_errors :: nat
  cs_recv_errors :: nat
  cs_connection_errors :: nat
  cs_last_error :: "recorded_error option"

definition ConnectionStats_default :: connection_stats where
  "ConnectionStats_default =
     \<lparr>cs_frames_sent = 0, cs_frames_received = 0, cs_send_errors = 0, cs_recv_errors = 0,
      cs_connection_errors = 0, cs_last_error = None\<rparr>"

definition record_connection_error :: "recorded_error \<Rightarrow> connection_stats \<Rightarrow> connection_stats" where
  "record_connection_error e st =
     st\<lparr>cs_connection_errors := cs_connection_errors st + 1, cs_last_error := Some e\<rparr>"

definition record_send_error :: "recorded_error \<Rightarrow> connection_stats \<Rightarrow> connection_stats" where
  "record_send_error e st = st\<lparr>cs_send_errors := cs_send_errors st + 1, cs_last_error := Some e\<rparr>"

definition record_receive_error :: "recorded_error \<Rightarrow> connection_stats \<Rightarrow> connection_stats" where
  "record_receive_error e st = st\<lparr>cs_recv_errors := cs_recv_errors st + 1, cs_last_error := Some e\<rparr>"

record tunnel =
  tn_kind :: transport_kind
  tn_transport :: bool
  tn_local_hpai :: hpai
  tn_channel_id :: u8
  tn_sequence_counter :: u8
  tn_expected_sequence_number :: u8
  tn_state :: connection_state
  tn_stats :: connection_stats
  tn_connection_timeout :: u64
  tn_established_at :: "nat option"
  tn_use_heartbeat :: bool
  tn_send_acks :: bool
  tn_configured_address :: "individual_address option"
  tn_address_registry :: bool
  tn_individual_address :: "individual_address option"

definition tunnel_build :: "transport_kind \<Rightarrow> hpai \<Rightarrow> u64 \<Rightarrow> bool \<Rightarrow> bool \<Rightarrow> tunnel" where
  "tunnel_build kind local_hpai tmo use_heartbeat send_acks =
     \<lparr>tn_kind = kind, tn_transport = False, tn_local_hpai = local_hpai, tn_channel_id = 0,
      tn_sequence_counter = 0, tn_expected_sequence_number = 0, tn_state = Disconnected,
      tn_stats = ConnectionStats_default, tn_connection_timeout = tmo, tn_established_at = None,
      tn_use_heartbeat = use_heartbeat, tn_send_acks = send_acks, tn_configured_address = None,
      tn_address_registry = False, tn_individual_address = None\<rparr>"

definition set_address_management :: "individual_address option \<Rightarrow> tunnel \<Rightarrow> tunnel" where
  "set_address_management configured t =
     t\<lparr>tn_address_registry := True, tn_configured_address := configured\<rparr>"

record net =
  net_now :: nat
  net_establish :: "unit result"
  net_send :: "unit result"
  net_recv :: "bytes result option"
  net_replies :: "bytes result list"
  net_probe :: "individual_address result"

section \<open>Sequence numbers\<close>

definition next_sequence :: "tunnel \<Rightarrow> u8 \<times> tunnel" where
  "next_sequence t = (tn_sequence_counter t, t\<lparr>tn_sequence_counter := tn_sequence_counter t + 1\<rparr>)"

definition reset_sequence :: "tunnel \<Rightarrow> tunnel" where
  "reset_sequence t = t\<lparr>tn_sequence_counter := 0, tn_expected_sequence_number := 0\<rparr>"

definition validate_sequence_number :: "u8 \<Rightarrow> tunnel \<Rightarrow> sequence_validation_result \<times> tunnel" where
  "validate_sequence_number received t =
     (let expected = tn_expected_sequence_number t in
      if received = expected then (Valid, t\<lparr>tn_expected_sequence_number := expected + 1\<rparr>)
      else if received = expected - 1 then (Duplicate, t)
      else (Invalid expected received, t))"

section \<open>Sending and receiving\<close>

text \<open>\<open>self.transport()?\<close> followed by \<open>transport.send_frame\<close>.\<close>

definition raw_send :: "net \<Rightarrow> tunnel \<Rightarrow> unit result" where
  "raw_send net t = (if tn_transport t then net_send net else Err (Transport ConnectionClosed))"

definition tunnel_send_frame :: "net \<Rightarrow> bytes \<Rightarrow> tunnel \<Rightarrow> unit result \<times> bytes list \<times> tunnel" where
  "tunnel_send_frame net frame t =
     (case raw_send net t of
        Ok _ \<Rightarrow> (Ok (), [frame],
                 t\<lparr>tn_stats := (tn_stats t)\<lparr>cs_frames_sent := cs_frames_sent (tn_stats t) + 1\<rparr>\<rparr>)
      | Err e \<Rightarrow> (Err e, [], t\<lparr>tn_stats := record_send_error (Recorded e) (tn_stats t)\<rparr>)
      | Panic \<Rightarrow> (Panic, [], t))"

text \<open>\<open>recv_frame\<close> when the transport returns \<open>r\<close>.\<close>

definition tunnel_recv_frame :: "bytes result \<Rightarrow> tunnel \<Rightarrow> bytes result \<times> tunnel" where
  "tunnel_recv_frame r t =
     (case (if tn_transport t then r else Err (Transport ConnectionClosed)) of
        Ok data \<Rightarrow> (Ok data,
          t\<lparr>tn_stats := (tn_stats t)\<lparr>cs_frames_received := cs_frames_received (tn_stats t) + 1\<rparr>\<rparr>)
      | Err e \<Rightarrow> (Err e, t\<lparr>tn_stats := record_receive_error (Recorded e) (tn_stats t)\<rparr>)
      | Panic \<Rightarrow> (Panic, t))"

definition connection_send :: "net \<Rightarrow> bytes \<Rightarrow> tunnel \<Rightarrow> unit result \<times> bytes list \<times> tunnel" where
  "connection_send net frame t =
     (if tn_state t \<noteq> Connected then
        (Err (Transport ConnectionClosed), [],
         t\<lparr>tn_stats := record_send_error (Recorded (Transport ConnectionClosed)) (tn_stats t)\<rparr>)
      else tunnel_send_frame net frame t)"

definition connection_recv :: "bytes result \<Rightarrow> tunnel \<Rightarrow> bytes result \<times> tunnel" where
  "connection_recv r t =
     (if tn_state t \<noteq> Connected then
        (Err (Transport ConnectionClosed),
         t\<lparr>tn_stats := record_receive_error (Recorded (Transport ConnectionClosed)) (tn_stats t)\<rparr>)
      else tunnel_recv_frame r t)"

definition send_tunnelling_ack :: "net \<Rightarrow> u8 \<Rightarrow> u8 \<Rightarrow> u8 \<Rightarrow> tunnel \<Rightarrow> unit result \<times> bytes list" where
  "send_tunnelling_ack net channel seq status t =
     (let frame = KnxIpFrame_new TunnellingAck
                    (TunnellingAck_serialize (TunnellingAck_new channel seq status)) in
      case raw_send net t of
        Ok _ \<Rightarrow> (Ok (), [KnxIpFrame_serialize frame])
      | r \<Rightarrow> (r, []))"

section \<open>Connecting\<close>

definition tunnel_new_udp :: "u64 \<Rightarrow> tunnel" where
  "tunnel_new_udp tmo = tunnel_build Udp Hpai_route_back tmo True True"

definition tunnel_new_tcp :: "u64 \<Rightarrow> tunnel" where
  "tunnel_new_tcp tmo = tunnel_build Tcp Hpai_new_tcp_route_back tmo True False"

text \<open>The answer to a connect request, once received: the part of \<open>send_connect_request\<close> after \<open>recv_frame\<close>.\<close>

definition check_connect_response :: "bytes \<Rightarrow> (u8 \<times> individual_address option) result" where
  "check_connect_response response_data =
     bind_res (KnxIpFrame_parse response_data) (\<lambda>frame.
     guard_res (kh_service_type (kf_header frame) \<noteq> ConnectResponse)
       (Transport InvalidConfiguration_Transport)
      (bind_res (ConnectResponse_parse (kf_body frame)) (\<lambda>resp.
       guard_res (\<not> ConnectResponse_is_success resp) (Transport ConnectionFailed)
        (Ok (cresp_channel_id resp, cresp_assigned_address resp)))))"

definition connect_request_for :: "tunnel \<Rightarrow> connect_request" where
  "connect_request_for t =
     (let r = (case tn_kind t of
                 Udp \<Rightarrow> ConnectRequest_new_route_back
               | Tcp \<Rightarrow> ConnectRequest_new_tcp_route_back) in
      case tn_configured_address t of
        Some addr \<Rightarrow> r\<lparr>creq_cri := (creq_cri r)\<lparr>cri_individual_address := Some addr\<rparr>\<rparr>
      | None \<Rightarrow> r)"

definition send_connect_request ::
  "net \<Rightarrow> address_registry \<Rightarrow> tunnel
     \<Rightarrow> (u8 \<times> individual_address option) result \<times> bytes list \<times> tunnel" where
  "send_connect_request net reg t =
     (if (case tn_configured_address t of
            Some addr \<Rightarrow> tn_address_registry t \<and> \<not> registry_is_available addr reg
          | None \<Rightarrow> False)
      then (Err (Transport InvalidConfiguration_Transport), [], t)
      else
        let request = KnxIpFrame_new ConnectRequest
                        (ConnectRequest_serialize (connect_request_for t)) in
        case tunnel_send_frame net (KnxIpFrame_serialize request) t of
          (Ok _, sent, t) \<Rightarrow>
            (case net_recv net of
               None \<Rightarrow> (Err (Transport (Timeout_Transport (tn_connection_timeout t))), sent, t)
             | Some r \<Rightarrow>
                 (case tunnel_recv_frame r t of
                    (Ok data, t) \<Rightarrow> (check_connect_response data, sent, t)
                  | (Err e, t) \<Rightarrow> (Err e, sent, t)
                  | (Panic, t) \<Rightarrow> (Panic, sent, t)))
        | (Err e, sent, t) \<Rightarrow> (Err e, sent, t)
        | (Panic, sent, t) \<Rightarrow> (Panic, sent, t))"

definition finish_connect ::
  "net \<Rightarrow> u8 \<Rightarrow> individual_address option \<Rightarrow> address_registry \<Rightarrow> tunnel
     \<Rightarrow> unit result \<times> address_registry \<times> tunnel" where
  "finish_connect net channel assigned reg t =
     (let t = t\<lparr>tn_channel_id := channel, tn_established_at := Some (net_now net),
                tn_state := Connected\<rparr> in
      if tn_address_registry t then
        (case (case tn_configured_address t of
                 Some cfg \<Rightarrow> Ok cfg
               | None \<Rightarrow> (case assigned of Some a \<Rightarrow> Ok a | None \<Rightarrow> net_probe net)) of
           Ok addr \<Rightarrow>
             (case registry_claim addr reg of
                (Ok _, reg) \<Rightarrow> (Ok (), reg, t\<lparr>tn_individual_address := Some addr\<rparr>)
              | (Err e, reg) \<Rightarrow> (Err e, reg, t)
              | (Panic, reg) \<Rightarrow> (Panic, reg, t))
         | Err e \<Rightarrow> (Err e, reg, t)
         | Panic \<Rightarrow> (Panic, reg, t))
      else (Ok (), reg, t))"

definition tunnel_connect ::
  "net \<Rightarrow> address_registry \<Rightarrow> tunnel \<Rightarrow> unit result \<times> bytes list \<times> address_registry \<times> tunnel" where
  "tunnel_connect net reg t =
     (let t = t\<lparr>tn_state := Connecting\<rparr>;
          fail = (\<lambda>e t. t\<lparr>tn_state := Failed,
                          tn_stats := record_connection_error (Recorded e) (tn_stats t)\<rparr>) in
      case net_establish net of
        Err e \<Rightarrow> (Err e, [], reg, fail e t)
      | Panic \<Rightarrow> (Panic, [], reg, t)
      | Ok _ \<Rightarrow>
          (case send_connect_request net reg (t\<lparr>tn_transport := True\<rparr>) of
             (Ok (channel, assigned), sent, t) \<Rightarrow>
               (case finish_connect net channel assigned reg t of
                  (r, reg, t) \<Rightarrow> (r, sent, reg, t))
           | (Err e, sent, t) \<Rightarrow> (Err e, sent, reg, fail e t)
           | (Panic, sent, t) \<Rightarrow> (Panic, sent, reg, t)))"

section \<open>Disconnecting\<close>

fun await_disconnect_response :: "bytes result list \<Rightarrow> unit result" where
  "await_disconnect_response [] = Ok ()"
| "await_disconnect_response (Err _ # _) = Ok ()"
| "await_disconnect_response (Panic # _) = Panic"
| "await_disconnect_response (Ok data # replies) =
     (case KnxIpFrame_parse data of
        Ok f \<Rightarrow>
          if kh_service_type (kf_header f) = DisconnectResponse then
            (case DisconnectResponse_parse (kf_body f) of
               Ok resp \<Rightarrow> if dresp_status resp \<noteq> 0 then Err err_invalid_frame else Ok ()
             | Err _ \<Rightarrow> Ok ()
             | Panic \<Rightarrow> Panic)
          else await_disconnect_response replies
      | Err _ \<Rightarrow> await_disconnect_response replies
      | Panic \<Rightarrow> Panic)"

definition send_disconnect_request :: "net \<Rightarrow> tunnel \<Rightarrow> unit result \<times> bytes list" where
  "send_disconnect_request net t =
     (let req = \<lparr>dreq_channel_id = tn_channel_id t, dreq_control_endpoint = tn_local_hpai t\<rparr>;
          frame = KnxIpFrame_serialize (KnxIpFrame_new DisconnectRequest (DisconnectRequest_serialize req)) in
      case raw_send net t of
        Ok _ \<Rightarrow> (await_disconnect_response (net_replies net), [frame])
      | r \<Rightarrow> (r, []))"

definition send_disconnect :: "net \<Rightarrow> tunnel \<Rightarrow> unit result \<times> bytes list" where
  "send_disconnect net t = (if tn_channel_id t = 0 then (Ok (), []) else send_disconnect_request net t)"

text \<open>\<open>disconnect\<close> ignores an error of the request; only a panic would stop it.\<close>

definition tunnel_disconnect ::
  "net \<Rightarrow> address_registry \<Rightarrow> tunnel \<Rightarrow> unit result \<times> bytes list \<times> address_registry \<times> tunnel" where
  "tunnel_disconnect net reg t =
     (let t = t\<lparr>tn_state := Disconnecting\<rparr>;
          (r, sent) = (if tn_channel_id t \<noteq> 0 then send_disconnect_request net t else (Ok (), [])) in
      if r = Panic then (Panic, sent, reg, t)
      else
        let t = t\<lparr>tn_state := Disconnected, tn_established_at := None, tn_channel_id := 0\<rparr> in
        if tn_address_registry t then
          (case tn_individual_address t of
             Some addr \<Rightarrow> (Ok (), sent, registry_release addr reg, t\<lparr>tn_individual_address := None\<rparr>)
           | None \<Rightarrow> (Ok (), sent, reg, t))
        else (Ok (), sent, reg, t))"

section \<open>Lemmas\<close>

interpretation client_window: sequence_window validate_sequence_number tn_expected_sequence_number
  by unfold_locales (auto simp: validate_sequence_number_def Let_def)

lemma check_connect_response_ok:
  assumes "check_connect_response data = Ok (ch, assigned)"
  shows "\<exists>f resp. KnxIpFrame_parse data = Ok f \<and> kh_service_type (kf_header f) = ConnectResponse
           \<and> ConnectResponse_parse (kf_body f) = Ok resp \<and> cresp_status resp = 0
           \<and> ch = cresp_channel_id resp \<and> assigned = cresp_assigned_address resp"
  using assms by (auto simp: check_connect_response_def ConnectResponse_is_success_def)

lemma send_connect_request_frame:
  assumes "send_connect_request net reg t = (r, sent, t')"
  shows "t' = t\<lparr>tn_stats := tn_stats t'\<rparr>" "tn_transport t' = tn_transport t"
    "tn_address_registry t' = tn_address_registry t"
    "tn_expected_sequence_number t' = tn_expected_sequence_number t"
    "tn_sequence_counter t' = tn_sequence_counter t"
  using assms
  by (auto simp: send_connect_request_def tunnel_send_frame_def tunnel_recv_frame_def raw_send_def Let_def
      split: if_splits res.splits option.splits)

lemma send_connect_request_ok:
  assumes "send_connect_request net reg t = (Ok (ch, assigned), sent, t')"
  shows "\<exists>data. net_recv net = Some (Ok data) \<and> check_connect_response data = Ok (ch, assigned)"
    and "sent = [KnxIpFrame_serialize (KnxIpFrame_new ConnectRequest
                   (ConnectRequest_serialize (connect_request_for t)))]"
  using assms
  by (auto simp: send_connect_request_def tunnel_send_frame_def tunnel_recv_frame_def raw_send_def Let_def
      split: if_splits res.splits option.splits)

lemma finish_connect_ok:
  assumes "finish_connect net ch assigned reg t = (Ok (), reg', t')"
  shows "tn_state t' = Connected" "tn_channel_id t' = ch" "tn_transport t' = tn_transport t"
    and "tn_address_registry t \<Longrightarrow>
           \<exists>a. tn_individual_address t' = Some a \<and> a \<notin> ar_claimed reg
             \<and> reg' = reg\<lparr>ar_claimed := insert a (ar_claimed reg)\<rparr>"
    and "\<not> tn_address_registry t \<Longrightarrow> reg' = reg"
  using assms
  by (auto simp: finish_connect_def registry_claim_def Let_def split: if_splits res.splits option.splits)

lemma finish_connect_err:
  assumes "finish_connect net ch assigned reg t = (Err e, reg', t')"
  shows "reg' = reg" "tn_state t' = Connected" "tn_individual_address t' = tn_individual_address t"
  using assms
  by (auto simp: finish_connect_def registry_claim_def Let_def split: if_splits res.splits option.splits)

lemma tunnel_connect_cases:
  assumes "tunnel_connect net reg t = (r, sent, reg', t')" "r \<noteq> Panic"
  obtains (failed) e t1 where "r = Err e" "reg' = reg" "tn_state t' = Failed"
      "t1 = t\<lparr>tn_stats := tn_stats t1\<rparr>"
      "tn_stats t' = record_connection_error (Recorded e) (tn_stats t1)"
    | (finished) ch assigned t1 where
      "send_connect_request net reg (t\<lparr>tn_state := Connecting, tn_transport := True\<rparr>) =
         (Ok (ch, assigned), sent, t1)"
      "finish_connect net ch assigned reg t1 = (r, reg', t')"
proof (cases "net_establish net")
  case (Ok u)
  let ?t = "t\<lparr>tn_state := Connecting, tn_transport := True\<rparr>"
  obtain r1 sent1 t1 where s: "send_connect_request net reg ?t = (r1, sent1, t1)"
    by (metis prod_cases3)
  show ?thesis
  proof (cases r1)
    case (Ok p)
    then show ?thesis
      using assms \<open>net_establish net = Ok u\<close> s
      by (cases p) (auto simp: tunnel_connect_def intro!: finished split: prod.splits)
  next
    case (Err e)
    then have "t1 = ?t\<lparr>tn_stats := tn_stats t1\<rparr>"
      using send_connect_request_frame(1) [OF s] by simp
    then show ?thesis
      using assms \<open>net_establish net = Ok u\<close> s Err
      by (intro failed [of e "t\<lparr>tn_stats := tn_stats t1\<rparr>"]) (auto simp: tunnel_connect_def)
  next
    case Panic
    then show ?thesis
      using assms \<open>net_establish net = Ok u\<close> s by (simp add: tunnel_connect_def)
  qed
next
  case (Err e)
  then show ?thesis
    using assms by (intro failed [of e t]) (auto simp: tunnel_connect_def)
next
  case Panic
  then show ?thesis
    using assms by (simp add: tunnel_connect_def)
qed

lemma tunnel_connect_ok:
  assumes "tunnel_connect net reg t = (Ok (), sent, reg', t')"
  shows "tn_state t' = Connected" "tn_transport t'"
    and "\<exists>data. net_recv net = Some (Ok data)
           \<and> (\<exists>assigned. check_connect_response data = Ok (tn_channel_id t', assigned))"
    and "tn_address_registry t \<Longrightarrow>
           \<exists>a. tn_individual_address t' = Some a \<and> a \<notin> ar_claimed reg
             \<and> ar_claimed reg' = insert a (ar_claimed reg)"
    and "\<not> tn_address_registry t \<Longrightarrow> reg' = reg"
proof -
  from assms obtain ch assigned t1 where
    s: "send_connect_request net reg (t\<lparr>tn_state := Connecting, tn_transport := True\<rparr>) =
         (Ok (ch, assigned), sent, t1)"
    and f: "finish_connect net ch assigned reg t1 = (Ok (), reg', t')"
    by (rule tunnel_connect_cases) auto
  have t1: "tn_transport t1" "tn_address_registry t1 = tn_address_registry t"
    using send_connect_request_frame(2,3) [OF s] by simp_all
  show "tn_state t' = Connected" "tn_transport t'"
    using finish_connect_ok(1,3) [OF f] t1 by simp_all
  show "\<exists>data. net_recv net = Some (Ok data)
           \<and> (\<exists>assigned. check_connect_response data = Ok (tn_channel_id t', assigned))"
    using send_connect_request_ok(1) [OF s] finish_connect_ok(2) [OF f] by auto
  show "tn_address_registry t \<Longrightarrow> \<exists>a. tn_individual_address t' = Some a \<and> a \<notin> ar_claimed reg
             \<and> ar_claimed reg' = insert a (ar_claimed reg)"
    using finish_connect_ok(4) [OF f] t1 by fastforce
  show "\<not> tn_address_registry t \<Longrightarrow> reg' = reg"
    using finish_connect_ok(5) [OF f] t1 by simp
qed

section \<open>Properties\<close>


text \<open>A connect response as a gateway sends it: channel 1, status OK, address 1.1.10.\<close>

definition sample_response :: bytes where
  "sample_response = [0x06, 0x10, 0x02, 0x06, 0x00, 0x14, 0x01, 0x00, 0x08, 0x01, 127, 0, 0, 1,
     0x0E, 0x57, 0x04, 0x04, 0x11, 0x0A]"

definition sample_net :: net where
  "sample_net = \<lparr>net_now = 5, net_establish = Ok (), net_send = Ok (),
     net_recv = Some (Ok sample_response), net_replies = [], net_probe = Err (Transport ConnectionClosed)\<rparr>"

lemma sample_check: "check_connect_response sample_response = Ok (1, Some (IndividualAddress 0x110A))"
  by (simp add: check_connect_response_def sample_response_def KnxIpFrame_parse_def
      KnxIpHeader_parse_def ServiceType_from_u16_def u16_from_be_bytes_def ConnectResponse_parse_def
      Hpai_parse_def ConnectResponse_is_success_def parse_assigned_address_def
      IndividualAddress_from_raw_def)

lemma sample_connect:
  assumes "t = set_address_management None (tunnel_new_udp 5000)"
  shows "tunnel_connect sample_net AddressRegistry_new t =
    (Ok (), [KnxIpFrame_serialize (KnxIpFrame_new ConnectRequest
       (ConnectRequest_serialize (connect_request_for t)))],
     \<lparr>ar_claimed = {IndividualAddress 0x110A}, ar_known_occupied = {}\<rparr>,
     t\<lparr>tn_state := Connected, tn_transport := True, tn_channel_id := 1, tn_established_at := Some 5,
       tn_stats := (tn_stats t)\<lparr>cs_frames_sent := 1, cs_frames_received := 1\<rparr>,
       tn_individual_address := Some (IndividualAddress 0x110A)\<rparr>)"
  by (simp add: assms tunnel_connect_def send_connect_request_def tunnel_send_frame_def
      tunnel_recv_frame_def raw_send_def finish_connect_def registry_claim_def sample_net_def
      sample_check set_address_management_def tunnel_new_udp_def tunnel_build_def connect_request_for_def
      AddressRegistry_new_def ConnectionStats_default_def)


text \<open>
  A failed connect.  When \<open>Tunnel::connect\<close> returns an error the registry and the tunnel's address
  are as before, and the tunnel is failed with the error counted and recorded - except when the
  gateway accepted the connection and address management then failed: in this case the error is
  returned although the tunnel stays connected on the gateway's channel.
\<close>

lemma tunnel_connect_failure:
  assumes "tunnel_connect net reg t = (Err e, sent, reg', t')"
  shows "reg' = reg
       \<and> (if tn_state t' = Connected
           then tn_address_registry t
             \<and> (\<exists>data assigned. net_recv net = Some (Ok data)
                  \<and> check_connect_response data = Ok (tn_channel_id t', assigned))
           else tn_state t' = Failed \<and> cs_last_error (tn_stats t') = Some (Recorded e)
             \<and> 0 < cs_connection_errors (tn_stats t'))"
proof -
  have "Err e \<noteq> (Panic :: unit result)" by simp
  with assms show ?thesis
  proof (rule tunnel_connect_cases)
    fix e' t1
    assume "Err e = (Err e' :: unit result)" "reg' = reg" "tn_state t' = Failed"
      "tn_stats t' = record_connection_error (Recorded e') (tn_stats t1)"
    then show ?thesis by (simp add: record_connection_error_def)
  next
    fix ch assigned t1
    assume s: "send_connect_request net reg (t\<lparr>tn_state := Connecting, tn_transport := True\<rparr>) =
         (Ok (ch, assigned), sent, t1)"
      and f: "finish_connect net ch assigned reg t1 = (Err e, reg', t')"
    have "tn_channel_id t' = ch" "tn_address_registry t1"
      using f by (auto simp: finish_connect_def registry_claim_def Let_def
          split: if_splits res.splits option.splits)
    then show ?thesis
      using finish_connect_err [OF f] send_connect_request_ok(1) [OF s]
        send_connect_request_frame(3) [OF s] by auto
  qed
qed

text \<open>
  Disconnect undoes connect.  After a successful connect, \<open>disconnect\<close> returns \<open>Ok\<close> whatever the
  network does (unless parsing a reply panics), leaves the tunnel disconnected with channel 0 and no
  address, and the set of claimed addresses is the one from before the connect.
\<close>

lemma tunnel_disconnect_releases:
  assumes "tunnel_connect net reg t = (Ok (), sent, reg1, t1)" "tn_individual_address t = None"
    and "tunnel_disconnect net' reg1 t1 = (r, sent', reg2, t2)" "r \<noteq> Panic"
  shows "r = Ok () \<and> tn_state t2 = Disconnected \<and> tn_channel_id t2 = 0
       \<and> tn_individual_address t2 = None \<and> ar_claimed reg2 = ar_claimed reg"
proof -
  have same: "tn_address_registry t1 = tn_address_registry t
      \<and> (\<not> tn_address_registry t \<longrightarrow> tn_individual_address t1 = None)"
    using assms(1)
  proof (rule tunnel_connect_cases)
    fix ch assigned t0
    assume s: "send_connect_request net reg (t\<lparr>tn_state := Connecting, tn_transport := True\<rparr>) =
         (Ok (ch, assigned), sent, t0)"
      and f: "finish_connect net ch assigned reg t0 = (Ok (), reg1, t1)"
    have "tn_individual_address t0 = None"
      using send_connect_request_frame(1) [OF s] assms(2)
      by (metis (no_types, lifting) tunnel.select_convs(15) tunnel.surjective tunnel.update_convs(2,7,8))
    then show ?thesis
      using f send_connect_request_frame(3) [OF s]
      by (auto simp: finish_connect_def registry_claim_def Let_def
          split: if_splits res.splits option.splits)
  qed simp_all
  then show ?thesis
    using assms(3,4) tunnel_connect_ok(4,5) [OF assms(1)]
    by (auto simp: tunnel_disconnect_def registry_release_def Let_def
        split: if_splits option.splits prod.splits)
qed

end
