(* ===== verification/Routing.thy ===== *)
theory Routing
  imports Tunnel
begin

text \<open>
  Routing connections, \<open>src/transport/routing.rs\<close>: KNX/IP over a multicast group.

  \<^item> Sockets are arguments: the outcome of binding, of joining and leaving the group, of sending, and the datagrams received.
  \<^item> The wait that a busy message asks for is part of the result of receiving; the code sleeps for that long.
  \<^item> The counters of busy and lost messages have 32 bits and wrap (in a build without overflow checks).

  Shown: a body sent with \<open>send\<close> is what \<open>recv\<close> returns on another connection (\<open>routing_send_recv\<close>), control messages
  are counted and carry no data (\<open>routing_counts\<close>).  The use of these connections by the client is in \<open>Receiving\<close>.
\<close>

section \<open>Definitions\<close>

record routing_connection =
  rc_multicast_addr :: socket_addr
  rc_local_addr :: socket_addr
  rc_state :: connection_state
  rc_stats :: connection_stats
  rc_established_at :: "nat option"
  rc_routing_busy_count :: u32
  rc_lost_message_count :: u32

definition MULTICAST_ADDR :: ip_addr where
  "MULTICAST_ADDR = V4 224 0 23 12"

definition MULTICAST_PORT :: u16 where
  "MULTICAST_PORT = 3671"

text \<open>The socket: the local address after binding, if it works, and whether joining the group on an interface works.\<close>

definition open_routing ::
  "(socket_addr \<Rightarrow> socket_addr option) \<Rightarrow> (ip_addr \<Rightarrow> bool) \<Rightarrow> nat \<Rightarrow> socket_addr \<Rightarrow> ip_addr \<Rightarrow> routing_connection result" where
  "open_routing bind join now bind_addr interface_addr =
     (case bind bind_addr of
        None \<Rightarrow> Err (Transport SocketError)
      | Some local_addr \<Rightarrow>
          guard_res (\<not> join interface_addr) (Transport SocketError)
            (Ok \<lparr>rc_multicast_addr = (MULTICAST_ADDR, MULTICAST_PORT), rc_local_addr = local_addr, rc_state = Connected,
                 rc_stats = ConnectionStats_default, rc_established_at = Some now, rc_routing_busy_count = 0,
                 rc_lost_message_count = 0\<rparr>))"

definition RoutingConnection_new ::
  "(socket_addr \<Rightarrow> socket_addr option) \<Rightarrow> (ip_addr \<Rightarrow> bool) \<Rightarrow> nat \<Rightarrow> ip_addr option \<Rightarrow> routing_connection result" where
  "RoutingConnection_new bind join now local_addr =
     open_routing bind join now
       (case local_addr of Some addr \<Rightarrow> (addr, MULTICAST_PORT) | None \<Rightarrow> (V4 0 0 0 0, MULTICAST_PORT)) (V4 0 0 0 0)"

definition RoutingConnection_new_with_interface ::
  "(socket_addr \<Rightarrow> socket_addr option) \<Rightarrow> (ip_addr \<Rightarrow> bool) \<Rightarrow> nat \<Rightarrow> ip_addr \<Rightarrow> routing_connection result" where
  "RoutingConnection_new_with_interface bind join now interface_addr =
     open_routing bind join now (interface_addr, MULTICAST_PORT) interface_addr"

definition handle_routing_lost_message :: "routing_connection \<Rightarrow> routing_connection" where
  "handle_routing_lost_message rc =
     rc\<lparr>rc_lost_message_count := rc_lost_message_count rc + 1, rc_stats := record_receive_error Lost_Message (rc_stats rc)\<rparr>"

definition handle_routing_busy :: "bytes \<Rightarrow> routing_connection \<Rightarrow> u16 \<times> routing_connection" where
  "handle_routing_busy body rc =
     (let device_state = (if length body \<ge> 2 then u16_from_be_bytes (body ! 0) (body ! 1) else 0);
          wait_time = (if length body \<ge> 4 then u16_from_be_bytes (body ! 2) (body ! 3) else 100) in
      (wait_time,
       rc\<lparr>rc_routing_busy_count := rc_routing_busy_count rc + 1,
          rc_stats := record_receive_error (Busy_Message device_state wait_time) (rc_stats rc)\<rparr>))"

text \<open>The data of the message, the time waited in milliseconds, and the new state.\<close>

definition process_routing_message :: "bytes \<Rightarrow> routing_connection \<Rightarrow> bytes result \<times> u16 \<times> routing_connection" where
  "process_routing_message frame_data rc =
     (case KnxIpFrame_parse frame_data of
        Err _ \<Rightarrow> (Err (Transport InvalidConfiguration_Transport), 0, rc)
      | Panic \<Rightarrow> (Panic, 0, rc)
      | Ok frame \<Rightarrow>
          (case kh_service_type (kf_header frame) of
             RoutingIndication \<Rightarrow> (Ok (kf_body frame), 0, rc)
           | RoutingLostMessage \<Rightarrow> (Ok [], 0, handle_routing_lost_message rc)
           | RoutingBusy \<Rightarrow> (case handle_routing_busy (kf_body frame) rc of (wait_time, rc) \<Rightarrow> (Ok [], wait_time, rc))
           | _ \<Rightarrow> (Ok (kf_body frame), 0, rc)))"

text \<open>Sending, with the outcome of the socket and the frames that leave.\<close>

definition send_routing_indication ::
  "unit result \<Rightarrow> bytes \<Rightarrow> routing_connection \<Rightarrow> unit result \<times> bytes list \<times> routing_connection" where
  "send_routing_indication sock cemi_data rc =
     (let frame_data = KnxIpFrame_serialize (KnxIpFrame_new RoutingIndication cemi_data) in
      case sock of
        Ok _ \<Rightarrow> (Ok (), [frame_data], rc\<lparr>rc_stats := (rc_stats rc)\<lparr>cs_frames_sent := cs_frames_sent (rc_stats rc) + 1\<rparr>\<rparr>)
      | Err _ \<Rightarrow> (Err (Transport SocketError), [], rc\<lparr>rc_stats := record_send_error Socket_Failure (rc_stats rc)\<rparr>)
      | Panic \<Rightarrow> (Panic, [], rc))"

definition routing_send ::
  "unit result \<Rightarrow> bytes \<Rightarrow> routing_connection \<Rightarrow> unit result \<times> bytes list \<times> routing_connection" where
  "routing_send sock frame rc =
     (if rc_state rc \<noteq> Connected then (Err (Transport ConnectionClosed), [], rc)
      else send_routing_indication sock frame rc)"

text \<open>Receiving one datagram into a buffer of 1024 bytes.\<close>

definition routing_recv :: "bytes result \<Rightarrow> routing_connection \<Rightarrow> bytes result \<times> u16 \<times> routing_connection" where
  "routing_recv sock rc =
     (if rc_state rc \<noteq> Connected then (Err (Transport ConnectionClosed), 0, rc)
      else
        case sock of
          Err _ \<Rightarrow> (Err (Transport SocketError), 0, rc\<lparr>rc_stats := record_receive_error Socket_Failure (rc_stats rc)\<rparr>)
        | Panic \<Rightarrow> (Panic, 0, rc)
        | Ok datagram \<Rightarrow>
            (case process_routing_message (take 1024 datagram) rc of
               (Ok cemi_data, wait_time, rc) \<Rightarrow>
                 (Ok cemi_data, wait_time,
                  if cemi_data \<noteq> [] then
                    rc\<lparr>rc_stats := (rc_stats rc)\<lparr>cs_frames_received := cs_frames_received (rc_stats rc) + 1\<rparr>\<rparr>
                  else rc)
             | (r, wait_time, rc) \<Rightarrow> (r, wait_time, rc)))"

definition routing_close :: "bool \<Rightarrow> routing_connection \<Rightarrow> unit result \<times> routing_connection" where
  "routing_close left rc =
     (if left then Ok () else Err (Transport SocketError), rc\<lparr>rc_state := Disconnected\<rparr>)"

record routing_stats_record =
  rs_routing_busy_count :: u32
  rs_lost_message_count :: u32
  rs_uptime :: "nat option"

definition routing_stats :: "nat \<Rightarrow> routing_connection \<Rightarrow> routing_stats_record" where
  "routing_stats now rc =
     \<lparr>rs_routing_busy_count = rc_routing_busy_count rc, rs_lost_message_count = rc_lost_message_count rc,
      rs_uptime = map_option (\<lambda>start. now - start) (rc_established_at rc)\<rparr>"

section \<open>Lemmas\<close>

lemma routing_send_frame:
  assumes "rc_state rc = Connected"
  shows "\<exists>rc'. routing_send (Ok ()) body rc = (Ok (), [KnxIpFrame_serialize (KnxIpFrame_new RoutingIndication body)], rc')"
  using assms by (simp add: routing_send_def send_routing_indication_def Let_def)

lemma routing_recv_indication:
  assumes "rc_state rc = Connected" "length body \<le> 1018"
  shows "\<exists>rc'. routing_recv (Ok (KnxIpFrame_serialize (KnxIpFrame_new RoutingIndication body))) rc = (Ok body, 0, rc')
    \<and> rc_state rc' = Connected"
  using assms by (simp add: routing_recv_def process_routing_message_def new_frame_parsed length_new_frame)

text \<open>What one connection sends another one receives, up to the size of the receive buffer.\<close>

lemma routing_send_recv:
  assumes "rc_state a = Connected" "rc_state b = Connected" "length body \<le> 1018"
  shows "\<exists>f a' b'. routing_send (Ok ()) body a = (Ok (), [f], a') \<and> routing_recv (Ok f) b = (Ok body, 0, b')"
  using routing_send_frame [OF assms(1), of body] routing_recv_indication [OF assms(2,3)] by blast

text \<open>Counters over a run of received datagrams.\<close>

fun routing_run :: "bytes result list \<Rightarrow> routing_connection \<Rightarrow> routing_connection" where
  "routing_run [] rc = rc"
| "routing_run (r # rs) rc = routing_run rs (snd (snd (routing_recv r rc)))"

definition is_service :: "service_type \<Rightarrow> bytes result \<Rightarrow> bool" where
  "is_service st r =
     (case r of
        Ok d \<Rightarrow> (case KnxIpFrame_parse (take 1024 d) of Ok f \<Rightarrow> kh_service_type (kf_header f) = st | _ \<Rightarrow> False)
      | _ \<Rightarrow> False)"

lemma routing_recv_counts:
  assumes "rc_state rc = Connected" "routing_recv r rc = (d, w, rc')"
  shows "rc_state rc' = Connected"
    "rc_routing_busy_count rc' = rc_routing_busy_count rc + (if is_service RoutingBusy r then 1 else 0)"
    "rc_lost_message_count rc' = rc_lost_message_count rc + (if is_service RoutingLostMessage r then 1 else 0)"
  using assms
  by (auto simp: routing_recv_def process_routing_message_def handle_routing_lost_message_def handle_routing_busy_def
      is_service_def Let_def split: res.splits service_type.splits if_splits)

text \<open>Each busy and each lost message among the datagrams is counted once, and nothing else.\<close>

lemma routing_counts:
  assumes "rc_state rc = Connected"
  shows "rc_routing_busy_count (routing_run rs rc) = rc_routing_busy_count rc + of_nat (length (filter (is_service RoutingBusy) rs))
    \<and> rc_lost_message_count (routing_run rs rc) =
        rc_lost_message_count rc + of_nat (length (filter (is_service RoutingLostMessage) rs))"
  using assms
proof (induction rs arbitrary: rc)
  case (Cons r rs)
  obtain d w rc' where r: "routing_recv r rc = (d, w, rc')"
    by (cases "routing_recv r rc")
  show ?case
    using Cons.IH [of rc'] routing_recv_counts [OF Cons.prems r] r by (simp add: add.assoc)
qed simp

end
