(* ===== verification/Receive_Limiter.thy ===== *)
theory Receive_Limiter
  imports Telegram
begin

text \<open>
  Rate limiting of received telegrams, \<open>src/transport/receive_limiter.rs\<close>.

  Time is in nanoseconds; every call takes the instant it reads from the clock.  The outcome of
  \<open>try_send\<close> on the bounded \<open>tokio\<close> channel is an argument.

  Shown: the counters account for every telegram, and no address gets more than twice the
  configured rate through in any one-second interval.
\<close>

record receive_limit_config =
  rl_queue_size :: nat
  rl_per_address_max_per_sec :: nat

definition ReceiveLimitConfig_default :: receive_limit_config where
  "ReceiveLimitConfig_default = \<lparr>rl_queue_size = 1000, rl_per_address_max_per_sec = 10\<rparr>"

datatype receive_result = Sent | DroppedQueueFull | DroppedThrottled group_address

record address_state =
  as_count :: nat
  as_window_start :: nat

record receive_stats =
  rs_total_received :: nat
  rs_total_sent :: nat
  rs_dropped_queue_full :: nat
  rs_dropped_throttled :: nat

record receive_limiter =
  rl_per_address :: "group_address \<rightharpoonup> address_state"
  rl_stats :: receive_stats

definition ReceiveRateLimiter_new :: receive_limiter where
  "ReceiveRateLimiter_new =
     \<lparr>rl_per_address = Map.empty,
      rl_stats = \<lparr>rs_total_received = 0, rs_total_sent = 0, rs_dropped_queue_full = 0,
                  rs_dropped_throttled = 0\<rparr>\<rparr>"

text \<open>One second; \<open>duration.as_secs() >= 1\<close> is \<open>second \<le> duration\<close>.\<close>

definition second :: nat where
  "second = 1000000000"

definition is_throttled ::
  "receive_limit_config \<Rightarrow> nat \<Rightarrow> group_address \<Rightarrow> (group_address \<rightharpoonup> address_state)
     \<Rightarrow> bool \<times> (group_address \<rightharpoonup> address_state)" where
  "is_throttled cfg now ga m =
     (let state = (case m ga of Some st \<Rightarrow> st | None \<Rightarrow> \<lparr>as_count = 0, as_window_start = now\<rparr>) in
      if second \<le> now - as_window_start state then
        (False, m(ga \<mapsto> \<lparr>as_count = 1, as_window_start = now\<rparr>))
      else
        let state' = state\<lparr>as_count := as_count state + 1\<rparr> in
        (as_count state' > rl_per_address_max_per_sec cfg, m(ga \<mapsto> state')))"

datatype channel_outcome = Channel_Ok | Channel_Full | Channel_Closed

definition limiter_try_send ::
  "receive_limit_config \<Rightarrow> nat \<Rightarrow> channel_outcome \<Rightarrow> telegram \<Rightarrow> receive_limiter
     \<Rightarrow> receive_result \<times> receive_limiter" where
  "limiter_try_send cfg now outcome t s =
     (let st = (rl_stats s)\<lparr>rs_total_received := rs_total_received (rl_stats s) + 1\<rparr>;
          throttle = (case tg_destination t of
                        Group ga \<Rightarrow> (let (b, m) = is_throttled cfg now ga (rl_per_address s) in
                                     (if b then Some ga else None, m))
                      | Individual _ \<Rightarrow> (None, rl_per_address s)) in
      case throttle of
        (Some ga, m) \<Rightarrow>
          (DroppedThrottled ga,
           \<lparr>rl_per_address = m,
            rl_stats = st\<lparr>rs_dropped_throttled := rs_dropped_throttled st + 1\<rparr>\<rparr>)
      | (None, m) \<Rightarrow>
          (case outcome of
             Channel_Ok \<Rightarrow>
               (Sent, \<lparr>rl_per_address = m, rl_stats = st\<lparr>rs_total_sent := rs_total_sent st + 1\<rparr>\<rparr>)
           | Channel_Full \<Rightarrow>
               (DroppedQueueFull,
                \<lparr>rl_per_address = m,
                 rl_stats = st\<lparr>rs_dropped_queue_full := rs_dropped_queue_full st + 1\<rparr>\<rparr>)
           | Channel_Closed \<Rightarrow>
               (DroppedQueueFull, \<lparr>rl_per_address = m, rl_stats = st\<rparr>)))"

section \<open>Accounting\<close>

definition accounted :: "receive_stats \<Rightarrow> nat" where
  "accounted st = rs_total_sent st + rs_dropped_queue_full st + rs_dropped_throttled st"

lemma limiter_accounting:
  assumes "limiter_try_send cfg now outcome t s = (r, s')"
  shows "rs_total_received (rl_stats s') = rs_total_received (rl_stats s) + 1"
    and "accounted (rl_stats s') =
           accounted (rl_stats s)
           + (if outcome = Channel_Closed \<and> (\<forall>ga. r \<noteq> DroppedThrottled ga) then 0 else 1)"
  using assms
  by (auto simp: limiter_try_send_def accounted_def Let_def
      split: address.splits prod.splits option.splits channel_outcome.splits if_splits)

section \<open>Rate\<close>

text \<open>The calls for group addresses that are let through, with the time of the call.\<close>

fun let_through ::
  "receive_limit_config \<Rightarrow> (nat \<times> group_address) list \<Rightarrow> (group_address \<rightharpoonup> address_state)
     \<Rightarrow> (nat \<times> group_address) list" where
  "let_through cfg [] m = []"
| "let_through cfg ((now, ga) # calls) m =
     (case is_throttled cfg now ga m of
        (True, m') \<Rightarrow> let_through cfg calls m'
      | (False, m') \<Rightarrow> (now, ga) # let_through cfg calls m')"

text \<open>
  The same for one address, each call with the start of the window it was counted in.
\<close>

definition window_step :: "nat \<Rightarrow> nat \<Rightarrow> (nat \<times> nat) option \<Rightarrow> bool \<times> nat \<times> nat" where
  "window_step mx now st =
     (let (c, w) = (case st of None \<Rightarrow> (0, now) | Some p \<Rightarrow> p) in
      if second \<le> now - w then (True, 1, now) else (Suc c \<le> mx, Suc c, w))"

fun windows :: "nat \<Rightarrow> nat list \<Rightarrow> (nat \<times> nat) option \<Rightarrow> (nat \<times> nat) list" where
  "windows mx [] st = []"
| "windows mx (now # ts) st =
     (case window_step mx now st of
        (ok, c, w) \<Rightarrow> (if ok then [(now, w)] else []) @ windows mx ts (Some (c, w)))"

definition st_of :: "address_state option \<Rightarrow> (nat \<times> nat) option" where
  "st_of = map_option (\<lambda>s. (as_count s, as_window_start s))"

lemma is_throttled_window:
  "\<exists>c w. window_step (rl_per_address_max_per_sec cfg) now (st_of (m ga)) =
           (\<not> fst (is_throttled cfg now ga m), c, w)
         \<and> snd (is_throttled cfg now ga m) = m(ga \<mapsto> \<lparr>as_count = c, as_window_start = w\<rparr>)"
  by (auto simp: is_throttled_def window_step_def st_of_def Let_def not_less split: option.splits)

lemma let_through_windows:
  "map fst (filter (\<lambda>(t, g). g = ga) (let_through cfg calls m)) =
     map fst (windows (rl_per_address_max_per_sec cfg)
       (map fst (filter (\<lambda>(t, g). g = ga) calls)) (st_of (m ga)))"
proof (induction calls arbitrary: m)
  case (Cons call calls)
  obtain now g where call: "call = (now, g)" by (cases call)
  obtain c w where step:
    "window_step (rl_per_address_max_per_sec cfg) now (st_of (m g)) =
       (\<not> fst (is_throttled cfg now g m), c, w)"
    "snd (is_throttled cfg now g m) = m(g \<mapsto> \<lparr>as_count = c, as_window_start = w\<rparr>)"
    using is_throttled_window by blast
  have "let_through cfg (call # calls) m =
      (if fst (is_throttled cfg now g m) then [] else [(now, g)])
      @ let_through cfg calls (snd (is_throttled cfg now g m))"
    by (simp add: call split: prod.splits bool.splits)
  then show ?case
    using Cons.IH step by (auto simp: call st_of_def)
qed simp

definition spaced :: "nat \<Rightarrow> nat \<Rightarrow> nat \<Rightarrow> (nat \<times> nat) list \<Rightarrow> bool" where
  "spaced mx w k ps =
     ((\<forall>(t, v) \<in> set ps. (v = w \<or> w + second \<le> v) \<and> v \<le> t \<and> t < v + second)
      \<and> length (filter (\<lambda>p. snd p = w) ps) \<le> k
      \<and> (\<forall>v. v \<noteq> w \<longrightarrow> length (filter (\<lambda>p. snd p = v) ps) \<le> mx)
      \<and> (\<forall>(t1, v1) \<in> set ps. \<forall>(t2, v2) \<in> set ps. v1 = v2 \<or> v1 + second \<le> v2 \<or> v2 + second \<le> v1))"

lemma second_pos [simp]: "0 < second"
  by (simp add: second_def)

lemma spaced_new_window:
  assumes "spaced mx now (mx - 1) ps" "w + second \<le> now" "0 < mx"
  shows "spaced mx w k ((now, now) # ps)"
proof -
  have "filter (\<lambda>p. snd p = w) ps = []"
    using assms(1,2) second_pos by (fastforce simp: spaced_def filter_empty_conv)
  then show ?thesis
    using assms second_pos unfolding spaced_def by (auto simp del: second_pos)
qed

lemma spaced_same_window:
  assumes "spaced mx w (mx - Suc c) ps" "w \<le> now" "now < w + second"
  shows "spaced mx w (mx - c) ((if Suc c \<le> mx then [(now, w)] else []) @ ps)"
  using assms unfolding spaced_def by auto

lemma windows_spaced:
  assumes "sorted ts" "\<forall>t \<in> set ts. w \<le> t" "0 < mx"
  shows "spaced mx w (mx - c) (windows mx ts (Some (c, w)))"
  using assms(1,2)
proof (induction ts arbitrary: c w)
  case Nil
  then show ?case by (simp add: spaced_def)
next
  case (Cons now ts)
  then have ts: "sorted ts" "\<forall>t \<in> set ts. now \<le> t" "\<forall>t \<in> set ts. w \<le> t" "w \<le> now"
    by auto
  show ?case
  proof (cases "second \<le> now - w")
    case True
    then show ?thesis
      using spaced_new_window [OF Cons.IH [OF ts(1,2), of 1], of w "mx - c"] assms(3) ts(4)
      by (simp add: window_step_def)
  next
    case False
    then show ?thesis
      using spaced_same_window [OF Cons.IH [OF ts(1,3), of "Suc c"] ts(4)] ts(4)
      by (simp add: window_step_def)
  qed
qed

lemma windows_spaced_start:
  assumes "sorted ts" "0 < mx" "ts \<noteq> []"
  shows "spaced mx (hd ts) mx (windows mx ts None)"
proof -
  obtain now ts' where ts: "ts = now # ts'" using assms(3) by (cases ts) auto
  have "windows mx ts None = windows mx ts (Some (0, now))"
    by (simp add: ts window_step_def)
  then show ?thesis
    using windows_spaced [of ts now mx 0] assms by (simp add: ts)
qed

text \<open>At most two windows meet an interval of one second.\<close>

lemma three_windows:
  fixes v t s a v1 t1 v2 t2 :: nat
  assumes "v \<le> t" "t < v + s" "a \<le> t" "t < a + s"
    "v1 \<le> t1" "t1 < v1 + s" "a \<le> t1" "t1 < a + s"
    "v2 \<le> t2" "t2 < v2 + s" "a \<le> t2" "t2 < a + s"
    and "v = v1 \<or> v + s \<le> v1 \<or> v1 + s \<le> v" "v = v2 \<or> v + s \<le> v2 \<or> v2 + s \<le> v"
    "v1 = v2 \<or> v1 + s \<le> v2 \<or> v2 + s \<le> v1"
  shows "v = v1 \<or> v = v2 \<or> v1 = v2"
  using assms(13-15) by (elim disjE) (use assms(1-12) in linarith)+

lemma spaced_interval:
  assumes "spaced mx w mx ps"
  shows "length (filter (\<lambda>(t, v). a \<le> t \<and> t < a + second) ps) \<le> 2 * mx"
proof -
  let ?I = "\<lambda>(t, v). a \<le> t \<and> t < a + second"
  have within: "snd p \<le> fst p \<and> fst p < snd p + second" if "p \<in> set ps" for p
    using assms that unfolding spaced_def by fastforce
  have apart: "snd p = snd q \<or> snd p + second \<le> snd q \<or> snd q + second \<le> snd p"
    if "p \<in> set ps" "q \<in> set ps" for p q
    using assms that unfolding spaced_def by fastforce
  have cnt: "length (filter (\<lambda>p. snd p = v) ps) \<le> mx" for v
    using assms by (cases "v = w") (auto simp: spaced_def)
  show ?thesis
  proof (cases "filter ?I ps")
    case Nil
    then show ?thesis by simp
  next
    case (Cons p1 ps')
    then have "p1 \<in> set (filter ?I ps)"
      by simp
    then have p1: "p1 \<in> set ps" "?I p1"
      by (simp_all only: set_filter mem_Collect_eq)
    show ?thesis
    proof (cases "\<exists>p2 \<in> set ps. ?I p2 \<and> snd p2 \<noteq> snd p1")
      case True
      then obtain p2 where p2: "p2 \<in> set ps" "?I p2" "snd p2 \<noteq> snd p1" by blast
      have "snd p = snd p1 \<or> snd p = snd p2" if "p \<in> set ps" "?I p" for p
        using three_windows [of "snd p" "fst p" second a "snd p1" "fst p1" "snd p2" "fst p2"]
          within [of p] within [of p1] within [of p2] apart [of p p1] apart [of p p2] apart [of p1 p2]
          that p1 p2 by (simp add: case_prod_unfold)
      then have "length (filter ?I ps) \<le> length (filter (\<lambda>p. snd p = snd p1 \<or> snd p = snd p2) ps)"
        by (rule length_filter_mono)
      also have "\<dots> \<le> length (filter (\<lambda>p. snd p = snd p1) ps) + length (filter (\<lambda>p. snd p = snd p2) ps)"
        by (induction ps) auto
      finally show ?thesis
        using cnt [of "snd p1"] cnt [of "snd p2"] by simp
    next
      case False
      then have "length (filter ?I ps) \<le> length (filter (\<lambda>p. snd p = snd p1) ps)"
        by (intro length_filter_mono) blast
      then show ?thesis
        using cnt [of "snd p1"] by simp
    qed
  qed
qed

lemma rate_bound:
  assumes "sorted (map fst calls)" "0 < rl_per_address_max_per_sec cfg"
  shows "length (filter (\<lambda>(t, g). g = ga \<and> a \<le> t \<and> t < a + second)
           (let_through cfg calls Map.empty)) \<le> 2 * rl_per_address_max_per_sec cfg"
proof -
  let ?mx = "rl_per_address_max_per_sec cfg"
  let ?ts = "map fst (filter (\<lambda>(t, g). g = ga) calls)"
  let ?J = "\<lambda>t. a \<le> t \<and> t < a + second"
  have one: "length (filter (\<lambda>(t, g). g = ga \<and> ?J t) xs) =
        length (filter ?J (map fst (filter (\<lambda>(t, g). g = ga) xs)))" for xs :: "(nat \<times> group_address) list"
    by (induction xs) auto
  have two: "length (filter ?J (map fst ps)) = length (filter (\<lambda>(t, v). ?J t) ps)" for ps :: "(nat \<times> nat) list"
    by (induction ps) auto
  have "length (filter (\<lambda>(t, g). g = ga \<and> ?J t) (let_through cfg calls Map.empty)) =
        length (filter ?J (map fst (windows ?mx ?ts None)))"
    using let_through_windows [of ga cfg calls Map.empty] by (simp only: one st_of_def option.map)
  also have "\<dots> \<le> 2 * ?mx"
  proof (cases "?ts = []")
    case False
    then have "length (filter (\<lambda>(t, v). ?J t) (windows ?mx ?ts None)) \<le> 2 * ?mx"
      using assms by (intro spaced_interval [OF windows_spaced_start]) (simp_all add: sorted_filter)
    then show ?thesis by (simp only: two)
  next
    case True
    then show ?thesis by (simp only: windows.simps) simp
  qed
  finally show ?thesis .
qed

section \<open>Properties\<close>

text \<open>Sequences of calls; the telegrams that \<open>try_send\<close> reports as sent, with the time of the call.\<close>

definition limiter_run ::
  "receive_limit_config \<Rightarrow> (nat \<times> channel_outcome \<times> telegram) list \<Rightarrow> receive_limiter \<Rightarrow> receive_limiter" where
  "limiter_run cfg calls s =
     fold (\<lambda>(now, outcome, t) s. snd (limiter_try_send cfg now outcome t s)) calls s"

fun passed ::
  "receive_limit_config \<Rightarrow> (nat \<times> channel_outcome \<times> telegram) list \<Rightarrow> receive_limiter
     \<Rightarrow> (nat \<times> telegram) list" where
  "passed cfg [] s = []"
| "passed cfg ((now, outcome, t) # calls) s =
     (case limiter_try_send cfg now outcome t s of
        (r, s') \<Rightarrow> (if r = Sent then [(now, t)] else []) @ passed cfg calls s')"

fun group_calls :: "(nat \<times> channel_outcome \<times> telegram) list \<Rightarrow> (nat \<times> group_address) list" where
  "group_calls [] = []"
| "group_calls ((now, outcome, t) # calls) =
     (case tg_destination t of Group ga \<Rightarrow> [(now, ga)] | Individual _ \<Rightarrow> []) @ group_calls calls"

lemma passed_let_through:
  "length (filter (\<lambda>(now, t). tg_destination t = Group ga \<and> P now) (passed cfg calls s))
     \<le> length (filter (\<lambda>(now, g). g = ga \<and> P now)
         (let_through cfg (group_calls calls) (rl_per_address s)))"
proof (induction calls arbitrary: s)
  case (Cons call calls)
  obtain now outcome t where call: "call = (now, outcome, t)"
    by (cases call) auto
  obtain r s' where step: "limiter_try_send cfg now outcome t s = (r, s')"
    by (cases "limiter_try_send cfg now outcome t s") auto
  show ?case
    using Cons [of s'] step
    by (cases "tg_destination t"; cases outcome)
       (auto simp: call limiter_try_send_def Let_def split: prod.splits if_splits bool.splits
         intro: le_SucI)
qed simp

lemma sorted_group_calls: "sorted (map fst calls) \<Longrightarrow> sorted (map fst (group_calls calls))"
proof (induction calls)
  case (Cons call calls)
  have "set (map fst (group_calls calls)) \<subseteq> set (map fst calls)"
    by (induction calls rule: group_calls.induct) (auto split: address.splits)
  then have "\<forall>x \<in> set (group_calls calls). fst (call) \<le> fst x"
    using Cons.prems by fastforce
  then show ?case
    using Cons by (cases call) (auto split: address.splits)
qed simp

text \<open>
  C25: Rate per group address.  Whatever telegrams arrive at whatever times, in any interval of one
  second at most twice the configured number of telegrams for one group address pass the limiter.
  (The bound is twice the configured rate because windows are not aligned with the interval.)
\<close>

theorem limiter_rate_bound:
  assumes "sorted (map fst calls)" "0 < rl_per_address_max_per_sec cfg"
  shows "length (filter (\<lambda>(now, t). tg_destination t = Group ga \<and> a \<le> now \<and> now < a + second)
           (passed cfg calls ReceiveRateLimiter_new)) \<le> 2 * rl_per_address_max_per_sec cfg"
  using passed_let_through [of ga "\<lambda>now. a \<le> now \<and> now < a + second" cfg calls ReceiveRateLimiter_new]
    rate_bound [OF sorted_group_calls [OF assms(1)] assms(2), of ga a]
  by (simp add: ReceiveRateLimiter_new_def)

theorem limiter_rate_bound_witness:
  "let t = Telegram_group_write 0 (GroupAddress 7) [1];
       cfg = \<lparr>rl_queue_size = 5, rl_per_address_max_per_sec = 1\<rparr> in
   length (filter (\<lambda>(now, t). tg_destination t = Group (GroupAddress 7) \<and> 500 \<le> now \<and> now < 500 + second)
     (passed cfg [(0, Channel_Ok, t), (999999999, Channel_Ok, t), (1000000000, Channel_Ok, t)]
        ReceiveRateLimiter_new)) \<le> 2 * rl_per_address_max_per_sec cfg"
  unfolding Let_def by (rule limiter_rate_bound) simp_all

lemma limiter_run_accounted:
  assumes "\<forall>call \<in> set calls. fst (snd call) \<noteq> Channel_Closed"
  shows "rs_total_received (rl_stats (limiter_run cfg calls s)) + accounted (rl_stats s) =
           accounted (rl_stats (limiter_run cfg calls s)) + rs_total_received (rl_stats s)"
  using assms
proof (induction calls arbitrary: s)
  case (Cons call calls)
  obtain now outcome t where call: "call = (now, outcome, t)"
    by (cases call) auto
  obtain r s' where step: "limiter_try_send cfg now outcome t s = (r, s')"
    by (cases "limiter_try_send cfg now outcome t s") auto
  show ?case
    using Cons.IH [of s'] Cons.prems limiter_accounting [OF step] step
    by (simp add: call limiter_run_def)
qed (simp add: limiter_run_def)

text \<open>
  Accounting of received telegrams.  As long as the receiver of the limiter's channel exists, every
  telegram given to the limiter is counted exactly once as sent, dropped for a full queue, or dropped
  by throttling.
\<close>

lemma limiter_accounts:
  assumes "\<forall>call \<in> set calls. fst (snd call) \<noteq> Channel_Closed"
  shows "let st = rl_stats (limiter_run cfg calls ReceiveRateLimiter_new) in
         rs_total_received st = rs_total_sent st + rs_dropped_queue_full st + rs_dropped_throttled st"
  using limiter_run_accounted [OF assms, of cfg ReceiveRateLimiter_new]
  by (simp add: accounted_def ReceiveRateLimiter_new_def Let_def)

end
