(* ===== verification/Client.thy ===== *)
theory Client
  imports Tunnel Routing Queue Receive_Limiter Telegram_Codec
begin

text \<open>
  What the client does with frames, \<open>src/application/knx.rs\<close>: \<open>handle_incoming_frame\<close> and its
  handlers on the receiving side, and one round of the sending task.

  A handler returns its result, what it did to the outside (frames handed to the transport, events
  put on the control channel, telegrams put on the channel of the receive limiter) and the new
  client state.  \<open>env\<close> holds what the handlers read from outside: outcomes of the network, the clock,
  the outcome of the limiter's channel, the configuration, and the channel id stored in \<open>Knx\<close>.
  Log output is left out.
\<close>

datatype connection = Tunnel_Connection tunnel | Routing_Connection routing_connection

datatype control_event = TunnelLost u8 | SendDisconnectResponse u8

datatype client_effect = Frame_Out bytes | Control control_event | To_Limiter_Channel telegram

record client =
  cl_connection :: connection
  cl_queue :: queue_state
  cl_limiter :: "receive_limiter option"

record client_env =
  ce_net :: net
  ce_queue_config :: queue_config
  ce_limit_config :: receive_limit_config
  ce_now :: nat
  ce_wall :: system_time
  ce_channel_outcome :: channel_outcome
  ce_current_channel_id :: "u8 option"

section \<open>Incoming frames\<close>

definition deliver_incoming ::
  "client_env \<Rightarrow> telegram \<Rightarrow> client \<Rightarrow> client_effect list \<times> client" where
  "deliver_incoming env t cl =
     (case cl_limiter cl of
        Some l \<Rightarrow>
          (case limiter_try_send (ce_limit_config env) (ce_now env) (ce_channel_outcome env) t l of
             (r, l') \<Rightarrow> (if r = Sent then [To_Limiter_Channel t] else [], cl\<lparr>cl_limiter := Some l'\<rparr>))
      | None \<Rightarrow>
          (case enqueue_incoming (ce_queue_config env) t (cl_queue cl) of
             (_, q') \<Rightarrow> ([], cl\<lparr>cl_queue := q'\<rparr>)))"

text \<open>The ack of a tunnel; a failure to send it is logged and ignored.\<close>

definition ack_frames :: "net \<Rightarrow> u8 \<Rightarrow> u8 \<Rightarrow> u8 \<Rightarrow> connection \<Rightarrow> client_effect list" where
  "ack_frames net ch seq status conn =
     (case conn of
        Tunnel_Connection t \<Rightarrow> map Frame_Out (snd (send_tunnelling_ack net ch seq status t))
      | Routing_Connection _ \<Rightarrow> [])"

definition client_handle_tunnelling_request ::
  "client_env \<Rightarrow> bytes \<Rightarrow> client \<Rightarrow> unit result \<times> client_effect list \<times> client" where
  "client_handle_tunnelling_request env body cl =
     (case TunnellingRequest_parse body of
        Ok req \<Rightarrow>
          let ch = treq_channel_id req; seq = treq_sequence_counter req;
              (verdict, conn) =
                (case cl_connection cl of
                   Tunnel_Connection t \<Rightarrow>
                     (case validate_sequence_number seq t of (v, t') \<Rightarrow> (v, Tunnel_Connection t'))
                 | Routing_Connection rc \<Rightarrow> (Valid, Routing_Connection rc));
              cl = cl\<lparr>cl_connection := conn\<rparr> in
          (case verdict of
             Valid \<Rightarrow>
               let acks = ack_frames (ce_net env) ch seq 0x00 conn in
               (case parse_cemi_to_telegram (ce_wall env) (treq_raw_cemi req) of
                  Ok t \<Rightarrow> (case deliver_incoming env t cl of (out, cl') \<Rightarrow> (Ok (), acks @ out, cl'))
                | Err e \<Rightarrow> (Err e, acks, cl)
                | Panic \<Rightarrow> (Panic, acks, cl))
           | Duplicate \<Rightarrow> (Ok (), ack_frames (ce_net env) ch seq 0x00 conn, cl)
           | Invalid _ _ \<Rightarrow> (Ok (), ack_frames (ce_net env) ch seq 0x04 conn, cl))
      | Err e \<Rightarrow> (Err e, [], cl)
      | Panic \<Rightarrow> (Panic, [], cl))"

definition handle_routing_indication ::
  "client_env \<Rightarrow> bytes \<Rightarrow> client \<Rightarrow> unit result \<times> client_effect list \<times> client" where
  "handle_routing_indication env body cl =
     (case parse_cemi_to_telegram (ce_wall env) body of
        Ok t \<Rightarrow> (case deliver_incoming env t cl of (out, cl') \<Rightarrow> (Ok (), out, cl'))
      | Err e \<Rightarrow> (Err e, [], cl)
      | Panic \<Rightarrow> (Panic, [], cl))"

definition client_handle_disconnect_request ::
  "client_env \<Rightarrow> bytes \<Rightarrow> unit result \<times> client_effect list" where
  "client_handle_disconnect_request env body =
     (if length body < 10 then (Ok (), [])
      else
        (case DisconnectRequest_parse body of
           Ok req \<Rightarrow>
             let ch = dreq_channel_id req;
                 is_our_channel = (case ce_current_channel_id env of None \<Rightarrow> True | Some i \<Rightarrow> i = ch) in
             (Ok (), if is_our_channel then [Control (SendDisconnectResponse ch), Control (TunnelLost ch)]
                     else [])
         | Err e \<Rightarrow> (Err e, [])
         | Panic \<Rightarrow> (Panic, [])))"

definition client_handle_disconnect_response :: "bytes \<Rightarrow> unit result" where
  "client_handle_disconnect_response body =
     (if length body < 2 then Ok ()
      else bind_res (DisconnectResponse_parse body) (\<lambda>_. Ok ()))"

definition client_handle_connectionstate_request :: "bytes \<Rightarrow> unit result" where
  "client_handle_connectionstate_request body =
     bind_res (ConnectionstateRequest_parse body) (\<lambda>_. Ok ())"

definition client_handle_connectionstate_response :: "bytes \<Rightarrow> unit result" where
  "client_handle_connectionstate_response body =
     bind_res (ConnectionstateResponse_parse body) (\<lambda>_. Ok ())"

definition handled :: "unit result \<times> client_effect list \<times> client \<Rightarrow> bool result \<times> client_effect list \<times> client" where
  "handled h = (case h of (r, out, cl) \<Rightarrow> (bind_res r (\<lambda>_. Ok True), out, cl))"

definition handle_incoming_frame ::
  "client_env \<Rightarrow> bytes \<Rightarrow> client \<Rightarrow> bool result \<times> client_effect list \<times> client" where
  "handle_incoming_frame env frame_data cl =
     (case KnxIpFrame_parse frame_data of
        Ok frame \<Rightarrow>
          let body = kf_body frame in
          (case kh_service_type (kf_header frame) of
             TunnellingRequest \<Rightarrow> handled (client_handle_tunnelling_request env body cl)
           | RoutingIndication \<Rightarrow> handled (handle_routing_indication env body cl)
           | DisconnectRequest \<Rightarrow>
               (case client_handle_disconnect_request env body of
                  (r, out) \<Rightarrow> handled (r, out, cl))
           | DisconnectResponse \<Rightarrow> handled (client_handle_disconnect_response body, [], cl)
           | ConnectionstateRequest \<Rightarrow> handled (client_handle_connectionstate_request body, [], cl)
           | ConnectionstateResponse \<Rightarrow> handled (client_handle_connectionstate_response body, [], cl)
           | ConnectRequest \<Rightarrow> (Ok True, [], cl)
           | ConnectResponse \<Rightarrow> (Ok True, [], cl)
           | _ \<Rightarrow> (Ok False, [], cl))
      | Err e \<Rightarrow> (Err e, [], cl)
      | Panic \<Rightarrow> (Panic, [], cl))"

section \<open>Outgoing telegrams\<close>

text \<open>
  \<open>send_telegram\<close> puts the client's own address into the telegram and queues it; the sending task
  takes telegrams off the queue, builds the frame (which uses up a sequence number) and sends it.
  Whatever the outcome, the task goes on with the next telegram.
\<close>

definition send_telegram ::
  "queue_config \<Rightarrow> nat \<Rightarrow> individual_address \<Rightarrow> telegram \<Rightarrow> client \<Rightarrow> unit result \<times> client" where
  "send_telegram cfg now ia t cl =
     (case enqueue_outgoing cfg now (t\<lparr>tg_source := ia\<rparr>) (cl_queue cl) of
        (r, q') \<Rightarrow> (r, cl\<lparr>cl_queue := q'\<rparr>))"

definition send_outgoing :: "net \<Rightarrow> telegram \<Rightarrow> connection \<Rightarrow> client_effect list \<times> connection" where
  "send_outgoing net t conn =
     (case conn of
        Tunnel_Connection tn \<Rightarrow>
          (case next_sequence tn of (seq, tn) \<Rightarrow>
             let frame = build_outgoing_frame_for_connection t (Via_Tunnel (tn_channel_id tn) seq) in
             (case connection_send net frame tn of
                (_, sent, tn') \<Rightarrow> (map Frame_Out sent, Tunnel_Connection tn')))
      | Routing_Connection rc \<Rightarrow>
          (case routing_send (net_send net) (build_outgoing_frame_for_connection t Via_Routing) rc of
             (_, sent, rc') \<Rightarrow> (map Frame_Out sent, Routing_Connection rc')))"

definition sending_round ::
  "(nat \<Rightarrow> nat \<Rightarrow> nat) \<Rightarrow> client_env \<Rightarrow> client \<Rightarrow> client_effect list \<times> client" where
  "sending_round ema env cl =
     (case dequeue_outgoing ema (ce_now env) (cl_queue cl) of
        (Ready (Some t), q') \<Rightarrow>
          (case send_outgoing (ce_net env) t (cl_connection cl) of
             (out, conn) \<Rightarrow> (out, cl\<lparr>cl_queue := q', cl_connection := conn\<rparr>))
      | (_, q') \<Rightarrow> ([], cl\<lparr>cl_queue := q'\<rparr>))"

section \<open>Lemmas\<close>

text \<open>Sending leaves everything of the tunnel alone but the counter and the statistics.\<close>

lemma connection_send_fields:
  "connection_send net frame t = (r, sent, t') \<Longrightarrow>
     tn_sequence_counter t' = tn_sequence_counter t \<and> tn_channel_id t' = tn_channel_id t
     \<and> tn_expected_sequence_number t' = tn_expected_sequence_number t \<and> tn_state t' = tn_state t
     \<and> tn_transport t' = tn_transport t"
  by (auto simp: connection_send_def tunnel_send_frame_def split: if_splits res.splits)

lemma send_outgoing_tunnel:
  assumes "tn_state tn = Connected" "tn_transport tn" "net_send net = Ok ()"
  shows "\<exists>tn'. send_outgoing net t (Tunnel_Connection tn) =
           ([Frame_Out (build_outgoing_frame_for_connection t
              (Via_Tunnel (tn_channel_id tn) (tn_sequence_counter tn)))], Tunnel_Connection tn')
         \<and> tn_sequence_counter tn' = tn_sequence_counter tn + 1"
  using assms
  by (simp add: send_outgoing_def next_sequence_def connection_send_def tunnel_send_frame_def
      raw_send_def Let_def)

lemma send_outgoing_bumps:
  assumes "send_outgoing net t (Tunnel_Connection tn) = (out, conn)"
  shows "\<exists>tn'. conn = Tunnel_Connection tn' \<and> tn_sequence_counter tn' = tn_sequence_counter tn + 1"
  using assms
  by (auto simp: send_outgoing_def next_sequence_def Let_def dest: connection_send_fields
      split: prod.splits)

subsection \<open>Frames of one tunnel\<close>

lemma raw_send_ok: "\<lbrakk>tn_transport t; net_send net = Ok ()\<rbrakk> \<Longrightarrow> raw_send net t = Ok ()"
  by (simp add: raw_send_def)

lemma validate_transport [simp]:
  "tn_transport (snd (validate_sequence_number n t)) = tn_transport t"
  by (simp add: validate_sequence_number_def Let_def)

lemma client_tunnel_frame:
  assumes "sendable t" "cl_connection cl = Tunnel_Connection tn" "tn_transport tn"
    and "net_send (ce_net env) = Ok ()" "cl_limiter cl = None"
  shows "handle_incoming_frame env (build_tunnelling_frame_with_code t ch n code) cl =
    (Ok True,
     [Frame_Out (KnxIpFrame_serialize (KnxIpFrame_new TunnellingAck (TunnellingAck_serialize
        (TunnellingAck_new ch n
          (if n = tn_expected_sequence_number tn \<or> n = tn_expected_sequence_number tn - 1
           then 0x00 else 0x04)))))],
     cl\<lparr>cl_connection := Tunnel_Connection (snd (validate_sequence_number n tn)),
        cl_queue := (if n = tn_expected_sequence_number tn
                     then snd (enqueue_incoming (ce_queue_config env) (received_as (ce_wall env) t) (cl_queue cl))
                     else cl_queue cl)\<rparr>)"
proof -
  let ?raw = "CemiFrame_serialize (telegram_cemi code t)"
  have len: "length ?raw \<le> 65525"
    using length_telegram_cemi [OF assms(1), of code] by simp
  have parse: "TunnellingRequest_parse (TunnellingRequest_serialize (TunnellingRequest_new ch n ?raw)) =
      Ok (TunnellingRequest_new ch n ?raw)"
    by (rule tunnelling_request.parse_ser) (simp add: TunnellingRequest_new_def)
  show ?thesis
    unfolding handle_incoming_frame_def build_tunnelling_frame_with_code_def tunnelling_frame_parse [OF len]
    using assms parse parse_telegram_cemi [OF assms(1), of "ce_wall env" code]
    by (cases "n = tn_expected_sequence_number tn"; cases "n = tn_expected_sequence_number tn - 1")
       (simp_all add: client_handle_tunnelling_request_def handled_def ack_frames_def
         send_tunnelling_ack_def raw_send_ok deliver_incoming_def validate_sequence_number_def Let_def
         split: prod.split)
qed

text \<open>Frames of the server handled one after the other, each in its own environment.\<close>

definition client_run :: "u8 \<Rightarrow> (u8 \<times> client_env \<times> telegram) list \<Rightarrow> client \<Rightarrow> client" where
  "client_run ch fs cl =
     fold (\<lambda>(n, env, t) cl.
        snd (snd (handle_incoming_frame env (build_tunnelling_frame_with_code t ch n LDataInd) cl))) fs cl"

lemma enqueue_incoming_room:
  "\<lbrakk>\<not> q_closed q; length (q_incoming q) < qc_max_size cfg\<rbrakk> \<Longrightarrow>
     q_incoming (snd (enqueue_incoming cfg t q)) = q_incoming q @ [t]
     \<and> \<not> q_closed (snd (enqueue_incoming cfg t q))"
  by (simp add: enqueue_incoming_def Let_def)

lemma client_accepted:
  assumes "cl_connection cl = Tunnel_Connection tn" "tn_transport tn" "cl_limiter cl = None"
    and "tn_expected_sequence_number tn0 = tn_expected_sequence_number tn"
    and "\<not> q_closed (cl_queue cl)" "length (q_incoming (cl_queue cl)) + length fs \<le> qc_max_size cfg"
    and "\<forall>(n, env, t) \<in> set fs. net_send (ce_net env) = Ok () \<and> ce_queue_config env = cfg \<and> sendable t"
  shows "q_incoming (cl_queue (client_run ch fs cl)) =
           q_incoming (cl_queue cl)
           @ map (\<lambda>(n, env, t). received_as (ce_wall env) t) (accepted validate_sequence_number fs tn0)"
  using assms
proof (induction fs arbitrary: cl tn tn0)
  case (Cons f fs)
  obtain n env t where f: "f = (n, env, t)"
    by (cases f) auto
  let ?cl = "snd (snd (handle_incoming_frame env (build_tunnelling_frame_with_code t ch n LDataInd) cl))"
  let ?tn = "snd (validate_sequence_number n tn)"
  let ?q = "if n = tn_expected_sequence_number tn
     then snd (enqueue_incoming cfg (received_as (ce_wall env) t) (cl_queue cl)) else cl_queue cl"
  have cl: "?cl = cl\<lparr>cl_connection := Tunnel_Connection ?tn, cl_queue := ?q\<rparr>"
    using client_tunnel_frame [of t cl tn env ch n LDataInd] Cons.prems by (simp add: f)
  have q: "q_incoming ?q = q_incoming (cl_queue cl)
       @ (if n = tn_expected_sequence_number tn then [received_as (ce_wall env) t] else [])"
    "\<not> q_closed ?q"
    using enqueue_incoming_room [of "cl_queue cl" cfg] Cons.prems(5,6) by simp_all
  have "q_incoming (cl_queue (client_run ch fs ?cl)) =
      q_incoming (cl_queue ?cl) @ map (\<lambda>(n, env, t). received_as (ce_wall env) t)
        (accepted validate_sequence_number fs (snd (validate_sequence_number n tn0)))"
    using Cons.prems q unfolding cl
    by (intro Cons.IH [of _ ?tn]) (auto simp: client_window.expected_validate)
  then show ?case
    using Cons.prems(4) q(1) unfolding cl
    by (simp add: f client_run_def client_window.accepted_Cons cl del: accepted.simps)
qed (simp add: client_run_def)

end
