(* ===== verification/Knx.thy ===== *)
theory Knx
  imports Client
begin

text \<open>
  The life cycle of the client, \<open>src/application/knx.rs\<close>: validation of the configuration,
  \<open>connect\<close> and \<open>disconnect\<close>, the connection control task and the reconnection task, in a build
  without KNX Secure.

  Connections are numbered; \<open>kx_connection\<close> is the shared slot \<open>Knx::connection\<close>.  The control task
  holds the connection it was started with (\<open>task_conn\<close>).  The outcome of \<open>create_connection\<close> and of
  \<open>Tunnel::connect\<close> is an argument: the new connection and, for a tunnel, its channel.
\<close>

datatype connection_type = Tunneling | TcpTunneling | Routing | SecureTunneling | SecureRouting

datatype knx_state = Knx_Disconnected | Knx_Connecting | Knx_Connected | Knx_Disconnecting | Knx_Error

record backoff_config =
  bo_initial_delay_ms :: nat
  bo_max_delay_ms :: nat
  bo_max_attempts :: nat

record connection_config =
  cc_connection_type :: connection_type
  cc_gateway_ip :: "(u8 \<times> u8 \<times> u8 \<times> u8) option"
  cc_timeout_ms :: u64
  cc_auto_reconnect :: bool
  cc_reconnect_backoff :: backoff_config

definition BackoffConfig_default :: backoff_config where
  "BackoffConfig_default =
     \<lparr>bo_initial_delay_ms = 1000, bo_max_delay_ms = 30000, bo_max_attempts = 10\<rparr>"

definition ConnectionConfig_default :: connection_config where
  "ConnectionConfig_default =
     \<lparr>cc_connection_type = Tunneling, cc_gateway_ip = None, cc_timeout_ms = 5000,
      cc_auto_reconnect = True, cc_reconnect_backoff = BackoffConfig_default\<rparr>"

definition needs_gateway :: "connection_type \<Rightarrow> bool" where
  "needs_gateway ct = (ct = Tunneling \<or> ct = TcpTunneling \<or> ct = SecureTunneling)"

definition validate_config :: "connection_config \<Rightarrow> unit result" where
  "validate_config cfg =
     guard_res (needs_gateway (cc_connection_type cfg) \<and> cc_gateway_ip cfg = None)
       (Configuration (MissingParameter ''gateway_ip''))
     (guard_res (cc_timeout_ms cfg = 0) (Configuration (InvalidValue ''timeout_ms''))
       (Ok ()))"

record knx =
  kx_state :: knx_state
  kx_connection :: "nat option"
  kx_channel_id :: "u8 option"
  kx_reconnect_task :: bool
  kx_control_running :: bool

datatype knx_effect = Notify knx_state | Send_On nat bytes | Close nat | Spawn_Reconnect

section \<open>Connecting\<close>

text \<open>
  \<open>tunnel\<close> is the outcome of \<open>Tunnel::connect\<close> on a new tunnel, \<open>routing\<close> that of
  \<open>RoutingConnection::new\<close>.  The errors that leave \<open>connect\<close> by \<open>?\<close> skip the code after the match.
\<close>

definition connected :: "nat \<Rightarrow> knx \<Rightarrow> knx" where
  "connected c kx = kx\<lparr>kx_connection := Some c, kx_state := Knx_Connected\<rparr>"

definition knx_connect ::
  "(nat \<times> u8) result \<Rightarrow> nat result \<Rightarrow> connection_config \<Rightarrow> knx
     \<Rightarrow> unit result \<times> knx_effect list \<times> knx" where
  "knx_connect tunnel routing cfg kx =
     (let kx = kx\<lparr>kx_state := Knx_Connecting\<rparr>;
          early = (\<lambda>r. (r, [Notify Knx_Connecting], kx));
          success = (\<lambda>c kx. (Ok (), [Notify Knx_Connecting, Notify Knx_Connected], connected c kx));
          failure = (\<lambda>e. (Err e, [Notify Knx_Connecting, Notify Knx_Error], kx\<lparr>kx_state := Knx_Error\<rparr>)) in
      case cc_connection_type cfg of
        Tunneling \<Rightarrow>
          if cc_gateway_ip cfg = None then early (Err (Configuration (MissingParameter ''gateway_ip'')))
          else (case tunnel of
                  Ok (c, ch) \<Rightarrow> success c (kx\<lparr>kx_channel_id := Some ch\<rparr>)
                | Err e \<Rightarrow> early (Err e)
                | Panic \<Rightarrow> early Panic)
      | SecureTunneling \<Rightarrow>
          if cc_gateway_ip cfg = None then early (Err (Configuration (MissingParameter ''gateway_ip'')))
          else early (Err (Configuration ValidationError))
      | TcpTunneling \<Rightarrow>
          if cc_gateway_ip cfg = None then early (Err (Configuration (MissingParameter ''gateway_ip'')))
          else (case tunnel of
                  Ok (c, ch) \<Rightarrow> success c kx
                | Err e \<Rightarrow> early (Err e)
                | Panic \<Rightarrow> early Panic)
      | Routing \<Rightarrow>
          (case routing of
             Ok c \<Rightarrow> success c kx
           | Err e \<Rightarrow> failure e
           | Panic \<Rightarrow> early Panic)
      | SecureRouting \<Rightarrow> failure (Configuration ValidationError))"

text \<open>\<open>close\<close> is the outcome of \<open>Connection::close\<close>.\<close>

definition knx_disconnect :: "unit result \<Rightarrow> knx \<Rightarrow> unit result \<times> knx_effect list \<times> knx" where
  "knx_disconnect close kx =
     (let kx = kx\<lparr>kx_state := Knx_Disconnecting\<rparr>;
          (r, out) = (case kx_connection kx of Some c \<Rightarrow> (close, [Close c]) | None \<Rightarrow> (Ok (), []));
          kx = kx\<lparr>kx_connection := None\<rparr> in
      case r of
        Ok _ \<Rightarrow> (Ok (), Notify Knx_Disconnecting # out @ [Notify Knx_Disconnected],
                 kx\<lparr>kx_state := Knx_Disconnected\<rparr>)
      | _ \<Rightarrow> (r, Notify Knx_Disconnecting # out, kx))"

section \<open>The control task\<close>

definition control_step ::
  "bool \<Rightarrow> nat \<Rightarrow> control_event \<Rightarrow> knx \<Rightarrow> knx_effect list \<times> knx" where
  "control_step auto_reconnect task_conn ev kx =
     (if \<not> kx_control_running kx then ([], kx)
      else
        (case ev of
           SendDisconnectResponse ch \<Rightarrow>
             ([Send_On task_conn (KnxIpFrame_serialize (KnxIpFrame_new DisconnectResponse
                 (DisconnectResponse_serialize \<lparr>dresp_channel_id = ch, dresp_status = 0x00\<rparr>)))],
              kx\<lparr>kx_channel_id := None\<rparr>)
         | TunnelLost ch \<Rightarrow>
             let closed = (case kx_connection kx of Some c \<Rightarrow> [Close c] | None \<Rightarrow> []);
                 kx = kx\<lparr>kx_state := Knx_Disconnected, kx_connection := None\<rparr> in
             if auto_reconnect then
               if \<not> kx_reconnect_task kx
               then (Notify Knx_Disconnected # closed @ [Spawn_Reconnect], kx\<lparr>kx_reconnect_task := True\<rparr>)
               else (Notify Knx_Disconnected # closed, kx)
             else (Notify Knx_Disconnected # closed, kx\<lparr>kx_control_running := False\<rparr>)))"

section \<open>The reconnection task\<close>

text \<open>
  \<open>shut n\<close> is the shutdown flag and \<open>create n\<close> the outcome of \<open>create_connection\<close> at attempt \<open>n\<close>;
  \<open>scale\<close> is the multiplication by the \<open>f64\<close> multiplier, converted back.  The result has the delays
  slept and the new state.  The attempt counter is a natural number.
\<close>

function reconnect_loop ::
  "(nat \<Rightarrow> bool) \<Rightarrow> (nat \<Rightarrow> (nat \<times> u8 option) result) \<Rightarrow> (nat \<Rightarrow> nat) \<Rightarrow> backoff_config \<Rightarrow>
   nat \<Rightarrow> nat \<Rightarrow> knx \<Rightarrow> nat list \<times> knx" where
  "reconnect_loop shut create scale backoff attempt delay kx =
     (if shut attempt then ([], kx)
      else if attempt > bo_max_attempts backoff then ([], kx)
      else
        (case create attempt of
           Ok (c, channel) \<Rightarrow>
             ([], (connected c kx)
                \<lparr>kx_channel_id := (case channel of Some ch \<Rightarrow> Some ch | None \<Rightarrow> kx_channel_id kx)\<rparr>)
         | Panic \<Rightarrow> ([], kx)
         | Err _ \<Rightarrow>
             (case reconnect_loop shut create scale backoff (attempt + 1)
                     (min (scale delay) (bo_max_delay_ms backoff)) kx of
                (delays, kx') \<Rightarrow> (delay # delays, kx'))))"
  by pat_completeness auto
termination
  by (relation "measure (\<lambda>(_, _, _, backoff, attempt, _, _). Suc (bo_max_attempts backoff) - attempt)") auto

definition reconnection_task ::
  "(nat \<Rightarrow> bool) \<Rightarrow> (nat \<Rightarrow> (nat \<times> u8 option) result) \<Rightarrow> (nat \<Rightarrow> nat) \<Rightarrow> backoff_config \<Rightarrow> knx
     \<Rightarrow> nat list \<times> knx" where
  "reconnection_task shut create scale backoff kx =
     reconnect_loop shut create scale backoff 1 (bo_initial_delay_ms backoff) kx"

declare reconnect_loop.simps [simp del]

section \<open>Lemmas\<close>

lemma reconnect_loop_slot:
  "kx_reconnect_task (snd (reconnect_loop shut create scale backoff attempt delay kx)) =
     kx_reconnect_task kx
   \<and> kx_control_running (snd (reconnect_loop shut create scale backoff attempt delay kx)) =
     kx_control_running kx"
proof (induction shut create scale backoff attempt delay kx rule: reconnect_loop.induct)
  case (1 shut create scale backoff attempt delay kx)
  then show ?case
    by (subst (1 2) reconnect_loop.simps)
       (auto simp: connected_def split: res.splits prod.splits)
qed

lemma reconnect_loop_delays:
  "length (fst (reconnect_loop shut create scale backoff attempt delay kx))
     \<le> Suc (bo_max_attempts backoff) - attempt
   \<and> (\<forall>d \<in> set (fst (reconnect_loop shut create scale backoff attempt delay kx)).
        d \<le> max delay (bo_max_delay_ms backoff))"
proof (induction shut create scale backoff attempt delay kx rule: reconnect_loop.induct)
  case (1 shut create scale backoff attempt delay kx)
  show ?case
  proof (cases "\<exists>e. create attempt = Err e \<and> \<not> shut attempt \<and> attempt \<le> bo_max_attempts backoff")
    case True
    then show ?thesis
      using 1 by (subst (1 2) reconnect_loop.simps) (fastforce split: prod.splits)
  next
    case False
    then show ?thesis
      by (subst (1 2) reconnect_loop.simps) (auto split: res.splits)
  qed
qed

text \<open>The first attempt that succeeds, before the flag is set, decides.\<close>

lemma reconnect_loop_succeeds:
  assumes "attempt \<le> n" "n \<le> bo_max_attempts backoff" "\<forall>k \<in> {attempt..n}. \<not> shut k"
    and "\<forall>k \<in> {attempt..<n}. \<exists>e. create k = Err e" "create n = Ok (c, ch)"
  shows "kx_state (snd (reconnect_loop shut create scale backoff attempt delay kx)) = Knx_Connected
       \<and> kx_connection (snd (reconnect_loop shut create scale backoff attempt delay kx)) = Some c
       \<and> length (fst (reconnect_loop shut create scale backoff attempt delay kx)) = n - attempt"
  using assms
proof (induction "n - attempt" arbitrary: attempt delay)
  case 0
  then have "attempt = n" by simp
  then show ?case
    using 0 by (subst (1 2 3) reconnect_loop.simps) (simp add: connected_def)
next
  case (Suc m)
  have lt: "attempt < n"
    using Suc.hyps(2) by simp
  then obtain e where e: "create attempt = Err e"
    using Suc.prems(4) by force
  have IH: "kx_state (snd (reconnect_loop shut create scale backoff (attempt + 1) d kx)) = Knx_Connected
      \<and> kx_connection (snd (reconnect_loop shut create scale backoff (attempt + 1) d kx)) = Some c
      \<and> length (fst (reconnect_loop shut create scale backoff (attempt + 1) d kx)) = n - (attempt + 1)"
    for d
    using Suc.prems Suc.hyps(2) lt by (intro Suc.hyps(1)) auto
  show ?case
    using IH [of "min (scale delay) (bo_max_delay_ms backoff)"] e lt Suc.prems(1,2,3)
    by (subst (1 2 3) reconnect_loop.simps) (auto split: prod.splits)
qed

subsection \<open>Histories of the control task\<close>

fun control_run :: "bool \<Rightarrow> nat \<Rightarrow> control_event list \<Rightarrow> knx \<Rightarrow> knx_effect list \<times> knx" where
  "control_run auto_reconnect task_conn [] kx = ([], kx)"
| "control_run auto_reconnect task_conn (ev # evs) kx =
     (case control_step auto_reconnect task_conn ev kx of
        (out, kx') \<Rightarrow> (case control_run auto_reconnect task_conn evs kx' of
                         (out', kx'') \<Rightarrow> (out @ out', kx'')))"

lemma control_step_slot:
  assumes "control_step auto_reconnect task_conn ev kx = (out, kx')" "kx_reconnect_task kx"
  shows "Spawn_Reconnect \<notin> set out \<and> kx_reconnect_task kx'"
  using assms
  by (auto simp: control_step_def Let_def split: if_splits control_event.splits option.splits)

lemma control_run_slot:
  "kx_reconnect_task kx \<Longrightarrow> Spawn_Reconnect \<notin> set (fst (control_run auto_reconnect task_conn evs kx))"
proof (induction evs arbitrary: kx)
  case (Cons ev evs)
  obtain out kx' where step: "control_step auto_reconnect task_conn ev kx = (out, kx')"
    by (cases "control_step auto_reconnect task_conn ev kx") auto
  show ?case
    using control_step_slot [OF step Cons.prems] Cons.IH [of kx'] step by (auto split: prod.splits)
qed simp

section \<open>Properties\<close>



text \<open>
  Only the first loss is recovered.  The first lost tunnel starts the reconnection task.  The slot
  that holds its handle is not emptied when the task ends, so after this, however the task ended, no
  further lost tunnel ever starts it again.
\<close>

lemma reconnects_only_once:
  assumes "\<not> kx_reconnect_task kx" "kx_control_running kx"
    and "control_step True task_conn (TunnelLost ch) kx = (out, kx1)"
    and "kx2 = snd (reconnection_task shut create scale backoff kx1)"
  shows "Spawn_Reconnect \<in> set out
       \<and> Spawn_Reconnect \<notin> set (fst (control_run True task_conn evs kx2))"
proof -
  have out: "Spawn_Reconnect \<in> set out" "kx_reconnect_task kx1"
    using assms(1-3) by (auto simp: control_step_def Let_def)
  have "kx_reconnect_task kx2"
    using out(2) assms(4) reconnect_loop_slot by (simp add: reconnection_task_def)
  then show ?thesis
    using out(1) control_run_slot by blast
qed

text \<open>
  State after a failed connect.  When the connection of a (UDP or TCP) tunnel fails, \<open>Knx::connect\<close>
  returns the error but leaves the state at connecting and tells no callback about the failure; the
  same failure of a routing connection sets the error state and reports it.
\<close>

lemma failed_connect_state:
  assumes "cc_connection_type cfg = Tunneling \<or> cc_connection_type cfg = TcpTunneling"
    and "cc_gateway_ip cfg = Some ip"
  shows "knx_connect (Err e) routing cfg kx =
           (Err e, [Notify Knx_Connecting], kx\<lparr>kx_state := Knx_Connecting\<rparr>)
       \<and> knx_connect tunnel (Err e) (cfg\<lparr>cc_connection_type := Routing\<rparr>) kx =
           (Err e, [Notify Knx_Connecting, Notify Knx_Error], kx\<lparr>kx_state := Knx_Error\<rparr>)"
  using assms by (auto simp: knx_connect_def Let_def)

end
