(* ===== verification/Dpt_Type.thy ===== *)
theory Dpt_Type
  imports Errors
begin

text \<open>
  The runtime identity of a datapoint type, \<open>DptType\<close> of \<open>src/protocol/dpt/dpt_type.rs\<close>, and the units
  of measurement of \<open>src/protocol/dpt/unit.rs\<close>.

  \<^item> \<open>DptType\<close> is \<open>#[repr(u32)]\<close> with an explicit discriminant for each of its 210 variants.  The model
    is that representation: a \<open>dpt_type\<close> holds a discriminant, \<open>dpt_variants\<close> lists the declared ones in
    the order of the source and \<open>from_repr\<close> (derived by \<open>strum::FromRepr\<close>) accepts exactly these.  Each
    variant has an abbreviation \<open>Dpt_\<close> with its name; \<open>dpt_valid\<close> says that a value is a variant.
  \<^item> \<open>Unit\<close> is the position of the variant in its declaration, with an abbreviation \<open>Unit_\<close> for each.
  \<^item> A \<open>&str\<close> is the list of its UTF-8 bytes.
  \<^item> \<open>from_number\<close> computes \<open>main * 100_000 + sub\<close> in \<open>u32\<close>, which can overflow.  The argument
    \<open>checks\<close> says whether the build panics on overflow (a debug build) or wraps (a release build).

  Shown: the number of a type identifies it (\<open>from_str_number_str\<close>), the encoded length of every type is
  positive and at most 14, and the unit tables are inverse to each other.
\<close>

section \<open>Units\<close>

datatype knx_unit = KnxUnit (unit_index: nat)

abbreviation Unit_Ampere :: knx_unit where "Unit_Ampere \<equiv> KnxUnit 0"
abbreviation Unit_Milliampere :: knx_unit where "Unit_Milliampere \<equiv> KnxUnit 1"
abbreviation Unit_Millivolt :: knx_unit where "Unit_Millivolt \<equiv> KnxUnit 2"
abbreviation Unit_Volt :: knx_unit where "Unit_Volt \<equiv> KnxUnit 3"
abbreviation Unit_VoltPerKelvin :: knx_unit where "Unit_VoltPerKelvin \<equiv> KnxUnit 4"
abbreviation Unit_VoltPerMeter :: knx_unit where "Unit_VoltPerMeter \<equiv> KnxUnit 5"
abbreviation Unit_VoltAmpere :: knx_unit where "Unit_VoltAmpere \<equiv> KnxUnit 6"
abbreviation Unit_VoltAmpereHour :: knx_unit where "Unit_VoltAmpereHour \<equiv> KnxUnit 7"
abbreviation Unit_VoltAmpereReactiveHour :: knx_unit where "Unit_VoltAmpereReactiveHour \<equiv> KnxUnit 8"
abbreviation Unit_Watt :: knx_unit where "Unit_Watt \<equiv> KnxUnit 9"
abbreviation Unit_WattPerSquareMeter :: knx_unit where "Unit_WattPerSquareMeter \<equiv> KnxUnit 10"
abbreviation Unit_WattPerMeterKelvin :: knx_unit where "Unit_WattPerMeterKelvin \<equiv> KnxUnit 11"
abbreviation Unit_WattHour :: knx_unit where "Unit_WattHour \<equiv> KnxUnit 12"
abbreviation Unit_Kilowatt :: knx_unit where "Unit_Kilowatt \<equiv> KnxUnit 13"
abbreviation Unit_KilowattHour :: knx_unit where "Unit_KilowattHour \<equiv> KnxUnit 14"
abbreviation Unit_KilovoltAmpereHour :: knx_unit where "Unit_KilovoltAmpereHour \<equiv> KnxUnit 15"
abbreviation Unit_KilovoltAmpereReactiveHour :: knx_unit where "Unit_KilovoltAmpereReactiveHour \<equiv> KnxUnit 16"
abbreviation Unit_MegawattHour :: knx_unit where "Unit_MegawattHour \<equiv> KnxUnit 17"
abbreviation Unit_Ohm :: knx_unit where "Unit_Ohm \<equiv> KnxUnit 18"
abbreviation Unit_OhmMeter :: knx_unit where "Unit_OhmMeter \<equiv> KnxUnit 19"
abbreviation Unit_Siemens :: knx_unit where "Unit_Siemens \<equiv> KnxUnit 20"
abbreviation Unit_SiemensPerMeter :: knx_unit where "Unit_SiemensPerMeter \<equiv> KnxUnit 21"
abbreviation Unit_Weber :: knx_unit where "Unit_Weber \<equiv> KnxUnit 22"
abbreviation Unit_Tesla :: knx_unit where "Unit_Tesla \<equiv> KnxUnit 23"
abbreviation Unit_Henry :: knx_unit where "Unit_Henry \<equiv> KnxUnit 24"
abbreviation Unit_Farad :: knx_unit where "Unit_Farad \<equiv> KnxUnit 25"
abbreviation Unit_DegreeCelsius :: knx_unit where "Unit_DegreeCelsius \<equiv> KnxUnit 26"
abbreviation Unit_DegreeFahrenheit :: knx_unit where "Unit_DegreeFahrenheit \<equiv> KnxUnit 27"
abbreviation Unit_Kelvin :: knx_unit where "Unit_Kelvin \<equiv> KnxUnit 28"
abbreviation Unit_KelvinPerPercent :: knx_unit where "Unit_KelvinPerPercent \<equiv> KnxUnit 29"
abbreviation Unit_KelvinPerHour :: knx_unit where "Unit_KelvinPerHour \<equiv> KnxUnit 30"
abbreviation Unit_Newton :: knx_unit where "Unit_Newton \<equiv> KnxUnit 31"
abbreviation Unit_NewtonPerMeter :: knx_unit where "Unit_NewtonPerMeter \<equiv> KnxUnit 32"
abbreviation Unit_NewtonPerSecond :: knx_unit where "Unit_NewtonPerSecond \<equiv> KnxUnit 33"
abbreviation Unit_NewtonMeter :: knx_unit where "Unit_NewtonMeter \<equiv> KnxUnit 34"
abbreviation Unit_Pascal :: knx_unit where "Unit_Pascal \<equiv> KnxUnit 35"
abbreviation Unit_Joule :: knx_unit where "Unit_Joule \<equiv> KnxUnit 36"
abbreviation Unit_JoulePerKelvin :: knx_unit where "Unit_JoulePerKelvin \<equiv> KnxUnit 37"
abbreviation Unit_JoulePerMol :: knx_unit where "Unit_JoulePerMol \<equiv> KnxUnit 38"
abbreviation Unit_JouleSecond :: knx_unit where "Unit_JouleSecond \<equiv> KnxUnit 39"
abbreviation Unit_MeterPerSecond :: knx_unit where "Unit_MeterPerSecond \<equiv> KnxUnit 40"
abbreviation Unit_MeterPerSecondSquared :: knx_unit where "Unit_MeterPerSecondSquared \<equiv> KnxUnit 41"
abbreviation Unit_KilometerPerHour :: knx_unit where "Unit_KilometerPerHour \<equiv> KnxUnit 42"
abbreviation Unit_RadianPerSecond :: knx_unit where "Unit_RadianPerSecond \<equiv> KnxUnit 43"
abbreviation Unit_RadianPerSecondSquared :: knx_unit where "Unit_RadianPerSecondSquared \<equiv> KnxUnit 44"
abbreviation Unit_Meter :: knx_unit where "Unit_Meter \<equiv> KnxUnit 45"
abbreviation Unit_Millimeter :: knx_unit where "Unit_Millimeter \<equiv> KnxUnit 46"
abbreviation Unit_SquareMeter :: knx_unit where "Unit_SquareMeter \<equiv> KnxUnit 47"
abbreviation Unit_SquareMeterPerNewton :: knx_unit where "Unit_SquareMeterPerNewton \<equiv> KnxUnit 48"
abbreviation Unit_CubicMeter :: knx_unit where "Unit_CubicMeter \<equiv> KnxUnit 49"
abbreviation Unit_CubicMeterPerHour :: knx_unit where "Unit_CubicMeterPerHour \<equiv> KnxUnit 50"
abbreviation Unit_CubicMeterPerSecond :: knx_unit where "Unit_CubicMeterPerSecond \<equiv> KnxUnit 51"
abbreviation Unit_Liter :: knx_unit where "Unit_Liter \<equiv> KnxUnit 52"
abbreviation Unit_LiterPerHour :: knx_unit where "Unit_LiterPerHour \<equiv> KnxUnit 53"
abbreviation Unit_LiterPerSquareMeter :: knx_unit where "Unit_LiterPerSquareMeter \<equiv> KnxUnit 54"
abbreviation Unit_LiterPerSecond :: knx_unit where "Unit_LiterPerSecond \<equiv> KnxUnit 55"
abbreviation Unit_Kilogram :: knx_unit where "Unit_Kilogram \<equiv> KnxUnit 56"
abbreviation Unit_KilogramPerCubicMeter :: knx_unit where "Unit_KilogramPerCubicMeter \<equiv> KnxUnit 57"
abbreviation Unit_KilogramPerSecond :: knx_unit where "Unit_KilogramPerSecond \<equiv> KnxUnit 58"
abbreviation Unit_GramPerCubicMeter :: knx_unit where "Unit_GramPerCubicMeter \<equiv> KnxUnit 59"
abbreviation Unit_MicrogramPerCubicMeter :: knx_unit where "Unit_MicrogramPerCubicMeter \<equiv> KnxUnit 60"
abbreviation Unit_Lux :: knx_unit where "Unit_Lux \<equiv> KnxUnit 61"
abbreviation Unit_Lumen :: knx_unit where "Unit_Lumen \<equiv> KnxUnit 62"
abbreviation Unit_LumenSecond :: knx_unit where "Unit_LumenSecond \<equiv> KnxUnit 63"
abbreviation Unit_Candela :: knx_unit where "Unit_Candela \<equiv> KnxUnit 64"
abbreviation Unit_CandelaPerSquareMeter :: knx_unit where "Unit_CandelaPerSquareMeter \<equiv> KnxUnit 65"
abbreviation Unit_Second :: knx_unit where "Unit_Second \<equiv> KnxUnit 66"
abbreviation Unit_Millisecond :: knx_unit where "Unit_Millisecond \<equiv> KnxUnit 67"
abbreviation Unit_Minute :: knx_unit where "Unit_Minute \<equiv> KnxUnit 68"
abbreviation Unit_Hour :: knx_unit where "Unit_Hour \<equiv> KnxUnit 69"
abbreviation Unit_Hertz :: knx_unit where "Unit_Hertz \<equiv> KnxUnit 70"
abbreviation Unit_InverseSecond :: knx_unit where "Unit_InverseSecond \<equiv> KnxUnit 71"
abbreviation Unit_Degree :: knx_unit where "Unit_Degree \<equiv> KnxUnit 72"
abbreviation Unit_Radian :: knx_unit where "Unit_Radian \<equiv> KnxUnit 73"
abbreviation Unit_Steradian :: knx_unit where "Unit_Steradian \<equiv> KnxUnit 74"
abbreviation Unit_AmperePerMeter :: knx_unit where "Unit_AmperePerMeter \<equiv> KnxUnit 75"
abbreviation Unit_AmperePerSquareMeter :: knx_unit where "Unit_AmperePerSquareMeter \<equiv> KnxUnit 76"
abbreviation Unit_AmpereSquareMeter :: knx_unit where "Unit_AmpereSquareMeter \<equiv> KnxUnit 77"
abbreviation Unit_Coulomb :: knx_unit where "Unit_Coulomb \<equiv> KnxUnit 78"
abbreviation Unit_CoulombPerSquareMeter :: knx_unit where "Unit_CoulombPerSquareMeter \<equiv> KnxUnit 79"
abbreviation Unit_CoulombPerCubicMeter :: knx_unit where "Unit_CoulombPerCubicMeter \<equiv> KnxUnit 80"
abbreviation Unit_CoulombMeter :: knx_unit where "Unit_CoulombMeter \<equiv> KnxUnit 81"
abbreviation Unit_Mol :: knx_unit where "Unit_Mol \<equiv> KnxUnit 82"
abbreviation Unit_PartsPerMillion :: knx_unit where "Unit_PartsPerMillion \<equiv> KnxUnit 83"
abbreviation Unit_Percent :: knx_unit where "Unit_Percent \<equiv> KnxUnit 84"
abbreviation Unit_SpeedOfLight :: knx_unit where "Unit_SpeedOfLight \<equiv> KnxUnit 85"
abbreviation Unit_CounterPulses :: knx_unit where "Unit_CounterPulses \<equiv> KnxUnit 86"
abbreviation Unit_Pulses :: knx_unit where "Unit_Pulses \<equiv> KnxUnit 87"

definition unit_symbols :: "(knx_unit \<times> string) list" where
  "unit_symbols = [
     (Unit_Percent, ''%''), (Unit_Ampere, ''A''), (Unit_AmperePerMeter, ''A/m''),
     (Unit_AmperePerSquareMeter, ''A/m'' @ [CHR 0xC2, CHR 0xB2]),
     (Unit_AmpereSquareMeter, ''A m'' @ [CHR 0xC2, CHR 0xB2]), (Unit_Coulomb, ''C''),
     (Unit_CoulombPerSquareMeter, ''C/m'' @ [CHR 0xC2, CHR 0xB2]),
     (Unit_CoulombPerCubicMeter, ''C/m'' @ [CHR 0xC2, CHR 0xB3]), (Unit_CoulombMeter, ''C m''),
     (Unit_Farad, ''F''), (Unit_Henry, ''H''), (Unit_Hertz, ''Hz''), (Unit_Joule, ''J''),
     (Unit_JoulePerKelvin, ''J/K''), (Unit_JoulePerMol, ''J/mol''),
     (Unit_JouleSecond, ''J s''), (Unit_Kelvin, ''K''), (Unit_KelvinPerPercent, ''K/%''),
     (Unit_KelvinPerHour, ''K/h''), (Unit_Liter, ''L''), (Unit_LiterPerHour, ''L/h''),
     (Unit_LiterPerSquareMeter, ''L/m'' @ [CHR 0xC2, CHR 0xB2]),
     (Unit_LiterPerSecond, ''L/s''), (Unit_MegawattHour, ''MWh''), (Unit_Newton, ''N''),
     (Unit_NewtonPerMeter, ''N/m''), (Unit_NewtonPerSecond, ''N/s''),
     (Unit_NewtonMeter, ''Nm''), (Unit_Pascal, ''Pa''), (Unit_Siemens, ''S''),
     (Unit_SiemensPerMeter, ''S/m''), (Unit_Tesla, ''T''), (Unit_Volt, ''V''),
     (Unit_VoltPerKelvin, ''V/K''), (Unit_VoltPerMeter, ''V/m''), (Unit_VoltAmpere, ''VA''),
     (Unit_VoltAmpereHour, ''VAh''), (Unit_VoltAmpereReactiveHour, ''VARh''),
     (Unit_Watt, ''W''), (Unit_WattPerSquareMeter, ''W/m'' @ [CHR 0xC2, CHR 0xB2]),
     (Unit_WattPerMeterKelvin, ''W/mK''), (Unit_Weber, ''Wb''), (Unit_WattHour, ''Wh''),
     (Unit_SpeedOfLight, ''c''), (Unit_Candela, ''cd''),
     (Unit_CandelaPerSquareMeter, ''cd/m'' @ [CHR 0xC2, CHR 0xB2]),
     (Unit_CounterPulses, ''counter pulses''),
     (Unit_GramPerCubicMeter, ''g/m'' @ [CHR 0xC2, CHR 0xB3]), (Unit_Hour, ''h''),
     (Unit_KilovoltAmpereHour, ''kVAh''), (Unit_KilovoltAmpereReactiveHour, ''kVARh''),
     (Unit_Kilowatt, ''kW''), (Unit_KilowattHour, ''kWh''), (Unit_Kilogram, ''kg''),
     (Unit_KilogramPerCubicMeter, ''kg/m'' @ [CHR 0xC2, CHR 0xB3]),
     (Unit_KilogramPerSecond, ''kg/s''), (Unit_KilometerPerHour, ''km/h''),
     (Unit_Lumen, ''lm''), (Unit_LumenSecond, ''lm s''), (Unit_Lux, ''lx''),
     (Unit_Meter, ''m''), (Unit_MeterPerSecond, ''m/s''),
     (Unit_MeterPerSecondSquared, ''m/s'' @ [CHR 0xC2, CHR 0xB2]), (Unit_Milliampere, ''mA''),
     (Unit_Millivolt, ''mV''), (Unit_Minute, ''min''), (Unit_Millimeter, ''mm''),
     (Unit_Mol, ''mol''), (Unit_Millisecond, ''ms''),
     (Unit_SquareMeter, ''m'' @ [CHR 0xC2, CHR 0xB2]),
     (Unit_SquareMeterPerNewton, ''m'' @ [CHR 0xC2, CHR 0xB2] @ ''/N''),
     (Unit_CubicMeter, ''m'' @ [CHR 0xC2, CHR 0xB3]),
     (Unit_CubicMeterPerHour, ''m'' @ [CHR 0xC2, CHR 0xB3] @ ''/h''),
     (Unit_CubicMeterPerSecond, ''m'' @ [CHR 0xC2, CHR 0xB3] @ ''/s''),
     (Unit_PartsPerMillion, ''ppm''), (Unit_Pulses, ''pulses''), (Unit_Radian, ''rad''),
     (Unit_RadianPerSecond, ''rad/s''),
     (Unit_RadianPerSecondSquared, ''rad/s'' @ [CHR 0xC2, CHR 0xB2]), (Unit_Second, ''s''),
     (Unit_Steradian, ''sr''),
     (Unit_InverseSecond, ''s'' @ [CHR 0xE2, CHR 0x81, CHR 0xBB] @ [CHR 0xC2, CHR 0xB9]),
     (Unit_Degree, [CHR 0xC2, CHR 0xB0]), (Unit_DegreeCelsius, [CHR 0xC2, CHR 0xB0] @ ''C''),
     (Unit_DegreeFahrenheit, [CHR 0xC2, CHR 0xB0] @ ''F''), (Unit_Ohm, [CHR 0xCE, CHR 0xA9]),
     (Unit_OhmMeter, [CHR 0xCE, CHR 0xA9] @ ''m''),
     (Unit_MicrogramPerCubicMeter, [CHR 0xCE, CHR 0xBC] @ ''g/m'' @ [CHR 0xC2, CHR 0xB3])]"

definition unit_symbol :: "knx_unit \<Rightarrow> string" where
  "unit_symbol u = (case map_of unit_symbols u of Some s \<Rightarrow> s | None \<Rightarrow> [])"

definition unit_ids :: "(knx_unit \<times> string) list" where
  "unit_ids = [
     (Unit_Percent, ''percent''), (Unit_Ampere, ''ampere''),
     (Unit_AmperePerMeter, ''ampere_per_meter''),
     (Unit_AmperePerSquareMeter, ''ampere_per_square_meter''),
     (Unit_AmpereSquareMeter, ''ampere_square_meter''), (Unit_Coulomb, ''coulomb''),
     (Unit_CoulombPerSquareMeter, ''coulomb_per_square_meter''),
     (Unit_CoulombPerCubicMeter, ''coulomb_per_cubic_meter''),
     (Unit_CoulombMeter, ''coulomb_meter''), (Unit_Farad, ''farad''), (Unit_Henry, ''henry''),
     (Unit_Hertz, ''hertz''), (Unit_Joule, ''joule''),
     (Unit_JoulePerKelvin, ''joule_per_kelvin''), (Unit_JoulePerMol, ''joule_per_mol''),
     (Unit_JouleSecond, ''joule_second''), (Unit_Kelvin, ''kelvin''),
     (Unit_KelvinPerPercent, ''kelvin_per_percent''),
     (Unit_KelvinPerHour, ''kelvin_per_hour''), (Unit_Liter, ''liter''),
     (Unit_LiterPerHour, ''liter_per_hour''),
     (Unit_LiterPerSquareMeter, ''liter_per_square_meter''),
     (Unit_LiterPerSecond, ''liter_per_second''), (Unit_MegawattHour, ''megawatt_hour''),
     (Unit_Newton, ''newton''), (Unit_NewtonPerMeter, ''newton_per_meter''),
     (Unit_NewtonPerSecond, ''newton_per_second''), (Unit_NewtonMeter, ''newton_meter''),
     (Unit_Pascal, ''pascal''), (Unit_Siemens, ''siemens''),
     (Unit_SiemensPerMeter, ''siemens_per_meter''), (Unit_Tesla, ''tesla''),
     (Unit_Volt, ''volt''), (Unit_VoltPerKelvin, ''volt_per_kelvin''),
     (Unit_VoltPerMeter, ''volt_per_meter''), (Unit_VoltAmpere, ''volt_ampere''),
     (Unit_VoltAmpereHour, ''volt_ampere_hour''),
     (Unit_VoltAmpereReactiveHour, ''volt_ampere_reactive_hour''), (Unit_Watt, ''watt''),
     (Unit_WattPerSquareMeter, ''watt_per_square_meter''),
     (Unit_WattPerMeterKelvin, ''watt_per_meter_kelvin''), (Unit_Weber, ''weber''),
     (Unit_WattHour, ''watt_hour''), (Unit_SpeedOfLight, ''speed_of_light''),
     (Unit_Candela, ''candela''), (Unit_CandelaPerSquareMeter, ''candela_per_square_meter''),
     (Unit_CounterPulses, ''counter_pulses''),
     (Unit_GramPerCubicMeter, ''gram_per_cubic_meter''), (Unit_Hour, ''hour''),
     (Unit_KilovoltAmpereHour, ''kilovolt_ampere_hour''),
     (Unit_KilovoltAmpereReactiveHour, ''kilovolt_ampere_reactive_hour''),
     (Unit_Kilowatt, ''kilowatt''), (Unit_KilowattHour, ''kilowatt_hour''),
     (Unit_Kilogram, ''kilogram''), (Unit_KilogramPerCubicMeter, ''kilogram_per_cubic_meter''),
     (Unit_KilogramPerSecond, ''kilogram_per_second''),
     (Unit_KilometerPerHour, ''kilometer_per_hour''), (Unit_Lumen, ''lumen''),
     (Unit_LumenSecond, ''lumen_second''), (Unit_Lux, ''lux''), (Unit_Meter, ''meter''),
     (Unit_MeterPerSecond, ''meter_per_second''),
     (Unit_MeterPerSecondSquared, ''meter_per_second_squared''),
     (Unit_Milliampere, ''milliampere''), (Unit_Millivolt, ''millivolt''),
     (Unit_Minute, ''minute''), (Unit_Millimeter, ''millimeter''), (Unit_Mol, ''mol''),
     (Unit_Millisecond, ''millisecond''), (Unit_SquareMeter, ''square_meter''),
     (Unit_SquareMeterPerNewton, ''square_meter_per_newton''),
     (Unit_CubicMeter, ''cubic_meter''), (Unit_CubicMeterPerHour, ''cubic_meter_per_hour''),
     (Unit_CubicMeterPerSecond, ''cubic_meter_per_second''),
     (Unit_PartsPerMillion, ''parts_per_million''), (Unit_Pulses, ''pulses''),
     (Unit_Radian, ''radian''), (Unit_RadianPerSecond, ''radian_per_second''),
     (Unit_RadianPerSecondSquared, ''radian_per_second_squared''), (Unit_Second, ''second''),
     (Unit_Steradian, ''steradian''), (Unit_InverseSecond, ''inverse_second''),
     (Unit_Degree, ''degree''), (Unit_DegreeCelsius, ''degree_celsius''),
     (Unit_DegreeFahrenheit, ''degree_fahrenheit''), (Unit_Ohm, ''ohm''),
     (Unit_OhmMeter, ''ohm_meter''),
     (Unit_MicrogramPerCubicMeter, ''microgram_per_cubic_meter'')]"

definition unit_id :: "knx_unit \<Rightarrow> string" where
  "unit_id u = (case map_of unit_ids u of Some s \<Rightarrow> s | None \<Rightarrow> [])"

definition symbol_units :: "(string \<times> knx_unit) list" where
  "symbol_units = [
     (''%'', Unit_Percent), (''A'', Unit_Ampere), (''A/m'', Unit_AmperePerMeter),
     (''A/m'' @ [CHR 0xC2, CHR 0xB2], Unit_AmperePerSquareMeter),
     (''A m'' @ [CHR 0xC2, CHR 0xB2], Unit_AmpereSquareMeter), (''C'', Unit_Coulomb),
     (''C/m'' @ [CHR 0xC2, CHR 0xB2], Unit_CoulombPerSquareMeter),
     (''C/m'' @ [CHR 0xC2, CHR 0xB3], Unit_CoulombPerCubicMeter), (''C m'', Unit_CoulombMeter),
     (''F'', Unit_Farad), (''H'', Unit_Henry), (''Hz'', Unit_Hertz), (''J'', Unit_Joule),
     (''J/K'', Unit_JoulePerKelvin), (''J/mol'', Unit_JoulePerMol),
     (''J s'', Unit_JouleSecond), (''K'', Unit_Kelvin), (''K/%'', Unit_KelvinPerPercent),
     (''K/h'', Unit_KelvinPerHour), (''L'', Unit_Liter), (''L/h'', Unit_LiterPerHour),
     (''L/m'' @ [CHR 0xC2, CHR 0xB2], Unit_LiterPerSquareMeter),
     (''L/s'', Unit_LiterPerSecond), (''MWh'', Unit_MegawattHour), (''N'', Unit_Newton),
     (''N/m'', Unit_NewtonPerMeter), (''N/s'', Unit_NewtonPerSecond),
     (''Nm'', Unit_NewtonMeter), (''Pa'', Unit_Pascal), (''S'', Unit_Siemens),
     (''S/m'', Unit_SiemensPerMeter), (''T'', Unit_Tesla), (''V'', Unit_Volt),
     (''V/K'', Unit_VoltPerKelvin), (''V/m'', Unit_VoltPerMeter), (''VA'', Unit_VoltAmpere),
     (''VAh'', Unit_VoltAmpereHour), (''VARh'', Unit_VoltAmpereReactiveHour),
     (''W'', Unit_Watt), (''W/m'' @ [CHR 0xC2, CHR 0xB2], Unit_WattPerSquareMeter),
     (''W/mK'', Unit_WattPerMeterKelvin), (''Wb'', Unit_Weber), (''Wh'', Unit_WattHour),
     (''c'', Unit_SpeedOfLight), (''cd'', Unit_Candela),
     (''cd/m'' @ [CHR 0xC2, CHR 0xB2], Unit_CandelaPerSquareMeter),
     (''counter pulses'', Unit_CounterPulses),
     (''g/m'' @ [CHR 0xC2, CHR 0xB3], Unit_GramPerCubicMeter), (''h'', Unit_Hour),
     (''kVAh'', Unit_KilovoltAmpereHour), (''kVARh'', Unit_KilovoltAmpereReactiveHour),
     (''kW'', Unit_Kilowatt), (''kWh'', Unit_KilowattHour), (''kg'', Unit_Kilogram),
     (''kg/m'' @ [CHR 0xC2, CHR 0xB3], Unit_KilogramPerCubicMeter),
     (''kg/s'', Unit_KilogramPerSecond), (''km/h'', Unit_KilometerPerHour),
     (''lm'', Unit_Lumen), (''lm s'', Unit_LumenSecond), (''lx'', Unit_Lux),
     (''m'', Unit_Meter), (''m/s'', Unit_MeterPerSecond),
     (''m/s'' @ [CHR 0xC2, CHR 0xB2], Unit_MeterPerSecondSquared), (''mA'', Unit_Milliampere),
     (''mV'', Unit_Millivolt), (''min'', Unit_Minute), (''mm'', Unit_Millimeter),
     (''mol'', Unit_Mol), (''ms'', Unit_Millisecond),
     (''m'' @ [CHR 0xC2, CHR 0xB2], Unit_SquareMeter),
     (''m'' @ [CHR 0xC2, CHR 0xB2] @ ''/N'', Unit_SquareMeterPerNewton),
     (''m'' @ [CHR 0xC2, CHR 0xB3], Unit_CubicMeter),
     (''m'' @ [CHR 0xC2, CHR 0xB3] @ ''/h'', Unit_CubicMeterPerHour),
     (''m'' @ [CHR 0xC2, CHR 0xB3] @ ''/s'', Unit_CubicMeterPerSecond),
     (''ppm'', Unit_PartsPerMillion), (''pulses'', Unit_Pulses), (''rad'', Unit_Radian),
     (''rad/s'', Unit_RadianPerSecond),
     (''rad/s'' @ [CHR 0xC2, CHR 0xB2], Unit_RadianPerSecondSquared), (''s'', Unit_Second),
     (''sr'', Unit_Steradian),
     (''s'' @ [CHR 0xE2, CHR 0x81, CHR 0xBB] @ [CHR 0xC2, CHR 0xB9], Unit_InverseSecond),
     ([CHR 0xC2, CHR 0xB0], Unit_Degree), ([CHR 0xC2, CHR 0xB0] @ ''C'', Unit_DegreeCelsius),
     ([CHR 0xC2, CHR 0xB0] @ ''F'', Unit_DegreeFahrenheit), ([CHR 0xCE, CHR 0xA9], Unit_Ohm),
     ([CHR 0xCE, CHR 0xA9] @ ''m'', Unit_OhmMeter),
     ([CHR 0xCE, CHR 0xBC] @ ''g/m'' @ [CHR 0xC2, CHR 0xB3], Unit_MicrogramPerCubicMeter)]"

definition unit_from_symbol :: "string \<Rightarrow> knx_unit option" where
  "unit_from_symbol s = map_of symbol_units s"

section \<open>Types\<close>

datatype dpt_type = DptType (dpt_repr: nat)

abbreviation Dpt_Switch :: dpt_type where "Dpt_Switch \<equiv> DptType 100001"
abbreviation Dpt_Bool :: dpt_type where "Dpt_Bool \<equiv> DptType 100002"
abbreviation Dpt_Enable :: dpt_type where "Dpt_Enable \<equiv> DptType 100003"
abbreviation Dpt_Ramp :: dpt_type where "Dpt_Ramp \<equiv> DptType 100004"
abbreviation Dpt_Alarm :: dpt_type where "Dpt_Alarm \<equiv> DptType 100005"
abbreviation Dpt_BinaryValue :: dpt_type where "Dpt_BinaryValue \<equiv> DptType 100006"
abbreviation Dpt_Step :: dpt_type where "Dpt_Step \<equiv> DptType 100007"
abbreviation Dpt_UpDown :: dpt_type where "Dpt_UpDown \<equiv> DptType 100008"
abbreviation Dpt_OpenClose :: dpt_type where "Dpt_OpenClose \<equiv> DptType 100009"
abbreviation Dpt_Start :: dpt_type where "Dpt_Start \<equiv> DptType 100010"
abbreviation Dpt_State :: dpt_type where "Dpt_State \<equiv> DptType 100011"
abbreviation Dpt_Invert :: dpt_type where "Dpt_Invert \<equiv> DptType 100012"
abbreviation Dpt_DimSendStyle :: dpt_type where "Dpt_DimSendStyle \<equiv> DptType 100013"
abbreviation Dpt_InputSource :: dpt_type where "Dpt_InputSource \<equiv> DptType 100014"
abbreviation Dpt_Reset :: dpt_type where "Dpt_Reset \<equiv> DptType 100015"
abbreviation Dpt_Ack :: dpt_type where "Dpt_Ack \<equiv> DptType 100016"
abbreviation Dpt_Trigger :: dpt_type where "Dpt_Trigger \<equiv> DptType 100017"
abbreviation Dpt_Occupancy :: dpt_type where "Dpt_Occupancy \<equiv> DptType 100018"
abbreviation Dpt_WindowDoor :: dpt_type where "Dpt_WindowDoor \<equiv> DptType 100019"
abbreviation Dpt_LogicalFunction :: dpt_type where "Dpt_LogicalFunction \<equiv> DptType 100021"
abbreviation Dpt_SceneAB :: dpt_type where "Dpt_SceneAB \<equiv> DptType 100022"
abbreviation Dpt_ShutterBlindsMode :: dpt_type where "Dpt_ShutterBlindsMode \<equiv> DptType 100023"
abbreviation Dpt_DayNight :: dpt_type where "Dpt_DayNight \<equiv> DptType 100024"
abbreviation Dpt_HeatCool :: dpt_type where "Dpt_HeatCool \<equiv> DptType 100100"
abbreviation Dpt_ConsumerProducer :: dpt_type where "Dpt_ConsumerProducer \<equiv> DptType 101200"
abbreviation Dpt_EnergyDirection :: dpt_type where "Dpt_EnergyDirection \<equiv> DptType 101201"
abbreviation Dpt_SwitchControl :: dpt_type where "Dpt_SwitchControl \<equiv> DptType 200001"
abbreviation Dpt_BoolControl :: dpt_type where "Dpt_BoolControl \<equiv> DptType 200002"
abbreviation Dpt_EnableControl :: dpt_type where "Dpt_EnableControl \<equiv> DptType 200003"
abbreviation Dpt_RampControl :: dpt_type where "Dpt_RampControl \<equiv> DptType 200004"
abbreviation Dpt_AlarmControl :: dpt_type where "Dpt_AlarmControl \<equiv> DptType 200005"
abbreviation Dpt_BinaryValueControl :: dpt_type where "Dpt_BinaryValueControl \<equiv> DptType 200006"
abbreviation Dpt_StepControl :: dpt_type where "Dpt_StepControl \<equiv> DptType 200007"
abbreviation Dpt_Direction1Control :: dpt_type where "Dpt_Direction1Control \<equiv> DptType 200008"
abbreviation Dpt_Direction2Control :: dpt_type where "Dpt_Direction2Control \<equiv> DptType 200009"
abbreviation Dpt_StartControl :: dpt_type where "Dpt_StartControl \<equiv> DptType 200010"
abbreviation Dpt_StateControl :: dpt_type where "Dpt_StateControl \<equiv> DptType 200011"
abbreviation Dpt_InvertControl :: dpt_type where "Dpt_InvertControl \<equiv> DptType 200012"
abbreviation Dpt_ControlDimming :: dpt_type where "Dpt_ControlDimming \<equiv> DptType 300007"
abbreviation Dpt_ControlBlinds :: dpt_type where "Dpt_ControlBlinds \<equiv> DptType 300008"
abbreviation Dpt_Scaling :: dpt_type where "Dpt_Scaling \<equiv> DptType 500001"
abbreviation Dpt_Angle :: dpt_type where "Dpt_Angle \<equiv> DptType 500003"
abbreviation Dpt_PercentU8 :: dpt_type where "Dpt_PercentU8 \<equiv> DptType 500004"
abbreviation Dpt_DecimalFactor :: dpt_type where "Dpt_DecimalFactor \<equiv> DptType 500005"
abbreviation Dpt_Tariff :: dpt_type where "Dpt_Tariff \<equiv> DptType 500006"
abbreviation Dpt_Value1Ucount :: dpt_type where "Dpt_Value1Ucount \<equiv> DptType 500010"
abbreviation Dpt_PercentV8 :: dpt_type where "Dpt_PercentV8 \<equiv> DptType 600001"
abbreviation Dpt_Value1Count :: dpt_type where "Dpt_Value1Count \<equiv> DptType 600010"
abbreviation Dpt_Value2Ucount :: dpt_type where "Dpt_Value2Ucount \<equiv> DptType 700001"
abbreviation Dpt_TimePeriodMsec :: dpt_type where "Dpt_TimePeriodMsec \<equiv> DptType 700002"
abbreviation Dpt_TimePeriod10Msec :: dpt_type where "Dpt_TimePeriod10Msec \<equiv> DptType 700003"
abbreviation Dpt_TimePeriod100Msec :: dpt_type where "Dpt_TimePeriod100Msec \<equiv> DptType 700004"
abbreviation Dpt_TimePeriodSec :: dpt_type where "Dpt_TimePeriodSec \<equiv> DptType 700005"
abbreviation Dpt_TimePeriodMin :: dpt_type where "Dpt_TimePeriodMin \<equiv> DptType 700006"
abbreviation Dpt_TimePeriodHrs :: dpt_type where "Dpt_TimePeriodHrs \<equiv> DptType 700007"
abbreviation Dpt_PropDataType :: dpt_type where "Dpt_PropDataType \<equiv> DptType 700010"
abbreviation Dpt_LengthMm :: dpt_type where "Dpt_LengthMm \<equiv> DptType 700011"
abbreviation Dpt_UElCurrentmA :: dpt_type where "Dpt_UElCurrentmA \<equiv> DptType 700012"
abbreviation Dpt_Brightness :: dpt_type where "Dpt_Brightness \<equiv> DptType 700013"
abbreviation Dpt_ColorTemperature :: dpt_type where "Dpt_ColorTemperature \<equiv> DptType 700600"
abbreviation Dpt_Value2Count :: dpt_type where "Dpt_Value2Count \<equiv> DptType 800001"
abbreviation Dpt_DeltaTimeMsec :: dpt_type where "Dpt_DeltaTimeMsec \<equiv> DptType 800002"
abbreviation Dpt_DeltaTime10Msec :: dpt_type where "Dpt_DeltaTime10Msec \<equiv> DptType 800003"
abbreviation Dpt_DeltaTime100Msec :: dpt_type where "Dpt_DeltaTime100Msec \<equiv> DptType 800004"
abbreviation Dpt_DeltaTimeSec :: dpt_type where "Dpt_DeltaTimeSec \<equiv> DptType 800005"
abbreviation Dpt_DeltaTimeMin :: dpt_type where "Dpt_DeltaTimeMin \<equiv> DptType 800006"
abbreviation Dpt_DeltaTimeHrs :: dpt_type where "Dpt_DeltaTimeHrs \<equiv> DptType 800007"
abbreviation Dpt_PercentV16 :: dpt_type where "Dpt_PercentV16 \<equiv> DptType 800010"
abbreviation Dpt_RotationAngle :: dpt_type where "Dpt_RotationAngle \<equiv> DptType 800011"
abbreviation Dpt_LengthM :: dpt_type where "Dpt_LengthM \<equiv> DptType 800012"
abbreviation Dpt_Temperature :: dpt_type where "Dpt_Temperature \<equiv> DptType 900001"
abbreviation Dpt_TemperatureDifference2Byte :: dpt_type where "Dpt_TemperatureDifference2Byte \<equiv> DptType 900002"
abbreviation Dpt_TemperatureA :: dpt_type where "Dpt_TemperatureA \<equiv> DptType 900003"
abbreviation Dpt_Lux :: dpt_type where "Dpt_Lux \<equiv> DptType 900004"
abbreviation Dpt_Wsp :: dpt_type where "Dpt_Wsp \<equiv> DptType 900005"
abbreviation Dpt_Pressure2Byte :: dpt_type where "Dpt_Pressure2Byte \<equiv> DptType 900006"
abbreviation Dpt_Humidity :: dpt_type where "Dpt_Humidity \<equiv> DptType 900007"
abbreviation Dpt_PartsPerMillion :: dpt_type where "Dpt_PartsPerMillion \<equiv> DptType 900008"
abbreviation Dpt_AirFlow :: dpt_type where "Dpt_AirFlow \<equiv> DptType 900009"
abbreviation Dpt_Time1 :: dpt_type where "Dpt_Time1 \<equiv> DptType 900010"
abbreviation Dpt_Time2 :: dpt_type where "Dpt_Time2 \<equiv> DptType 900011"
abbreviation Dpt_Voltage :: dpt_type where "Dpt_Voltage \<equiv> DptType 900020"
abbreviation Dpt_Current :: dpt_type where "Dpt_Current \<equiv> DptType 900021"
abbreviation Dpt_PowerDensity :: dpt_type where "Dpt_PowerDensity \<equiv> DptType 900022"
abbreviation Dpt_KelvinPerPercent :: dpt_type where "Dpt_KelvinPerPercent \<equiv> DptType 900023"
abbreviation Dpt_Power2Byte :: dpt_type where "Dpt_Power2Byte \<equiv> DptType 900024"
abbreviation Dpt_VolumeFlow :: dpt_type where "Dpt_VolumeFlow \<equiv> DptType 900025"
abbreviation Dpt_RainAmount :: dpt_type where "Dpt_RainAmount \<equiv> DptType 900026"
abbreviation Dpt_TemperatureF :: dpt_type where "Dpt_TemperatureF \<equiv> DptType 900027"
abbreviation Dpt_WspKmh :: dpt_type where "Dpt_WspKmh \<equiv> DptType 900028"
abbreviation Dpt_AbsoluteHumidity :: dpt_type where "Dpt_AbsoluteHumidity \<equiv> DptType 900029"
abbreviation Dpt_ConcentrationUGM3 :: dpt_type where "Dpt_ConcentrationUGM3 \<equiv> DptType 900030"
abbreviation Dpt_Enthalpy :: dpt_type where "Dpt_Enthalpy \<equiv> DptType 960000"
abbreviation Dpt_TimeOfDay :: dpt_type where "Dpt_TimeOfDay \<equiv> DptType 1000001"
abbreviation Dpt_Date :: dpt_type where "Dpt_Date \<equiv> DptType 1100001"
abbreviation Dpt_Value4Ucount :: dpt_type where "Dpt_Value4Ucount \<equiv> DptType 1200001"
abbreviation Dpt_LongTimePeriodSec :: dpt_type where "Dpt_LongTimePeriodSec \<equiv> DptType 1200100"
abbreviation Dpt_LongTimePeriodMin :: dpt_type where "Dpt_LongTimePeriodMin \<equiv> DptType 1200101"
abbreviation Dpt_LongTimePeriodHrs :: dpt_type where "Dpt_LongTimePeriodHrs \<equiv> DptType 1200102"
abbreviation Dpt_VolumeLiquidLitre :: dpt_type where "Dpt_VolumeLiquidLitre \<equiv> DptType 1201200"
abbreviation Dpt_VolumeM3 :: dpt_type where "Dpt_VolumeM3 \<equiv> DptType 1201201"
abbreviation Dpt_Value4Count :: dpt_type where "Dpt_Value4Count \<equiv> DptType 1300001"
abbreviation Dpt_FlowRateM3H :: dpt_type where "Dpt_FlowRateM3H \<equiv> DptType 1300002"
abbreviation Dpt_ActiveEnergy :: dpt_type where "Dpt_ActiveEnergy \<equiv> DptType 1300010"
abbreviation Dpt_ApparantEnergy :: dpt_type where "Dpt_ApparantEnergy \<equiv> DptType 1300011"
abbreviation Dpt_ReactiveEnergy :: dpt_type where "Dpt_ReactiveEnergy \<equiv> DptType 1300012"
abbreviation Dpt_ActiveEnergykWh :: dpt_type where "Dpt_ActiveEnergykWh \<equiv> DptType 1300013"
abbreviation Dpt_ApparantEnergykVAh :: dpt_type where "Dpt_ApparantEnergykVAh \<equiv> DptType 1300014"
abbreviation Dpt_ReactiveEnergykVARh :: dpt_type where "Dpt_ReactiveEnergykVARh \<equiv> DptType 1300015"
abbreviation Dpt_ActiveEnergyMWh :: dpt_type where "Dpt_ActiveEnergyMWh \<equiv> DptType 1300016"
abbreviation Dpt_LongDeltaTimeSec :: dpt_type where "Dpt_LongDeltaTimeSec \<equiv> DptType 1300100"
abbreviation Dpt_DeltaVolumeLiquidLitre :: dpt_type where "Dpt_DeltaVolumeLiquidLitre \<equiv> DptType 1301200"
abbreviation Dpt_DeltaVolumeM3 :: dpt_type where "Dpt_DeltaVolumeM3 \<equiv> DptType 1301201"
abbreviation Dpt_Acceleration :: dpt_type where "Dpt_Acceleration \<equiv> DptType 1400000"
abbreviation Dpt_AccelerationAngular :: dpt_type where "Dpt_AccelerationAngular \<equiv> DptType 1400001"
abbreviation Dpt_ActivationEnergy :: dpt_type where "Dpt_ActivationEnergy \<equiv> DptType 1400002"
abbreviation Dpt_Activity :: dpt_type where "Dpt_Activity \<equiv> DptType 1400003"
abbreviation Dpt_Mol :: dpt_type where "Dpt_Mol \<equiv> DptType 1400004"
abbreviation Dpt_Amplitude :: dpt_type where "Dpt_Amplitude \<equiv> DptType 1400005"
abbreviation Dpt_AngleRad :: dpt_type where "Dpt_AngleRad \<equiv> DptType 1400006"
abbreviation Dpt_AngleDeg :: dpt_type where "Dpt_AngleDeg \<equiv> DptType 1400007"
abbreviation Dpt_AngularMomentum :: dpt_type where "Dpt_AngularMomentum \<equiv> DptType 1400008"
abbreviation Dpt_AngularVelocity :: dpt_type where "Dpt_AngularVelocity \<equiv> DptType 1400009"
abbreviation Dpt_Area :: dpt_type where "Dpt_Area \<equiv> DptType 1400010"
abbreviation Dpt_Capacitance :: dpt_type where "Dpt_Capacitance \<equiv> DptType 1400011"
abbreviation Dpt_ChargeDensitySurface :: dpt_type where "Dpt_ChargeDensitySurface \<equiv> DptType 1400012"
abbreviation Dpt_ChargeDensityVolume :: dpt_type where "Dpt_ChargeDensityVolume \<equiv> DptType 1400013"
abbreviation Dpt_Compressibility :: dpt_type where "Dpt_Compressibility \<equiv> DptType 1400014"
abbreviation Dpt_Conductance :: dpt_type where "Dpt_Conductance \<equiv> DptType 1400015"
abbreviation Dpt_ElectricalConductivity :: dpt_type where "Dpt_ElectricalConductivity \<equiv> DptType 1400016"
abbreviation Dpt_Density :: dpt_type where "Dpt_Density \<equiv> DptType 1400017"
abbreviation Dpt_ElectricCharge :: dpt_type where "Dpt_ElectricCharge \<equiv> DptType 1400018"
abbreviation Dpt_ElectricCurrent :: dpt_type where "Dpt_ElectricCurrent \<equiv> DptType 1400019"
abbreviation Dpt_ElectricCurrentDensity :: dpt_type where "Dpt_ElectricCurrentDensity \<equiv> DptType 1400020"
abbreviation Dpt_ElectricDipoleMoment :: dpt_type where "Dpt_ElectricDipoleMoment \<equiv> DptType 1400021"
abbreviation Dpt_ElectricDisplacement :: dpt_type where "Dpt_ElectricDisplacement \<equiv> DptType 1400022"
abbreviation Dpt_ElectricFieldStrength :: dpt_type where "Dpt_ElectricFieldStrength \<equiv> DptType 1400023"
abbreviation Dpt_ElectricFlux :: dpt_type where "Dpt_ElectricFlux \<equiv> DptType 1400024"
abbreviation Dpt_ElectricFluxDensity :: dpt_type where "Dpt_ElectricFluxDensity \<equiv> DptType 1400025"
abbreviation Dpt_ElectricPolarization :: dpt_type where "Dpt_ElectricPolarization \<equiv> DptType 1400026"
abbreviation Dpt_ElectricPotential :: dpt_type where "Dpt_ElectricPotential \<equiv> DptType 1400027"
abbreviation Dpt_ElectricPotentialDifference :: dpt_type where "Dpt_ElectricPotentialDifference \<equiv> DptType 1400028"
abbreviation Dpt_ElectromagneticMoment :: dpt_type where "Dpt_ElectromagneticMoment \<equiv> DptType 1400029"
abbreviation Dpt_ElectromotiveForce :: dpt_type where "Dpt_ElectromotiveForce \<equiv> DptType 1400030"
abbreviation Dpt_Energy :: dpt_type where "Dpt_Energy \<equiv> DptType 1400031"
abbreviation Dpt_Force :: dpt_type where "Dpt_Force \<equiv> DptType 1400032"
abbreviation Dpt_Frequency :: dpt_type where "Dpt_Frequency \<equiv> DptType 1400033"
abbreviation Dpt_AngularFrequency :: dpt_type where "Dpt_AngularFrequency \<equiv> DptType 1400034"
abbreviation Dpt_HeatCapacity :: dpt_type where "Dpt_HeatCapacity \<equiv> DptType 1400035"
abbreviation Dpt_HeatFlowRate :: dpt_type where "Dpt_HeatFlowRate \<equiv> DptType 1400036"
abbreviation Dpt_HeatQuantity :: dpt_type where "Dpt_HeatQuantity \<equiv> DptType 1400037"
abbreviation Dpt_Impedance :: dpt_type where "Dpt_Impedance \<equiv> DptType 1400038"
abbreviation Dpt_Length :: dpt_type where "Dpt_Length \<equiv> DptType 1400039"
abbreviation Dpt_LightQuantity :: dpt_type where "Dpt_LightQuantity \<equiv> DptType 1400040"
abbreviation Dpt_Luminance :: dpt_type where "Dpt_Luminance \<equiv> DptType 1400041"
abbreviation Dpt_LuminousFlux :: dpt_type where "Dpt_LuminousFlux \<equiv> DptType 1400042"
abbreviation Dpt_LuminousIntensity :: dpt_type where "Dpt_LuminousIntensity \<equiv> DptType 1400043"
abbreviation Dpt_MagneticFieldStrength :: dpt_type where "Dpt_MagneticFieldStrength \<equiv> DptType 1400044"
abbreviation Dpt_MagneticFlux :: dpt_type where "Dpt_MagneticFlux \<equiv> DptType 1400045"
abbreviation Dpt_MagneticFluxDensity :: dpt_type where "Dpt_MagneticFluxDensity \<equiv> DptType 1400046"
abbreviation Dpt_MagneticMoment :: dpt_type where "Dpt_MagneticMoment \<equiv> DptType 1400047"
abbreviation Dpt_MagneticPolarization :: dpt_type where "Dpt_MagneticPolarization \<equiv> DptType 1400048"
abbreviation Dpt_Magnetization :: dpt_type where "Dpt_Magnetization \<equiv> DptType 1400049"
abbreviation Dpt_MagnetomotiveForce :: dpt_type where "Dpt_MagnetomotiveForce \<equiv> DptType 1400050"
abbreviation Dpt_Mass :: dpt_type where "Dpt_Mass \<equiv> DptType 1400051"
abbreviation Dpt_MassFlux :: dpt_type where "Dpt_MassFlux \<equiv> DptType 1400052"
abbreviation Dpt_Momentum :: dpt_type where "Dpt_Momentum \<equiv> DptType 1400053"
abbreviation Dpt_PhaseAngleRad :: dpt_type where "Dpt_PhaseAngleRad \<equiv> DptType 1400054"
abbreviation Dpt_PhaseAngleDeg :: dpt_type where "Dpt_PhaseAngleDeg \<equiv> DptType 1400055"
abbreviation Dpt_Power :: dpt_type where "Dpt_Power \<equiv> DptType 1400056"
abbreviation Dpt_PowerFactor :: dpt_type where "Dpt_PowerFactor \<equiv> DptType 1400057"
abbreviation Dpt_Pressure :: dpt_type where "Dpt_Pressure \<equiv> DptType 1400058"
abbreviation Dpt_Reactance :: dpt_type where "Dpt_Reactance \<equiv> DptType 1400059"
abbreviation Dpt_Resistance :: dpt_type where "Dpt_Resistance \<equiv> DptType 1400060"
abbreviation Dpt_Resistivity :: dpt_type where "Dpt_Resistivity \<equiv> DptType 1400061"
abbreviation Dpt_SelfInductance :: dpt_type where "Dpt_SelfInductance \<equiv> DptType 1400062"
abbreviation Dpt_SolidAngle :: dpt_type where "Dpt_SolidAngle \<equiv> DptType 1400063"
abbreviation Dpt_SoundIntensity :: dpt_type where "Dpt_SoundIntensity \<equiv> DptType 1400064"
abbreviation Dpt_Speed :: dpt_type where "Dpt_Speed \<equiv> DptType 1400065"
abbreviation Dpt_Stress :: dpt_type where "Dpt_Stress \<equiv> DptType 1400066"
abbreviation Dpt_SurfaceTension :: dpt_type where "Dpt_SurfaceTension \<equiv> DptType 1400067"
abbreviation Dpt_CommonTemperature :: dpt_type where "Dpt_CommonTemperature \<equiv> DptType 1400068"
abbreviation Dpt_AbsoluteTemperature :: dpt_type where "Dpt_AbsoluteTemperature \<equiv> DptType 1400069"
abbreviation Dpt_TemperatureDifference :: dpt_type where "Dpt_TemperatureDifference \<equiv> DptType 1400070"
abbreviation Dpt_ThermalCapacity :: dpt_type where "Dpt_ThermalCapacity \<equiv> DptType 1400071"
abbreviation Dpt_ThermalConductivity :: dpt_type where "Dpt_ThermalConductivity \<equiv> DptType 1400072"
abbreviation Dpt_ThermoelectricPower :: dpt_type where "Dpt_ThermoelectricPower \<equiv> DptType 1400073"
abbreviation Dpt_TimeSeconds :: dpt_type where "Dpt_TimeSeconds \<equiv> DptType 1400074"
abbreviation Dpt_Torque :: dpt_type where "Dpt_Torque \<equiv> DptType 1400075"
abbreviation Dpt_Volume :: dpt_type where "Dpt_Volume \<equiv> DptType 1400076"
abbreviation Dpt_VolumeFlux :: dpt_type where "Dpt_VolumeFlux \<equiv> DptType 1400077"
abbreviation Dpt_Weight :: dpt_type where "Dpt_Weight \<equiv> DptType 1400078"
abbreviation Dpt_Work :: dpt_type where "Dpt_Work \<equiv> DptType 1400079"
abbreviation Dpt_ApparentPower :: dpt_type where "Dpt_ApparentPower \<equiv> DptType 1400080"
abbreviation Dpt_VolumeFluxMeter :: dpt_type where "Dpt_VolumeFluxMeter \<equiv> DptType 1401200"
abbreviation Dpt_VolumeFluxLs :: dpt_type where "Dpt_VolumeFluxLs \<equiv> DptType 1401201"
abbreviation Dpt_StringAscii :: dpt_type where "Dpt_StringAscii \<equiv> DptType 1600000"
abbreviation Dpt_StringLatin1 :: dpt_type where "Dpt_StringLatin1 \<equiv> DptType 1600001"
abbreviation Dpt_SceneNumber :: dpt_type where "Dpt_SceneNumber \<equiv> DptType 1700001"
abbreviation Dpt_SceneControl :: dpt_type where "Dpt_SceneControl \<equiv> DptType 1800001"
abbreviation Dpt_DateTime :: dpt_type where "Dpt_DateTime \<equiv> DptType 1900001"
abbreviation Dpt_HVACMode :: dpt_type where "Dpt_HVACMode \<equiv> DptType 2000102"
abbreviation Dpt_HVACContrMode :: dpt_type where "Dpt_HVACContrMode \<equiv> DptType 2000105"
abbreviation Dpt_ActiveEnergy8Byte :: dpt_type where "Dpt_ActiveEnergy8Byte \<equiv> DptType 2900010"
abbreviation Dpt_ApparantEnergy8Byte :: dpt_type where "Dpt_ApparantEnergy8Byte \<equiv> DptType 2900011"
abbreviation Dpt_ReactiveEnergy8Byte :: dpt_type where "Dpt_ReactiveEnergy8Byte \<equiv> DptType 2900012"
abbreviation Dpt_ColorRGB :: dpt_type where "Dpt_ColorRGB \<equiv> DptType 23200600"
abbreviation Dpt_TariffActiveEnergy :: dpt_type where "Dpt_TariffActiveEnergy \<equiv> DptType 23500001"
abbreviation Dpt_ColorXYY :: dpt_type where "Dpt_ColorXYY \<equiv> DptType 24200600"
abbreviation Dpt_ColorRGBW :: dpt_type where "Dpt_ColorRGBW \<equiv> DptType 25100600"

definition dpt_variants :: "nat list" where
  "dpt_variants = [
     100001, 100002, 100003, 100004, 100005, 100006, 100007, 100008, 100009, 100010, 100011,
     100012, 100013, 100014, 100015, 100016, 100017, 100018, 100019, 100021, 100022, 100023,
     100024, 100100, 101200, 101201, 200001, 200002, 200003, 200004, 200005, 200006, 200007,
     200008, 200009, 200010, 200011, 200012, 300007, 300008, 500001, 500003, 500004, 500005,
     500006, 500010, 600001, 600010, 700001, 700002, 700003, 700004, 700005, 700006, 700007,
     700010, 700011, 700012, 700013, 700600, 800001, 800002, 800003, 800004, 800005, 800006,
     800007, 800010, 800011, 800012, 900001, 900002, 900003, 900004, 900005, 900006, 900007,
     900008, 900009, 900010, 900011, 900020, 900021, 900022, 900023, 900024, 900025, 900026,
     900027, 900028, 900029, 900030, 960000, 1000001, 1100001, 1200001, 1200100, 1200101,
     1200102, 1201200, 1201201, 1300001, 1300002, 1300010, 1300011, 1300012, 1300013, 1300014,
     1300015, 1300016, 1300100, 1301200, 1301201, 1400000, 1400001, 1400002, 1400003, 1400004,
     1400005, 1400006, 1400007, 1400008, 1400009, 1400010, 1400011, 1400012, 1400013, 1400014,
     1400015, 1400016, 1400017, 1400018, 1400019, 1400020, 1400021, 1400022, 1400023, 1400024,
     1400025, 1400026, 1400027, 1400028, 1400029, 1400030, 1400031, 1400032, 1400033, 1400034,
     1400035, 1400036, 1400037, 1400038, 1400039, 1400040, 1400041, 1400042, 1400043, 1400044,
     1400045, 1400046, 1400047, 1400048, 1400049, 1400050, 1400051, 1400052, 1400053, 1400054,
     1400055, 1400056, 1400057, 1400058, 1400059, 1400060, 1400061, 1400062, 1400063, 1400064,
     1400065, 1400066, 1400067, 1400068, 1400069, 1400070, 1400071, 1400072, 1400073, 1400074,
     1400075, 1400076, 1400077, 1400078, 1400079, 1400080, 1401200, 1401201, 1600000, 1600001,
     1700001, 1800001, 1900001, 2000102, 2000105, 2900010, 2900011, 2900012, 23200600,
     23500001, 24200600, 25100600]"

definition dpt_valid :: "dpt_type \<Rightarrow> bool" where
  "dpt_valid d = (dpt_repr d \<in> set dpt_variants)"

definition from_repr :: "nat \<Rightarrow> dpt_type option" where
  "from_repr r = (if r \<in> set dpt_variants then Some (DptType r) else None)"

definition dpt_main :: "dpt_type \<Rightarrow> u16" where
  "dpt_main d = as_u16 (dpt_repr d div 100000)"

definition dpt_sub :: "dpt_type \<Rightarrow> u16" where
  "dpt_sub d = as_u16 (dpt_repr d mod 100000)"

text \<open>The format \<open>{:0w$}\<close> of an unsigned number.\<close>

definition show_pad :: "nat \<Rightarrow> nat \<Rightarrow> string" where
  "show_pad w n = replicate (w - length (show_nat n)) (CHR ''0'') @ show_nat n"

definition number_str :: "dpt_type \<Rightarrow> string" where
  "number_str d = show_nat (unat (dpt_main d)) @ ''.'' @ show_pad 3 (unat (dpt_sub d))"

definition from_number :: "bool \<Rightarrow> u16 \<Rightarrow> u16 \<Rightarrow> ('e, dpt_type option) res" where
  "from_number checks main sub =
     (let n = unat main * 100000 + unat sub in
      if checks \<and> 2 ^ 32 \<le> n then Panic else Ok (from_repr (n mod 2 ^ 32)))"

text \<open>\<open>str::split_once\<close> at a character, and \<open>str::parse::<u16>()\<close>.\<close>

definition split_once :: "char \<Rightarrow> string \<Rightarrow> (string \<times> string) option" where
  "split_once c s =
     (case dropWhile (\<lambda>x. x \<noteq> c) s of [] \<Rightarrow> None | _ # r \<Rightarrow> Some (takeWhile (\<lambda>x. x \<noteq> c) s, r))"

definition parse_u16 :: "string \<Rightarrow> u16 option" where
  "parse_u16 s = map_option word_of_nat (parse_unsigned 65535 s)"

definition dpt_from_str :: "bool \<Rightarrow> string \<Rightarrow> ('e, dpt_type option) res" where
  "dpt_from_str checks s =
     (case split_once (CHR ''.'') s of
        None \<Rightarrow> Ok None
      | Some (main_s, sub_s) \<Rightarrow>
          (case parse_u16 main_s of
             None \<Rightarrow> Ok None
           | Some main \<Rightarrow>
               (case parse_u16 sub_s of
                  None \<Rightarrow> Ok None
                | Some sub \<Rightarrow> from_number checks main sub)))"

definition dpt_unit :: "dpt_type \<Rightarrow> knx_unit option" where
  "dpt_unit d =
     (if d \<in> {Dpt_Scaling, Dpt_PercentU8} then Some Unit_Percent
      else if d \<in> {Dpt_Angle, Dpt_AngleDeg, Dpt_PhaseAngleDeg, Dpt_RotationAngle}
       then Some Unit_Degree
      else if d \<in> {Dpt_TimePeriodMsec, Dpt_TimePeriod10Msec, Dpt_TimePeriod100Msec}
       then Some Unit_Millisecond
      else if d = Dpt_TimePeriodSec then Some Unit_Second
      else if d = Dpt_TimePeriodMin then Some Unit_Minute
      else if d = Dpt_TimePeriodHrs then Some Unit_Hour
      else if d = Dpt_LengthMm then Some Unit_Millimeter
      else if d = Dpt_UElCurrentmA then Some Unit_Milliampere
      else if d = Dpt_Brightness then Some Unit_Lux
      else if d = Dpt_ColorTemperature then Some Unit_Kelvin
      else if d \<in> {Dpt_DeltaTimeMsec, Dpt_DeltaTime10Msec, Dpt_DeltaTime100Msec}
       then Some Unit_Millisecond
      else if d = Dpt_DeltaTimeSec then Some Unit_Second
      else if d = Dpt_DeltaTimeMin then Some Unit_Minute
      else if d = Dpt_DeltaTimeHrs then Some Unit_Hour
      else if d \<in> {Dpt_PercentV16, Dpt_PercentV8} then Some Unit_Percent
      else if d = Dpt_LengthM then Some Unit_Meter
      else if d \<in> {Dpt_Temperature, Dpt_CommonTemperature} then Some Unit_DegreeCelsius
      else if d \<in> {Dpt_TemperatureDifference2Byte, Dpt_AbsoluteTemperature, Dpt_TemperatureDifference}
       then Some Unit_Kelvin
      else if d = Dpt_TemperatureA then Some Unit_KelvinPerHour
      else if d = Dpt_Lux then Some Unit_Lux
      else if d \<in> {Dpt_Wsp, Dpt_Speed} then Some Unit_MeterPerSecond
      else if d \<in> {Dpt_Pressure2Byte, Dpt_Pressure, Dpt_Stress} then Some Unit_Pascal
      else if d = Dpt_Humidity then Some Unit_Percent
      else if d = Dpt_PartsPerMillion then Some Unit_PartsPerMillion
      else if d \<in> {Dpt_AirFlow, Dpt_VolumeFluxMeter} then Some Unit_CubicMeterPerHour
      else if d \<in> {Dpt_Time1, Dpt_TimeSeconds, Dpt_LongDeltaTimeSec, Dpt_LongTimePeriodSec}
       then Some Unit_Second
      else if d = Dpt_Time2 then Some Unit_Millisecond
      else if d \<in> {Dpt_Voltage, Dpt_ElectricPotential, Dpt_ElectricPotentialDifference, Dpt_ElectromotiveForce}
       then Some Unit_Volt
      else if d = Dpt_Current then Some Unit_Milliampere
      else if d \<in> {Dpt_PowerDensity, Dpt_SoundIntensity} then Some Unit_WattPerSquareMeter
      else if d = Dpt_KelvinPerPercent then Some Unit_KelvinPerPercent
      else if d = Dpt_Power2Byte then Some Unit_Kilowatt
      else if d = Dpt_VolumeFlow then Some Unit_LiterPerHour
      else if d = Dpt_RainAmount then Some Unit_LiterPerSquareMeter
      else if d = Dpt_TemperatureF then Some Unit_DegreeFahrenheit
      else if d = Dpt_WspKmh then Some Unit_KilometerPerHour
      else if d = Dpt_AbsoluteHumidity then Some Unit_GramPerCubicMeter
      else if d = Dpt_ConcentrationUGM3 then Some Unit_MicrogramPerCubicMeter
      else if d = Dpt_LongTimePeriodMin then Some Unit_Minute
      else if d = Dpt_LongTimePeriodHrs then Some Unit_Hour
      else if d \<in> {Dpt_VolumeLiquidLitre, Dpt_DeltaVolumeLiquidLitre} then Some Unit_Liter
      else if d \<in> {Dpt_VolumeM3, Dpt_DeltaVolumeM3, Dpt_Volume} then Some Unit_CubicMeter
      else if d = Dpt_FlowRateM3H then Some Unit_CubicMeterPerHour
      else if d \<in> {Dpt_ActiveEnergy, Dpt_ActiveEnergy8Byte} then Some Unit_WattHour
      else if d \<in> {Dpt_ApparantEnergy, Dpt_ApparantEnergy8Byte} then Some Unit_VoltAmpereHour
      else if d \<in> {Dpt_ReactiveEnergy, Dpt_ReactiveEnergy8Byte}
       then Some Unit_VoltAmpereReactiveHour
      else if d = Dpt_ActiveEnergykWh then Some Unit_KilowattHour
      else if d = Dpt_ApparantEnergykVAh then Some Unit_KilovoltAmpereHour
      else if d = Dpt_ReactiveEnergykVARh then Some Unit_KilovoltAmpereReactiveHour
      else if d = Dpt_ActiveEnergyMWh then Some Unit_MegawattHour
      else if d = Dpt_Acceleration then Some Unit_MeterPerSecondSquared
      else if d = Dpt_AccelerationAngular then Some Unit_RadianPerSecondSquared
      else if d = Dpt_ActivationEnergy then Some Unit_JoulePerMol
      else if d = Dpt_Activity then Some Unit_InverseSecond
      else if d = Dpt_Mol then Some Unit_Mol
      else if d \<in> {Dpt_AngleRad, Dpt_PhaseAngleRad} then Some Unit_Radian
      else if d = Dpt_AngularMomentum then Some Unit_JouleSecond
      else if d \<in> {Dpt_AngularVelocity, Dpt_AngularFrequency} then Some Unit_RadianPerSecond
      else if d = Dpt_Area then Some Unit_SquareMeter
      else if d = Dpt_Capacitance then Some Unit_Farad
      else if d \<in> {Dpt_ChargeDensitySurface, Dpt_ElectricFluxDensity, Dpt_ElectricPolarization, Dpt_ElectricDisplacement}
       then Some Unit_CoulombPerSquareMeter
      else if d = Dpt_ChargeDensityVolume then Some Unit_CoulombPerCubicMeter
      else if d = Dpt_Compressibility then Some Unit_SquareMeterPerNewton
      else if d = Dpt_Conductance then Some Unit_Siemens
      else if d = Dpt_ElectricalConductivity then Some Unit_SiemensPerMeter
      else if d = Dpt_Density then Some Unit_KilogramPerCubicMeter
      else if d \<in> {Dpt_ElectricCharge, Dpt_ElectricFlux} then Some Unit_Coulomb
      else if d \<in> {Dpt_ElectricCurrent, Dpt_MagnetomotiveForce} then Some Unit_Ampere
      else if d = Dpt_ElectricCurrentDensity then Some Unit_AmperePerSquareMeter
      else if d = Dpt_ElectricDipoleMoment then Some Unit_CoulombMeter
      else if d = Dpt_ElectricFieldStrength then Some Unit_VoltPerMeter
      else if d \<in> {Dpt_ElectromagneticMoment, Dpt_MagneticMoment}
       then Some Unit_AmpereSquareMeter
      else if d \<in> {Dpt_Energy, Dpt_HeatQuantity, Dpt_Work} then Some Unit_Joule
      else if d \<in> {Dpt_Force, Dpt_Weight} then Some Unit_Newton
      else if d = Dpt_Frequency then Some Unit_Hertz
      else if d \<in> {Dpt_HeatCapacity, Dpt_ThermalCapacity} then Some Unit_JoulePerKelvin
      else if d \<in> {Dpt_HeatFlowRate, Dpt_Power, Dpt_ApparentPower} then Some Unit_Watt
      else if d \<in> {Dpt_Impedance, Dpt_Reactance, Dpt_Resistance} then Some Unit_Ohm
      else if d = Dpt_Length then Some Unit_Meter
      else if d = Dpt_LightQuantity then Some Unit_LumenSecond
      else if d = Dpt_Luminance then Some Unit_CandelaPerSquareMeter
      else if d = Dpt_LuminousFlux then Some Unit_Lumen
      else if d = Dpt_LuminousIntensity then Some Unit_Candela
      else if d \<in> {Dpt_MagneticFieldStrength, Dpt_Magnetization} then Some Unit_AmperePerMeter
      else if d = Dpt_MagneticFlux then Some Unit_Weber
      else if d \<in> {Dpt_MagneticFluxDensity, Dpt_MagneticPolarization} then Some Unit_Tesla
      else if d = Dpt_Mass then Some Unit_Kilogram
      else if d = Dpt_MassFlux then Some Unit_KilogramPerSecond
      else if d = Dpt_Momentum then Some Unit_NewtonPerSecond
      else if d = Dpt_PowerFactor then None
      else if d = Dpt_Resistivity then Some Unit_OhmMeter
      else if d = Dpt_SelfInductance then Some Unit_Henry
      else if d = Dpt_SolidAngle then Some Unit_Steradian
      else if d = Dpt_SurfaceTension then Some Unit_NewtonPerMeter
      else if d = Dpt_ThermalConductivity then Some Unit_WattPerMeterKelvin
      else if d = Dpt_ThermoelectricPower then Some Unit_VoltPerKelvin
      else if d = Dpt_Torque then Some Unit_NewtonMeter
      else if d = Dpt_VolumeFlux then Some Unit_CubicMeterPerSecond
      else if d = Dpt_VolumeFluxLs then Some Unit_LiterPerSecond
      else if d = Dpt_TariffActiveEnergy then Some Unit_WattHour
      else None)"

definition byte_length :: "dpt_type \<Rightarrow> nat" where
  "byte_length d =
     (let m = dpt_main d in
      if m \<in> {1, 2, 3, 5, 6, 17, 18, 20} then 1
      else if 7 \<le> m \<and> m \<le> 9 then 2
      else if m \<in> {10, 11, 232} then 3
      else if 12 \<le> m \<and> m \<le> 14 then 4
      else if m = 16 then 14
      else if m \<in> {19, 29} then 8
      else if m \<in> {235, 242, 251} then 6
      else 0)"

section \<open>Properties\<close>

lemma symbol_units_swap: "symbol_units = map (\<lambda>(u, s). (s, u)) unit_symbols"
  by (simp add: symbol_units_def unit_symbols_def)

lemma unit_symbols_distinct: "distinct (map snd unit_symbols)" "distinct (map fst unit_symbols)"
  by (simp_all add: unit_symbols_def)

text \<open>Every unit has a row in the table: 88 different positions below 88.\<close>

lemma unit_symbols_complete: "unit_index u < 88 \<Longrightarrow> u \<in> fst ` set unit_symbols"
proof -
  let ?I = "(unit_index \<circ> fst) ` set unit_symbols"
  have sub: "?I \<subseteq> {..<88}"
    by (simp add: unit_symbols_def)
  have "card ?I = length (map (unit_index \<circ> fst) unit_symbols)"
    by (subst distinct_card [symmetric]) (simp_all add: unit_symbols_def)
  also have "\<dots> = 88"
    by (simp add: unit_symbols_def)
  finally have "?I = {..<88}"
    by (intro card_subset_eq [OF _ sub]) simp_all
  moreover assume "unit_index u < 88"
  ultimately have "unit_index u \<in> ?I"
    by simp
  then show ?thesis
    by (auto simp: image_iff) (metis fst_conv knx_unit.expand)
qed

lemma unit_symbol_roundtrip: "unit_index u < 88 \<Longrightarrow> unit_from_symbol (unit_symbol u) = Some u"
proof -
  assume "unit_index u < 88"
  then obtain s where s: "(u, s) \<in> set unit_symbols"
    using unit_symbols_complete by force
  then have "map_of unit_symbols u = Some s" "map_of symbol_units s = Some u"
    using unit_symbols_distinct
    by (auto simp: symbol_units_swap case_prod_beta comp_def intro!: map_of_is_SomeI image_eqI)
  then show ?thesis
    by (simp add: unit_symbol_def unit_from_symbol_def)
qed

text \<open>What every declared variant satisfies, checked on the table of discriminants.\<close>

lemma dpt_variants_main:
  "remdups (map (\<lambda>r. r div 100000) dpt_variants) =
     [1, 2, 3, 5, 6, 7, 8, 9, 10, 11, 12, 13, 14, 16, 17, 18, 19, 20, 29, 232, 235, 242, 251]"
  by (simp add: dpt_variants_def)

lemma dpt_variants_sub: "list_all (\<lambda>r. r mod 100000 < 65536) dpt_variants"
  by (simp add: dpt_variants_def)

lemma dpt_valid_main:
  "dpt_valid d \<Longrightarrow> dpt_repr d div 100000 \<in>
     {1, 2, 3, 5, 6, 7, 8, 9, 10, 11, 12, 13, 14, 16, 17, 18, 19, 20, 29, 232, 235, 242, 251}"
proof -
  assume "dpt_valid d"
  then have "dpt_repr d div 100000 \<in> set (remdups (map (\<lambda>r. r div 100000) dpt_variants))"
    by (simp add: dpt_valid_def)
  then show ?thesis
    unfolding dpt_variants_main by simp
qed

lemma dpt_valid_sub: "dpt_valid d \<Longrightarrow> dpt_repr d mod 100000 < 65536"
  using dpt_variants_sub by (simp add: dpt_valid_def list_all_iff)

lemma unat_dpt_main: "dpt_valid d \<Longrightarrow> unat (dpt_main d) = dpt_repr d div 100000"
  using dpt_valid_main [of d] by (auto simp: dpt_main_def)

lemma unat_dpt_sub: "dpt_valid d \<Longrightarrow> unat (dpt_sub d) = dpt_repr d mod 100000"
  using dpt_valid_sub [of d] by (simp add: dpt_sub_def)

lemma dpt_main_cases:
  assumes "dpt_valid d"
  shows "dpt_main d \<in> {1, 2, 3, 5, 6, 7, 8, 9, 10, 11, 12, 13, 14, 16, 17, 18, 19, 20, 29, 232, 235, 242, 251}"
  using dpt_valid_main [OF assms] by (auto simp: dpt_main_def)

lemma dpt_repr_parts:
  "dpt_valid d \<Longrightarrow> unat (dpt_main d) * 100000 + unat (dpt_sub d) = dpt_repr d"
  by (simp add: unat_dpt_main unat_dpt_sub)

lemma byte_length_bounds: "dpt_valid d \<Longrightarrow> 1 \<le> byte_length d \<and> byte_length d \<le> 14"
  using dpt_main_cases [of d] by (auto simp: byte_length_def Let_def)

lemma dpt_repr_bound: "dpt_valid d \<Longrightarrow> dpt_repr d < 2 ^ 32"
  using dpt_valid_main [of d] div_mult_mod_eq [of "dpt_repr d" 100000]
    mod_less_divisor [of 100000 "dpt_repr d"] by auto

lemma from_number_parts: "dpt_valid d \<Longrightarrow> from_number checks (dpt_main d) (dpt_sub d) = Ok (Some d)"
  using dpt_repr_bound [of d]
  by (simp add: from_number_def dpt_repr_parts from_repr_def dpt_valid_def)

text \<open>With overflow checks the numbers of a type are unique.\<close>

lemma from_number_checked:
  "from_number True main sub = Ok (Some d) \<longleftrightarrow>
     dpt_valid d \<and> main = dpt_main d \<and> sub = dpt_sub d"
proof
  assume a: "from_number True main sub = Ok (Some d)"
  let ?n = "unat main * 100000 + unat sub"
  have sub: "unat sub < 65536"
    using unsigned_less [where 'a = nat and w = sub] by simp
  from a have "?n < 2 ^ 32" "dpt_repr d = ?n" "dpt_valid d"
    by (auto simp: from_number_def from_repr_def dpt_valid_def Let_def split: if_splits)
  moreover from this sub have "dpt_repr d div 100000 = unat main" "dpt_repr d mod 100000 = unat sub"
    by simp_all
  ultimately show "dpt_valid d \<and> main = dpt_main d \<and> sub = dpt_sub d"
    by (simp add: dpt_main_def dpt_sub_def)
qed (simp add: from_number_parts)

lemma show_nat_no_dot: "CHR ''.'' \<notin> set (show_nat n)"
  using show_nat_digits digit_char_neq(2) by metis

lemma split_once_append: "c \<notin> set a \<Longrightarrow> split_once c (a @ c # b) = Some (a, b)"
  by (induction a) (auto simp: split_once_def split: list.splits)

lemma parse_digits_zeros: "parse_digits m 0 (replicate k (CHR ''0'') @ s) = parse_digits m 0 s"
  by (induction k) (simp_all add: digit_val_def)

lemma parse_unsigned_show_pad: "n \<le> m \<Longrightarrow> parse_unsigned m (show_pad w n) = Some n"
proof (cases "w - length (show_nat n)")
  case 0
  moreover assume "n \<le> m"
  ultimately show ?thesis
    by (simp add: show_pad_def parse_unsigned_show_nat)
next
  case (Suc k)
  moreover assume "n \<le> m"
  ultimately show ?thesis
    using parse_digits_zeros [of m "Suc k" "show_nat n"]
    by (simp add: show_pad_def parse_unsigned_def parse_digits_show_nat)
qed

lemma unat_u16_le: "unat (w :: u16) \<le> 65535"
  using unsigned_less [where 'a = nat and w = w] by simp

text \<open>Printing the number of a type and parsing it back gives the type, in every build.\<close>

lemma from_str_number_str:
  assumes "dpt_valid d"
  shows "dpt_from_str checks (number_str d) = Ok (Some d)"
proof -
  have "split_once (CHR ''.'') (number_str d) =
      Some (show_nat (unat (dpt_main d)), show_pad 3 (unat (dpt_sub d)))"
    by (simp add: number_str_def split_once_append show_nat_no_dot)
  moreover have "parse_u16 (show_nat (unat (dpt_main d))) = Some (dpt_main d)"
    "parse_u16 (show_pad 3 (unat (dpt_sub d))) = Some (dpt_sub d)"
    by (simp_all add: parse_u16_def parse_unsigned_show_nat parse_unsigned_show_pad unat_u16_le)
  ultimately show ?thesis
    using from_number_parts [OF assms] by (simp add: dpt_from_str_def)
qed

text \<open>
  Outside the declared range the computation of the discriminant leaves \<open>u32\<close>: a debug build panics
  and a release build wraps, so that a number that no type has is taken for one.
\<close>

lemma from_number_overflow:
  "from_number True 42959 27296 = Panic"
  "from_number False 42959 27296 = Ok (Some Dpt_Enthalpy)"
  by (simp_all add: from_number_def from_repr_def dpt_variants_def)

text \<open>Evaluation of numbers as text.\<close>

lemma digit_chars:
  "digit_char 0 = CHR ''0''" "digit_char 1 = CHR ''1''" "digit_char (Suc 0) = CHR ''1''"
  "digit_char 2 = CHR ''2''" "digit_char 3 = CHR ''3''"
  "digit_char 4 = CHR ''4''" "digit_char 5 = CHR ''5''" "digit_char 6 = CHR ''6''" "digit_char 7 = CHR ''7''"
  "digit_char 8 = CHR ''8''" "digit_char 9 = CHR ''9''"
  by (simp_all add: digit_char_def char_of_def bit_0)

lemma number_str_eval: "n < 6553600000 \<Longrightarrow> n mod 100000 < 65536 \<Longrightarrow>
   number_str (DptType n) = show_nat (n div 100000) @ ''.'' @ show_pad 3 (n mod 100000)"
  by (simp add: number_str_def dpt_main_def dpt_sub_def unsigned_of_nat take_bit_nat_eq_self less_mult_imp_div_less)

lemma replicate_2: "replicate 2 x = [x, x]"
  by (simp add: numeral_2_eq_2)

end
