(* ===== verification/Ieee.thy ===== *)
theory Ieee
  imports Complex_Main Prelude
begin

text \<open>
  IEEE 754 arithmetic as the library uses it: \<open>f32\<close> and \<open>f64\<close> values, correctly rounded
  multiplication and division, conversions from integers and between the two formats, the
  saturating casts \<open>as i32\<close>, \<open>as u16\<close> and so on, \<open>round\<close>, comparison, and the bit pattern of an \<open>f32\<close>.

  A finite value is a sign and a non-negative rational; a format is its precision, the exponent of
  its smallest subnormal and its largest exponent.  Rounding is to nearest, ties to even, with
  gradual underflow and overflow to infinity.  NaN has no payload; its bit pattern is the quiet NaN
  \<open>0x7FC00000\<close>.

  Shown: a representable value is not changed by rounding (\<open>fp_round_exact\<close>), the relative error of
  rounding a normal value is at most half a unit in the last place (\<open>fp_round_error\<close>), rounding
  commutes with scaling by a power of two (\<open>fp_round_scale\<close>), and the bits of an \<open>f32\<close> that is not
  NaN are recovered from its value (\<open>f32_to_bits_from_bits\<close>).
\<close>

section \<open>Definitions\<close>

datatype fval = Finite (fneg: bool) (fmag: rat) | Infinite bool | NaN

type_synonym f32 = fval
type_synonym f64 = fval

record fp_format =
  fp_prec :: nat
  fp_emin :: int
  fp_emax :: int

definition binary32 :: fp_format where
  "binary32 = \<lparr>fp_prec = 24, fp_emin = - 149, fp_emax = 127\<rparr>"

definition binary64 :: fp_format where
  "binary64 = \<lparr>fp_prec = 53, fp_emin = - 1074, fp_emax = 1023\<rparr>"

fun flog2 :: "nat \<Rightarrow> nat" where
  "flog2 n = (if n < 2 then 0 else Suc (flog2 (n div 2)))"

fun clog2 :: "nat \<Rightarrow> nat" where
  "clog2 n = (if n \<le> 1 then 0 else Suc (clog2 ((n + 1) div 2)))"

declare flog2.simps [simp del] clog2.simps [simp del]

text \<open>The exponent of the leading bit of a positive rational.\<close>

definition ilog2 :: "rat \<Rightarrow> int" where
  "ilog2 x = (if 1 \<le> x then int (flog2 (nat \<lfloor>x\<rfloor>)) else - int (clog2 (nat \<lceil>1 / x\<rceil>)))"

definition round_half_even :: "rat \<Rightarrow> int" where
  "round_half_even q =
     (let f = \<lfloor>q\<rfloor>; d = q - of_int f in
      if d < 1 / 2 then f else if 1 / 2 < d then f + 1 else if even f then f else f + 1)"

definition fp_ulp :: "fp_format \<Rightarrow> rat \<Rightarrow> int" where
  "fp_ulp f x = max (ilog2 x - int (fp_prec f) + 1) (fp_emin f)"

definition fp_round :: "fp_format \<Rightarrow> bool \<Rightarrow> rat \<Rightarrow> fval" where
  "fp_round f neg x =
     (if x = 0 then Finite neg 0
      else let u = 2 powi fp_ulp f x; y = of_int (round_half_even (x / u)) * u in
        if 2 powi (fp_emax f + 1) \<le> y then Infinite neg else Finite neg y)"

fun fp_mul :: "fp_format \<Rightarrow> fval \<Rightarrow> fval \<Rightarrow> fval" where
  "fp_mul f (Finite s x) (Finite t y) = fp_round f (s \<noteq> t) (x * y)"
| "fp_mul f (Infinite s) (Finite t y) = (if y = 0 then NaN else Infinite (s \<noteq> t))"
| "fp_mul f (Finite s x) (Infinite t) = (if x = 0 then NaN else Infinite (s \<noteq> t))"
| "fp_mul f (Infinite s) (Infinite t) = Infinite (s \<noteq> t)"
| "fp_mul f _ _ = NaN"

fun fp_div :: "fp_format \<Rightarrow> fval \<Rightarrow> fval \<Rightarrow> fval" where
  "fp_div f (Finite s x) (Finite t y) =
     (if y = 0 then (if x = 0 then NaN else Infinite (s \<noteq> t)) else fp_round f (s \<noteq> t) (x / y))"
| "fp_div f (Infinite s) (Finite t y) = Infinite (s \<noteq> t)"
| "fp_div f (Finite s x) (Infinite t) = Finite (s \<noteq> t) 0"
| "fp_div f _ _ = NaN"

definition fp_of_int :: "fp_format \<Rightarrow> int \<Rightarrow> fval" where
  "fp_of_int f i = fp_round f (i < 0) (of_int \<bar>i\<bar>)"

text \<open>A decimal literal of the source, for instance \<open>0.01\<close> as \<open>fp_lit binary64 (1 / 100)\<close>.\<close>

definition fp_lit :: "fp_format \<Rightarrow> rat \<Rightarrow> fval" where
  "fp_lit f x = fp_round f (x < 0) \<bar>x\<bar>"

text \<open>\<open>v as f32\<close> and \<open>f64::from(v)\<close>.\<close>

fun fp_cast :: "fp_format \<Rightarrow> fval \<Rightarrow> fval" where
  "fp_cast f (Finite s x) = fp_round f s x"
| "fp_cast f (Infinite s) = Infinite s"
| "fp_cast f NaN = NaN"

fun is_finite :: "fval \<Rightarrow> bool" where
  "is_finite (Finite _ _) = True"
| "is_finite _ = False"

definition fvalue :: "fval \<Rightarrow> rat" where
  "fvalue v = (if fneg v then - fmag v else fmag v)"

text \<open>The casts to an integer type with range \<open>lo\<close> to \<open>hi\<close>: towards zero, saturating, NaN is zero.\<close>

fun fp_to_int :: "int \<Rightarrow> int \<Rightarrow> fval \<Rightarrow> int" where
  "fp_to_int lo hi (Finite s x) = max lo (min hi (if s then - \<lfloor>x\<rfloor> else \<lfloor>x\<rfloor>))"
| "fp_to_int lo hi (Infinite s) = (if s then lo else hi)"
| "fp_to_int lo hi NaN = 0"

text \<open>\<open>round\<close>: to the nearest integer, ties away from zero.\<close>

fun fp_round_away :: "fval \<Rightarrow> fval" where
  "fp_round_away (Finite s x) = Finite s (of_int \<lfloor>x + 1 / 2\<rfloor>)"
| "fp_round_away v = v"

fun fp_le :: "fval \<Rightarrow> fval \<Rightarrow> bool" where
  "fp_le NaN _ = False"
| "fp_le _ NaN = False"
| "fp_le (Infinite s) (Infinite t) = (s \<or> \<not> t)"
| "fp_le (Infinite s) (Finite _ _) = s"
| "fp_le (Finite _ _) (Infinite t) = (\<not> t)"
| "fp_le (Finite s x) (Finite t y) = ((if s then - x else x) \<le> (if t then - y else y))"

text \<open>\<open>(lo..=hi).contains(&v)\<close>.\<close>

definition fp_contains :: "fval \<Rightarrow> fval \<Rightarrow> fval \<Rightarrow> bool" where
  "fp_contains lo hi v = (fp_le lo v \<and> fp_le v hi)"

definition fp_eq :: "fval \<Rightarrow> fval \<Rightarrow> bool" where
  "fp_eq a b = (fp_le a b \<and> fp_le b a)"

definition f32_from_bits :: "u32 \<Rightarrow> f32" where
  "f32_from_bits w =
     (let s = bit w 31; ex = unat (take_bit 8 (drop_bit 23 w)); m = unat (take_bit 23 w) in
      if ex = 255 then (if m = 0 then Infinite s else NaN)
      else if ex = 0 then Finite s (of_nat m * 2 powi (- 149))
      else Finite s (of_nat (2 ^ 23 + m) * 2 powi (int ex - 150)))"

fun f32_to_bits :: "f32 \<Rightarrow> u32" where
  "f32_to_bits (Finite s x) =
     (let k = fp_ulp binary32 x in
      (if s then 0x80000000 else 0) +
        (if x = 0 then 0 else word_of_int ((k + 149) * 2 ^ 23 + \<lfloor>x / 2 powi k\<rfloor>)))"
| "f32_to_bits (Infinite s) = (if s then 0xFF800000 else 0x7F800000)"
| "f32_to_bits NaN = 0x7FC00000"

section \<open>The exponent of a rational\<close>

lemma flog2_bounds: "0 < n \<Longrightarrow> 2 ^ flog2 n \<le> n \<and> n < 2 ^ Suc (flog2 n)"
proof (induction n rule: flog2.induct)
  case (1 n)
  show ?case
  proof (cases "n < 2")
    case True
    with 1 show ?thesis by (simp add: flog2.simps [of n])
  next
    case False
    then have "2 ^ flog2 (n div 2) \<le> n div 2 \<and> n div 2 < 2 ^ Suc (flog2 (n div 2))"
      using 1 by simp
    then show ?thesis
      using False by (subst (1 2) flog2.simps) auto
  qed
qed

lemma clog2_bounds: "1 < n \<Longrightarrow> 2 ^ (clog2 n - 1) < n \<and> n \<le> 2 ^ clog2 n \<and> 0 < clog2 n"
proof (induction n rule: clog2.induct)
  case (1 n)
  let ?h = "(n + 1) div 2"
  show ?case
  proof (cases "?h \<le> 1")
    case True
    with 1 have "n = 2" by simp
    then show ?thesis by (simp add: clog2.simps)
  next
    case False
    then have IH: "2 ^ (clog2 ?h - 1) < ?h \<and> ?h \<le> 2 ^ clog2 ?h \<and> 0 < clog2 ?h"
      using 1 by simp
    then obtain k where k: "clog2 ?h = Suc k"
      using gr0_conv_Suc by blast
    have c: "clog2 n = Suc (Suc k)"
      using 1 k by (subst clog2.simps) simp
    have lo: "2 ^ k < ?h" and hi: "?h \<le> 2 * 2 ^ k"
      using IH k by simp_all
    have "2 * 2 ^ k < n" "n \<le> 4 * 2 ^ k"
      using lo hi by presburger+
    then show ?thesis
      using c by simp
  qed
qed

lemma exponent_unique:
  fixes x :: rat
  assumes "2 powi e \<le> x" "x < 2 powi (e + 1)" "2 powi d \<le> x" "x < 2 powi (d + 1)"
  shows "e = (d :: int)"
proof (rule antisym; rule ccontr)
  assume "\<not> e \<le> d"
  then have "(2 :: rat) powi (d + 1) \<le> 2 powi e"
    by (intro power_int_increasing) simp_all
  with assms show False by linarith
next
  assume "\<not> d \<le> e"
  then have "(2 :: rat) powi (e + 1) \<le> 2 powi d"
    by (intro power_int_increasing) simp_all
  with assms show False by linarith
qed

lemma ilog2_bounds:
  assumes "0 < x"
  shows "2 powi ilog2 x \<le> x" "x < 2 powi (ilog2 x + 1)"
proof -
  have "2 powi ilog2 x \<le> x \<and> x < 2 powi (ilog2 x + 1)"
  proof (cases "1 \<le> x")
    case True
    let ?n = "nat \<lfloor>x\<rfloor>"
    have n: "0 < ?n" and r: "rat_of_nat ?n = of_int \<lfloor>x\<rfloor>"
      using True by simp_all
    have "rat_of_nat (2 ^ flog2 ?n) \<le> of_nat ?n" "rat_of_nat (?n + 1) \<le> of_nat (2 ^ Suc (flog2 ?n))"
      using flog2_bounds [OF n] by (simp_all only: of_nat_le_iff) simp_all
    then have "2 ^ flog2 ?n \<le> rat_of_int \<lfloor>x\<rfloor>" "rat_of_int \<lfloor>x\<rfloor> + 1 \<le> 2 ^ Suc (flog2 ?n)"
      by (simp_all add: r)
    moreover have "of_int \<lfloor>x\<rfloor> \<le> x" "x < of_int \<lfloor>x\<rfloor> + 1"
      by linarith+
    ultimately have "2 ^ flog2 ?n \<le> x" "x < 2 ^ Suc (flog2 ?n)"
      by linarith+
    moreover have "ilog2 x = int (flog2 ?n)"
      using True by (simp add: ilog2_def)
    ultimately show ?thesis
      by (simp add: power_int_add power_int_of_nat)
  next
    case False
    let ?n = "nat \<lceil>1 / x\<rceil>"
    have "1 < 1 / x"
      using False assms by (simp add: field_simps)
    then have n: "1 < ?n" and r: "rat_of_nat ?n = of_int \<lceil>1 / x\<rceil>"
      by linarith+
    obtain k where k: "clog2 ?n = Suc k" "2 ^ k < ?n" "?n \<le> 2 ^ Suc k"
      using clog2_bounds [OF n] by (metis Suc_diff_1)
    have "rat_of_nat (2 ^ k + 1) \<le> of_nat ?n" "rat_of_nat ?n \<le> of_nat (2 ^ Suc k)"
      using k by (simp_all only: of_nat_le_iff Suc_eq_plus1 [symmetric] Suc_le_eq)
    then have "2 ^ k + 1 \<le> rat_of_int \<lceil>1 / x\<rceil>" "rat_of_int \<lceil>1 / x\<rceil> \<le> 2 ^ Suc k"
      by (simp_all add: r)
    moreover have "1 / x \<le> of_int \<lceil>1 / x\<rceil>" "of_int \<lceil>1 / x\<rceil> < 1 / x + 1"
      by linarith+
    ultimately have "2 ^ k < 1 / x" "1 / x \<le> 2 ^ Suc k"
      by linarith+
    then have "x < 1 / 2 ^ k" "1 / 2 ^ Suc k \<le> x"
      using assms by (simp_all add: field_simps)
    moreover have "ilog2 x = - int (Suc k)" "ilog2 x + 1 = - int k"
      using False k by (simp_all add: ilog2_def)
    ultimately show ?thesis
      by (simp only: power_int_minus power_int_of_nat divide_inverse) simp
  qed
  then show "2 powi ilog2 x \<le> x" "x < 2 powi (ilog2 x + 1)"
    by simp_all
qed

lemma ilog2_eqI: "\<lbrakk>2 powi e \<le> x; x < 2 powi (e + 1)\<rbrakk> \<Longrightarrow> ilog2 x = e"
  using ilog2_bounds [of x] exponent_unique [of "ilog2 x" x e]
  by (meson le_less_trans less_le_trans zero_less_power_int zero_less_numeral)

lemma ilog2_scale: "0 < x \<Longrightarrow> ilog2 (x * 2 powi k) = ilog2 x + k"
  using ilog2_bounds [of x]
  by (intro ilog2_eqI) (simp_all add: power_int_add ac_simps)

lemma ilog2_mono: "\<lbrakk>0 < x; x \<le> y\<rbrakk> \<Longrightarrow> ilog2 x \<le> ilog2 y"
proof (rule ccontr)
  assume a: "0 < x" "x \<le> y" "\<not> ilog2 x \<le> ilog2 y"
  then have "(2 :: rat) powi (ilog2 y + 1) \<le> 2 powi ilog2 x"
    by (intro power_int_increasing) simp_all
  with a show False
    using ilog2_bounds(1) [of x] ilog2_bounds(2) [of y] by simp
qed

lemma ilog2_less: "\<lbrakk>0 < x; x < 2 powi (e + 1)\<rbrakk> \<Longrightarrow> ilog2 x \<le> e"
proof (rule ccontr)
  assume a: "0 < x" "x < 2 powi (e + 1)" "\<not> ilog2 x \<le> e"
  then have "(2 :: rat) powi (e + 1) \<le> 2 powi ilog2 x"
    by (intro power_int_increasing) simp_all
  with a show False
    using ilog2_bounds(1) [of x] by simp
qed

section \<open>Rounding\<close>

lemma round_half_even_of_int [simp]: "round_half_even (of_int i) = i"
  by (simp add: round_half_even_def)

lemma round_half_even_error: "\<bar>of_int (round_half_even q) - q\<bar> \<le> 1 / 2"
  using floor_correct [of q] by (simp add: round_half_even_def Let_def abs_le_iff)

text \<open>A value with at most \<open>prec\<close> significant bits is its own rounding.\<close>

lemma fp_round_exact:
  assumes x: "x = of_int m * 2 powi k" and m: "0 \<le> m" "m < 2 ^ fp_prec f"
    and k: "fp_emin f \<le> k" and top: "x < 2 powi (fp_emax f + 1)"
  shows "fp_round f s x = Finite s x"
proof (cases "m = 0")
  case True
  then show ?thesis by (simp add: x fp_round_def)
next
  case False
  define j where "j = fp_ulp f x"
  have pos: "0 < x"
    using False m by (simp add: x)
  have "rat_of_int m < of_int (2 ^ fp_prec f)"
    using m by (simp only: of_int_less_iff)
  then have "x < 2 powi int (fp_prec f) * 2 powi k"
    by (simp add: x power_int_of_nat)
  then have "ilog2 x \<le> int (fp_prec f) + k - 1"
    by (intro ilog2_less [OF pos]) (simp add: power_int_add)
  then have "j \<le> k"
    using k by (simp add: fp_ulp_def j_def)
  then obtain d where "k = int d + j"
    by (metis diff_add_cancel zle_iff_zadd add.commute)
  then have "x / 2 powi j = of_int (m * 2 ^ d)"
    by (simp add: x power_int_add power_int_of_nat)
  then have "of_int (round_half_even (x / 2 powi j)) * 2 powi j = x"
    by (simp only: round_half_even_of_int) (simp add: field_simps)
  then show ?thesis
    using pos top by (simp add: fp_round_def Let_def j_def)
qed

text \<open>In the normal range the relative error of rounding is at most half a unit in the last place.\<close>

lemma fp_round_error:
  assumes pos: "0 < x" and norm: "fp_emin f \<le> ilog2 x - int (fp_prec f) + 1"
    and top: "x < 2 powi fp_emax f"
  obtains y where "fp_round f s x = Finite s y" "\<bar>y - x\<bar> \<le> x * 2 powi (- int (fp_prec f))"
proof -
  define u where "u = (2 :: rat) powi (ilog2 x - int (fp_prec f) + 1)"
  define y where "y = of_int (round_half_even (x / u)) * u"
  have u: "0 < u" "2 powi fp_ulp f x = u"
    using norm by (simp_all add: u_def fp_ulp_def)
  have "u / 2 = 2 powi ilog2 x * 2 powi (- int (fp_prec f))"
    unfolding u_def by (simp add: power_int_add power_int_diff power_int_minus field_simps)
  then have half: "u / 2 \<le> x * 2 powi (- int (fp_prec f))"
    using ilog2_bounds(1) [OF pos] by simp
  have "\<bar>y - x\<bar> = \<bar>of_int (round_half_even (x / u)) - x / u\<bar> * u"
    using u by (simp add: y_def field_simps flip: abs_mult_pos)
  also have "\<dots> \<le> 1 / 2 * u"
    using round_half_even_error [of "x / u"] u by (intro mult_right_mono) simp_all
  finally have err: "\<bar>y - x\<bar> \<le> x * 2 powi (- int (fp_prec f))"
    using half by simp
  have "(2 :: rat) powi (- int (fp_prec f)) \<le> 2 powi 0"
    by (intro power_int_increasing) simp_all
  then have "x * 2 powi (- int (fp_prec f)) \<le> x"
    using pos by simp
  then have "y < 2 powi (fp_emax f + 1)"
    using err top by (simp add: power_int_add)
  then have "fp_round f s x = Finite s y"
    using pos u by (simp add: fp_round_def Let_def y_def)
  with err show ?thesis
    by (rule that [rotated])
qed

lemma fp_round_scale:
  assumes pos: "0 < x" and norm: "fp_emin f \<le> ilog2 x - int (fp_prec f) + 1"
    "fp_emin f \<le> ilog2 x + k - int (fp_prec f) + 1"
    and y: "fp_round f s x = Finite s y" and top: "y * 2 powi k < 2 powi (fp_emax f + 1)"
  shows "fp_round f s (x * 2 powi k) = Finite s (y * 2 powi k)"
proof -
  have u: "fp_ulp f (x * 2 powi k) = fp_ulp f x + k"
    using norm pos by (simp add: fp_ulp_def ilog2_scale)
  have "x * 2 powi k / 2 powi (fp_ulp f x + k) = x / 2 powi fp_ulp f x"
    by (simp add: power_int_add)
  moreover have "of_int (round_half_even (x / 2 powi fp_ulp f x)) * 2 powi fp_ulp f x = y"
    using y pos by (simp add: fp_round_def Let_def split: if_splits)
  ultimately show ?thesis
    using pos top u by (simp add: fp_round_def Let_def power_int_add flip: mult.assoc)
qed

lemma round_half_even_le: "q \<le> of_int n \<Longrightarrow> round_half_even q \<le> n"
proof -
  assume q: "q \<le> of_int n"
  show ?thesis
  proof (cases "\<lfloor>q\<rfloor> = n")
    case True
    then have "q = of_int n"
      using q floor_correct [of q] by simp
    then show ?thesis by simp
  next
    case False
    then have "\<lfloor>q\<rfloor> + 1 \<le> n"
      using floor_mono [OF q] by simp
    then show ?thesis
      by (simp add: round_half_even_def Let_def)
  qed
qed

lemma round_half_even_nonneg: "0 \<le> q \<Longrightarrow> 0 \<le> round_half_even q"
  by (simp add: round_half_even_def Let_def)

lemma fp_round_idem:
  assumes y: "fp_round f s x = Finite s y" and x: "0 \<le> x" and p: "0 < fp_prec f"
  shows "fp_round f s y = Finite s y"
proof (cases "x = 0")
  case True
  with y show ?thesis by (auto simp: fp_round_def)
next
  case False
  define j where "j = fp_ulp f x"
  define m where "m = round_half_even (x / 2 powi j)"
  have pos: "0 < x"
    using False x by simp
  have ym: "y = of_int m * 2 powi j" and top: "y < 2 powi (fp_emax f + 1)"
    using y False by (auto simp: fp_round_def Let_def m_def j_def split: if_splits)
  have "ilog2 x + 1 \<le> int (fp_prec f) + j" and jmin: "fp_emin f \<le> j"
    by (simp_all add: j_def fp_ulp_def)
  then have "(2 :: rat) powi (ilog2 x + 1) \<le> 2 powi (int (fp_prec f) + j)"
    by (intro power_int_increasing) simp_all
  then have "x < 2 ^ fp_prec f * 2 powi j"
    using ilog2_bounds(2) [OF pos] by (simp add: power_int_add power_int_of_nat)
  then have "x / 2 powi j \<le> of_int (2 ^ fp_prec f)"
    by (simp add: field_simps)
  then have m: "0 \<le> m" "m \<le> 2 ^ fp_prec f"
    unfolding m_def using x by (intro round_half_even_nonneg round_half_even_le; simp)+
  show ?thesis
  proof (cases "m = 2 ^ fp_prec f")
    case True
    obtain n where n: "fp_prec f = Suc n"
      using p gr0_implies_Suc by blast
    have "y = of_int (2 ^ n) * 2 powi (j + 1)"
      by (simp add: ym True n power_int_add)
    then show ?thesis
      using top jmin by (intro fp_round_exact [where m = "2 ^ n" and k = "j + 1"]) (simp_all add: n)
  next
    case False
    with m top jmin show ?thesis
      by (intro fp_round_exact [OF ym]) simp_all
  qed
qed

section \<open>Evaluation\<close>

lemma floor_rat_numeral [simp]:
  "\<lfloor>numeral a / numeral b :: rat\<rfloor> = numeral a div numeral b"
  "\<lfloor>1 / numeral b :: rat\<rfloor> = 1 div numeral b"
  "\<lceil>numeral a / numeral b :: rat\<rceil> = - (- numeral a div numeral b)"
  using floor_divide_of_int_eq [where 'a = rat, of "numeral a" "numeral b"]
    floor_divide_of_int_eq [where 'a = rat, of 1 "numeral b"]
    floor_divide_of_int_eq [where 'a = rat, of "- numeral a" "numeral b"]
  by (simp_all add: ceiling_def)

lemmas fp_eval =
  fp_lit_def fp_of_int_def fp_round_def fp_ulp_def ilog2_def flog2.simps clog2.simps
  round_half_even_def Let_def binary64_def binary32_def

section \<open>Bit patterns of \<open>f32\<close>\<close>

lemma unat_f32_fields:
  "unat (w :: u32) = (if bit w 31 then 2 ^ 31 else 0) + unat (take_bit 8 (drop_bit 23 w)) * 2 ^ 23
     + unat (take_bit 23 w)"
proof -
  define n where "n = unat w"
  have n: "n < 2 ^ 32"
    using unsigned_less [where 'a = nat and w = w] by (simp add: n_def)
  have "bit w 31 \<longleftrightarrow> odd (n div 2 ^ 31)"
    by (simp only: n_def bit_iff_odd [symmetric]) (simp add: bit_unsigned_iff)
  moreover have "n div 2 ^ 31 < 2"
    using n by (simp add: div_less_iff_less_mult)
  ultimately have s: "(if bit w 31 then 2 ^ 31 else 0) = n div 2 ^ 31 * 2 ^ 31"
    by (cases "n div 2 ^ 31 = 0") (auto simp: less_2_cases_iff)
  have e: "unat (take_bit 8 (drop_bit 23 w)) = n div 2 ^ 23 mod 2 ^ 8"
    by (simp add: take_bit_eq_mod drop_bit_eq_div unat_div_distrib unat_mod_distrib n_def)
  have m: "unat (take_bit 23 w) = n mod 2 ^ 23"
    by (simp add: take_bit_eq_mod unat_mod_distrib n_def)
  have "n div 2 ^ 23 = n div 2 ^ 31 * 2 ^ 8 + n div 2 ^ 23 mod 2 ^ 8"
    using div_mult2_eq [of n "2 ^ 23" "2 ^ 8"] div_mult_mod_eq [of "n div 2 ^ 23" "2 ^ 8"] by simp
  then have "n = (n div 2 ^ 31 * 2 ^ 8 + n div 2 ^ 23 mod 2 ^ 8) * 2 ^ 23 + n mod 2 ^ 23"
    by (metis div_mult_mod_eq)
  then show ?thesis
    unfolding s e m n_def [symmetric] by simp
qed

text \<open>The integer significand and exponent of a finite \<open>f32\<close>.\<close>

lemma f32_from_bits_cases:
  obtains (nan) "f32_from_bits w = NaN"
  | (inf) "f32_from_bits w = Infinite (bit w 31)" "w = (if bit w 31 then 0xFF800000 else 0x7F800000)"
  | (fin) m k where "f32_from_bits w = Finite (bit w 31) (of_int m * 2 powi k)"
      "0 \<le> m" "m < 2 ^ 24" "- 149 \<le> k" "k \<le> 104" "2 ^ 23 \<le> m \<or> k = - 149"
      "w = (if bit w 31 then 0x80000000 else 0) + word_of_int ((k + 149) * 2 ^ 23 + m)"
proof -
  define s where "s = bit w 31"
  define ex m where "ex = unat (take_bit 8 (drop_bit 23 w))" and "m = unat (take_bit 23 w)"
  have b: "ex < 2 ^ 8" "m < 2 ^ 23"
    unfolding ex_def m_def by (simp_all only: unsigned_take_bit_eq take_bit_nat_less_exp)
  have val: "f32_from_bits w =
     (if ex = 255 then (if m = 0 then Infinite s else NaN)
      else if ex = 0 then Finite s (of_nat m * 2 powi (- 149))
      else Finite s (of_nat (2 ^ 23 + m) * 2 powi (int ex - 150)))"
    by (simp only: f32_from_bits_def Let_def ex_def m_def s_def)
  have "w = word_of_nat ((if s then 2 ^ 31 else 0) + ex * 2 ^ 23 + m)"
    by (simp only: ex_def m_def s_def unat_f32_fields [symmetric]) simp
  also have "\<dots> = (if s then 0x80000000 else 0) + word_of_int (int (ex * 2 ^ 23 + m))"
    by simp
  finally have w: "w = (if s then 0x80000000 else 0) + word_of_int (int (ex * 2 ^ 23 + m))" .
  consider "ex = 255" "m = 0" | "ex = 255" "m \<noteq> 0" | "ex = 0" | "0 < ex" "ex < 255"
    using b by fastforce
  then show ?thesis
  proof cases
    case 1
    have "word_of_int (int (ex * 2 ^ 23 + m)) = (0x7F800000 :: u32)"
      using 1 by simp
    from w [unfolded this] have "w = (if s then 0xFF800000 else 0x7F800000)"
      by (cases s) (simp_all only: if_True if_False, simp_all)
    moreover have "f32_from_bits w = Infinite s"
      using val 1 by simp
    ultimately show ?thesis
      by (intro inf) (simp_all only: s_def)
  next
    case 2
    then show ?thesis
      using nan val by simp
  next
    case 3
    then have "int (ex * 2 ^ 23 + m) = (- 149 + 149) * 2 ^ 23 + int m"
      by simp
    note w = w [unfolded this s_def]
    have "f32_from_bits w = Finite (bit w 31) (of_int (int m) * 2 powi (- 149))"
      using val 3 by (simp add: s_def)
    then show ?thesis
      using b by (intro fin [of "int m" "- 149"] w) simp_all
  next
    case 4
    have "int (ex * 2 ^ 23 + m) = (int ex - 150 + 149) * 2 ^ 23 + int (2 ^ 23 + m)"
      by simp
    note w = w [unfolded this s_def]
    have "f32_from_bits w = Finite (bit w 31) (of_int (int (2 ^ 23 + m)) * 2 powi (int ex - 150))"
      using val 4 by (simp add: s_def)
    then show ?thesis
      using b 4 by (intro fin [of "int (2 ^ 23 + m)" "int ex - 150"] w) simp_all
  qed
qed

lemma f32_to_bits_Finite:
  assumes "0 \<le> m" "m < 2 ^ 24" "- 149 \<le> k" "2 ^ 23 \<le> m \<or> k = - 149"
  shows "f32_to_bits (Finite s (of_int m * 2 powi k)) =
    (if s then 0x80000000 else 0) + word_of_int ((k + 149) * 2 ^ 23 + m)"
proof (cases "m = 0")
  case True
  with assms show ?thesis by simp
next
  case False
  define x where "x = rat_of_int m * 2 powi k"
  have pos: "0 < x" and nz: "x \<noteq> 0"
    using False assms by (simp_all add: x_def)
  have "rat_of_int m < of_int (2 ^ 24)" "of_int (2 ^ 23) \<le> rat_of_int m \<or> k = - 149"
    using assms by (simp_all only: of_int_less_iff of_int_le_iff)
  then have mb: "rat_of_int m < 2 ^ 24" "2 ^ 23 \<le> rat_of_int m \<or> k = - 149"
    by simp_all
  have pw: "(2 :: rat) powi (k + 23 + 1) = 2 ^ 24 * 2 powi k" "(2 :: rat) powi (k + 23) = 2 ^ 23 * 2 powi k"
    by (simp_all add: power_int_add)
  have top: "x < 2 powi (k + 23 + 1)"
    using mb(1) unfolding x_def pw by (intro mult_strict_right_mono) simp_all
  from top have up: "ilog2 x \<le> k + 23"
    by (rule ilog2_less [OF pos])
  have "fp_ulp binary32 x = k"
  proof (cases "k = - 149")
    case True
    with up show ?thesis by (simp add: fp_ulp_def binary32_def)
  next
    case False
    then have "2 powi (k + 23) \<le> x"
      using mb(2) unfolding x_def pw by (intro mult_right_mono) simp_all
    then have "ilog2 x = k + 23"
      using top by (intro ilog2_eqI) simp_all
    then show ?thesis
      using assms(3) by (simp add: fp_ulp_def binary32_def)
  qed
  moreover have "x / 2 powi k = of_int m"
    by (simp add: x_def)
  ultimately show ?thesis
    using nz by (simp flip: x_def)
qed

lemma f32_to_bits_from_bits:
  "f32_from_bits w \<noteq> NaN \<Longrightarrow> f32_to_bits (f32_from_bits w) = w"
proof (cases w rule: f32_from_bits_cases)
  case inf
  show ?thesis
    unfolding inf(1) f32_to_bits.simps by (rule inf(2) [symmetric])
next
  case (fin m k)
  show ?thesis
    unfolding fin(1) f32_to_bits_Finite [OF fin(2-4) fin(6)] by (rule fin(7) [symmetric])
qed simp

text \<open>Every \<open>f32\<close> is an \<open>f64\<close>, and comes back unchanged.\<close>

lemma f32_cast_roundtrip [simp]:
  "fp_cast binary64 (f32_from_bits w) = f32_from_bits w"
  "fp_cast binary32 (f32_from_bits w) = f32_from_bits w"
proof -
  have "fp_cast f (f32_from_bits w) = f32_from_bits w" if f: "f = binary32 \<or> f = binary64" for f
  proof (cases w rule: f32_from_bits_cases)
    case (fin m k)
    have "rat_of_int m < of_int (2 ^ 24)" "(2 :: rat) powi k \<le> 2 powi 104"
      using fin by (simp_all only: of_int_less_iff power_int_increasing)
    then have "rat_of_int m * 2 powi k < of_int (2 ^ 24) * 2 powi 104"
      using fin by (intro mult_less_le_imp_less) simp_all
    also have "\<dots> = 2 powi (127 + 1)"
      by simp
    also have "\<dots> \<le> 2 powi (fp_emax f + 1)"
      using f by (intro power_int_increasing) (auto simp: binary32_def binary64_def)
    finally have top: "rat_of_int m * 2 powi k < 2 powi (fp_emax f + 1)" .
    have "fp_emin f \<le> k" "m < 2 ^ fp_prec f"
      using f fin by (auto simp: binary32_def binary64_def)
    then show ?thesis
      unfolding fin(1) fp_cast.simps by (intro fp_round_exact [OF refl fin(2)] top)
  qed simp_all
  then show "fp_cast binary64 (f32_from_bits w) = f32_from_bits w"
    "fp_cast binary32 (f32_from_bits w) = f32_from_bits w"
    by simp_all
qed

end
