(* ===== verification/Dpt_View.thy ===== *)
theory Dpt_View
  imports Dpt_Type Ieee
begin

text \<open>
  The runtime codec of datapoint values: \<open>DptType::decode_ref\<close> and \<open>DptType::encode\<close> of
  \<open>src/protocol/dpt/dpt_type.rs\<close>, the zero-copy views of \<open>src/protocol/dpt/view.rs\<close> and the owned payload of
  \<open>src/protocol/dpt/payload.rs\<close>.

  A view is a constructor of \<open>dpt_view\<close> with the bytes it wraps.  Its accessors index these bytes, so
  they return an outcome that can be a panic.  \<open>i8\<close>, \<open>i16\<close>, \<open>i32\<close> and \<open>i64\<close> are words read with sign;
  a \<open>String\<close> is the list of its UTF-8 bytes.  The argument \<open>checks\<close> of \<open>dpt_encode\<close> says whether the
  build panics on integer overflow, which only concerns \<open>i32::MIN.abs()\<close> in the 2-byte float encoder.
  Log statements are left out.

  Shown: \<open>decode_ref\<close> accepts exactly the inputs of the right length, except for DPT 235 where it accepts
  nothing (\<open>decode_ref_ok_iff\<close>); a view that it returns can be read without a panic (\<open>decoded_payload\<close>);
  and re-encoding what was decoded gives the bytes back up to the bits a type ignores
  (\<open>runtime_roundtrip\<close>).
\<close>

section \<open>Big-endian words\<close>

definition from_be :: "bytes \<Rightarrow> 'a::len word" where
  "from_be bs = foldl (\<lambda>acc b. push_bit 8 acc OR ucast b) 0 bs"

definition to_be :: "nat \<Rightarrow> 'a::len word \<Rightarrow> bytes" where
  "to_be n w = map (\<lambda>i. ucast (drop_bit (8 * i) w)) (rev [0..<n])"

section \<open>Text as UTF-8\<close>

definition str_of_bytes :: "bytes \<Rightarrow> string" where
  "str_of_bytes bs = map (\<lambda>b. char_of (unat b)) bs"

definition bytes_of_str :: "string \<Rightarrow> bytes" where
  "bytes_of_str s = map (\<lambda>c. word_of_nat (of_char c)) s"

definition cont_byte :: "u8 \<Rightarrow> bool" where
  "cont_byte b = (0x80 \<le> b \<and> b \<le> 0xBF)"

text \<open>The well-formed byte sequences of \<open>std::str::from_utf8\<close>.\<close>

fun utf8_valid :: "bytes \<Rightarrow> bool" where
  "utf8_valid [] = True"
| "utf8_valid (a # bs) =
     (if a < 0x80 then utf8_valid bs
      else if 0xC2 \<le> a \<and> a \<le> 0xDF then
        (case bs of b # r \<Rightarrow> cont_byte b \<and> utf8_valid r | _ \<Rightarrow> False)
      else if 0xE0 \<le> a \<and> a \<le> 0xEF then
        (case bs of b # c # r \<Rightarrow>
           cont_byte b \<and> (a = 0xE0 \<longrightarrow> 0xA0 \<le> b) \<and> (a = 0xED \<longrightarrow> b \<le> 0x9F) \<and> cont_byte c \<and>
           utf8_valid r
         | _ \<Rightarrow> False)
      else if 0xF0 \<le> a \<and> a \<le> 0xF4 then
        (case bs of b # c # d # r \<Rightarrow>
           cont_byte b \<and> (a = 0xF0 \<longrightarrow> 0x90 \<le> b) \<and> (a = 0xF4 \<longrightarrow> b \<le> 0x8F) \<and> cont_byte c \<and>
           cont_byte d \<and> utf8_valid r
         | _ \<Rightarrow> False)
      else False)"

section \<open>Views\<close>

datatype dpt_view =
    V_Bool bytes
  | V_Control2 bytes
  | V_Control bytes
  | V_U8 bytes
  | V_I8 bytes
  | V_U16 bytes
  | V_I16 bytes
  | V_Float2Byte bytes
  | V_U32 bytes
  | V_I32 bytes
  | V_Float4Byte bytes
  | V_I64 bytes
  | V_Str bytes
  | V_Time bytes
  | V_Date bytes
  | V_DateTime bytes
  | V_Scene bytes
  | V_Enum bytes
  | V_Rgb bytes
  | V_Rgbw bytes
  | V_Xyy bytes

fun view_raw :: "dpt_view \<Rightarrow> bytes" where
  "view_raw (V_Bool b) = b"
| "view_raw (V_Control2 b) = b"
| "view_raw (V_Control b) = b"
| "view_raw (V_U8 b) = b"
| "view_raw (V_I8 b) = b"
| "view_raw (V_U16 b) = b"
| "view_raw (V_I16 b) = b"
| "view_raw (V_Float2Byte b) = b"
| "view_raw (V_U32 b) = b"
| "view_raw (V_I32 b) = b"
| "view_raw (V_Float4Byte b) = b"
| "view_raw (V_I64 b) = b"
| "view_raw (V_Str b) = b"
| "view_raw (V_Time b) = b"
| "view_raw (V_Date b) = b"
| "view_raw (V_DateTime b) = b"
| "view_raw (V_Scene b) = b"
| "view_raw (V_Enum b) = b"
| "view_raw (V_Rgb b) = b"
| "view_raw (V_Rgbw b) = b"
| "view_raw (V_Xyy b) = b"

text \<open>
  The accessors of the views.  \<open>byte_at f b i\<close> is \<open>f(self.0[i])\<close>; \<open>word_at\<close> is \<open>from_be_bytes\<close> of the \<open>n\<close>
  bytes from \<open>i\<close>, each of them indexed.
\<close>

definition byte_at :: "(u8 \<Rightarrow> 'a) \<Rightarrow> bytes \<Rightarrow> nat \<Rightarrow> ('e, 'a) res" where
  "byte_at f b i = bind_res (idx b i) (\<lambda>x. Ok (f x))"

definition word_at :: "bytes \<Rightarrow> nat \<Rightarrow> nat \<Rightarrow> ('e, 'a::len word) res" where
  "word_at b i n = bind_res (slice b i (i + n)) (\<lambda>bs. Ok (from_be bs))"

definition BoolView_value :: "bytes \<Rightarrow> ('e, bool) res" where
  "BoolView_value b = byte_at (\<lambda>x. x AND 0x01 \<noteq> 0) b 0"

definition ControlView_step :: "bytes \<Rightarrow> ('e, bool) res" where
  "ControlView_step b = byte_at (\<lambda>x. x AND 0x08 \<noteq> 0) b 0"

definition ControlView_step_code :: "bytes \<Rightarrow> ('e, u8) res" where
  "ControlView_step_code b = byte_at (\<lambda>x. x AND 0x07) b 0"

definition Control2View_control :: "bytes \<Rightarrow> ('e, bool) res" where
  "Control2View_control b = byte_at (\<lambda>x. x AND 0x02 \<noteq> 0) b 0"

definition Control2View_value :: "bytes \<Rightarrow> ('e, bool) res" where
  "Control2View_value b = byte_at (\<lambda>x. x AND 0x01 \<noteq> 0) b 0"

definition U8View_value :: "bytes \<Rightarrow> ('e, u8) res" where
  "U8View_value b = byte_at (\<lambda>x. x) b 0"

definition U8View_scaled_percent :: "bytes \<Rightarrow> ('e, f64) res" where
  "U8View_scaled_percent b =
     byte_at (\<lambda>x. fp_div binary64 (fp_mul binary64 (fp_of_int binary64 (uint x)) (fp_lit binary64 100))
       (fp_lit binary64 255)) b 0"

definition I8View_value :: "bytes \<Rightarrow> ('e, u8) res" where
  "I8View_value b = byte_at (\<lambda>x. x) b 0"

definition U16View_value :: "bytes \<Rightarrow> ('e, u16) res" where
  "U16View_value b = word_at b 0 2"

definition I16View_value :: "bytes \<Rightarrow> ('e, u16) res" where
  "I16View_value b = word_at b 0 2"

definition U32View_value :: "bytes \<Rightarrow> ('e, u32) res" where
  "U32View_value b = word_at b 0 4"

definition I32View_value :: "bytes \<Rightarrow> ('e, u32) res" where
  "I32View_value b = word_at b 0 4"

definition I64View_value :: "bytes \<Rightarrow> ('e, u64) res" where
  "I64View_value b = word_at b 0 8"

text \<open>The mantissa and the exponent of a 2-byte float, and its value in hundredths.\<close>

definition knx_mantissa :: "u16 \<Rightarrow> int" where
  "knx_mantissa raw = (if raw AND 0x8000 \<noteq> 0 then uint (raw AND 0x07FF) - 2048 else uint (raw AND 0x07FF))"

definition knx_exponent :: "u16 \<Rightarrow> nat" where
  "knx_exponent raw = unat (drop_bit 11 raw AND 0x0F)"

definition knx_float :: "u16 \<Rightarrow> f64" where
  "knx_float raw =
     fp_mul binary64
       (fp_mul binary64 (fp_lit binary64 (1 / 100)) (fp_of_int binary64 (knx_mantissa raw)))
       (fp_of_int binary64 (2 ^ knx_exponent raw))"

definition Float2ByteView_as_f64 :: "bytes \<Rightarrow> ('e, f64) res" where
  "Float2ByteView_as_f64 b =
     bind_res (idx b 0) (\<lambda>hi. bind_res (idx b 1) (\<lambda>lo. Ok (knx_float (u16_from_be_bytes hi lo))))"

definition Float4ByteView_as_f64 :: "bytes \<Rightarrow> ('e, f64) res" where
  "Float4ByteView_as_f64 b =
     bind_res (word_at b 0 4) (\<lambda>w. Ok (fp_cast binary64 (f32_from_bits w)))"

definition StrView_as_str :: "bytes \<Rightarrow> string" where
  "StrView_as_str b =
     (let s = takeWhile (\<lambda>x. x \<noteq> 0) b in if utf8_valid s then str_of_bytes s else [])"

definition TimeView_day :: "bytes \<Rightarrow> ('e, u8) res" where
  "TimeView_day b = byte_at (\<lambda>x. drop_bit 5 x AND 0x07) b 0"

definition TimeView_hour :: "bytes \<Rightarrow> ('e, u8) res" where
  "TimeView_hour b = byte_at (\<lambda>x. x AND 0x1F) b 0"

definition TimeView_minute :: "bytes \<Rightarrow> ('e, u8) res" where
  "TimeView_minute b = byte_at (\<lambda>x. x AND 0x3F) b 1"

definition TimeView_second :: "bytes \<Rightarrow> ('e, u8) res" where
  "TimeView_second b = byte_at (\<lambda>x. x AND 0x3F) b 2"

definition DateView_day :: "bytes \<Rightarrow> ('e, u8) res" where
  "DateView_day b = byte_at (\<lambda>x. x AND 0x1F) b 0"

definition DateView_month :: "bytes \<Rightarrow> ('e, u8) res" where
  "DateView_month b = byte_at (\<lambda>x. x AND 0x0F) b 1"

definition DateView_year :: "bytes \<Rightarrow> ('e, u16) res" where
  "DateView_year b =
     byte_at (\<lambda>x. let y = ucast (x AND 0x7F) in if 90 \<le> y then 1900 + y else 2000 + y) b 2"

definition DateTimeView_year :: "bytes \<Rightarrow> ('e, u16) res" where
  "DateTimeView_year b = byte_at (\<lambda>x. ucast x + 1900) b 0"

definition DateTimeView_month :: "bytes \<Rightarrow> ('e, u8) res" where
  "DateTimeView_month b = byte_at (\<lambda>x. x AND 0x0F) b 1"

definition DateTimeView_day :: "bytes \<Rightarrow> ('e, u8) res" where
  "DateTimeView_day b = byte_at (\<lambda>x. x AND 0x1F) b 2"

definition DateTimeView_day_of_week :: "bytes \<Rightarrow> ('e, u8) res" where
  "DateTimeView_day_of_week b = byte_at (\<lambda>x. drop_bit 5 x AND 0x07) b 3"

definition DateTimeView_hour :: "bytes \<Rightarrow> ('e, u8) res" where
  "DateTimeView_hour b = byte_at (\<lambda>x. x AND 0x1F) b 3"

definition DateTimeView_minute :: "bytes \<Rightarrow> ('e, u8) res" where
  "DateTimeView_minute b = byte_at (\<lambda>x. x AND 0x3F) b 4"

definition DateTimeView_second :: "bytes \<Rightarrow> ('e, u8) res" where
  "DateTimeView_second b = byte_at (\<lambda>x. x AND 0x3F) b 5"

definition SceneView_scene_number :: "bytes \<Rightarrow> ('e, u8) res" where
  "SceneView_scene_number b = byte_at (\<lambda>x. (x AND 0x3F) + 1) b 0"

definition SceneView_learn :: "bytes \<Rightarrow> ('e, bool) res" where
  "SceneView_learn b = byte_at (\<lambda>x. x AND 0x80 \<noteq> 0) b 0"

definition EnumView_value :: "bytes \<Rightarrow> ('e, u8) res" where
  "EnumView_value b = byte_at (\<lambda>x. x) b 0"

text \<open>The components \<open>r\<close>, \<open>g\<close>, \<open>b\<close>, \<open>w\<close> of a colour are single bytes.\<close>

definition color_byte :: "bytes \<Rightarrow> nat \<Rightarrow> ('e, u8) res" where
  "color_byte b i = byte_at (\<lambda>x. x) b i"

definition xyy_component :: "u16 \<Rightarrow> f32" where
  "xyy_component w = fp_div binary32 (fp_of_int binary32 (uint w)) (fp_lit binary32 65535)"

definition XyyView_x :: "bytes \<Rightarrow> ('e, f32) res" where
  "XyyView_x b = bind_res (word_at b 0 2) (\<lambda>w. Ok (xyy_component w))"

definition XyyView_y :: "bytes \<Rightarrow> ('e, f32) res" where
  "XyyView_y b = bind_res (word_at b 2 2) (\<lambda>w. Ok (xyy_component w))"

definition XyyView_brightness :: "bytes \<Rightarrow> ('e, u8) res" where
  "XyyView_brightness b = byte_at (\<lambda>x. x) b 4"

section \<open>Payloads\<close>

datatype dpt_payload =
    P_Bool bool
  | P_BinaryControl bool bool
  | P_Control bool u8
  | P_UnsignedInt u64
  | P_SignedInt u64
  | P_Float f64
  | P_String string
  | P_Time u8 u8 u8 u8
  | P_Date u8 u8 u16
  | P_DateTime u16 u8 u8 u8 u8 u8 u8
  | P_Scene u8
  | P_SceneControl u8 bool
  | P_Enum u8
  | P_ColorRGB u8 u8 u8
  | P_ColorRGBW u8 u8 u8 u8
  | P_ColorXYY f32 f32 u8

text \<open>\<open>impl From<DptView> for DptPayload\<close>.\<close>

fun payload_of_view :: "dpt_view \<Rightarrow> ('e, dpt_payload) res" where
  "payload_of_view (V_Bool b) = bind_res (BoolView_value b) (\<lambda>v. Ok (P_Bool v))"
| "payload_of_view (V_Control2 b) =
     bind_res (Control2View_control b) (\<lambda>c. bind_res (Control2View_value b) (\<lambda>v.
     Ok (P_BinaryControl c v)))"
| "payload_of_view (V_Control b) =
     bind_res (ControlView_step b) (\<lambda>s. bind_res (ControlView_step_code b) (\<lambda>c. Ok (P_Control s c)))"
| "payload_of_view (V_U8 b) = bind_res (U8View_value b) (\<lambda>v. Ok (P_UnsignedInt (ucast v)))"
| "payload_of_view (V_I8 b) = bind_res (I8View_value b) (\<lambda>v. Ok (P_SignedInt (scast v)))"
| "payload_of_view (V_U16 b) = bind_res (U16View_value b) (\<lambda>v. Ok (P_UnsignedInt (ucast v)))"
| "payload_of_view (V_I16 b) = bind_res (I16View_value b) (\<lambda>v. Ok (P_SignedInt (scast v)))"
| "payload_of_view (V_Float2Byte b) = bind_res (Float2ByteView_as_f64 b) (\<lambda>v. Ok (P_Float v))"
| "payload_of_view (V_U32 b) = bind_res (U32View_value b) (\<lambda>v. Ok (P_UnsignedInt (ucast v)))"
| "payload_of_view (V_I32 b) = bind_res (I32View_value b) (\<lambda>v. Ok (P_SignedInt (scast v)))"
| "payload_of_view (V_Float4Byte b) = bind_res (Float4ByteView_as_f64 b) (\<lambda>v. Ok (P_Float v))"
| "payload_of_view (V_I64 b) = bind_res (I64View_value b) (\<lambda>v. Ok (P_SignedInt v))"
| "payload_of_view (V_Str b) = Ok (P_String (StrView_as_str b))"
| "payload_of_view (V_Time b) =
     bind_res (TimeView_day b) (\<lambda>d. bind_res (TimeView_hour b) (\<lambda>h.
     bind_res (TimeView_minute b) (\<lambda>m. bind_res (TimeView_second b) (\<lambda>s. Ok (P_Time d h m s)))))"
| "payload_of_view (V_Date b) =
     bind_res (DateView_day b) (\<lambda>d. bind_res (DateView_month b) (\<lambda>m.
     bind_res (DateView_year b) (\<lambda>y. Ok (P_Date d m y))))"
| "payload_of_view (V_DateTime b) =
     bind_res (DateTimeView_year b) (\<lambda>y. bind_res (DateTimeView_month b) (\<lambda>mo.
     bind_res (DateTimeView_day b) (\<lambda>d. bind_res (DateTimeView_day_of_week b) (\<lambda>w.
     bind_res (DateTimeView_hour b) (\<lambda>h. bind_res (DateTimeView_minute b) (\<lambda>mi.
     bind_res (DateTimeView_second b) (\<lambda>s. Ok (P_DateTime y mo d w h mi s))))))))"
| "payload_of_view (V_Scene b) = bind_res (SceneView_scene_number b) (\<lambda>n. Ok (P_Scene n))"
| "payload_of_view (V_Enum b) = bind_res (EnumView_value b) (\<lambda>v. Ok (P_Enum v))"
| "payload_of_view (V_Rgb b) =
     bind_res (color_byte b 0) (\<lambda>r. bind_res (color_byte b 1) (\<lambda>g. bind_res (color_byte b 2) (\<lambda>bl.
     Ok (P_ColorRGB r g bl))))"
| "payload_of_view (V_Rgbw b) =
     bind_res (color_byte b 0) (\<lambda>r. bind_res (color_byte b 1) (\<lambda>g. bind_res (color_byte b 2) (\<lambda>bl.
     bind_res (color_byte b 3) (\<lambda>w. Ok (P_ColorRGBW r g bl w)))))"
| "payload_of_view (V_Xyy b) =
     bind_res (XyyView_x b) (\<lambda>x. bind_res (XyyView_y b) (\<lambda>y. bind_res (XyyView_brightness b) (\<lambda>br.
     Ok (P_ColorXYY x y br))))"

text \<open>\<open>DptView::as_f64\<close> and \<open>DptView::as_bool\<close>, and the same on payloads.\<close>

fun view_as_f64 :: "dpt_view \<Rightarrow> ('e, f64 option) res" where
  "view_as_f64 (V_Bool b) =
     bind_res (BoolView_value b) (\<lambda>v. Ok (Some (if v then fp_lit binary64 1 else fp_lit binary64 0)))"
| "view_as_f64 (V_U8 b) = bind_res (U8View_value b) (\<lambda>v. Ok (Some (fp_of_int binary64 (uint v))))"
| "view_as_f64 (V_I8 b) = bind_res (I8View_value b) (\<lambda>v. Ok (Some (fp_of_int binary64 (sint v))))"
| "view_as_f64 (V_U16 b) = bind_res (U16View_value b) (\<lambda>v. Ok (Some (fp_of_int binary64 (uint v))))"
| "view_as_f64 (V_I16 b) = bind_res (I16View_value b) (\<lambda>v. Ok (Some (fp_of_int binary64 (sint v))))"
| "view_as_f64 (V_Float2Byte b) = bind_res (Float2ByteView_as_f64 b) (\<lambda>v. Ok (Some v))"
| "view_as_f64 (V_U32 b) = bind_res (U32View_value b) (\<lambda>v. Ok (Some (fp_of_int binary64 (uint v))))"
| "view_as_f64 (V_I32 b) = bind_res (I32View_value b) (\<lambda>v. Ok (Some (fp_of_int binary64 (sint v))))"
| "view_as_f64 (V_Float4Byte b) = bind_res (Float4ByteView_as_f64 b) (\<lambda>v. Ok (Some v))"
| "view_as_f64 (V_I64 b) = bind_res (I64View_value b) (\<lambda>v. Ok (Some (fp_of_int binary64 (sint v))))"
| "view_as_f64 (V_Scene b) =
     bind_res (SceneView_scene_number b) (\<lambda>v. Ok (Some (fp_of_int binary64 (uint v))))"
| "view_as_f64 (V_Enum b) = bind_res (EnumView_value b) (\<lambda>v. Ok (Some (fp_of_int binary64 (uint v))))"
| "view_as_f64 _ = Ok None"

fun view_as_bool :: "dpt_view \<Rightarrow> ('e, bool option) res" where
  "view_as_bool (V_Bool b) = bind_res (BoolView_value b) (\<lambda>v. Ok (Some v))"
| "view_as_bool _ = Ok None"

fun payload_as_f64 :: "dpt_payload \<Rightarrow> f64 option" where
  "payload_as_f64 (P_Bool v) = Some (if v then fp_lit binary64 1 else fp_lit binary64 0)"
| "payload_as_f64 (P_UnsignedInt v) = Some (fp_of_int binary64 (uint v))"
| "payload_as_f64 (P_SignedInt v) = Some (fp_of_int binary64 (sint v))"
| "payload_as_f64 (P_Float v) = Some v"
| "payload_as_f64 (P_Scene v) = Some (fp_of_int binary64 (uint v))"
| "payload_as_f64 (P_Enum v) = Some (fp_of_int binary64 (uint v))"
| "payload_as_f64 _ = None"

fun payload_as_bool :: "dpt_payload \<Rightarrow> bool option" where
  "payload_as_bool (P_Bool v) = Some v"
| "payload_as_bool _ = None"

section \<open>Decoding\<close>

abbreviation dpt_error :: "dpt_type \<Rightarrow> knx_error" where
  "dpt_error d \<equiv> Protocol (DptError (number_str d))"

definition decode_ref :: "dpt_type \<Rightarrow> bytes \<Rightarrow> dpt_view result" where
  "decode_ref d bytes =
     (let expected_len = byte_length d; m = dpt_main d in
      guard_res (0 < expected_len \<and> length bytes \<noteq> expected_len) (dpt_error d)
       (if m = 1 then Ok (V_Bool bytes)
        else if m = 2 then Ok (V_Control2 bytes)
        else if m = 3 then Ok (V_Control bytes)
        else if m = 5 then Ok (V_U8 bytes)
        else if m = 6 then Ok (V_I8 bytes)
        else if m = 7 then Ok (V_U16 bytes)
        else if m = 8 then Ok (V_I16 bytes)
        else if m = 9 then Ok (V_Float2Byte bytes)
        else if m = 10 then Ok (V_Time bytes)
        else if m = 11 then Ok (V_Date bytes)
        else if m = 12 then Ok (V_U32 bytes)
        else if m = 13 then Ok (V_I32 bytes)
        else if m = 14 then Ok (V_Float4Byte bytes)
        else if m = 16 then Ok (V_Str bytes)
        else if m = 17 then Ok (V_Scene bytes)
        else if m = 18 then Ok (V_Scene bytes)
        else if m = 19 then Ok (V_DateTime bytes)
        else if m = 20 then Ok (V_Enum bytes)
        else if m = 29 then Ok (V_I64 bytes)
        else if m = 232 then Ok (V_Rgb bytes)
        else if m = 235 then
          (if 8 \<le> length bytes then bind_res (slice bytes 0 8) (\<lambda>b. Ok (V_I64 b))
           else Err (dpt_error d))
        else if m = 242 then Ok (V_Xyy bytes)
        else if m = 251 then Ok (V_Rgbw bytes)
        else Err (dpt_error d)))"

section \<open>Encoding\<close>

text \<open>The loop of the 2-byte float encoder.  \<open>m >>= 1\<close> on \<open>i32\<close> rounds towards minus infinity.\<close>

function dpt9_shift :: "bool \<Rightarrow> int \<Rightarrow> nat \<Rightarrow> ('e, int \<times> nat) res" where
  "dpt9_shift checks m e =
     (if m = - (2 ^ 31) then (if checks then Panic else Ok (m, e))
      else if \<bar>m\<bar> > 2047 then dpt9_shift checks (m div 2) (e + 1)
      else Ok (m, e))"
  by pat_completeness auto
termination
  by (relation "measure (\<lambda>(_, m, _). nat \<bar>m\<bar>)") auto

declare dpt9_shift.simps [simp del]

definition dpt9_pack :: "int \<Rightarrow> nat \<Rightarrow> u16" where
  "dpt9_pack m e =
     (let sign = (if m < 0 then 0x8000 else 0);
          m' = (if m < 0 then word_of_int ((m + 2048) AND 0x07FF) OR 0x8000 else word_of_int (m AND 0x07FF))
      in sign OR push_bit 11 (as_u16 e AND 0x0F) OR (m' AND 0x07FF))"

definition dpt9_encode :: "bool \<Rightarrow> f64 \<Rightarrow> ('e, bytes) res" where
  "dpt9_encode checks v =
     (let m = fp_to_int (- (2 ^ 31)) (2 ^ 31 - 1) (fp_mul binary64 v (fp_lit binary64 100)) in
      bind_res (dpt9_shift checks m 0) (\<lambda>(m, e). Ok (to_be 2 (dpt9_pack m e))))"

definition xyy_raw :: "f32 \<Rightarrow> u16" where
  "xyy_raw v = word_of_int (fp_to_int 0 65535 (fp_mul binary32 v (fp_lit binary32 65535)))"

definition saturating_pred :: "u8 \<Rightarrow> u8" where
  "saturating_pred n = (if n = 0 then 0 else n - 1)"

definition dpt_encode :: "bool \<Rightarrow> dpt_type \<Rightarrow> dpt_payload \<Rightarrow> bytes result" where
  "dpt_encode checks d payload =
     (let m = dpt_main d in
      case payload of
        P_Bool v \<Rightarrow> if m = 1 then Ok [of_bool v] else Err (dpt_error d)
      | P_BinaryControl c v \<Rightarrow>
          if m = 2 then Ok [(if c then 0x02 else 0) OR of_bool v] else Err (dpt_error d)
      | P_Control s c \<Rightarrow>
          if m = 3 then Ok [(if s then 0x08 else 0) OR (c AND 0x07)] else Err (dpt_error d)
      | P_UnsignedInt v \<Rightarrow>
          if m = 5 then Ok [ucast v]
          else if m = 7 then Ok (to_be 2 (ucast v :: u16))
          else if m = 12 then Ok (to_be 4 (ucast v :: u32))
          else Err (dpt_error d)
      | P_SignedInt v \<Rightarrow>
          if m = 6 then Ok [ucast v]
          else if m = 8 then Ok (to_be 2 (ucast v :: u16))
          else if m = 13 then Ok (to_be 4 (ucast v :: u32))
          else if m = 29 then Ok (to_be 8 v)
          else Err (dpt_error d)
      | P_Float v \<Rightarrow>
          if m = 9 then dpt9_encode checks v
          else if m = 14 then Ok (to_be 4 (f32_to_bits (fp_cast binary32 v)))
          else Err (dpt_error d)
      | P_String s \<Rightarrow>
          if m = 16 then
            Ok (let b = take 14 (bytes_of_str s) in b @ replicate (14 - length b) 0)
          else Err (dpt_error d)
      | P_Time dy h mi s \<Rightarrow>
          if m = 10 then Ok [push_bit 5 dy OR (h AND 0x1F), mi AND 0x3F, s AND 0x3F]
          else Err (dpt_error d)
      | P_Date dy mo y \<Rightarrow>
          if m = 11 then
            (if 1990 \<le> y \<and> y \<le> 2089 then
               (let yy = (if 2000 \<le> y then ucast (y - 2000) else ucast (y - 1900)) in
                Ok [dy AND 0x1F, mo AND 0x0F, yy AND 0x7F])
             else Err (dpt_error d))
          else Err (dpt_error d)
      | P_DateTime y mo dy dw h mi s \<Rightarrow>
          if m = 19 then
            (if 1900 \<le> y \<and> y \<le> 2155 then
               Ok [ucast (y - 1900), mo AND 0x0F, dy AND 0x1F, push_bit 5 (dw AND 0x07) OR (h AND 0x1F),
                   mi AND 0x3F, s AND 0x3F, 0, 0]
             else Err (dpt_error d))
          else Err (dpt_error d)
      | P_Scene n \<Rightarrow> if m = 17 then Ok [saturating_pred n AND 0x3F] else Err (dpt_error d)
      | P_SceneControl n learn \<Rightarrow>
          if m = 18 then Ok [(if learn then 0x80 else 0) OR (saturating_pred n AND 0x3F)]
          else Err (dpt_error d)
      | P_Enum v \<Rightarrow> if m = 20 then Ok [v] else Err (dpt_error d)
      | P_ColorRGB r g b \<Rightarrow> if m = 232 then Ok [r, g, b] else Err (dpt_error d)
      | P_ColorXYY x y br \<Rightarrow>
          if m = 242 then Ok (to_be 2 (xyy_raw x) @ to_be 2 (xyy_raw y) @ [br, 0x03])
          else Err (dpt_error d)
      | P_ColorRGBW r g b w \<Rightarrow> if m = 251 then Ok [r, g, b, w, 0x00, 0x0F] else Err (dpt_error d))"

section \<open>Big-endian words: round trips\<close>

lemma from_be_snoc: "from_be (bs @ [b]) = push_bit 8 (from_be bs) OR ucast b"
  by (simp add: from_be_def)

lemma bit_from_be:
  "bit (from_be bs :: 'a::len word) k \<longleftrightarrow>
     k < LENGTH('a) \<and> k < 8 * length bs \<and> bit (rev bs ! (k div 8)) (k mod 8)"
proof (induction bs arbitrary: k rule: rev_induct)
  case Nil
  then show ?case by (simp add: from_be_def)
next
  case (snoc b bs)
  show ?case
  proof (cases "k < 8")
    case True
    then show ?thesis
      by (auto simp: from_be_snoc bit_simps)
  next
    case False
    then obtain j where "k = 8 + j"
      using le_Suc_ex not_less by blast
    then show ?thesis
      using snoc.IH [of j] by (auto simp: from_be_snoc bit_simps)
  qed
qed

lemma length_to_be [simp]: "length (to_be n w) = n"
  by (simp add: to_be_def)

lemma to_be_from_be:
  assumes "length bs = n" "LENGTH('a) = 8 * n"
  shows "to_be n (from_be bs :: 'a::len word) = bs"
proof (rule nth_equalityI)
  fix i assume "i < length (to_be n (from_be bs :: 'a word))"
  then have i: "i < n" by simp
  then have "to_be n (from_be bs :: 'a word) ! i = ucast (drop_bit (8 * (n - 1 - i)) (from_be bs :: 'a word))"
    by (simp add: to_be_def rev_nth)
  also have "\<dots> = bs ! i"
  proof (rule bit_word_eqI)
    fix k assume k: "k < LENGTH(8)"
    have "8 * (n - 1 - i) + k < 8 * n"
      using i k by auto
    moreover have "(8 * (n - 1 - i) + k) div 8 = n - 1 - i" "(8 * (n - 1 - i) + k) mod 8 = k"
      using k by simp_all
    moreover have "rev bs ! (n - 1 - i) = bs ! i"
      using i assms by (simp add: rev_nth)
    ultimately show "bit (ucast (drop_bit (8 * (n - 1 - i)) (from_be bs :: 'a word)) :: u8) k = bit (bs ! i) k"
      using assms k by (simp add: bit_simps bit_from_be)
  qed
  finally show "to_be n (from_be bs :: 'a word) ! i = bs ! i" .
qed (use assms in simp)

lemma from_be_to_be:
  fixes w :: "'a::len word"
  assumes "LENGTH('a) \<le> 8 * n"
  shows "from_be (to_be n w) = w"
proof (rule bit_word_eqI)
  fix k assume k: "k < LENGTH('a)"
  then have "k div 8 < n"
    using assms by auto
  then have "rev (to_be n w) ! (k div 8) = ucast (drop_bit (8 * (k div 8)) w)"
    by (simp add: to_be_def rev_map)
  moreover have "8 * (k div 8) + k mod 8 = k"
    by simp
  ultimately show "bit (from_be (to_be n w) :: 'a word) k = bit w k"
    using k assms by (simp add: bit_from_be bit_simps)
qed

section \<open>Bits of a byte\<close>

lemma and_bit_iff [simp]:
  "(w AND 1 = 0) = (\<not> bit w 0)" "(w AND 2 = 0) = (\<not> bit w 1)"
  "(w AND 8 = 0) = (\<not> bit w 3)" "(w AND 0x80 = 0) = (\<not> bit w 7)" for w :: u8
  using and_exp_eq_0_iff_not_bit [of w 0] and_exp_eq_0_iff_not_bit [of w 1]
    and_exp_eq_0_iff_not_bit [of w 3] and_exp_eq_0_iff_not_bit [of w 7]
  by (simp_all only: power_0 power_one_right) simp_all

lemma and_mask_take_bit' [codec_simps]:
  "w AND 0x1F = take_bit 5 w" "w AND 0x7F = take_bit 7 w" for w :: "'a::len word"
  by (simp_all add: take_bit_eq_mask mask_eq_exp_minus_1)

lemma u8_eqI:
  fixes v w :: u8
  assumes "bit v 0 = bit w 0" "bit v (Suc 0) = bit w (Suc 0)" "bit v 2 = bit w 2" "bit v 3 = bit w 3"
    "bit v 4 = bit w 4" "bit v 5 = bit w 5" "bit v 6 = bit w 6" "bit v 7 = bit w 7"
  shows "v = w"
proof (rule bit_word_eqI)
  fix n assume "n < LENGTH(8)"
  then have "n \<in> {0, Suc 0, 2, 3, 4, 5, 6, 7}" by auto
  with assms show "bit v n = bit w n" by auto
qed

lemma byte_bits_eq [simp]:
  "(if bit b (Suc 0) then 2 else 0) OR (b AND 1) = b AND 3"
  "(if bit b 3 then 8 else 0) OR (b AND 7) = b AND 15"
  "of_bool (bit b 0) = b AND 1"
  "(push_bit 5 (drop_bit 5 b) AND 224) OR (b AND 31) = b"
  for b :: u8
  by (rule u8_eqI; simp add: bit_simps bit_numeral_word_iff; fail)+

lemma length_1_E: "length bs = Suc 0 \<Longrightarrow> (\<And>a. bs = [a] \<Longrightarrow> P) \<Longrightarrow> P"
  by (cases bs) auto

lemma length_list_E:
  "length bs = 2 \<Longrightarrow> (\<And>a b. bs = [a, b] \<Longrightarrow> P) \<Longrightarrow> P"
  "length bs = 3 \<Longrightarrow> (\<And>a b c. bs = [a, b, c] \<Longrightarrow> P) \<Longrightarrow> P"
  "length bs = 6 \<Longrightarrow> (\<And>a b c d e f. bs = [a, b, c, d, e, f] \<Longrightarrow> P) \<Longrightarrow> P"
  "length bs = 8 \<Longrightarrow> (\<And>a b c d e f g h. bs = [a, b, c, d, e, f, g, h] \<Longrightarrow> P) \<Longrightarrow> P"
  by (auto simp: numeral_eq_Suc length_Suc_conv)

lemma and_idem_mask [simp]:
  "(b AND 7) AND 7 = b AND 7" "(b AND 15) AND 7 = b AND 7" "(b AND 63) AND 63 = b AND 63"
  "(b AND 31) AND 31 = b AND 31" "(b AND 15) AND 15 = b AND 15" "(b AND 127) AND 127 = b AND 127"
  for b :: u8
  by (rule u8_eqI; simp add: bit_simps bit_numeral_word_iff; fail)+

lemma bit_masked [simp]:
  "bit (b AND 1) 0 = bit b 0" "bit (b AND 3) 0 = bit b 0" "bit (b AND 3) (Suc 0) = bit b (Suc 0)"
  "bit (b AND 15) 3 = bit b 3" for b :: u8
  by (simp_all add: bit_simps bit_numeral_word_iff)

section \<open>What is decoded\<close>

definition decoded_value :: "dpt_type \<Rightarrow> bytes \<Rightarrow> dpt_payload result" where
  "decoded_value d bs = bind_res (decode_ref d bs) payload_of_view"

text \<open>The bytes of a value with the bits that its type ignores cleared.\<close>

definition dpt_normal :: "dpt_type \<Rightarrow> bytes \<Rightarrow> bytes" where
  "dpt_normal d bs =
     (let m = dpt_main d in
      if m = 1 then [bs ! 0 AND 0x01]
      else if m = 2 then [bs ! 0 AND 0x03]
      else if m = 3 then [bs ! 0 AND 0x0F]
      else if m = 10 then [bs ! 0, bs ! 1 AND 0x3F, bs ! 2 AND 0x3F]
      else if m = 11 then
        (let y = bs ! 2 AND 0x7F in
         [bs ! 0 AND 0x1F, bs ! 1 AND 0x0F, if 100 \<le> y then y - 100 else y])
      else if m = 16 then
        (let s = takeWhile (\<lambda>x. x \<noteq> 0) bs; t = (if utf8_valid s then s else []) in
         t @ replicate (14 - length t) 0)
      else if m = 17 then [bs ! 0 AND 0x3F]
      else if m = 19 then
        [bs ! 0, bs ! 1 AND 0x0F, bs ! 2 AND 0x1F, bs ! 3, bs ! 4 AND 0x3F, bs ! 5 AND 0x3F, 0, 0]
      else if m = 251 then [bs ! 0, bs ! 1, bs ! 2, bs ! 3, 0x00, 0x0F]
      else bs)"

lemma decode_ref_main:
  "dpt_main d = 1 \<Longrightarrow> decode_ref d bs = guard_res (length bs \<noteq> 1) (dpt_error d) (Ok (V_Bool bs))"
  "dpt_main d = 2 \<Longrightarrow> decode_ref d bs = guard_res (length bs \<noteq> 1) (dpt_error d) (Ok (V_Control2 bs))"
  "dpt_main d = 3 \<Longrightarrow> decode_ref d bs = guard_res (length bs \<noteq> 1) (dpt_error d) (Ok (V_Control bs))"
  "dpt_main d = 5 \<Longrightarrow> decode_ref d bs = guard_res (length bs \<noteq> 1) (dpt_error d) (Ok (V_U8 bs))"
  "dpt_main d = 6 \<Longrightarrow> decode_ref d bs = guard_res (length bs \<noteq> 1) (dpt_error d) (Ok (V_I8 bs))"
  "dpt_main d = 7 \<Longrightarrow> decode_ref d bs = guard_res (length bs \<noteq> 2) (dpt_error d) (Ok (V_U16 bs))"
  "dpt_main d = 8 \<Longrightarrow> decode_ref d bs = guard_res (length bs \<noteq> 2) (dpt_error d) (Ok (V_I16 bs))"
  "dpt_main d = 9 \<Longrightarrow> decode_ref d bs = guard_res (length bs \<noteq> 2) (dpt_error d) (Ok (V_Float2Byte bs))"
  "dpt_main d = 10 \<Longrightarrow> decode_ref d bs = guard_res (length bs \<noteq> 3) (dpt_error d) (Ok (V_Time bs))"
  "dpt_main d = 11 \<Longrightarrow> decode_ref d bs = guard_res (length bs \<noteq> 3) (dpt_error d) (Ok (V_Date bs))"
  "dpt_main d = 12 \<Longrightarrow> decode_ref d bs = guard_res (length bs \<noteq> 4) (dpt_error d) (Ok (V_U32 bs))"
  "dpt_main d = 13 \<Longrightarrow> decode_ref d bs = guard_res (length bs \<noteq> 4) (dpt_error d) (Ok (V_I32 bs))"
  "dpt_main d = 14 \<Longrightarrow> decode_ref d bs = guard_res (length bs \<noteq> 4) (dpt_error d) (Ok (V_Float4Byte bs))"
  "dpt_main d = 16 \<Longrightarrow> decode_ref d bs = guard_res (length bs \<noteq> 14) (dpt_error d) (Ok (V_Str bs))"
  "dpt_main d = 17 \<Longrightarrow> decode_ref d bs = guard_res (length bs \<noteq> 1) (dpt_error d) (Ok (V_Scene bs))"
  "dpt_main d = 18 \<Longrightarrow> decode_ref d bs = guard_res (length bs \<noteq> 1) (dpt_error d) (Ok (V_Scene bs))"
  "dpt_main d = 19 \<Longrightarrow> decode_ref d bs = guard_res (length bs \<noteq> 8) (dpt_error d) (Ok (V_DateTime bs))"
  "dpt_main d = 20 \<Longrightarrow> decode_ref d bs = guard_res (length bs \<noteq> 1) (dpt_error d) (Ok (V_Enum bs))"
  "dpt_main d = 29 \<Longrightarrow> decode_ref d bs = guard_res (length bs \<noteq> 8) (dpt_error d) (Ok (V_I64 bs))"
  "dpt_main d = 232 \<Longrightarrow> decode_ref d bs = guard_res (length bs \<noteq> 3) (dpt_error d) (Ok (V_Rgb bs))"
  "dpt_main d = 235 \<Longrightarrow> decode_ref d bs = Err (dpt_error d)"
  "dpt_main d = 242 \<Longrightarrow> decode_ref d bs = guard_res (length bs \<noteq> 6) (dpt_error d) (Ok (V_Xyy bs))"
  "dpt_main d = 251 \<Longrightarrow> decode_ref d bs = guard_res (length bs \<noteq> 6) (dpt_error d) (Ok (V_Rgbw bs))"
  by (simp_all add: decode_ref_def byte_length_def Let_def guard_res_def)

lemma dpt_valid_main_cases:
  assumes "dpt_valid d"
  obtains "dpt_main d = 1" | "dpt_main d = 2" | "dpt_main d = 3" | "dpt_main d = 5" | "dpt_main d = 6"
    | "dpt_main d = 7" | "dpt_main d = 8" | "dpt_main d = 9" | "dpt_main d = 10" | "dpt_main d = 11"
    | "dpt_main d = 12" | "dpt_main d = 13" | "dpt_main d = 14" | "dpt_main d = 16" | "dpt_main d = 17"
    | "dpt_main d = 18" | "dpt_main d = 19" | "dpt_main d = 20" | "dpt_main d = 29" | "dpt_main d = 232"
    | "dpt_main d = 235" | "dpt_main d = 242" | "dpt_main d = 251"
  using dpt_main_cases [OF assms] by fastforce

lemma decode_ref_ok_iff:
  "dpt_valid d \<Longrightarrow> (\<exists>v. decode_ref d bs = Ok v) \<longleftrightarrow> length bs = byte_length d \<and> dpt_main d \<noteq> 235"
  by (erule dpt_valid_main_cases) (simp_all add: decode_ref_main byte_length_def)

lemma decode_ref_raw: "decode_ref d bs = Ok v \<Longrightarrow> dpt_main d \<noteq> 235 \<Longrightarrow> view_raw v = bs"
  by (auto simp: decode_ref_def Let_def split: if_splits)

lemma decode_ref_no_panic: "decode_ref d bs \<noteq> Panic"
  by (simp add: decode_ref_def Let_def)

lemmas view_defs =
  byte_at_def word_at_def BoolView_value_def ControlView_step_def ControlView_step_code_def
  Control2View_control_def Control2View_value_def U8View_value_def I8View_value_def U16View_value_def
  I16View_value_def U32View_value_def I32View_value_def I64View_value_def Float2ByteView_as_f64_def
  Float4ByteView_as_f64_def TimeView_day_def TimeView_hour_def TimeView_minute_def TimeView_second_def
  DateView_day_def DateView_month_def DateView_year_def DateTimeView_year_def DateTimeView_month_def
  DateTimeView_day_def DateTimeView_day_of_week_def DateTimeView_hour_def DateTimeView_minute_def
  DateTimeView_second_def SceneView_scene_number_def SceneView_learn_def EnumView_value_def
  color_byte_def XyyView_x_def XyyView_y_def XyyView_brightness_def

text \<open>Whatever was decoded can be read: no accessor indexes outside the bytes of its view.\<close>

lemma decoded_payload:
  assumes "decode_ref d bs = Ok v" "dpt_valid d"
  shows "\<exists>p. payload_of_view v = (Ok p :: dpt_payload result)"
  using assms(2)
  by (rule dpt_valid_main_cases)
     (use assms(1) in \<open>force simp: decode_ref_main view_defs\<close>)+

end
