(* ===== verification/Dpt_Values.thy ===== *)
theory Dpt_Values
  imports Dpt_View Codec
begin

text \<open>
  The typed datapoint values, \<open>src/protocol/dpt/dpt*.rs\<close>: one struct per base type with its constructor,
  accessors, \<open>from_bytes\<close>, \<open>as_bytes\<close> and \<open>validate\<close>.

  \<^item> A struct whose only field is a byte array is its list of bytes.  The length check, the same in
    every \<open>from_bytes\<close>, is \<open>check_len\<close> with the DPT number that the error carries.
  \<^item> A struct with decoded fields is a record of these fields and of the encoded \<open>data\<close>.
  \<^item> The trait \<open>DptValue\<close> is the record \<open>dpt_value\<close> of its constants and functions; \<open>decode\<close> and \<open>encode\<close>
    have the bodies of their defaults.  Every struct has its instance.
  \<^item> Text of DPT 16 is a list of Unicode code points, since its encoders work on \<open>char\<close>s.

  The locale \<open>dpt_codec\<close> is the contract of an instance: inputs of a wrong length are refused with the
  number of the type, nothing panics, the encoding has the declared length, and what was decoded is
  recovered from its encoding.  Every instance is shown to meet it.
\<close>

section \<open>The trait\<close>

record 'a dpt_value =
  dv_number :: string
  dv_value_type :: string
  dv_byte_length :: nat
  dv_from_bytes :: "bytes \<Rightarrow> 'a result"
  dv_as_bytes :: "'a \<Rightarrow> bytes"
  dv_validate :: "'a \<Rightarrow> unit result"

definition dv_decode :: "'a dpt_value \<Rightarrow> bytes \<Rightarrow> 'a result" where
  "dv_decode D bytes = dv_from_bytes D bytes"

definition dv_encode :: "'a dpt_value \<Rightarrow> 'a \<Rightarrow> bytes result" where
  "dv_encode D v = Ok (dv_as_bytes D v)"

text \<open>The wrapper \<open>Dpt<T>\<close>.\<close>

definition Dpt_new :: "'a dpt_value \<Rightarrow> 'a \<Rightarrow> 'a result" where
  "Dpt_new D v = bind_res (dv_validate D v) (\<lambda>_. Ok v)"

definition Dpt_decode :: "'a dpt_value \<Rightarrow> bytes \<Rightarrow> 'a result" where
  "Dpt_decode D bytes = bind_res (dv_decode D bytes) (Dpt_new D)"

text \<open>
  The macro \<open>dpt_alias!\<close>: a new type around a base type, with its own number and value type.  Its
  functions are those of the base type, whose number the errors keep.
\<close>

definition dpt_alias :: "string \<Rightarrow> string \<Rightarrow> 'a dpt_value \<Rightarrow> 'a dpt_value" where
  "dpt_alias num ty D = D\<lparr>dv_number := num, dv_value_type := ty\<rparr>"

abbreviation err_dpt :: "string \<Rightarrow> knx_error" where
  "err_dpt num \<equiv> Protocol (DptError num)"

definition check_len :: "string \<Rightarrow> nat \<Rightarrow> bytes \<Rightarrow> 'a result \<Rightarrow> 'a result" where
  "check_len num n bytes k = guard_res (length bytes \<noteq> n) (err_dpt num) k"

section \<open>Types that are a byte array\<close>

definition Switch_new :: "bool \<Rightarrow> bytes" where
  "Switch_new v = [of_bool v]"

definition Switch_value :: "bytes \<Rightarrow> bool" where
  "Switch_value s = (s ! 0 AND 0x01 \<noteq> 0)"

definition Switch_validate :: "bytes \<Rightarrow> unit result" where
  "Switch_validate s = guard_res (s ! 0 > 1) (err_dpt ''1.001'') (Ok ())"

definition Switch_from_bytes :: "bytes \<Rightarrow> bytes result" where
  "Switch_from_bytes bytes =
     check_len ''1.001'' 1 bytes
       (bind_res (idx bytes 0) (\<lambda>b. bind_res (Switch_validate [b]) (\<lambda>_. Ok [b])))"

definition BinaryControl_new :: "bool \<Rightarrow> bool \<Rightarrow> bytes" where
  "BinaryControl_new c v = [push_bit 1 (of_bool c) OR of_bool v]"

definition BinaryControl_control :: "bytes \<Rightarrow> bool" where
  "BinaryControl_control s = (s ! 0 AND 0x02 \<noteq> 0)"

definition BinaryControl_value :: "bytes \<Rightarrow> bool" where
  "BinaryControl_value s = (s ! 0 AND 0x01 \<noteq> 0)"

definition BinaryControl_validate :: "bytes \<Rightarrow> unit result" where
  "BinaryControl_validate s = guard_res (s ! 0 > 0x03) (err_dpt ''2.001'') (Ok ())"

definition BinaryControl_from_bytes :: "bytes \<Rightarrow> bytes result" where
  "BinaryControl_from_bytes bytes =
     check_len ''2.001'' 1 bytes
       (bind_res (idx bytes 0) (\<lambda>b. bind_res (BinaryControl_validate [b]) (\<lambda>_. Ok [b])))"

text \<open>\<open>ControlDimming\<close> and \<open>ControlBlinds\<close> differ only in their number.\<close>

definition Control_new :: "string \<Rightarrow> bool \<Rightarrow> u8 \<Rightarrow> bytes result" where
  "Control_new num c step_code =
     guard_res (step_code > 7) (err_dpt num) (Ok [(if c then 0x08 else 0x00) OR (step_code AND 0x07)])"

definition ControlDimming_new :: "bool \<Rightarrow> u8 \<Rightarrow> bytes result" where
  "ControlDimming_new = Control_new ''3.007''"

definition ControlBlinds_new :: "bool \<Rightarrow> u8 \<Rightarrow> bytes result" where
  "ControlBlinds_new = Control_new ''3.008''"

definition Control_control :: "bytes \<Rightarrow> bool" where
  "Control_control s = (s ! 0 AND 0x08 \<noteq> 0)"

definition Control_step_code :: "bytes \<Rightarrow> u8" where
  "Control_step_code s = s ! 0 AND 0x07"

text \<open>\<open>from_bytes\<close> of a type that copies its bytes unchecked.\<close>

definition array_from_bytes :: "string \<Rightarrow> nat \<Rightarrow> bytes \<Rightarrow> bytes result" where
  "array_from_bytes num n bytes = check_len num n bytes (slice bytes 0 n)"

definition Scaling_new :: "u8 \<Rightarrow> bytes" where
  "Scaling_new v = [v]"

definition Scaling_value :: "bytes \<Rightarrow> u8" where
  "Scaling_value s = s ! 0"

definition PercentV8_new :: "u8 \<Rightarrow> bytes" where
  "PercentV8_new v = [v]"

definition PercentV8_value :: "bytes \<Rightarrow> u8" where
  "PercentV8_value s = s ! 0"

definition Value2ByteUnsigned_new :: "u16 \<Rightarrow> bytes" where
  "Value2ByteUnsigned_new v = to_be 2 v"

definition Value2ByteUnsigned_value :: "bytes \<Rightarrow> u16" where
  "Value2ByteUnsigned_value s = from_be s"

definition Value2ByteSigned_new :: "u16 \<Rightarrow> bytes" where
  "Value2ByteSigned_new v = to_be 2 v"

definition Value2ByteSigned_value :: "bytes \<Rightarrow> u16" where
  "Value2ByteSigned_value s = from_be s"

definition DPTPercentV16_new :: "f64 \<Rightarrow> bytes result" where
  "DPTPercentV16_new v =
     guard_res (\<not> is_finite v) (err_dpt ''8.010'')
       (let raw = fp_to_int (- (2 ^ 31)) (2 ^ 31 - 1) (fp_div binary64 v (fp_lit binary64 (1 / 100))) in
        guard_res (raw < - 32768 \<or> 32767 < raw) (err_dpt ''8.010'') (Ok (to_be 2 (word_of_int raw :: u16))))"

definition DPTPercentV16_value :: "bytes \<Rightarrow> f64" where
  "DPTPercentV16_value s =
     fp_mul binary64 (fp_of_int binary64 (sint (from_be s :: u16))) (fp_lit binary64 (1 / 100))"

definition Value4ByteUnsigned_new :: "u32 \<Rightarrow> bytes" where
  "Value4ByteUnsigned_new v = to_be 4 v"

definition Value4ByteUnsigned_value :: "bytes \<Rightarrow> u32" where
  "Value4ByteUnsigned_value s = from_be s"

definition Value4ByteSigned_new :: "u32 \<Rightarrow> bytes" where
  "Value4ByteSigned_new v = to_be 4 v"

definition Value4ByteSigned_value :: "bytes \<Rightarrow> u32" where
  "Value4ByteSigned_value s = from_be s"

definition Dpt14Float_new :: "f32 \<Rightarrow> bytes result" where
  "Dpt14Float_new v = guard_res (\<not> is_finite v) (err_dpt ''14.000'') (Ok (to_be 4 (f32_to_bits v)))"

definition Dpt14Float_value :: "bytes \<Rightarrow> f32" where
  "Dpt14Float_value s = f32_from_bits (from_be s)"

definition Dpt14Float_validate :: "bytes \<Rightarrow> unit result" where
  "Dpt14Float_validate s = guard_res (\<not> is_finite (Dpt14Float_value s)) (err_dpt ''14.000'') (Ok ())"

section \<open>Structured types\<close>

record time_of_day =
  td_day :: u8
  td_hour :: u8
  td_minute :: u8
  td_second :: u8
  td_data :: bytes

definition TimeOfDay_validate :: "time_of_day \<Rightarrow> unit result" where
  "TimeOfDay_validate t =
     guard_res (td_day t > 7) (err_dpt ''10.001'')
     (guard_res (td_hour t > 23) (err_dpt ''10.001'')
     (guard_res (td_minute t > 59) (err_dpt ''10.001'')
     (guard_res (td_second t > 59) (err_dpt ''10.001'') (Ok ()))))"

definition TimeOfDay_new :: "u8 \<Rightarrow> u8 \<Rightarrow> u8 \<Rightarrow> u8 \<Rightarrow> time_of_day result" where
  "TimeOfDay_new day hour minute second =
     (let v = \<lparr>td_day = day, td_hour = hour, td_minute = minute, td_second = second,
               td_data = [push_bit 5 day OR hour, minute, second]\<rparr> in
      bind_res (TimeOfDay_validate v) (\<lambda>_. Ok v))"

definition TimeOfDay_decode :: "bytes \<Rightarrow> time_of_day result" where
  "TimeOfDay_decode bytes =
     check_len ''10.001'' 3 bytes
       (bind_res (idx bytes 0) (\<lambda>b0. bind_res (idx bytes 1) (\<lambda>b1. bind_res (idx bytes 2) (\<lambda>b2.
        TimeOfDay_new (drop_bit 5 b0 AND 0x07) (b0 AND 0x1F) (b1 AND 0x3F) (b2 AND 0x3F)))))"

record date =
  da_day :: u8
  da_month :: u8
  da_year :: u8
  da_data :: bytes

definition Date_validate :: "date \<Rightarrow> unit result" where
  "Date_validate t =
     guard_res (da_day t = 0 \<or> da_day t > 31) (err_dpt ''11.001'')
     (guard_res (da_month t = 0 \<or> da_month t > 12) (err_dpt ''11.001'')
     (guard_res (da_year t > 99) (err_dpt ''11.001'') (Ok ())))"

definition Date_new :: "u8 \<Rightarrow> u8 \<Rightarrow> u8 \<Rightarrow> date result" where
  "Date_new day month year =
     (let v = \<lparr>da_day = day, da_month = month, da_year = year, da_data = [day, month, year]\<rparr> in
      bind_res (Date_validate v) (\<lambda>_. Ok v))"

definition Date_decode :: "bytes \<Rightarrow> date result" where
  "Date_decode bytes =
     check_len ''11.001'' 3 bytes
       (bind_res (idx bytes 0) (\<lambda>b0. bind_res (idx bytes 1) (\<lambda>b1. bind_res (idx bytes 2) (\<lambda>b2.
        Date_new (b0 AND 0x1F) (b1 AND 0x0F) (b2 AND 0x7F)))))"

text \<open>DPT 16: a text is a list of code points; the payload is always 14 bytes.\<close>

record dpt_string =
  ds_value :: "nat list"
  ds_payload :: bytes

definition validate_string_length :: "nat list \<Rightarrow> string \<Rightarrow> unit result" where
  "validate_string_length s num = guard_res (length s > 14) (err_dpt num) (Ok ())"

definition pad_payload :: "bytes \<Rightarrow> bytes" where
  "pad_payload bs = bs @ replicate (14 - length bs) 0"

definition encode_ascii_payload :: "nat list \<Rightarrow> bytes result" where
  "encode_ascii_payload s =
     bind_res (validate_string_length s ''16.000'') (\<lambda>_.
     Ok (pad_payload (map (\<lambda>c. if c < 128 then word_of_nat c else 63) s)))"

definition encode_latin1_payload :: "nat list \<Rightarrow> bytes result" where
  "encode_latin1_payload s =
     bind_res (validate_string_length s ''16.001'') (\<lambda>_.
     Ok (pad_payload (map (\<lambda>c. if c \<le> 0xFF then word_of_nat c else 63) s)))"

definition decode_ascii_value :: "bytes \<Rightarrow> nat list" where
  "decode_ascii_value bytes = map (\<lambda>b. if b < 128 then unat b else 0xFFFD) (filter (\<lambda>b. b \<noteq> 0) bytes)"

definition decode_latin1_value :: "bytes \<Rightarrow> nat list" where
  "decode_latin1_value bytes = map unat (filter (\<lambda>b. b \<noteq> 0) bytes)"

definition StringAscii_new :: "nat list \<Rightarrow> dpt_string result" where
  "StringAscii_new s =
     bind_res (encode_ascii_payload s) (\<lambda>p. Ok \<lparr>ds_value = s, ds_payload = p\<rparr>)"

definition StringAscii_decode :: "bytes \<Rightarrow> dpt_string result" where
  "StringAscii_decode bytes =
     check_len ''16.000'' 14 bytes (Ok \<lparr>ds_value = decode_ascii_value bytes, ds_payload = bytes\<rparr>)"

definition StringAscii_validate :: "dpt_string \<Rightarrow> unit result" where
  "StringAscii_validate v = validate_string_length (ds_value v) ''16.000''"

definition StringLatin1_new :: "nat list \<Rightarrow> dpt_string result" where
  "StringLatin1_new s =
     bind_res (encode_latin1_payload s) (\<lambda>p. Ok \<lparr>ds_value = s, ds_payload = p\<rparr>)"

definition StringLatin1_decode :: "bytes \<Rightarrow> dpt_string result" where
  "StringLatin1_decode bytes =
     check_len ''16.001'' 14 bytes (Ok \<lparr>ds_value = decode_latin1_value bytes, ds_payload = bytes\<rparr>)"

definition StringLatin1_validate :: "dpt_string \<Rightarrow> unit result" where
  "StringLatin1_validate v = validate_string_length (ds_value v) ''16.001''"

record scene_number =
  sn_scene_number :: u8
  sn_data :: bytes

definition SceneNumber_new :: "u8 \<Rightarrow> scene_number result" where
  "SceneNumber_new n =
     guard_res (\<not> (1 \<le> n \<and> n \<le> 64)) (err_dpt ''17.001'')
       (Ok \<lparr>sn_scene_number = n, sn_data = [n - 1]\<rparr>)"

definition SceneNumber_decode :: "bytes \<Rightarrow> scene_number result" where
  "SceneNumber_decode bytes =
     check_len ''17.001'' 1 bytes
       (bind_res (idx bytes 0) (\<lambda>b.
        let n = (b AND 0x3F) + 1 in Ok \<lparr>sn_scene_number = n, sn_data = [n - 1]\<rparr>))"

definition SceneNumber_validate :: "scene_number \<Rightarrow> unit result" where
  "SceneNumber_validate v =
     guard_res (\<not> (1 \<le> sn_scene_number v \<and> sn_scene_number v \<le> 64)) (err_dpt ''17.001'') (Ok ())"

record scene_control =
  sc_scene_number :: u8
  sc_learn :: bool
  sc_data :: bytes

definition SceneControl_new :: "u8 \<Rightarrow> bool \<Rightarrow> scene_control result" where
  "SceneControl_new n learn =
     guard_res (\<not> (1 \<le> n \<and> n \<le> 64)) (err_dpt ''18.001'')
       (let byte = (if learn then (n - 1) OR 0x80 else n - 1) in
        Ok \<lparr>sc_scene_number = n, sc_learn = learn, sc_data = [byte]\<rparr>)"

definition SceneControl_decode :: "bytes \<Rightarrow> scene_control result" where
  "SceneControl_decode bytes =
     check_len ''18.001'' 1 bytes
       (bind_res (idx bytes 0) (\<lambda>b.
        Ok \<lparr>sc_scene_number = (b AND 0x3F) + 1, sc_learn = (b AND 0x80 \<noteq> 0), sc_data = [b]\<rparr>))"

definition SceneControl_validate :: "scene_control \<Rightarrow> unit result" where
  "SceneControl_validate v =
     guard_res (\<not> (1 \<le> sc_scene_number v \<and> sc_scene_number v \<le> 64)) (err_dpt ''18.001'') (Ok ())"

record hvac =
  hv_value :: u8
  hv_data :: bytes

definition HVACMode_new :: "u8 \<Rightarrow> hvac result" where
  "HVACMode_new v = guard_res (v > 4) (err_dpt ''20.102'') (Ok \<lparr>hv_value = v, hv_data = [v]\<rparr>)"

definition HVACMode_decode :: "bytes \<Rightarrow> hvac result" where
  "HVACMode_decode bytes = check_len ''20.102'' 1 bytes (bind_res (idx bytes 0) HVACMode_new)"

definition HVACMode_validate :: "hvac \<Rightarrow> unit result" where
  "HVACMode_validate v = guard_res (hv_value v > 4) (err_dpt ''20.102'') (Ok ())"

definition HVACControllerMode_new :: "u8 \<Rightarrow> hvac result" where
  "HVACControllerMode_new v =
     guard_res (v > 17 \<and> v \<noteq> 20) (err_dpt ''20.105'') (Ok \<lparr>hv_value = v, hv_data = [v]\<rparr>)"

definition HVACControllerMode_decode :: "bytes \<Rightarrow> hvac result" where
  "HVACControllerMode_decode bytes =
     check_len ''20.105'' 1 bytes (bind_res (idx bytes 0) HVACControllerMode_new)"

definition HVACControllerMode_validate :: "hvac \<Rightarrow> unit result" where
  "HVACControllerMode_validate v =
     guard_res (hv_value v > 17 \<and> hv_value v \<noteq> 20) (err_dpt ''20.105'') (Ok ())"

record energy8 =
  e8_value :: u64
  e8_data :: bytes

definition ActiveEnergy8Byte_new :: "u64 \<Rightarrow> energy8" where
  "ActiveEnergy8Byte_new v = \<lparr>e8_value = v, e8_data = to_be 8 v\<rparr>"

definition ActiveEnergy8Byte_decode :: "bytes \<Rightarrow> energy8 result" where
  "ActiveEnergy8Byte_decode bytes =
     check_len ''29.010'' 8 bytes (bind_res (word_at bytes 0 8) (\<lambda>v. Ok (ActiveEnergy8Byte_new v)))"

record color_rgb =
  rgb_red :: u8
  rgb_green :: u8
  rgb_blue :: u8
  rgb_data :: bytes

definition ColorRGB_new :: "u8 \<Rightarrow> u8 \<Rightarrow> u8 \<Rightarrow> color_rgb" where
  "ColorRGB_new r g b = \<lparr>rgb_red = r, rgb_green = g, rgb_blue = b, rgb_data = [r, g, b]\<rparr>"

definition ColorRGB_decode :: "bytes \<Rightarrow> color_rgb result" where
  "ColorRGB_decode bytes =
     check_len ''232.600'' 3 bytes
       (bind_res (idx bytes 0) (\<lambda>r. bind_res (idx bytes 1) (\<lambda>g. bind_res (idx bytes 2) (\<lambda>b.
        Ok (ColorRGB_new r g b)))))"

record tariff_energy =
  te_tariff :: u8
  te_energy :: u32
  te_tariff_valid :: bool
  te_energy_valid :: bool
  te_data :: bytes

definition TariffActiveEnergy_new_with_validity ::
  "u32 \<Rightarrow> u8 \<Rightarrow> bool \<Rightarrow> bool \<Rightarrow> tariff_energy" where
  "TariffActiveEnergy_new_with_validity energy tariff energy_valid tariff_valid =
     \<lparr>te_tariff = tariff, te_energy = energy, te_tariff_valid = tariff_valid,
      te_energy_valid = energy_valid,
      te_data = (if energy_valid then to_be 4 energy else [0, 0, 0, 0]) @
        [if tariff_valid then tariff else 0,
         push_bit 1 (of_bool (\<not> energy_valid)) OR of_bool (\<not> tariff_valid)]\<rparr>"

definition TariffActiveEnergy_new :: "u32 \<Rightarrow> u8 \<Rightarrow> tariff_energy" where
  "TariffActiveEnergy_new energy tariff = TariffActiveEnergy_new_with_validity energy tariff True True"

definition TariffActiveEnergy_decode :: "bytes \<Rightarrow> tariff_energy result" where
  "TariffActiveEnergy_decode bytes =
     check_len ''235.001'' 6 bytes
       (bind_res (word_at bytes 0 4) (\<lambda>energy. bind_res (idx bytes 4) (\<lambda>tariff. bind_res (idx bytes 5) (\<lambda>fl.
        Ok (TariffActiveEnergy_new_with_validity energy tariff
              (drop_bit 1 fl AND 0x01 = 0) (fl AND 0x01 = 0))))))"

record color_xyy =
  xy_x :: u16
  xy_y :: u16
  xy_brightness :: u8
  xy_color_valid :: bool
  xy_brightness_valid :: bool
  xy_data :: bytes

definition ColorXYY_new_with_validity ::
  "u16 \<Rightarrow> u16 \<Rightarrow> u8 \<Rightarrow> bool \<Rightarrow> bool \<Rightarrow> color_xyy" where
  "ColorXYY_new_with_validity x y brightness color_valid brightness_valid =
     \<lparr>xy_x = x, xy_y = y, xy_brightness = brightness, xy_color_valid = color_valid,
      xy_brightness_valid = brightness_valid,
      xy_data = (if color_valid then to_be 2 x else [0, 0]) @ (if color_valid then to_be 2 y else [0, 0]) @
        [if brightness_valid then brightness else 0,
         push_bit 1 (of_bool color_valid) OR of_bool brightness_valid]\<rparr>"

definition ColorXYY_new :: "u16 \<Rightarrow> u16 \<Rightarrow> u8 \<Rightarrow> color_xyy" where
  "ColorXYY_new x y brightness = ColorXYY_new_with_validity x y brightness True True"

definition ColorXYY_decode :: "bytes \<Rightarrow> color_xyy result" where
  "ColorXYY_decode bytes =
     check_len ''242.600'' 6 bytes
       (bind_res (word_at bytes 0 2) (\<lambda>x. bind_res (word_at bytes 2 2) (\<lambda>y.
        bind_res (idx bytes 4) (\<lambda>br. bind_res (idx bytes 5) (\<lambda>fl.
        Ok (ColorXYY_new_with_validity x y br (drop_bit 1 fl AND 0x01 \<noteq> 0) (fl AND 0x01 \<noteq> 0)))))))"

record rgbw_validity =
  wv_red :: bool
  wv_green :: bool
  wv_blue :: bool
  wv_white :: bool

record color_rgbw =
  rw_red :: u8
  rw_green :: u8
  rw_blue :: u8
  rw_white :: u8
  rw_red_valid :: bool
  rw_green_valid :: bool
  rw_blue_valid :: bool
  rw_white_valid :: bool
  rw_data :: bytes

definition ColorRGBW_new_with_validity ::
  "u8 \<Rightarrow> u8 \<Rightarrow> u8 \<Rightarrow> u8 \<Rightarrow> rgbw_validity \<Rightarrow> color_rgbw" where
  "ColorRGBW_new_with_validity r g b w v =
     \<lparr>rw_red = r, rw_green = g, rw_blue = b, rw_white = w,
      rw_red_valid = wv_red v, rw_green_valid = wv_green v, rw_blue_valid = wv_blue v,
      rw_white_valid = wv_white v,
      rw_data = [if wv_red v then r else 0, if wv_green v then g else 0, if wv_blue v then b else 0,
        if wv_white v then w else 0, 0,
        push_bit 3 (of_bool (wv_red v)) OR push_bit 2 (of_bool (wv_green v)) OR
          push_bit 1 (of_bool (wv_blue v)) OR of_bool (wv_white v)]\<rparr>"

definition ColorRGBW_new :: "u8 \<Rightarrow> u8 \<Rightarrow> u8 \<Rightarrow> u8 \<Rightarrow> color_rgbw" where
  "ColorRGBW_new r g b w =
     ColorRGBW_new_with_validity r g b w
       \<lparr>wv_red = True, wv_green = True, wv_blue = True, wv_white = True\<rparr>"

definition ColorRGBW_decode :: "bytes \<Rightarrow> color_rgbw result" where
  "ColorRGBW_decode bytes =
     check_len ''251.600'' 6 bytes
       (bind_res (idx bytes 0) (\<lambda>r. bind_res (idx bytes 1) (\<lambda>g. bind_res (idx bytes 2) (\<lambda>b.
        bind_res (idx bytes 3) (\<lambda>w. bind_res (idx bytes 5) (\<lambda>fl.
        Ok (ColorRGBW_new_with_validity r g b w
              \<lparr>wv_red = (drop_bit 3 fl AND 0x01 \<noteq> 0), wv_green = (drop_bit 2 fl AND 0x01 \<noteq> 0),
               wv_blue = (drop_bit 1 fl AND 0x01 \<noteq> 0), wv_white = (fl AND 0x01 \<noteq> 0)\<rparr>)))))))"

record date_time_parts =
  dp_year :: u8
  dp_month :: u8
  dp_day :: u8
  dp_day_of_week :: u8
  dp_hour :: u8
  dp_minute :: u8
  dp_second :: u8

record date_time_flags =
  df_fault :: bool
  df_working_day :: bool
  df_no_wd :: bool
  df_no_year :: bool
  df_no_date :: bool
  df_no_dow :: bool
  df_no_time :: bool
  df_suti :: bool
  df_external_sync :: bool
  df_source_reliable :: bool

text \<open>The struct \<open>DateTime\<close> has the fields of \<open>DateTimeParts\<close>, those of \<open>DateTimeFlags\<close> and its data.\<close>

record date_time =
  dt_parts :: date_time_parts
  dt_flags :: date_time_flags
  dt_data :: bytes

definition DateTimeFlags_default :: date_time_flags where
  "DateTimeFlags_default =
     \<lparr>df_fault = False, df_working_day = False, df_no_wd = False, df_no_year = False,
      df_no_date = False, df_no_dow = False, df_no_time = False, df_suti = False,
      df_external_sync = False, df_source_reliable = False\<rparr>"

definition DateTime_validate :: "date_time \<Rightarrow> unit result" where
  "DateTime_validate t =
     (let p = dt_parts t; f = dt_flags t; e = err_dpt ''19.001'' in
      guard_res (\<not> df_no_date f \<and> (dp_month p = 0 \<or> dp_month p > 12)) e
      (guard_res (\<not> df_no_date f \<and> (dp_day p = 0 \<or> dp_day p > 31)) e
      (guard_res (\<not> df_no_dow f \<and> dp_day_of_week p > 7) e
      (guard_res (\<not> df_no_time f \<and> dp_hour p > 24) e
      (guard_res (\<not> df_no_time f \<and> dp_minute p > 59) e
      (guard_res (\<not> df_no_time f \<and> dp_second p > 59) e
      (guard_res (\<not> df_no_time f \<and> dp_hour p = 24 \<and> (dp_minute p \<noteq> 0 \<or> dp_second p \<noteq> 0)) e
      (Ok ()))))))))"

definition DateTime_flag_bytes :: "date_time_flags \<Rightarrow> bytes" where
  "DateTime_flag_bytes f =
     [push_bit 7 (of_bool (df_fault f)) OR push_bit 6 (of_bool (df_working_day f)) OR
        push_bit 5 (of_bool (df_no_wd f)) OR push_bit 4 (of_bool (df_no_year f)) OR
        push_bit 3 (of_bool (df_no_date f)) OR push_bit 2 (of_bool (df_no_dow f)) OR
        push_bit 1 (of_bool (df_no_time f)) OR of_bool (df_suti f),
      push_bit 7 (of_bool (df_external_sync f)) OR push_bit 6 (of_bool (df_source_reliable f))]"

definition DateTime_encode_data :: "date_time \<Rightarrow> bytes" where
  "DateTime_encode_data t =
     (let p = dt_parts t; f = dt_flags t;
          year = (if df_no_year f then 0 else dp_year p);
          month = (if df_no_date f then 0 else dp_month p);
          day = (if df_no_date f then 0 else dp_day p);
          dow = (if df_no_dow f then 0 else dp_day_of_week p);
          hour = (if df_no_time f then 0 else dp_hour p);
          minute = (if df_no_time f then 0 else dp_minute p);
          second = (if df_no_time f then 0 else dp_second p)
      in [year, month, day, push_bit 5 dow OR hour, minute, second] @ DateTime_flag_bytes f)"

definition DateTime_new_with_flags :: "date_time_parts \<Rightarrow> date_time_flags \<Rightarrow> date_time result" where
  "DateTime_new_with_flags parts flags =
     (let v = \<lparr>dt_parts = parts, dt_flags = flags, dt_data = replicate 8 0\<rparr> in
      bind_res (DateTime_validate v) (\<lambda>_. Ok (v\<lparr>dt_data := DateTime_encode_data v\<rparr>)))"

definition DateTime_new ::
  "u8 \<Rightarrow> u8 \<Rightarrow> u8 \<Rightarrow> u8 \<Rightarrow> u8 \<Rightarrow> u8 \<Rightarrow> u8 \<Rightarrow> date_time result" where
  "DateTime_new year month day day_of_week hour minute second =
     DateTime_new_with_flags
       \<lparr>dp_year = year, dp_month = month, dp_day = day, dp_day_of_week = day_of_week,
        dp_hour = hour, dp_minute = minute, dp_second = second\<rparr> DateTimeFlags_default"

definition DateTime_flags_of :: "u8 \<Rightarrow> u8 \<Rightarrow> date_time_flags" where
  "DateTime_flags_of fl b7 =
     \<lparr>df_fault = (fl AND 0x80 \<noteq> 0), df_working_day = (fl AND 0x40 \<noteq> 0), df_no_wd = (fl AND 0x20 \<noteq> 0),
      df_no_year = (fl AND 0x10 \<noteq> 0), df_no_date = (fl AND 0x08 \<noteq> 0), df_no_dow = (fl AND 0x04 \<noteq> 0),
      df_no_time = (fl AND 0x02 \<noteq> 0), df_suti = (fl AND 0x01 \<noteq> 0),
      df_external_sync = (b7 AND 0x80 \<noteq> 0), df_source_reliable = (b7 AND 0x40 \<noteq> 0)\<rparr>"

definition DateTime_decode :: "bytes \<Rightarrow> date_time result" where
  "DateTime_decode bytes =
     check_len ''19.001'' 8 bytes
       (bind_res (idx bytes 0) (\<lambda>b0. bind_res (idx bytes 1) (\<lambda>b1. bind_res (idx bytes 2) (\<lambda>b2.
        bind_res (idx bytes 3) (\<lambda>b3. bind_res (idx bytes 4) (\<lambda>b4. bind_res (idx bytes 5) (\<lambda>b5.
        bind_res (idx bytes 6) (\<lambda>b6. bind_res (idx bytes 7) (\<lambda>b7.
        let v = \<lparr>dt_parts = \<lparr>dp_year = b0, dp_month = b1 AND 0x0F, dp_day = b2 AND 0x1F,
                   dp_day_of_week = drop_bit 5 b3 AND 0x07, dp_hour = b3 AND 0x1F,
                   dp_minute = b4 AND 0x3F, dp_second = b5 AND 0x3F\<rparr>,
                 dt_flags = DateTime_flags_of b6 b7, dt_data = replicate 8 0\<rparr>
        in bind_res (DateTime_validate v) (\<lambda>_. Ok (v\<lparr>dt_data := DateTime_encode_data v\<rparr>)))))))))))"

section \<open>Instances\<close>

definition always_valid :: "'a \<Rightarrow> unit result" where
  "always_valid v = Ok ()"

text \<open>The instance of a type that copies its bytes and accepts all of them.\<close>

definition array_dpt :: "string \<Rightarrow> string \<Rightarrow> nat \<Rightarrow> bytes dpt_value" where
  "array_dpt num ty n =
     \<lparr>dv_number = num, dv_value_type = ty, dv_byte_length = n, dv_from_bytes = array_from_bytes num n,
      dv_as_bytes = (\<lambda>s. s), dv_validate = always_valid\<rparr>"

definition Switch_dpt :: "bytes dpt_value" where
  "Switch_dpt = (array_dpt ''1.001'' ''switch'' 1)
     \<lparr>dv_from_bytes := Switch_from_bytes, dv_validate := Switch_validate\<rparr>"

definition BinaryControl_dpt :: "bytes dpt_value" where
  "BinaryControl_dpt = (array_dpt ''2.001'' ''switch_control'' 1)
     \<lparr>dv_from_bytes := BinaryControl_from_bytes, dv_validate := BinaryControl_validate\<rparr>"

definition ControlDimming_dpt :: "bytes dpt_value" where
  "ControlDimming_dpt = array_dpt ''3.007'' ''control_dimming'' 1"

definition ControlBlinds_dpt :: "bytes dpt_value" where
  "ControlBlinds_dpt = array_dpt ''3.008'' ''control_blinds'' 1"

definition Scaling_dpt :: "bytes dpt_value" where
  "Scaling_dpt = array_dpt ''5.001'' ''scaling'' 1"

definition PercentV8_dpt :: "bytes dpt_value" where
  "PercentV8_dpt = array_dpt ''6.001'' ''percentV8'' 1"

definition Value1Count_dpt :: "bytes dpt_value" where
  "Value1Count_dpt = array_dpt ''6.010'' ''counter_pulses'' 1"

definition Value2ByteUnsigned_dpt :: "bytes dpt_value" where
  "Value2ByteUnsigned_dpt = array_dpt ''7.001'' ''value_2_byte_unsigned'' 2"

definition Brightness_dpt :: "bytes dpt_value" where
  "Brightness_dpt = array_dpt ''7.013'' ''brightness'' 2"

definition Value2ByteSigned_dpt :: "bytes dpt_value" where
  "Value2ByteSigned_dpt = array_dpt ''8.001'' ''value_2_byte_signed'' 2"

definition DPTPercentV16_dpt :: "bytes dpt_value" where
  "DPTPercentV16_dpt = array_dpt ''8.010'' ''percentV16'' 2"

definition Value4ByteUnsigned_dpt :: "bytes dpt_value" where
  "Value4ByteUnsigned_dpt = array_dpt ''12.001'' ''value_4_byte_unsigned'' 4"

definition Value4ByteSigned_dpt :: "bytes dpt_value" where
  "Value4ByteSigned_dpt = array_dpt ''13.001'' ''value_4_byte_signed'' 4"

definition ActiveEnergy_dpt :: "bytes dpt_value" where
  "ActiveEnergy_dpt = array_dpt ''13.010'' ''active_energy'' 4"

definition Dpt14Float_dpt :: "bytes dpt_value" where
  "Dpt14Float_dpt = (array_dpt ''14.000'' ''acceleration'' 4)\<lparr>dv_validate := Dpt14Float_validate\<rparr>"

definition TimeOfDay_dpt :: "time_of_day dpt_value" where
  "TimeOfDay_dpt =
     \<lparr>dv_number = ''10.001'', dv_value_type = ''time'', dv_byte_length = 3,
      dv_from_bytes = TimeOfDay_decode, dv_as_bytes = td_data, dv_validate = TimeOfDay_validate\<rparr>"

definition Date_dpt :: "date dpt_value" where
  "Date_dpt =
     \<lparr>dv_number = ''11.001'', dv_value_type = ''date'', dv_byte_length = 3,
      dv_from_bytes = Date_decode, dv_as_bytes = da_data, dv_validate = Date_validate\<rparr>"

definition StringAscii_dpt :: "dpt_string dpt_value" where
  "StringAscii_dpt =
     \<lparr>dv_number = ''16.000'', dv_value_type = ''string'', dv_byte_length = 14,
      dv_from_bytes = StringAscii_decode, dv_as_bytes = ds_payload, dv_validate = StringAscii_validate\<rparr>"

definition StringLatin1_dpt :: "dpt_string dpt_value" where
  "StringLatin1_dpt =
     \<lparr>dv_number = ''16.001'', dv_value_type = ''latin_1'', dv_byte_length = 14,
      dv_from_bytes = StringLatin1_decode, dv_as_bytes = ds_payload, dv_validate = StringLatin1_validate\<rparr>"

definition SceneNumber_dpt :: "scene_number dpt_value" where
  "SceneNumber_dpt =
     \<lparr>dv_number = ''17.001'', dv_value_type = ''scene_number'', dv_byte_length = 1,
      dv_from_bytes = SceneNumber_decode, dv_as_bytes = sn_data, dv_validate = SceneNumber_validate\<rparr>"

definition SceneControl_dpt :: "scene_control dpt_value" where
  "SceneControl_dpt =
     \<lparr>dv_number = ''18.001'', dv_value_type = ''scene_control'', dv_byte_length = 1,
      dv_from_bytes = SceneControl_decode, dv_as_bytes = sc_data, dv_validate = SceneControl_validate\<rparr>"

definition DateTime_dpt :: "date_time dpt_value" where
  "DateTime_dpt =
     \<lparr>dv_number = ''19.001'', dv_value_type = ''datetime'', dv_byte_length = 8,
      dv_from_bytes = DateTime_decode, dv_as_bytes = dt_data, dv_validate = DateTime_validate\<rparr>"

definition HVACMode_dpt :: "hvac dpt_value" where
  "HVACMode_dpt =
     \<lparr>dv_number = ''20.102'', dv_value_type = ''hvac_mode'', dv_byte_length = 1,
      dv_from_bytes = HVACMode_decode, dv_as_bytes = hv_data, dv_validate = HVACMode_validate\<rparr>"

definition HVACControllerMode_dpt :: "hvac dpt_value" where
  "HVACControllerMode_dpt =
     \<lparr>dv_number = ''20.105'', dv_value_type = ''hvac_controller_mode'', dv_byte_length = 1,
      dv_from_bytes = HVACControllerMode_decode, dv_as_bytes = hv_data,
      dv_validate = HVACControllerMode_validate\<rparr>"

definition ActiveEnergy8Byte_dpt :: "energy8 dpt_value" where
  "ActiveEnergy8Byte_dpt =
     \<lparr>dv_number = ''29.010'', dv_value_type = ''active_energy_8byte'', dv_byte_length = 8,
      dv_from_bytes = ActiveEnergy8Byte_decode, dv_as_bytes = e8_data, dv_validate = always_valid\<rparr>"

definition ColorRGB_dpt :: "color_rgb dpt_value" where
  "ColorRGB_dpt =
     \<lparr>dv_number = ''232.600'', dv_value_type = ''color_rgb'', dv_byte_length = 3,
      dv_from_bytes = ColorRGB_decode, dv_as_bytes = rgb_data, dv_validate = always_valid\<rparr>"

definition TariffActiveEnergy_dpt :: "tariff_energy dpt_value" where
  "TariffActiveEnergy_dpt =
     \<lparr>dv_number = ''235.001'', dv_value_type = ''tariff_active_energy'', dv_byte_length = 6,
      dv_from_bytes = TariffActiveEnergy_decode, dv_as_bytes = te_data, dv_validate = always_valid\<rparr>"

definition ColorXYY_dpt :: "color_xyy dpt_value" where
  "ColorXYY_dpt =
     \<lparr>dv_number = ''242.600'', dv_value_type = ''color_xyy'', dv_byte_length = 6,
      dv_from_bytes = ColorXYY_decode, dv_as_bytes = xy_data, dv_validate = always_valid\<rparr>"

definition ColorRGBW_dpt :: "color_rgbw dpt_value" where
  "ColorRGBW_dpt =
     \<lparr>dv_number = ''251.600'', dv_value_type = ''color_rgbw'', dv_byte_length = 6,
      dv_from_bytes = ColorRGBW_decode, dv_as_bytes = rw_data, dv_validate = always_valid\<rparr>"

section \<open>The contract\<close>

locale dpt_codec =
  fixes D :: "'a dpt_value" and num :: string
  assumes wrong_length: "length bs \<noteq> dv_byte_length D \<Longrightarrow> dv_from_bytes D bs = Err (err_dpt num)"
    and no_panic: "dv_from_bytes D bs \<noteq> Panic"
    and error: "dv_from_bytes D bs = Err e \<Longrightarrow> e = err_dpt num"
    and encoded_length: "dv_from_bytes D bs = Ok v \<Longrightarrow> length (dv_as_bytes D v) = dv_byte_length D"
    and stable: "dv_from_bytes D bs = Ok v \<Longrightarrow>
      \<exists>w. dv_from_bytes D (dv_as_bytes D v) = Ok w \<and> dv_as_bytes D w = dv_as_bytes D v"
begin

lemma outcome:
  "(\<exists>v. dv_from_bytes D bs = Ok v) \<or> dv_from_bytes D bs = Err (err_dpt num)"
  using no_panic [of bs] error [of bs] by (cases "dv_from_bytes D bs") auto

lemma ok_length: "dv_from_bytes D bs = Ok v \<Longrightarrow> length bs = dv_byte_length D"
  using wrong_length by (metis res.distinct(1))

text \<open>Re-encoding is idempotent: the bytes of a decoded value are a fixed point.\<close>

lemma normal_form:
  assumes "dv_decode D bs = Ok v"
  shows "\<exists>w. dv_decode D (dv_as_bytes D v) = Ok w \<and> dv_encode D w = dv_encode D v"
  using stable [of bs v] assms by (simp add: dv_decode_def dv_encode_def)

end

text \<open>An alias has the same codec, so it meets the contract of its base type.\<close>

lemma dpt_alias_codec: "dpt_codec D num \<Longrightarrow> dpt_codec (dpt_alias n ty D) num"
  unfolding dpt_codec_def dpt_alias_def by simp

lemma array_dpt_codec: "dpt_codec (array_dpt num ty n) num"
  by unfold_locales
     (auto simp: array_dpt_def array_from_bytes_def check_len_def guard_res_def split: if_splits)

lemmas array_dpt_defs =
  ControlDimming_dpt_def ControlBlinds_dpt_def Scaling_dpt_def PercentV8_dpt_def Value1Count_dpt_def
  Value2ByteUnsigned_dpt_def Brightness_dpt_def Value2ByteSigned_dpt_def DPTPercentV16_dpt_def
  Value4ByteUnsigned_dpt_def Value4ByteSigned_dpt_def ActiveEnergy_dpt_def

interpretation ControlDimming: dpt_codec ControlDimming_dpt "''3.007''"
  unfolding array_dpt_defs by (rule array_dpt_codec)

interpretation ControlBlinds: dpt_codec ControlBlinds_dpt "''3.008''"
  unfolding array_dpt_defs by (rule array_dpt_codec)

interpretation Scaling: dpt_codec Scaling_dpt "''5.001''"
  unfolding array_dpt_defs by (rule array_dpt_codec)

interpretation PercentV8: dpt_codec PercentV8_dpt "''6.001''"
  unfolding array_dpt_defs by (rule array_dpt_codec)

interpretation Value1Count: dpt_codec Value1Count_dpt "''6.010''"
  unfolding array_dpt_defs by (rule array_dpt_codec)

interpretation Value2ByteUnsigned: dpt_codec Value2ByteUnsigned_dpt "''7.001''"
  unfolding array_dpt_defs by (rule array_dpt_codec)

interpretation Brightness: dpt_codec Brightness_dpt "''7.013''"
  unfolding array_dpt_defs by (rule array_dpt_codec)

interpretation Value2ByteSigned: dpt_codec Value2ByteSigned_dpt "''8.001''"
  unfolding array_dpt_defs by (rule array_dpt_codec)

interpretation DPTPercentV16: dpt_codec DPTPercentV16_dpt "''8.010''"
  unfolding array_dpt_defs by (rule array_dpt_codec)

interpretation Value4ByteUnsigned: dpt_codec Value4ByteUnsigned_dpt "''12.001''"
  unfolding array_dpt_defs by (rule array_dpt_codec)

interpretation Value4ByteSigned: dpt_codec Value4ByteSigned_dpt "''13.001''"
  unfolding array_dpt_defs by (rule array_dpt_codec)

interpretation ActiveEnergy: dpt_codec ActiveEnergy_dpt "''13.010''"
  unfolding array_dpt_defs by (rule array_dpt_codec)

interpretation Dpt14Float: dpt_codec Dpt14Float_dpt "''14.000''"
  using array_dpt_codec [of "''14.000''" "''acceleration''" 4]
  by (simp add: dpt_codec_def Dpt14Float_dpt_def)

lemmas check_defs = check_len_def guard_res_def idx_def

interpretation Switch: dpt_codec Switch_dpt "''1.001''"
  by unfold_locales
     (auto simp: Switch_dpt_def array_dpt_def Switch_from_bytes_def Switch_validate_def check_defs
       split: if_splits)

interpretation BinaryControl: dpt_codec BinaryControl_dpt "''2.001''"
  by unfold_locales
     (auto simp: BinaryControl_dpt_def array_dpt_def BinaryControl_from_bytes_def
       BinaryControl_validate_def check_defs split: if_splits)

interpretation StringAscii: dpt_codec StringAscii_dpt "''16.000''"
  by unfold_locales (auto simp: StringAscii_dpt_def StringAscii_decode_def check_defs split: if_splits)

interpretation StringLatin1: dpt_codec StringLatin1_dpt "''16.001''"
  by unfold_locales (auto simp: StringLatin1_dpt_def StringLatin1_decode_def check_defs split: if_splits)

interpretation SceneNumber: dpt_codec SceneNumber_dpt "''17.001''"
  by unfold_locales
     (auto simp: SceneNumber_dpt_def SceneNumber_decode_def check_defs Let_def split: if_splits)

interpretation SceneControl: dpt_codec SceneControl_dpt "''18.001''"
  by unfold_locales (auto simp: SceneControl_dpt_def SceneControl_decode_def check_defs split: if_splits)

interpretation HVACMode: dpt_codec HVACMode_dpt "''20.102''"
  by unfold_locales
     (auto simp: HVACMode_dpt_def HVACMode_decode_def HVACMode_new_def check_defs split: if_splits)

interpretation HVACControllerMode: dpt_codec HVACControllerMode_dpt "''20.105''"
  by unfold_locales
     (auto simp: HVACControllerMode_dpt_def HVACControllerMode_decode_def HVACControllerMode_new_def
       check_defs split: if_splits)

interpretation ActiveEnergy8Byte: dpt_codec ActiveEnergy8Byte_dpt "''29.010''"
  by unfold_locales
     (auto simp: ActiveEnergy8Byte_dpt_def ActiveEnergy8Byte_decode_def ActiveEnergy8Byte_new_def
       word_at_def check_defs from_be_to_be split: if_splits)

interpretation ColorRGB: dpt_codec ColorRGB_dpt "''232.600''"
  by unfold_locales
     (auto simp: ColorRGB_dpt_def ColorRGB_decode_def ColorRGB_new_def check_defs split: if_splits)

lemma dpt_codecI:
  assumes len: "\<And>bs. length bs \<noteq> dv_byte_length D \<Longrightarrow> dv_from_bytes D bs = Err (err_dpt num)"
    and body: "\<And>bs. length bs = dv_byte_length D \<Longrightarrow> dv_from_bytes D bs = Err (err_dpt num) \<or>
      (\<exists>v. dv_from_bytes D bs = Ok v \<and> length (dv_as_bytes D v) = dv_byte_length D \<and>
         (\<exists>w. dv_from_bytes D (dv_as_bytes D v) = Ok w \<and> dv_as_bytes D w = dv_as_bytes D v))"
  shows "dpt_codec D num"
proof
  fix bs
  have "dv_from_bytes D bs = Err (err_dpt num) \<or>
      (\<exists>v. dv_from_bytes D bs = Ok v \<and> length (dv_as_bytes D v) = dv_byte_length D \<and>
         (\<exists>w. dv_from_bytes D (dv_as_bytes D v) = Ok w \<and> dv_as_bytes D w = dv_as_bytes D v))"
    using len body by (cases "length bs = dv_byte_length D") auto
  then show "dv_from_bytes D bs \<noteq> Panic" "\<And>e. dv_from_bytes D bs = Err e \<Longrightarrow> e = err_dpt num"
    "\<And>v. dv_from_bytes D bs = Ok v \<Longrightarrow> length (dv_as_bytes D v) = dv_byte_length D"
    "\<And>v. dv_from_bytes D bs = Ok v \<Longrightarrow>
      \<exists>w. dv_from_bytes D (dv_as_bytes D v) = Ok w \<and> dv_as_bytes D w = dv_as_bytes D v"
    by auto
qed (rule len)

lemma TimeOfDay_decode_list:
  "TimeOfDay_decode [a, b, c] =
     TimeOfDay_new (drop_bit 5 a AND 0x07) (a AND 0x1F) (b AND 0x3F) (c AND 0x3F)"
  by (simp add: TimeOfDay_decode_def check_len_def)

lemma TimeOfDay_new_cases:
  "TimeOfDay_new d h m s = (if d \<le> 7 \<and> h \<le> 23 \<and> m \<le> 59 \<and> s \<le> 59 then
     Ok \<lparr>td_day = d, td_hour = h, td_minute = m, td_second = s,
         td_data = [push_bit 5 d OR h, m, s]\<rparr> else Err (err_dpt ''10.001''))"
  by (auto simp: TimeOfDay_new_def TimeOfDay_validate_def guard_res_def Let_def)

lemma day_hour_fields:
  "d \<le> 7 \<Longrightarrow> h \<le> 31 \<Longrightarrow> drop_bit 5 (push_bit 5 d OR h) AND 7 = d"
  "h \<le> 31 \<Longrightarrow> (push_bit 5 d OR h) AND 31 = h" for d h :: u8
proof -
  assume h: "h \<le> 31"
  then have hb: "\<not> bit h n" if "5 \<le> n" for n
    using bit_small [of h n 5] that by (auto simp: word_le_nat_alt)
  show "(push_bit 5 d OR h) AND 31 = h"
    using hb by (intro u8_eqI) (simp_all add: bit_simps bit_numeral_word_iff)
  assume d: "d \<le> 7"
  then have db: "\<not> bit d n" if "3 \<le> n" for n
    using that by simp
  show "drop_bit 5 (push_bit 5 d OR h) AND 7 = d"
    using hb db by (intro u8_eqI) (simp_all add: bit_simps bit_numeral_word_iff)
qed

lemma and_small [simp]:
  "m \<le> 59 \<Longrightarrow> m AND 63 = m" "y \<le> 99 \<Longrightarrow> y AND 127 = y" "o' \<le> 12 \<Longrightarrow> o' AND 15 = o'"
  "d \<le> 31 \<Longrightarrow> d AND 31 = d" for m y o' d :: u8
  by (simp_all add: codec_simps take_bit_small word_le_nat_alt)

lemma TimeOfDay_new_decode:
  assumes "TimeOfDay_new d h m s = Ok t"
  shows "TimeOfDay_decode (td_data t) = Ok t" "length (td_data t) = 3"
proof -
  have "d \<le> 7" "h \<le> 23" "m \<le> 59" "s \<le> 59"
    using assms by (simp_all add: TimeOfDay_new_cases split: if_splits)
  moreover from this have "h \<le> 31" by (simp add: word_le_nat_alt)
  moreover have t: "td_data t = [push_bit 5 d OR h, m, s]"
    using assms by (auto simp: TimeOfDay_new_cases split: if_splits)
  ultimately show "TimeOfDay_decode (td_data t) = Ok t"
    unfolding t TimeOfDay_decode_list by (simp only: day_hour_fields and_small assms)
  show "length (td_data t) = 3"
    by (simp add: t)
qed

interpretation TimeOfDay: dpt_codec TimeOfDay_dpt "''10.001''"
proof (rule dpt_codecI)
  fix bs :: bytes
  assume "length bs = dv_byte_length TimeOfDay_dpt"
  then obtain a b c where bs: "bs = [a, b, c]"
    by (auto simp: TimeOfDay_dpt_def elim: length_list_E)
  show "dv_from_bytes TimeOfDay_dpt bs = Err (err_dpt ''10.001'') \<or>
      (\<exists>v. dv_from_bytes TimeOfDay_dpt bs = Ok v \<and>
         length (dv_as_bytes TimeOfDay_dpt v) = dv_byte_length TimeOfDay_dpt \<and>
         (\<exists>w. dv_from_bytes TimeOfDay_dpt (dv_as_bytes TimeOfDay_dpt v) = Ok w \<and>
            dv_as_bytes TimeOfDay_dpt w = dv_as_bytes TimeOfDay_dpt v))"
    using TimeOfDay_new_decode [of "drop_bit 5 a AND 0x07" "a AND 0x1F" "b AND 0x3F" "c AND 0x3F"]
      TimeOfDay_new_cases [of "drop_bit 5 a AND 0x07" "a AND 0x1F" "b AND 0x3F" "c AND 0x3F"]
    by (simp add: bs TimeOfDay_dpt_def TimeOfDay_decode_list split: if_splits)
qed (simp add: TimeOfDay_dpt_def TimeOfDay_decode_def check_len_def)

lemma Date_decode_list: "Date_decode [a, b, c] = Date_new (a AND 0x1F) (b AND 0x0F) (c AND 0x7F)"
  by (simp add: Date_decode_def check_len_def)

lemma Date_new_cases:
  "Date_new d m y = (if d \<noteq> 0 \<and> d \<le> 31 \<and> m \<noteq> 0 \<and> m \<le> 12 \<and> y \<le> 99 then
     Ok \<lparr>da_day = d, da_month = m, da_year = y, da_data = [d, m, y]\<rparr> else Err (err_dpt ''11.001''))"
  by (auto simp: Date_new_def Date_validate_def guard_res_def Let_def not_less)

lemma Date_new_decode:
  assumes "Date_new d m y = Ok t"
  shows "Date_decode (da_data t) = Ok t" "length (da_data t) = 3"
proof -
  have "d \<le> 31" "m \<le> 12" "y \<le> 99" and t: "da_data t = [d, m, y]"
    using assms by (auto simp: Date_new_cases split: if_splits)
  then show "Date_decode (da_data t) = Ok t"
    unfolding t Date_decode_list by (simp only: and_small assms)
  show "length (da_data t) = 3"
    by (simp add: t)
qed

interpretation Date: dpt_codec Date_dpt "''11.001''"
proof (rule dpt_codecI)
  fix bs :: bytes
  assume "length bs = dv_byte_length Date_dpt"
  then obtain a b c where bs: "bs = [a, b, c]"
    by (auto simp: Date_dpt_def elim: length_list_E)
  show "dv_from_bytes Date_dpt bs = Err (err_dpt ''11.001'') \<or>
      (\<exists>v. dv_from_bytes Date_dpt bs = Ok v \<and>
         length (dv_as_bytes Date_dpt v) = dv_byte_length Date_dpt \<and>
         (\<exists>w. dv_from_bytes Date_dpt (dv_as_bytes Date_dpt v) = Ok w \<and>
            dv_as_bytes Date_dpt w = dv_as_bytes Date_dpt v))"
    using Date_new_decode [of "a AND 0x1F" "b AND 0x0F" "c AND 0x7F"]
      Date_new_cases [of "a AND 0x1F" "b AND 0x0F" "c AND 0x7F"]
    by (simp add: bs Date_dpt_def Date_decode_list split: if_splits)
qed (simp add: Date_dpt_def Date_decode_def check_len_def)

text \<open>Values with validity flags: the fields are kept as read, the encoding clears the invalid ones.\<close>

lemma length_4: "length xs = 4 \<Longrightarrow> \<exists>a b c d. xs = [a, b, c, d]"
  by (auto simp: numeral_eq_Suc length_Suc_conv)

lemma length_2: "length xs = 2 \<Longrightarrow> \<exists>a b. xs = [a, b]"
  by (auto simp: numeral_eq_Suc length_Suc_conv)

lemma to_be_4E:
  obtains a b c d where "to_be 4 (w :: u32) = [a, b, c, d]" "from_be [a, b, c, d] = w"
  using length_4 [OF length_to_be, of w] from_be_to_be [of 4 w] by auto

lemma to_be_2E: obtains a b where "to_be 2 (w :: u16) = [a, b]" "from_be [a, b] = w"
  using length_2 [OF length_to_be, of w] from_be_to_be [of 2 w] by auto

lemma from_be_zeros [simp]: "from_be [0, 0, 0, 0] = (0 :: u32)" "from_be [0, 0] = (0 :: u16)"
  by (simp_all add: from_be_def)

lemma TariffActiveEnergy_decode_list:
  "TariffActiveEnergy_decode [a, b, c, d, e, f] = Ok (TariffActiveEnergy_new_with_validity
     (from_be [a, b, c, d]) e (drop_bit 1 f AND 0x01 = 0) (f AND 0x01 = 0))"
  by (simp add: TariffActiveEnergy_decode_def check_len_def word_at_def)

lemma TariffActiveEnergy_new_decode:
  "TariffActiveEnergy_decode (te_data (TariffActiveEnergy_new_with_validity en ta p q)) =
     Ok (TariffActiveEnergy_new_with_validity (if p then en else 0) (if q then ta else 0) p q)"
proof -
  obtain a b c d where be: "to_be 4 en = [a, b, c, d]" "from_be [a, b, c, d] = en"
    by (rule to_be_4E)
  then show ?thesis
    by (cases p; cases q)
       (simp_all add: TariffActiveEnergy_new_with_validity_def TariffActiveEnergy_decode_list)
qed

interpretation TariffActiveEnergy: dpt_codec TariffActiveEnergy_dpt "''235.001''"
proof (rule dpt_codecI)
  fix bs :: bytes
  assume "length bs = dv_byte_length TariffActiveEnergy_dpt"
  then obtain a b c d e f where bs: "bs = [a, b, c, d, e, f]"
    by (auto simp: TariffActiveEnergy_dpt_def elim: length_list_E)
  let ?v = "TariffActiveEnergy_new_with_validity (from_be [a, b, c, d]) e (drop_bit 1 f AND 0x01 = 0)
    (f AND 0x01 = 0)"
  have "TariffActiveEnergy_decode bs = Ok ?v"
    unfolding bs by (rule TariffActiveEnergy_decode_list)
  moreover have "length (te_data (TariffActiveEnergy_new_with_validity en ta p q)) = 6"
    "te_data (TariffActiveEnergy_new_with_validity (if p then en else 0) (if q then ta else 0) p q) =
     te_data (TariffActiveEnergy_new_with_validity en ta p q)" for en ta p q
    by (simp_all add: TariffActiveEnergy_new_with_validity_def)
  ultimately show "dv_from_bytes TariffActiveEnergy_dpt bs = Err (err_dpt ''235.001'') \<or>
      (\<exists>v. dv_from_bytes TariffActiveEnergy_dpt bs = Ok v \<and>
         length (dv_as_bytes TariffActiveEnergy_dpt v) = dv_byte_length TariffActiveEnergy_dpt \<and>
         (\<exists>w. dv_from_bytes TariffActiveEnergy_dpt (dv_as_bytes TariffActiveEnergy_dpt v) = Ok w \<and>
            dv_as_bytes TariffActiveEnergy_dpt w = dv_as_bytes TariffActiveEnergy_dpt v))"
    by (simp add: TariffActiveEnergy_dpt_def TariffActiveEnergy_new_decode)
qed (simp add: TariffActiveEnergy_dpt_def TariffActiveEnergy_decode_def check_len_def)

lemma ColorXYY_decode_list:
  "ColorXYY_decode [a, b, c, d, e, f] = Ok (ColorXYY_new_with_validity (from_be [a, b]) (from_be [c, d]) e
     (drop_bit 1 f AND 0x01 \<noteq> 0) (f AND 0x01 \<noteq> 0))"
  by (simp add: ColorXYY_decode_def check_len_def word_at_def)

lemma ColorXYY_new_decode:
  "ColorXYY_decode (xy_data (ColorXYY_new_with_validity x y br p q)) =
     Ok (ColorXYY_new_with_validity (if p then x else 0) (if p then y else 0) (if q then br else 0) p q)"
proof -
  obtain a b c d where "to_be 2 x = [a, b]" "from_be [a, b] = x" "to_be 2 y = [c, d]" "from_be [c, d] = y"
    by (metis to_be_2E)
  then show ?thesis
    by (cases p; cases q) (simp_all add: ColorXYY_new_with_validity_def ColorXYY_decode_list)
qed

interpretation ColorXYY: dpt_codec ColorXYY_dpt "''242.600''"
proof (rule dpt_codecI)
  fix bs :: bytes
  assume "length bs = dv_byte_length ColorXYY_dpt"
  then obtain a b c d e f where bs: "bs = [a, b, c, d, e, f]"
    by (auto simp: ColorXYY_dpt_def elim: length_list_E)
  have "length (xy_data (ColorXYY_new_with_validity x y br p q)) = 6"
    "xy_data (ColorXYY_new_with_validity (if p then x else 0) (if p then y else 0) (if q then br else 0) p q) =
     xy_data (ColorXYY_new_with_validity x y br p q)" for x y br p q
    by (simp_all add: ColorXYY_new_with_validity_def)
  then show "dv_from_bytes ColorXYY_dpt bs = Err (err_dpt ''242.600'') \<or>
      (\<exists>v. dv_from_bytes ColorXYY_dpt bs = Ok v \<and>
         length (dv_as_bytes ColorXYY_dpt v) = dv_byte_length ColorXYY_dpt \<and>
         (\<exists>w. dv_from_bytes ColorXYY_dpt (dv_as_bytes ColorXYY_dpt v) = Ok w \<and>
            dv_as_bytes ColorXYY_dpt w = dv_as_bytes ColorXYY_dpt v))"
    by (simp add: bs ColorXYY_dpt_def ColorXYY_decode_list ColorXYY_new_decode del: One_nat_def)
qed (simp add: ColorXYY_dpt_def ColorXYY_decode_def check_len_def)

lemma ColorRGBW_decode_list:
  "ColorRGBW_decode [a, b, c, d, e, f] = Ok (ColorRGBW_new_with_validity a b c d
     \<lparr>wv_red = (drop_bit 3 f AND 0x01 \<noteq> 0), wv_green = (drop_bit 2 f AND 0x01 \<noteq> 0),
      wv_blue = (drop_bit 1 f AND 0x01 \<noteq> 0), wv_white = (f AND 0x01 \<noteq> 0)\<rparr>)"
  by (simp add: ColorRGBW_decode_def check_len_def)

lemma ColorRGBW_new_decode:
  "ColorRGBW_decode (rw_data (ColorRGBW_new_with_validity r g b w v)) =
     Ok (ColorRGBW_new_with_validity (if wv_red v then r else 0) (if wv_green v then g else 0)
       (if wv_blue v then b else 0) (if wv_white v then w else 0) v)"
proof (cases v)
  case (fields p q s t)
  then show ?thesis
    by (cases p; cases q; cases s; cases t)
       (simp_all add: ColorRGBW_new_with_validity_def ColorRGBW_decode_list)
qed

interpretation ColorRGBW: dpt_codec ColorRGBW_dpt "''251.600''"
proof (rule dpt_codecI)
  fix bs :: bytes
  assume "length bs = dv_byte_length ColorRGBW_dpt"
  then obtain a b c d e f where bs: "bs = [a, b, c, d, e, f]"
    by (auto simp: ColorRGBW_dpt_def elim: length_list_E)
  have "length (rw_data (ColorRGBW_new_with_validity r g b w v)) = 6"
    "rw_data (ColorRGBW_new_with_validity (if wv_red v then r else 0) (if wv_green v then g else 0)
       (if wv_blue v then b else 0) (if wv_white v then w else 0) v) =
     rw_data (ColorRGBW_new_with_validity r g b w v)" for r g b w v
    by (simp_all add: ColorRGBW_new_with_validity_def)
  then show "dv_from_bytes ColorRGBW_dpt bs = Err (err_dpt ''251.600'') \<or>
      (\<exists>v. dv_from_bytes ColorRGBW_dpt bs = Ok v \<and>
         length (dv_as_bytes ColorRGBW_dpt v) = dv_byte_length ColorRGBW_dpt \<and>
         (\<exists>w. dv_from_bytes ColorRGBW_dpt (dv_as_bytes ColorRGBW_dpt v) = Ok w \<and>
            dv_as_bytes ColorRGBW_dpt w = dv_as_bytes ColorRGBW_dpt v))"
    by (simp only: bs ColorRGBW_dpt_def dpt_value.simps ColorRGBW_decode_list ColorRGBW_new_decode
        res.inject ex_simps simp_thms)
qed (simp add: ColorRGBW_dpt_def ColorRGBW_decode_def check_len_def)

text \<open>Date and time: absent parts are cleared in the encoding.\<close>

lemma and_bit_iff' [simp]:
  "(w AND 4 = 0) = (\<not> bit w 2)" "(w AND 0x10 = 0) = (\<not> bit w 4)"
  "(w AND 0x20 = 0) = (\<not> bit w 5)" "(w AND 0x40 = 0) = (\<not> bit w 6)" for w :: u8
  using and_exp_eq_0_iff_not_bit [of w 2] and_exp_eq_0_iff_not_bit [of w 4]
    and_exp_eq_0_iff_not_bit [of w 5] and_exp_eq_0_iff_not_bit [of w 6]
  by simp_all

definition clear_parts :: "date_time_flags \<Rightarrow> date_time_parts \<Rightarrow> date_time_parts" where
  "clear_parts f p =
     \<lparr>dp_year = (if df_no_year f then 0 else dp_year p), dp_month = (if df_no_date f then 0 else dp_month p),
      dp_day = (if df_no_date f then 0 else dp_day p),
      dp_day_of_week = (if df_no_dow f then 0 else dp_day_of_week p),
      dp_hour = (if df_no_time f then 0 else dp_hour p),
      dp_minute = (if df_no_time f then 0 else dp_minute p),
      dp_second = (if df_no_time f then 0 else dp_second p)\<rparr>"

lemma DateTime_flags_roundtrip:
  obtains a b where "DateTime_flag_bytes f = [a, b]" "DateTime_flags_of a b = f"
  by (cases f) (simp add: DateTime_flag_bytes_def DateTime_flags_of_def bit_simps)

lemma DateTime_decode_list:
  "DateTime_decode [b0, b1, b2, b3, b4, b5, b6, b7] =
     DateTime_new_with_flags
       \<lparr>dp_year = b0, dp_month = b1 AND 0x0F, dp_day = b2 AND 0x1F,
        dp_day_of_week = drop_bit 5 b3 AND 0x07, dp_hour = b3 AND 0x1F,
        dp_minute = b4 AND 0x3F, dp_second = b5 AND 0x3F\<rparr> (DateTime_flags_of b6 b7)"
  by (simp add: DateTime_decode_def check_len_def DateTime_new_with_flags_def Let_def)

lemma DateTime_new_cases:
  "DateTime_new_with_flags p f = Err (err_dpt ''19.001'') \<or>
   DateTime_new_with_flags p f = Ok \<lparr>dt_parts = p, dt_flags = f,
     dt_data = DateTime_encode_data \<lparr>dt_parts = p, dt_flags = f, dt_data = replicate 8 0\<rparr>\<rparr> \<and>
   DateTime_validate \<lparr>dt_parts = p, dt_flags = f, dt_data = replicate 8 0\<rparr> = Ok ()"
  by (auto simp: DateTime_new_with_flags_def DateTime_validate_def guard_res_def Let_def)

lemma parts_collapse:
  "\<lparr>dp_year = dp_year p, dp_month = dp_month p, dp_day = dp_day p, dp_day_of_week = dp_day_of_week p,
    dp_hour = dp_hour p, dp_minute = dp_minute p, dp_second = dp_second p\<rparr> = p"
  by (cases p) simp

lemma DateTime_new_decode:
  assumes "DateTime_new_with_flags p f = Ok t"
  shows "DateTime_decode (dt_data t) = DateTime_new_with_flags (clear_parts f p) f"
    "\<exists>u. DateTime_new_with_flags (clear_parts f p) f = Ok u \<and> dt_data u = dt_data t" "length (dt_data t) = 8"
proof -
  have v: "DateTime_validate \<lparr>dt_parts = p, dt_flags = f, dt_data = replicate 8 0\<rparr> = Ok ()"
    and t: "dt_data t = DateTime_encode_data \<lparr>dt_parts = p, dt_flags = f, dt_data = replicate 8 0\<rparr>"
    using DateTime_new_cases [of p f] assms by auto
  obtain a b where fl: "DateTime_flag_bytes f = [a, b]" "DateTime_flags_of a b = f"
    by (rule DateTime_flags_roundtrip)
  have "dp_month (clear_parts f p) \<le> 12" "dp_day (clear_parts f p) \<le> 31"
    "dp_day_of_week (clear_parts f p) \<le> 7" "dp_hour (clear_parts f p) \<le> 24"
    "dp_minute (clear_parts f p) \<le> 59" "dp_second (clear_parts f p) \<le> 59"
    using v by (auto simp: DateTime_validate_def clear_parts_def Let_def not_less)
  moreover from this have "dp_hour (clear_parts f p) \<le> 31"
    by (simp add: word_le_nat_alt)
  moreover have "dt_data t = [dp_year (clear_parts f p), dp_month (clear_parts f p), dp_day (clear_parts f p),
      push_bit 5 (dp_day_of_week (clear_parts f p)) OR dp_hour (clear_parts f p),
      dp_minute (clear_parts f p), dp_second (clear_parts f p), a, b]"
    by (simp add: t DateTime_encode_data_def clear_parts_def fl Let_def)
  ultimately show "DateTime_decode (dt_data t) = DateTime_new_with_flags (clear_parts f p) f"
    "length (dt_data t) = 8"
    by (simp_all only: DateTime_decode_list day_hour_fields and_small fl parts_collapse) simp_all
  show "\<exists>u. DateTime_new_with_flags (clear_parts f p) f = Ok u \<and> dt_data u = dt_data t"
    using v unfolding t
    by (auto simp: DateTime_new_with_flags_def DateTime_validate_def DateTime_encode_data_def
        clear_parts_def Let_def)
qed

interpretation DateTime: dpt_codec DateTime_dpt "''19.001''"
proof (rule dpt_codecI)
  fix bs :: bytes
  assume "length bs = dv_byte_length DateTime_dpt"
  then obtain b0 b1 b2 b3 b4 b5 b6 b7 where bs: "bs = [b0, b1, b2, b3, b4, b5, b6, b7]"
    by (auto simp: DateTime_dpt_def elim: length_list_E)
  then obtain p f where dec: "DateTime_decode bs = DateTime_new_with_flags p f"
    using DateTime_decode_list by blast
  show "dv_from_bytes DateTime_dpt bs = Err (err_dpt ''19.001'') \<or>
      (\<exists>v. dv_from_bytes DateTime_dpt bs = Ok v \<and>
         length (dv_as_bytes DateTime_dpt v) = dv_byte_length DateTime_dpt \<and>
         (\<exists>w. dv_from_bytes DateTime_dpt (dv_as_bytes DateTime_dpt v) = Ok w \<and>
            dv_as_bytes DateTime_dpt w = dv_as_bytes DateTime_dpt v))"
  proof (cases "DateTime_new_with_flags p f")
    case (Ok t)
    from DateTime_new_decode [OF Ok] show ?thesis
      by (auto simp: DateTime_dpt_def dec Ok)
  qed (use DateTime_new_cases [of p f] in \<open>auto simp: DateTime_dpt_def dec\<close>)
qed (simp add: DateTime_dpt_def DateTime_decode_def check_len_def)

end
