(* ===== verification/Dpt_Runtime.thy ===== *)
theory Dpt_Runtime
  imports Dpt_View
begin

text \<open>
  Round trips of the runtime codec (\<open>DptType::decode_ref\<close>, \<open>DptPayload::from\<close>, \<open>DptType::encode\<close>): what a
  datapoint type decodes it encodes again to the same bytes, up to the bits the type ignores, and the
  re-encoded bytes decode to the same value.  The 2-byte float has a theory of its own, \<open>Dpt_Float\<close>.
  DPT 18 cannot be re-encoded at all, and DPT 235 cannot be decoded.
\<close>

section \<open>Re-encoding what was decoded\<close>

definition reencodes :: "bool \<Rightarrow> dpt_type \<Rightarrow> bytes \<Rightarrow> bool" where
  "reencodes checks d bs =
     (case decoded_value d bs of
        Ok p \<Rightarrow> dpt_encode checks d p = Ok (dpt_normal d bs) \<and> decoded_value d (dpt_normal d bs) = Ok p
      | _ \<Rightarrow> True)"

lemma ucast_extended [simp]:
  "ucast (ucast b :: u64) = b" "ucast (scast b :: u64) = b"
  "ucast (ucast c :: u64) = c" "ucast (scast c :: u64) = c"
  "ucast (ucast d :: u64) = d" "ucast (scast d :: u64) = d"
  for b :: u8 and c :: u16 and d :: u32
  by (rule bit_word_eqI; simp add: bit_simps; fail)+

lemma and_63_pred [simp]: "saturating_pred ((b AND 63) + 1) = b AND 63" for b :: u8
proof -
  have "b AND 63 \<noteq> - 1"
    by (rule notI, drule arg_cong [where f = "\<lambda>x. bit x 7"]) (simp add: bit_simps bit_numeral_word_iff)
  then show ?thesis
    by (simp add: saturating_pred_def eq_neg_iff_add_eq_0)
qed

lemmas reencode_defs =
  reencodes_def decoded_value_def decode_ref_main view_defs dpt_encode_def dpt_normal_def

lemma reencodes_byte:
  assumes "dpt_main d \<in> {1, 2, 3, 5, 6, 17, 20}"
  shows "reencodes checks d bs"
proof (cases "length bs = 1")
  case True
  then obtain a where "bs = [a]"
    by (auto elim: length_1_E)
  with assms show ?thesis
    by (elim insertE) (simp_all add: reencode_defs)
next
  case False
  with assms show ?thesis
    by (elim insertE) (simp_all add: reencode_defs)
qed

lemma reencodes_word:
  assumes "dpt_main d \<in> {7, 8, 12, 13, 29}"
  shows "reencodes checks d bs"
  using assms
  by (elim insertE)
     (simp_all add: reencode_defs to_be_from_be guard_res_def)

lemma reencodes_rgb:
  assumes "dpt_main d \<in> {10, 232, 251}"
  shows "reencodes checks d bs"
proof (cases "length bs = 3 \<or> length bs = 6")
  case True
  then consider a b c where "bs = [a, b, c]" | a b c e f g where "bs = [a, b, c, e, f, g]"
    by (auto elim: length_list_E)
  then show ?thesis
    using assms by cases (auto simp: reencode_defs)
next
  case False
  with assms show ?thesis
    by (elim insertE) (simp_all add: reencode_defs)
qed

text \<open>The year of a date: two-digit years from 90 lie in the twentieth century.\<close>

definition date_year :: "u8 \<Rightarrow> u16" where
  "date_year x = (let y = ucast (x AND 0x7F) in if 90 \<le> y then 1900 + y else 2000 + y)"

definition year_byte :: "u16 \<Rightarrow> u8" where
  "year_byte y = (if 2000 \<le> y then ucast (y - 2000) else ucast (y - 1900)) AND 0x7F"

lemma date_year_cases:
  "list_all (\<lambda>n. let y = word_of_nat n :: u8; z = (if 100 \<le> y then y - 100 else y) in
     1990 \<le> date_year y \<and> date_year y \<le> 2089 \<and> year_byte (date_year y) = z \<and>
     date_year z = date_year y) [0..<128]"
  by (simp add: upt_rec date_year_def year_byte_def Let_def) (simp add: word_le_nat_alt)

lemma date_year_roundtrip:
  fixes x :: u8
  defines "z \<equiv> if 100 \<le> x AND 0x7F then (x AND 0x7F) - 100 else x AND 0x7F"
  shows "1990 \<le> date_year x" "date_year x \<le> 2089" "year_byte (date_year x) = z"
    "date_year z = date_year x"
proof -
  have "unat (x AND 0x7F) < 128"
    using take_bit_nat_less_exp [of 7 "unat x"]
    by (simp add: codec_simps unsigned_take_bit_eq)
  then have "unat (x AND 0x7F) \<in> set [0..<128]"
    by simp
  from bspec [OF date_year_cases [unfolded list_all_iff] this] have "let y = x AND 0x7F; z = (if 100 \<le> y then y - 100 else y) in
     1990 \<le> date_year y \<and> date_year y \<le> 2089 \<and> year_byte (date_year y) = z \<and>
     date_year z = date_year y"
    by simp
  moreover have "date_year (x AND 0x7F) = date_year x"
    by (simp add: date_year_def)
  ultimately show "1990 \<le> date_year x" "date_year x \<le> 2089" "year_byte (date_year x) = z"
    "date_year z = date_year x"
    by (simp_all add: z_def Let_def)
qed

lemma reencodes_date:
  assumes "dpt_main d = 11"
  shows "reencodes checks d bs"
proof (cases "length bs = 3")
  case True
  then obtain a b c where bs: "bs = [a, b, c]"
    by (auto elim: length_list_E)
  let ?z = "if 100 \<le> c AND 0x7F then (c AND 0x7F) - 100 else c AND 0x7F"
  have dec: "decoded_value d [a', b', c'] = Ok (P_Date (a' AND 0x1F) (b' AND 0x0F) (date_year c'))" for a' b' c'
    using assms by (simp add: decoded_value_def decode_ref_main view_defs date_year_def)
  have "dpt_encode checks d (P_Date (a AND 0x1F) (b AND 0x0F) (date_year c)) =
      Ok [a AND 0x1F, b AND 0x0F, year_byte (date_year c)]"
    using assms date_year_roundtrip(1,2) [of c] by (simp add: dpt_encode_def year_byte_def Let_def)
  moreover have "dpt_normal d bs = [a AND 0x1F, b AND 0x0F, ?z]"
    using assms bs by (simp add: dpt_normal_def Let_def)
  ultimately show ?thesis
    using date_year_roundtrip(3,4) [of c] by (simp add: reencodes_def bs dec)
next
  case False
  with assms show ?thesis by (simp add: reencode_defs)
qed

lemma year_u16_roundtrip:
  "1900 \<le> (ucast b + 1900 :: u16)" "(ucast b + 1900 :: u16) \<le> 2155" "ucast (ucast b :: u16) = b"
  for b :: u8
proof -
  have "unat (ucast b + 1900 :: u16) = unat b + 1900"
    using unat_u8_less [of b]
    by (simp add: unat_word_ariths unsigned_ucast_eq take_bit_nat_eq_self del: unat_u8_less)
  then show "1900 \<le> (ucast b + 1900 :: u16)" "(ucast b + 1900 :: u16) \<le> 2155"
    using unat_u8_less [of b] by (simp_all add: word_le_nat_alt)
qed (rule bit_word_eqI; simp add: bit_simps)

lemma reencodes_datetime:
  assumes "dpt_main d = 19"
  shows "reencodes checks d bs"
proof (cases "length bs = 8")
  case True
  then show ?thesis
    by (elim length_list_E) (simp add: assms reencode_defs year_u16_roundtrip)
next
  case False
  with assms show ?thesis by (simp add: reencode_defs)
qed

lemma reencodes_float4:
  assumes "dpt_main d = 14" "decoded_value d bs \<noteq> Ok (P_Float NaN)"
  shows "reencodes checks d bs"
proof (cases "length bs = 4")
  case True
  then have "f32_from_bits (from_be bs) \<noteq> NaN"
    using assms by (auto simp: decoded_value_def decode_ref_main view_defs)
  with True assms(1) show ?thesis
    by (simp add: reencode_defs to_be_from_be f32_to_bits_from_bits)
next
  case False
  with assms(1) show ?thesis by (simp add: reencode_defs)
qed

lemma str_bytes_roundtrip [simp]: "bytes_of_str (str_of_bytes bs) = bs"
  by (simp add: bytes_of_str_def str_of_bytes_def comp_def)

lemma takeWhile_pad [simp]: "0 \<notin> set t \<Longrightarrow> takeWhile (\<lambda>x. x \<noteq> 0) (t @ replicate k (0 :: u8)) = t"
  by (induction t) (auto simp: takeWhile_eq_Nil_iff hd_replicate)

lemma reencodes_str:
  assumes "dpt_main d = 16"
  shows "reencodes checks d bs"
proof (cases "length bs = 14")
  case True
  define s where "s = takeWhile (\<lambda>x. x \<noteq> 0) bs"
  define t where "t = (if utf8_valid s then s else [])"
  have "0 \<notin> set s"
    using set_takeWhileD unfolding s_def by fastforce
  moreover have "length s \<le> 14"
    using True length_takeWhile_le [of "\<lambda>x. x \<noteq> 0" bs] by (simp add: s_def)
  ultimately have t: "0 \<notin> set t" "length t \<le> 14" "utf8_valid t" "str_of_bytes t = StrView_as_str bs"
    by (simp_all add: t_def s_def StrView_as_str_def str_of_bytes_def Let_def)
  have norm: "dpt_normal d bs = t @ replicate (14 - length t) 0"
    using assms by (simp add: dpt_normal_def t_def s_def Let_def)
  have "decoded_value d bs = Ok (P_String (str_of_bytes t))"
    "decoded_value d (t @ replicate (14 - length t) 0) = Ok (P_String (str_of_bytes t))"
    using assms True t by (simp_all add: decoded_value_def decode_ref_main StrView_as_str_def Let_def)
  moreover have "dpt_encode checks d (P_String (str_of_bytes t)) = Ok (dpt_normal d bs)"
    using t(2) assms by (simp add: norm dpt_encode_def Let_def)
  ultimately show ?thesis
    by (simp add: reencodes_def norm)
next
  case False
  with assms show ?thesis by (simp add: reencode_defs)
qed

text \<open>
  Re-encoding is exact for every type but three: the 2-byte float (DPT 9, see \<open>Dpt_Float\<close>), scene
  control (DPT 18) and the XYY colour (DPT 242).
\<close>

lemma runtime_reencodes:
  assumes "dpt_valid d" "dpt_main d \<notin> {9, 18, 242}" "decoded_value d bs \<noteq> Ok (P_Float NaN)"
  shows "reencodes checks d bs"
  using assms(1)
proof (rule dpt_valid_main_cases)
  assume "dpt_main d = 235"
  then show ?thesis by (simp add: reencodes_def decoded_value_def decode_ref_main)
qed (use assms in \<open>simp_all add: reencodes_byte reencodes_word reencodes_rgb reencodes_date
       reencodes_datetime reencodes_float4 reencodes_str\<close>)

text \<open>A decoded DPT 18 value is a \<open>Scene\<close> payload, which the same type refuses to encode.\<close>

lemma scene_control_not_reencoded:
  assumes "dpt_main d = 18"
  shows "decoded_value d [b] = Ok (P_Scene ((b AND 0x3F) + 1))"
    "dpt_encode checks d (P_Scene n) = Err (dpt_error d)"
  using assms by (simp_all add: decoded_value_def decode_ref_main view_defs dpt_encode_def)

section \<open>Round trip\<close>

text \<open>
  C18: For every datapoint type except the 2-byte float, scene control and the XYY colour: a value that
  \<open>decode_ref\<close> yields is encoded by the same type to the bytes it came from with the ignored bits
  cleared, and these bytes decode to the same value.  NaN, whose bit pattern is not kept, is excluded.
\<close>

theorem runtime_roundtrip:
  assumes "dpt_valid d" "dpt_main d \<notin> {9, 18, 242}"
    and "decoded_value d bs = Ok p" "p \<noteq> P_Float NaN"
  shows "dpt_encode checks d p = Ok (dpt_normal d bs) \<and> decoded_value d (dpt_normal d bs) = Ok p"
  using runtime_reencodes [OF assms(1,2), of bs checks] assms(3,4) by (simp add: reencodes_def)

lemma dpt_valid_examples:
  "dpt_valid Dpt_Date" "dpt_valid Dpt_Temperature" "dpt_valid Dpt_Switch" "dpt_valid Dpt_TariffActiveEnergy"
  "dpt_valid Dpt_SceneControl"
  by (simp_all add: dpt_valid_def dpt_variants_def)

theorem runtime_roundtrip_witness:
  "dpt_encode False Dpt_Date (P_Date 11 6 2026) = Ok (dpt_normal Dpt_Date [0xEB, 6, 126]) \<and>
   decoded_value Dpt_Date (dpt_normal Dpt_Date [0xEB, 6, 126]) = Ok (P_Date 11 6 2026)"
  by (rule runtime_roundtrip)
     (simp_all add: dpt_valid_examples dpt_main_def decoded_value_def decode_ref_main view_defs)

text \<open>
  Decoding never panics and succeeds exactly when the input has the length of the type, except for
  the tariff type DPT 235: there \<open>byte_length\<close> demands 6 bytes and the decoder at least 8, so every
  input is refused.
\<close>

lemma decode_ref_outcome:
  assumes "dpt_valid d"
  shows "if length bs = byte_length d \<and> dpt_main d \<noteq> 235
    then \<exists>v p. decode_ref d bs = Ok v \<and> view_raw v = bs \<and> payload_of_view v = (Ok p :: dpt_payload result)
    else decode_ref d bs = Err (dpt_error d)"
proof (cases "length bs = byte_length d \<and> dpt_main d \<noteq> 235")
  case True
  then obtain v where "decode_ref d bs = Ok v"
    using decode_ref_ok_iff [OF assms] by blast
  with True show ?thesis
    using decode_ref_raw decoded_payload [OF _ assms] by auto
next
  case False
  from assms show ?thesis
    by (rule dpt_valid_main_cases) (use False in \<open>simp_all add: decode_ref_main byte_length_def\<close>)
qed

end
