(* ===== verification/Dpt_Float.thy ===== *)
theory Dpt_Float
  imports Dpt_Values Dpt_Runtime
begin

text \<open>
  The 2-byte float of DPT 9, which the library implements twice: the typed \<open>Temperature\<close> of
  \<open>src/protocol/dpt/dpt9.rs\<close> computes in \<open>f32\<close> and rounds, the runtime codec of
  \<open>src/protocol/dpt/dpt_type.rs\<close> computes in \<open>f64\<close> and truncates.

  A raw value stands for \<open>mantissa * 2 ^ exponent\<close> hundredths, the mantissa in two's complement with
  11 bits and a sign.  Raw values with an unnecessarily large exponent are not canonical.

  Shown: the typed codec is exact, every value that can be read is written back to a raw value with the
  same meaning and canonical raw values are reproduced (\<open>temperature_roundtrip\<close>); the runtime codec is
  not, it turns 0.29 into 0.28 (\<open>runtime_float_truncates\<close>), and beyond the range of the type it wraps the
  exponent (\<open>runtime_float_wraps\<close>).
\<close>

section \<open>Definitions\<close>

abbreviation err_9xxx :: knx_error where
  "err_9xxx \<equiv> err_dpt ''9.xxx''"

definition f32_range :: "fval \<Rightarrow> bool" where
  "f32_range v = fp_contains (fp_lit binary32 (- 2048)) (fp_lit binary32 2047) v"

text \<open>The loop that halves the value until it fits the mantissa.\<close>

function float_loop :: "f32 \<Rightarrow> nat \<Rightarrow> f32 \<times> nat" where
  "float_loop v e =
     (if \<not> f32_range v \<and> e < 15 then float_loop (fp_div binary32 v (fp_lit binary32 2)) (e + 1)
      else (v, e))"
  by pat_completeness auto
termination
  by (relation "measure (\<lambda>(_, e). 15 - e)") auto

declare float_loop.simps [simp del]

definition encode_2byte_float_to_bytes :: "f32 \<Rightarrow> bytes result" where
  "encode_2byte_float_to_bytes v =
     guard_res (\<not> is_finite v) err_9xxx
      (let knx_value = fp_mul binary32 v (fp_lit binary32 100) in
       if fp_eq (fp_round_away knx_value) (fp_lit binary32 0) then Ok [0, 0]
       else case float_loop knx_value 0 of (knx_value, exponent) \<Rightarrow>
         guard_res (\<not> f32_range knx_value) err_9xxx
          (let mantissa = fp_to_int (- 32768) 32767 (fp_round_away knx_value) in
           guard_res (\<not> (- 2048 \<le> mantissa \<and> mantissa \<le> 2047)) err_9xxx
            (Ok (to_be 2 (push_bit 15 (of_bool (mantissa < 0)) OR push_bit 11 (as_u16 exponent) OR
                          ((word_of_int mantissa :: u16) AND 0x07FF))))))"

definition decode_2byte_float_from_bytes :: "bytes \<Rightarrow> f32" where
  "decode_2byte_float_from_bytes b =
     (let raw = from_be b :: u16;
          sign = drop_bit 15 raw AND 1;
          exponent = unat (drop_bit 11 raw AND 0x0F);
          mantissa = (if sign = 1 then uint (raw AND 0x07FF) - 2048 else uint (raw AND 0x07FF))
      in fp_div binary32 (fp_of_int binary32 (mantissa * 2 ^ exponent)) (fp_lit binary32 100))"

definition Temperature_new :: "f32 \<Rightarrow> bytes result" where
  "Temperature_new v = encode_2byte_float_to_bytes v"

definition Temperature_value :: "bytes \<Rightarrow> f32" where
  "Temperature_value s = decode_2byte_float_from_bytes s"

definition Temperature_validate :: "bytes \<Rightarrow> unit result" where
  "Temperature_validate s =
     guard_res (\<not> fp_contains (fp_lit binary32 (- 273)) (fp_lit binary32 670760) (Temperature_value s))
       (err_dpt ''9.001'') (Ok ())"

text \<open>\<open>DptInnerType::new\<close>, used by the aliases: what cannot be encoded becomes zero.\<close>

definition Temperature_inner_new :: "f32 \<Rightarrow> bytes" where
  "Temperature_inner_new v = (case Temperature_new v of Ok t \<Rightarrow> t | _ \<Rightarrow> [0, 0])"

definition Temperature_dpt :: "bytes dpt_value" where
  "Temperature_dpt = (array_dpt ''9.001'' ''temperature'' 2)\<lparr>dv_validate := Temperature_validate\<rparr>"

interpretation Temperature: dpt_codec Temperature_dpt "''9.001''"
  using array_dpt_codec [of "''9.001''" "''temperature''" 2]
  by (simp add: dpt_codec_def Temperature_dpt_def)

section \<open>Raw values\<close>

text \<open>The value in hundredths, and the raw values that use the smallest exponent.\<close>

definition knx_hundredths :: "u16 \<Rightarrow> int" where
  "knx_hundredths raw = knx_mantissa raw * 2 ^ knx_exponent raw"

definition knx_canonical :: "u16 \<Rightarrow> bool" where
  "knx_canonical raw = (knx_exponent raw = 0 \<or> knx_mantissa raw < - 1024 \<or> 1023 < knx_mantissa raw)"

lemma and_sign_bit: "(raw AND 0x8000 = 0) = (\<not> bit raw 15)" for raw :: u16
  using and_exp_eq_0_iff_not_bit [of raw 15] by simp

lemma and_one_bit: "drop_bit 15 raw AND 1 = of_bool (bit raw 15)" for raw :: u16
  by (simp add: and_one_eq mod_2_eq_odd flip: bit_iff_odd_drop_bit)

lemma Temperature_value_eq:
  "Temperature_value b =
     fp_div binary32 (fp_of_int binary32 (knx_hundredths (from_be b))) (fp_lit binary32 100)"
  by (simp add: Temperature_value_def decode_2byte_float_from_bytes_def knx_hundredths_def
      knx_mantissa_def knx_exponent_def and_sign_bit and_one_bit Let_def)

lemma uint_and_7FF: "uint (raw AND 0x07FF :: u16) = uint raw mod 2048"
proof -
  have "raw AND 0x07FF = take_bit 11 raw"
    by (simp add: take_bit_eq_mask mask_eq_exp_minus_1)
  then have "uint (raw AND 0x07FF) = take_bit 11 (uint raw)"
    by (simp add: unsigned_take_bit_eq)
  then show ?thesis
    by (simp add: take_bit_eq_mod)
qed

lemma knx_mantissa_bounds: "- 2048 \<le> knx_mantissa raw" "knx_mantissa raw \<le> 2047"
  and knx_mantissa_sign: "knx_mantissa raw < 0 \<longleftrightarrow> bit raw 15"
  using pos_mod_bound [of 2048 "uint raw"] pos_mod_sign [of 2048 "uint raw"]
  by (auto simp: knx_mantissa_def uint_and_7FF and_sign_bit simp del: pos_mod_bound pos_mod_sign)

lemma knx_exponent_bound: "knx_exponent raw \<le> 15"
  by (simp add: knx_exponent_def codec_simps unsigned_take_bit_eq)

text \<open>A raw value is its sign, exponent and mantissa.\<close>

lemma knx_pack:
  "push_bit 15 (of_bool (knx_mantissa raw < 0)) OR push_bit 11 (as_u16 (knx_exponent raw)) OR
     ((word_of_int (knx_mantissa raw) :: u16) AND 0x07FF) = raw"
proof -
  have "uint ((word_of_int (knx_mantissa raw) :: u16) AND 0x07FF) = knx_mantissa raw mod 2048"
    by (simp add: uint_and_7FF uint_word_of_int mod_mod_cancel)
  also have "\<dots> = uint (raw AND 0x07FF)"
    by (simp add: knx_mantissa_def uint_and_7FF)
  finally have "(word_of_int (knx_mantissa raw) :: u16) AND 0x07FF = raw AND 0x07FF"
    by (rule unsigned_word_eqI)
  then have m: "(word_of_int (knx_mantissa raw) :: u16) AND 0x07FF = take_bit 11 raw"
    by (simp add: take_bit_eq_mask mask_eq_exp_minus_1)
  have e: "as_u16 (knx_exponent raw) = take_bit 4 (drop_bit 11 raw)"
    by (simp add: knx_exponent_def codec_simps)
  show ?thesis
    unfolding m e knx_mantissa_sign
  proof (rule bit_word_eqI)
    fix n assume "n < LENGTH(16)"
    then consider "n < 11" | "11 \<le> n" "n < 15" | "n = 15"
      by fastforce
    then show "bit (push_bit 15 (of_bool (bit raw 15)) OR push_bit 11 (take_bit 4 (drop_bit 11 raw)) OR
        take_bit 11 raw) n = bit raw n"
      by cases (auto simp: bit_simps)
  qed
qed

section \<open>The typed codec is exact\<close>

lemma f32_literals [simp]:
  "fp_lit binary32 100 = Finite False 100" "fp_lit binary32 2 = Finite False 2"
  "fp_lit binary32 0 = Finite False 0" "fp_lit binary32 2047 = Finite False 2047"
  "fp_lit binary32 (- 2048) = Finite True 2048"
  by (simp_all add: fp_eval)

text \<open>Reading divides by 100 and writing multiplies by 100; the product is off by a factor of at most \<open>2 ^ -22\<close>.\<close>

definition scaled_back :: "rat \<Rightarrow> rat" where
  "scaled_back a = fmag (fp_round binary32 False (fmag (fp_round binary32 False (a / 100)) * 100))"

lemma fp_round_sign: "fp_round f s x = (case fp_round f False x of Finite _ y \<Rightarrow> Finite s y | Infinite _ \<Rightarrow> Infinite s | NaN \<Rightarrow> NaN)"
  by (simp add: fp_round_def Let_def)

lemma fp_round_error32:
  assumes "0 < x" "- 126 \<le> ilog2 x" "x < 2 powi 127"
  shows "\<exists>y. fp_round binary32 s x = Finite s y \<and> \<bar>y - x\<bar> \<le> x * 2 powi (- 24)"
proof (rule fp_round_error [of x binary32 s])
  fix y assume "fp_round binary32 s x = Finite s y"
    "\<bar>y - x\<bar> \<le> x * 2 powi (- int (fp_prec binary32))"
  then show ?thesis
    by (auto simp: binary32_def)
qed (use assms in \<open>simp_all add: binary32_def\<close>)

lemma scaled_back_rounds:
  assumes a: "1 \<le> a" "a \<le> 2 ^ 26"
  obtains y where "\<And>s. fp_round binary32 s (a / 100) = Finite s y" "9 / 1000 \<le> y" "y \<le> 2 ^ 27"
    "\<And>s. fp_round binary32 s (y * 100) = Finite s (scaled_back a)"
    "\<bar>scaled_back a - a\<bar> \<le> a * 2 powi (- 22)"
proof -
  have il: "ilog2 (1 / 100) = - 7" "ilog2 (9 / 10) = - 1"
    by (simp_all add: ilog2_def clog2.simps)
  have "ilog2 (1 / 100) \<le> ilog2 (a / 100)"
    using a by (intro ilog2_mono) simp_all
  moreover have "a / 100 < 2 powi 127"
    using a by simp
  ultimately obtain y where y: "fp_round binary32 False (a / 100) = Finite False y"
    and ey: "\<bar>y - a / 100\<bar> \<le> a / 100 * 2 powi (- 24)"
    using a il fp_round_error32 [of "a / 100" False] by auto
  have "\<bar>y - a / 100\<bar> \<le> a / 1677721600"
    using ey by simp
  then have yb: "a - a / 16777216 \<le> y * 100" "y * 100 \<le> a + a / 16777216"
    unfolding abs_le_iff by linarith+
  have "9 / 10 \<le> y * 100" "y * 100 \<le> 134217728"
    using yb a by simp_all
  then have "y * 100 < 2 powi 127"
    by (simp add: le_less_trans)
  have "ilog2 (9 / 10) \<le> ilog2 (y * 100)"
    using \<open>9 / 10 \<le> y * 100\<close> by (intro ilog2_mono) simp_all
  with il \<open>9 / 10 \<le> y * 100\<close> \<open>y * 100 < 2 powi 127\<close> obtain z
    where z: "fp_round binary32 False (y * 100) = Finite False z"
    and ez: "\<bar>z - y * 100\<bar> \<le> y * 100 * 2 powi (- 24)"
    using fp_round_error32 [of "y * 100" False] by auto
  have sb: "scaled_back a = z"
    by (simp add: scaled_back_def y z)
  have "\<bar>z - y * 100\<bar> \<le> (y * 100) / 16777216"
    using ez by simp
  then have "\<bar>z - a\<bar> \<le> a / 4194304"
    using yb a unfolding abs_le_iff by linarith
  then have "\<bar>z - a\<bar> \<le> a * 2 powi (- 22)"
    by simp
  moreover have "9 / 1000 \<le> y" "y \<le> 2 ^ 27"
    using \<open>9 / 10 \<le> y * 100\<close> \<open>y * 100 \<le> 134217728\<close> by simp_all
  moreover have "fp_round binary32 s (a / 100) = Finite s y" "fp_round binary32 s (y * 100) = Finite s z" for s
    using fp_round_sign [of binary32 s "a / 100"] fp_round_sign [of binary32 s "y * 100"] y z by simp_all
  ultimately show ?thesis
    using that unfolding sb by blast
qed

text \<open>Rounding commutes with a shift of the exponent, so only mantissas matter.\<close>

lemma ilog2_lower: "\<lbrakk>2 powi k \<le> x\<rbrakk> \<Longrightarrow> k \<le> ilog2 x"
  using ilog2_mono [of "2 powi k" x] ilog2_eqI [of k "2 powi k"] by (simp add: power_int_add)

lemma fp_round_scale32:
  assumes "2 powi (- 7) \<le> x" "- 15 \<le> k" "fp_round binary32 s x = Finite s y" "y * 2 powi k \<le> 2 powi 100"
  shows "fp_round binary32 s (x * 2 powi k) = Finite s (y * 2 powi k)"
proof (rule fp_round_scale)
  have "- 7 \<le> ilog2 x"
    using assms by (intro ilog2_lower)
  then show "fp_emin binary32 \<le> ilog2 x - int (fp_prec binary32) + 1"
    "fp_emin binary32 \<le> ilog2 x + k - int (fp_prec binary32) + 1"
    using assms by (simp_all add: binary32_def)
  show "0 < x"
    using assms by (simp add: less_le_trans)
  show "y * 2 powi k < 2 powi (fp_emax binary32 + 1)"
    using assms(4) by (rule le_less_trans) (simp add: binary32_def)
qed (use assms in simp)

lemma scaled_back_scale:
  assumes a: "1 \<le> a" "a \<le> 2048" and e: "e \<le> 15"
  shows "scaled_back (a * 2 ^ e) = scaled_back a * 2 ^ e"
proof (rule scaled_back_rounds [of a])
  fix y assume y: "\<And>s. fp_round binary32 s (a / 100) = Finite s y" "9 / 1000 \<le> y" "y \<le> 2 ^ 27"
    and z: "\<And>s. fp_round binary32 s (y * 100) = Finite s (scaled_back a)"
    "\<bar>scaled_back a - a\<bar> \<le> a * 2 powi (- 22)"
  have p: "2 ^ e \<le> (2 ^ 15 :: rat)"
    using e by (intro power_increasing) simp_all
  have "scaled_back a \<le> 4096"
    using z(2) a unfolding abs_le_iff by simp
  then have t: "y * 2 ^ e \<le> 2 ^ 27 * 2 ^ 15" "scaled_back a * 2 ^ e \<le> 4096 * 2 ^ 15"
    using y p by (intro mult_mono; simp)+
  have "fp_round binary32 False (a / 100 * 2 powi int e) = Finite False (y * 2 powi int e)"
    using y t a by (intro fp_round_scale32) simp_all
  moreover have "fp_round binary32 False (y * 100 * 2 powi int e) = Finite False (scaled_back a * 2 powi int e)"
    using y t z by (intro fp_round_scale32) simp_all
  ultimately show ?thesis
    by (simp add: scaled_back_def [of "a * 2 ^ e"] ac_simps)
qed (use a in simp_all)

lemma scaled_back_half:
  assumes a: "1 \<le> a" "a \<le> 2 ^ 26" and i: "i \<le> 15"
  shows "fp_round binary32 s (scaled_back a / 2 ^ i) = Finite s (scaled_back a / 2 ^ i)"
proof (rule scaled_back_rounds [of a])
  fix y assume y: "9 / 1000 \<le> y"
    and z: "\<And>s. fp_round binary32 s (y * 100) = Finite s (scaled_back a)"
    "\<bar>scaled_back a - a\<bar> \<le> a * 2 powi (- 22)"
  have "1 / 2 \<le> scaled_back a" "scaled_back a \<le> 2 ^ 27"
    using z(2) a unfolding abs_le_iff by simp_all
  moreover have "scaled_back a * 2 powi (- int i) \<le> 2 ^ 27 * 1"
    using \<open>1 / 2 \<le> scaled_back a\<close> \<open>scaled_back a \<le> 2 ^ 27\<close>
    by (intro mult_mono) (simp_all add: power_int_minus field_simps)
  then have "scaled_back a * 2 powi (- int i) \<le> 2 powi 100"
    by (rule order_trans) simp
  moreover have "fp_round binary32 s (scaled_back a) = Finite s (scaled_back a)"
    using y by (intro fp_round_idem [OF z(1)]) (simp_all add: binary32_def)
  ultimately have "fp_round binary32 s (scaled_back a * 2 powi (- int i)) = Finite s (scaled_back a * 2 powi (- int i))"
    using i by (intro fp_round_scale32) simp_all
  then show ?thesis
    by (simp add: power_int_minus divide_inverse)
qed (use a in simp_all)

text \<open>The loop stops at the first exponent at which the value fits.\<close>

lemma float_loop_stops:
  assumes "\<And>i. i \<le> 15 \<Longrightarrow> fp_round binary32 s (z / 2 ^ i) = Finite s (z / 2 ^ i)"
    and "\<And>i. i < e \<Longrightarrow> \<not> f32_range (Finite s (z / 2 ^ i))"
    and "f32_range (Finite s (z / 2 ^ e))" "e \<le> 15" "k \<le> e"
  shows "float_loop (Finite s (z / 2 ^ k)) k = (Finite s (z / 2 ^ e), e)"
  using \<open>k \<le> e\<close>
proof (induction rule: inc_induct)
  case base
  show ?case
    by (subst float_loop.simps) (simp add: assms)
next
  case (step k)
  have "fp_div binary32 (Finite s (z / 2 ^ k)) (fp_lit binary32 2) = Finite s (z / 2 ^ Suc k)"
    using assms(1) [of "Suc k"] step.hyps assms(4) by (simp add: ac_simps)
  then show ?case
    using step assms(2) [of k] assms(4) by (subst float_loop.simps) simp
qed

lemma f32_range_Finite:
  "0 \<le> x \<Longrightarrow> f32_range (Finite s x) \<longleftrightarrow> x \<le> (if s then 2048 else 2047)"
  by (simp add: f32_range_def fp_contains_def)

lemma scaled_back_max: "scaled_back 2047 \<le> 2047" "scaled_back 2048 \<le> 2048"
  by (simp_all add: scaled_back_def fp_eval)

lemma hundredths_float:
  "fp_of_int binary32 (knx_hundredths raw) =
     Finite (knx_mantissa raw < 0) (of_int \<bar>knx_mantissa raw\<bar> * 2 ^ knx_exponent raw)"
proof -
  have m: "\<bar>knx_mantissa raw\<bar> \<le> 2048"
    using knx_mantissa_bounds [of raw] by simp
  have "rat_of_int \<bar>knx_mantissa raw\<bar> * 2 ^ knx_exponent raw \<le> of_int 2048 * 2 ^ 15"
    using m knx_exponent_bound [of raw] by (intro mult_mono power_increasing) (simp_all only: of_int_le_iff, simp_all)
  then have "fp_round binary32 (knx_mantissa raw < 0) (of_int \<bar>knx_mantissa raw\<bar> * 2 ^ knx_exponent raw) =
      Finite (knx_mantissa raw < 0) (of_int \<bar>knx_mantissa raw\<bar> * 2 ^ knx_exponent raw)"
    using m by (intro fp_round_exact [of _ "\<bar>knx_mantissa raw\<bar>" "int (knx_exponent raw)"])
      (simp_all add: binary32_def le_less_trans)
  then show ?thesis
    by (simp add: fp_of_int_def knx_hundredths_def mult_less_0_iff abs_mult)
qed

text \<open>What the mantissa reads back as: close to itself and never outside of the range.\<close>

lemma scaled_back_mantissa:
  assumes n: "1 \<le> n" "n \<le> (if s then 2048 else 2047)"
  shows "\<bar>scaled_back (of_int n) - of_int n\<bar> \<le> 1 / 2048"
    and "scaled_back (of_int n) \<le> (if s then 2048 else 2047)"
    and "\<lfloor>scaled_back (of_int n) + 1 / 2\<rfloor> = n"
proof -
  have b: "1 \<le> rat_of_int n" "rat_of_int n \<le> 2048"
    using n by (simp_all split: if_splits)
  show err: "\<bar>scaled_back (of_int n) - of_int n\<bar> \<le> 1 / 2048"
  proof (rule scaled_back_rounds [of "of_int n"])
    assume "\<bar>scaled_back (rat_of_int n) - rat_of_int n\<bar> \<le> rat_of_int n * 2 powi - 22"
    then show ?thesis
      using b unfolding abs_le_iff by simp
  qed (use b in simp_all)
  show "\<lfloor>scaled_back (of_int n) + 1 / 2\<rfloor> = n"
    using err unfolding abs_le_iff by (simp add: floor_eq_iff)
  show "scaled_back (of_int n) \<le> (if s then 2048 else 2047)"
  proof (cases "n = (if s then 2048 else 2047)")
    case True
    then show ?thesis
      using scaled_back_max by (simp split: if_splits)
  next
    case False
    then have "n + 1 \<le> (if s then 2048 else 2047)"
      using n by simp
    then have "rat_of_int (n + 1) \<le> of_int (if s then 2048 else 2047)"
      by (simp only: of_int_le_iff)
    then show ?thesis
      using err unfolding abs_le_iff by (simp split: if_splits)
  qed
qed

lemma float_loop_mantissa:
  assumes n: "1 \<le> n" "n \<le> (if s then 2048 else 2047)" and e: "e \<le> 15"
    and c: "e = 0 \<or> (if s then 1025 else 1024) \<le> n"
  shows "float_loop (Finite s (scaled_back (of_int n * 2 ^ e))) 0 = (Finite s (scaled_back (of_int n)), e)"
proof -
  let ?q = "scaled_back (of_int n)"
  have b: "1 \<le> rat_of_int n" "rat_of_int n \<le> 2048"
    using n by (simp_all split: if_splits)
  have p: "1 \<le> (2 :: rat) ^ e" "(2 :: rat) ^ e \<le> 2 ^ 15"
    using e by (intro one_le_power power_increasing; simp)+
  have sz: "scaled_back (of_int n * 2 ^ e) = ?q * 2 ^ e"
    using b e by (intro scaled_back_scale)
  have q: "1 / 2 \<le> ?q"
    using scaled_back_mantissa(1) [OF n] b unfolding abs_le_iff by simp
  have "1 * 1 \<le> rat_of_int n * 2 ^ e" "rat_of_int n * 2 ^ e \<le> 2048 * 2 ^ 15"
    using b p by (intro mult_mono; simp)+
  then have exact: "fp_round binary32 s (?q * 2 ^ e / 2 ^ i) = Finite s (?q * 2 ^ e / 2 ^ i)" if "i \<le> 15" for i
    using scaled_back_half [of "of_int n * 2 ^ e" i s] that by (simp add: sz)
  have out: "\<not> f32_range (Finite s (?q * 2 ^ e / 2 ^ i))" if i: "i < e" for i
  proof -
    have "(2 :: rat) ^ 1 \<le> 2 ^ (e - i)"
      using i by (intro power_increasing) simp_all
    then have "?q * 2 \<le> ?q * 2 ^ (e - i)"
      using q by (intro mult_left_mono) simp_all
    moreover have "?q * 2 ^ (e - i) = ?q * 2 ^ e / 2 ^ i"
      using i by (simp add: power_diff)
    moreover have "rat_of_int (if s then 1025 else 1024) \<le> of_int n"
      using c i by (simp only: of_int_le_iff) simp
    ultimately show ?thesis
      using q scaled_back_mantissa(1) [OF n] unfolding abs_le_iff
      by (subst f32_range_Finite) (simp_all split: if_splits)
  qed
  have "f32_range (Finite s (?q * 2 ^ e / 2 ^ e))"
    using scaled_back_mantissa(2) [OF n] q by (simp add: f32_range_Finite)
  then show ?thesis
    using float_loop_stops [of s "?q * 2 ^ e" e 0] exact out e by (simp add: sz)
qed

lemma from_be_to_be2 [simp]: "from_be (to_be 2 raw) = raw" for raw :: u16
  by (rule from_be_to_be) simp

lemma to_be_zero: "to_be 2 (0 :: u16) = [0, 0]"
  by (simp add: to_be_def numeral_2_eq_2)

lemma and_7FF: "raw AND 0x07FF = take_bit 11 raw" for raw :: u16
  by (simp add: take_bit_eq_mask mask_eq_exp_minus_1)

lemma Temperature_zero: "knx_mantissa raw = 0 \<Longrightarrow> Temperature_new (Temperature_value (to_be 2 raw)) = Ok [0, 0]"
  by (simp add: Temperature_value_eq hundredths_float Temperature_new_def encode_2byte_float_to_bytes_def
      fp_eq_def fp_round_def f32_range_def guard_res_def Let_def)

lemma Temperature_canonical:
  assumes c: "knx_canonical raw" and nz: "knx_mantissa raw \<noteq> 0"
  shows "Temperature_new (Temperature_value (to_be 2 raw)) = Ok (to_be 2 raw)"
proof -
  define s n e where "s = (knx_mantissa raw < 0)" and "n = \<bar>knx_mantissa raw\<bar>" and "e = knx_exponent raw"
  have n: "1 \<le> n" "n \<le> (if s then 2048 else 2047)" and e: "e \<le> 15"
    and m: "knx_mantissa raw = (if s then - n else n)"
    using knx_mantissa_bounds [of raw] knx_exponent_bound [of raw] nz by (auto simp: s_def n_def e_def)
  have cn: "e = 0 \<or> (if s then 1025 else 1024) \<le> n"
    using c by (auto simp: knx_canonical_def s_def n_def e_def)
  have r: "1 \<le> rat_of_int n" "rat_of_int n \<le> 2048"
    using n by (simp_all split: if_splits)
  have p: "1 \<le> (2 :: rat) ^ e" "(2 :: rat) ^ e \<le> 2 ^ 15"
    using e by (intro one_le_power power_increasing; simp)+
  have b: "1 * 1 \<le> rat_of_int n * 2 ^ e" "rat_of_int n * 2 ^ e \<le> 2048 * 2 ^ 15"
    using r p by (intro mult_mono; simp)+
  obtain y where y: "fp_round binary32 s (of_int n * 2 ^ e / 100) = Finite s y"
    and z: "fp_round binary32 s (y * 100) = Finite s (scaled_back (of_int n * 2 ^ e))"
    and err: "\<bar>scaled_back (of_int n * 2 ^ e) - of_int n * 2 ^ e\<bar> \<le> of_int n * 2 ^ e * 2 powi (- 22)"
    by (rule scaled_back_rounds [of "of_int n * 2 ^ e"]) (use b in simp_all)
  have "1 \<le> \<lfloor>scaled_back (of_int n * 2 ^ e) + 1 / 2\<rfloor>"
    using err b unfolding abs_le_iff by (simp add: le_floor_iff)
  then have nz: "\<not> fp_eq (fp_round_away (Finite s (scaled_back (of_int n * 2 ^ e)))) (Finite False 0)"
    by (simp add: fp_eq_def del: one_le_floor)
  have "0 \<le> scaled_back (of_int n)"
    using scaled_back_mantissa(1) [OF n] r unfolding abs_le_iff by simp
  then have range: "f32_range (Finite s (scaled_back (of_int n)))"
    using scaled_back_mantissa(2) [OF n] by (simp add: f32_range_Finite)
  have "Temperature_value (to_be 2 raw) = Finite s y"
    using y by (simp add: Temperature_value_eq hundredths_float flip: s_def n_def e_def)
  moreover have "push_bit 15 (of_bool s) OR push_bit 11 (as_u16 e) OR
      ((word_of_int (if s then - n else n) :: u16) AND 0x07FF) = raw"
    using knx_pack [of raw] n unfolding m by (simp flip: e_def split: if_splits)
  ultimately show ?thesis
    using z nz range n
    by (simp add: Temperature_new_def encode_2byte_float_to_bytes_def float_loop_mantissa [OF n e cn]
        scaled_back_mantissa(3) [OF n] guard_res_def Let_def split: if_splits)
qed

text \<open>Every value has a canonical raw value.\<close>

definition knx_raw :: "int \<Rightarrow> nat \<Rightarrow> u16" where
  "knx_raw m e = push_bit 15 (of_bool (m < 0)) OR push_bit 11 (as_u16 e) OR (word_of_int m AND 0x07FF)"

lemma knx_raw_parts:
  assumes "- 2048 \<le> m" "m \<le> 2047" "e \<le> 15"
  shows "knx_mantissa (knx_raw m e) = m" "knx_exponent (knx_raw m e) = e"
proof -
  have low: "knx_raw m e AND 0x07FF = word_of_int m AND 0x07FF"
    unfolding and_7FF by (rule bit_word_eqI) (auto simp: knx_raw_def and_7FF bit_simps)
  have sign: "bit (knx_raw m e) 15 = (m < 0)"
    using assms by (simp add: knx_raw_def bit_simps) (simp add: bit_iff_odd)
  have "uint ((word_of_int m :: u16) AND 0x07FF) = m mod 2048"
    by (simp add: uint_and_7FF uint_word_of_int mod_mod_cancel)
  also have "\<dots> = (if m < 0 then m + 2048 else m)"
    using assms mod_add_self2 [of m 2048] mod_pos_pos_trivial [of "m + 2048" 2048]
      mod_pos_pos_trivial [of m 2048] by (simp split: if_splits)
  finally show "knx_mantissa (knx_raw m e) = m"
    by (simp add: knx_mantissa_def and_sign_bit low sign)
  have "take_bit 4 (drop_bit 11 (knx_raw m e)) = take_bit 4 (as_u16 e)"
    by (rule bit_word_eqI) (auto simp: knx_raw_def and_7FF bit_simps)
  then show "knx_exponent (knx_raw m e) = e"
    using assms by (simp add: knx_exponent_def codec_simps unsigned_take_bit_eq unsigned_of_nat take_bit_nat_eq_self)
qed

lemma knx_normal_ex:
  "\<lbrakk>- 2048 \<le> m; m \<le> 2047; e \<le> 15\<rbrakk> \<Longrightarrow>
     \<exists>raw. knx_canonical raw \<and> knx_hundredths raw = m * 2 ^ e \<and> (knx_mantissa raw = 0) = (m = 0)"
proof (induction e arbitrary: m)
  case 0
  then show ?case
    by (intro exI [of _ "knx_raw m 0"]) (simp add: knx_canonical_def knx_hundredths_def knx_raw_parts)
next
  case (Suc e)
  show ?case
  proof (cases "m < - 1024 \<or> 1023 < m")
    case True
    with Suc.prems show ?thesis
      by (intro exI [of _ "knx_raw m (Suc e)"]) (simp add: knx_canonical_def knx_hundredths_def knx_raw_parts)
  next
    case False
    with Suc.prems show ?thesis
      using Suc.IH [of "m * 2"] by (simp add: ac_simps)
  qed
qed

text \<open>C16: the typed 2-byte float is exact.  Building a \<open>Temperature\<close> from the \<open>f32\<close> that any raw value
  reads as succeeds, gives the canonical raw value of the same number, and gives back exactly the raw
  values that were canonical.\<close>

theorem temperature_roundtrip:
  "(\<exists>raw'. Temperature_new (Temperature_value (to_be 2 raw)) = Ok (to_be 2 raw') \<and> knx_canonical raw' \<and>
      Temperature_value (to_be 2 raw') = Temperature_value (to_be 2 raw)) \<and>
   (Temperature_new (Temperature_value (to_be 2 raw)) = Ok (to_be 2 raw) \<longleftrightarrow> knx_canonical raw)"
  for raw :: u16
proof -
  let ?new = "Temperature_new (Temperature_value (to_be 2 raw))"
  obtain raw' where c: "knx_canonical raw'" and h: "knx_hundredths raw' = knx_hundredths raw"
    and z: "(knx_mantissa raw' = 0) = (knx_mantissa raw = 0)"
    using knx_normal_ex [of "knx_mantissa raw" "knx_exponent raw"] knx_mantissa_bounds [of raw]
      knx_exponent_bound [of raw] by (auto simp: knx_hundredths_def)
  have v: "Temperature_value (to_be 2 raw') = Temperature_value (to_be 2 raw)"
    by (simp add: Temperature_value_eq h)
  have "?new = Ok (to_be 2 raw')"
  proof (cases "knx_mantissa raw = 0")
    case True
    then have "raw' = 0"
      using z c knx_pack [of raw'] by (auto simp: knx_canonical_def)
    then show ?thesis
      using True by (simp add: Temperature_zero to_be_zero)
  next
    case False
    then show ?thesis
      using Temperature_canonical [OF c] z v by simp
  qed
  moreover have "?new = Ok (to_be 2 raw) \<longleftrightarrow> knx_canonical raw"
  proof
    assume "?new = Ok (to_be 2 raw)"
    then have "to_be 2 raw = to_be 2 raw'"
      using \<open>?new = Ok (to_be 2 raw')\<close> by simp
    then have "from_be (to_be 2 raw) = (from_be (to_be 2 raw') :: u16)"
      by (rule arg_cong)
    then show "knx_canonical raw"
      using c by simp
  next
    assume c: "knx_canonical raw"
    then show "?new = Ok (to_be 2 raw)"
      using Temperature_canonical [OF c] Temperature_zero [of raw] knx_pack [of raw]
      by (cases "knx_mantissa raw = 0") (auto simp: knx_canonical_def to_be_zero)
  qed
  ultimately show ?thesis
    using c v by blast
qed

section \<open>The runtime codec is not\<close>

lemma dpt9_shift_eval:
  "m = - (2 ^ 31) \<Longrightarrow> dpt9_shift checks m e = (if checks then Panic else Ok (m, e))"
  "\<lbrakk>m \<noteq> - (2 ^ 31); \<bar>m\<bar> \<le> 2047\<rbrakk> \<Longrightarrow> dpt9_shift checks m e = Ok (m, e)"
  "\<lbrakk>m \<noteq> - (2 ^ 31); 2047 < \<bar>m\<bar>\<rbrakk> \<Longrightarrow> dpt9_shift checks m e = dpt9_shift checks (m div 2) (e + 1)"
  by (subst dpt9_shift.simps; simp)+

lemma to_be_2: "to_be 2 raw = [ucast (drop_bit 8 raw), ucast raw]" for raw :: u16
  by (simp add: to_be_def numeral_2_eq_2)

lemma dpt_encode_temperature: "dpt_encode checks Dpt_Temperature (P_Float v) = dpt9_encode checks v"
  by (simp add: dpt_encode_def dpt_main_def)

lemma decoded_temperature: "decoded_value Dpt_Temperature (to_be 2 raw) = Ok (P_Float (knx_float raw))"
  by (simp add: to_be_2 decoded_value_def decode_ref_main dpt_main_def view_defs guard_res_def)

lemma read_29: "knx_mantissa 29 = 29" "knx_exponent 29 = 0"
  by (simp_all add: knx_mantissa_def knx_exponent_def)

lemma hundredths_29:
  "fp_to_int (- 2147483648) 2147483647 (fp_mul binary64 (knx_float 29) (fp_lit binary64 100)) = 28"
  by (simp add: knx_float_def read_29 fp_eval)

text \<open>The runtime codec of DPT 9 truncates where the typed one rounds.  The raw value \<open>00 1D\<close>, 0.29
  degrees, decodes to a number that encodes as \<open>00 1C\<close>, 0.28 degrees, while \<open>Temperature\<close> gives the
  input back.\<close>

lemma runtime_float_truncates:
  "bind_res (decoded_value Dpt_Temperature [0, 29]) (dpt_encode checks Dpt_Temperature) = Ok [0, 28] \<and>
   Temperature_new (Temperature_value [0, 29]) = Ok [0, 29]"
proof -
  have b: "to_be 2 (29 :: u16) = [0, 29]"
    by (simp add: to_be_2)
  have "dpt9_encode checks (knx_float 29) = Ok (to_be 2 (dpt9_pack 28 0))"
    by (simp add: dpt9_encode_def hundredths_29 dpt9_shift_eval)
  then show ?thesis
    using decoded_temperature [of 29] Temperature_canonical [of 29]
    by (simp add: b read_29 knx_canonical_def dpt_encode_temperature) (simp add: to_be_2 dpt9_pack_def)
qed

text \<open>Beyond 670760.96 the exponent does not fit its four bits: 1048576 is written as 16.00.  A value below
  -21474836.48 saturates to \<open>i32::MIN\<close>, whose \<open>abs\<close> panics in a debug build.\<close>

lemma runtime_float_wraps:
  "dpt_encode checks Dpt_Temperature (P_Float (fp_lit binary64 1048576)) = Ok (to_be 2 (1600 :: u16))"
  "dpt_encode True Dpt_Temperature (P_Float (fp_lit binary64 (- 21474837))) = Panic"
proof -
  have "fp_to_int (- (2 ^ 31)) (2 ^ 31 - 1) (fp_mul binary64 (fp_lit binary64 1048576) (fp_lit binary64 100)) = 104857600"
    by (simp add: fp_eval)
  then show "dpt_encode checks Dpt_Temperature (P_Float (fp_lit binary64 1048576)) = Ok (to_be 2 (1600 :: u16))"
    by (simp add: dpt_encode_temperature dpt9_encode_def dpt9_shift_eval dpt9_pack_def)
  have "fp_to_int (- (2 ^ 31)) (2 ^ 31 - 1) (fp_mul binary64 (fp_lit binary64 (- 21474837)) (fp_lit binary64 100)) = - (2 ^ 31)"
    by (simp add: fp_eval)
  then show "dpt_encode True Dpt_Temperature (P_Float (fp_lit binary64 (- 21474837))) = Panic"
    by (simp add: dpt_encode_temperature dpt9_encode_def dpt9_shift_eval)
qed

text \<open>The typed DPT 8.010 truncates too: 0.29 percent becomes 0.28 percent.\<close>

lemma percent_v16_truncates: "DPTPercentV16_new (DPTPercentV16_value (to_be 2 (29 :: u16))) = Ok (to_be 2 (28 :: u16))"
proof -
  have "sint (29 :: u16) = 29"
    by simp
  then have "fp_to_int (- 2147483648) 2147483647
      (fp_div binary64 (DPTPercentV16_value (to_be 2 (29 :: u16))) (fp_lit binary64 (1 / 100))) = 28"
    and "is_finite (DPTPercentV16_value (to_be 2 (29 :: u16)))"
    by (simp_all add: DPTPercentV16_value_def fp_eval)
  then show ?thesis
    by (simp add: DPTPercentV16_new_def guard_res_def)
qed

end
