(* ===== verification/Dpt_Registry.thy ===== *)
theory Dpt_Registry
  imports Dpt_Float
begin

text \<open>
  The registry of the typed datapoint types, \<open>src/protocol/dpt/mod.rs\<close>, with the 197 aliases and 13
  structs it registers.

  \<^item> A row of \<open>registered_types\<close> is a type that implements \<open>DptValue\<close>: the struct behind it, its name, the
    number and value type if it is an alias, its unit and its Home Assistant device class.
  \<^item> \<open>generic_decoder\<close> is \<open>GenericDptDecoder<T>\<close>; a registry maps numbers to decoders and value types to numbers.

  Shown: the registry has exactly one decoder for every variant of \<open>DptType\<close>, with the same number and
  byte length (\<open>registry_matches_dpt_type\<close>); decoding through it never panics and what it decodes can be
  encoded again (\<open>registry_roundtrip\<close>); and the value it decodes is the one the runtime decoder of
  \<open>DptType\<close> gives (\<open>typed_runtime_agree\<close>).  The units of eight types differ (\<open>units_differ\<close>).
\<close>

section \<open>Decoders\<close>

text \<open>The structs that implement \<open>DptValue\<close>.\<close>


datatype dpt_struct =
    S_Switch | S_BinaryControl | S_ControlDimming | S_ControlBlinds | S_Scaling |
  S_PercentV8 | S_Value1Count | S_Value2ByteUnsigned | S_Brightness | S_Value2ByteSigned |
  S_DPTPercentV16 | S_Temperature | S_Value4ByteUnsigned | S_Value4ByteSigned |
  S_ActiveEnergy | S_Dpt14Float | S_TimeOfDay | S_Date | S_StringAscii | S_StringLatin1 |
  S_SceneNumber | S_SceneControl | S_DateTime | S_HVACMode | S_HVACControllerMode |
  S_ActiveEnergy8Byte | S_ColorRGB | S_TariffActiveEnergy | S_ColorXYY | S_ColorRGBW

text \<open>The value behind \<open>Box<dyn Any>\<close>: the name of its type, which is what \<open>downcast_ref\<close> compares, and its contents.\<close>

datatype boxed =
    X_Switch (un_Switch: bytes)
  | X_BinaryControl (un_BinaryControl: bytes)
  | X_ControlDimming (un_ControlDimming: bytes)
  | X_ControlBlinds (un_ControlBlinds: bytes)
  | X_Scaling (un_Scaling: bytes)
  | X_PercentV8 (un_PercentV8: bytes)
  | X_Value1Count (un_Value1Count: bytes)
  | X_Value2ByteUnsigned (un_Value2ByteUnsigned: bytes)
  | X_Brightness (un_Brightness: bytes)
  | X_Value2ByteSigned (un_Value2ByteSigned: bytes)
  | X_DPTPercentV16 (un_DPTPercentV16: bytes)
  | X_Temperature (un_Temperature: bytes)
  | X_Value4ByteUnsigned (un_Value4ByteUnsigned: bytes)
  | X_Value4ByteSigned (un_Value4ByteSigned: bytes)
  | X_ActiveEnergy (un_ActiveEnergy: bytes)
  | X_Dpt14Float (un_Dpt14Float: bytes)
  | X_TimeOfDay (un_TimeOfDay: time_of_day)
  | X_Date (un_Date: date)
  | X_StringAscii (un_StringAscii: dpt_string)
  | X_StringLatin1 (un_StringLatin1: dpt_string)
  | X_SceneNumber (un_SceneNumber: scene_number)
  | X_SceneControl (un_SceneControl: scene_control)
  | X_DateTime (un_DateTime: date_time)
  | X_HVACMode (un_HVACMode: hvac)
  | X_HVACControllerMode (un_HVACControllerMode: hvac)
  | X_ActiveEnergy8Byte (un_ActiveEnergy8Byte: energy8)
  | X_ColorRGB (un_ColorRGB: color_rgb)
  | X_TariffActiveEnergy (un_TariffActiveEnergy: tariff_energy)
  | X_ColorXYY (un_ColorXYY: color_xyy)
  | X_ColorRGBW (un_ColorRGBW: color_rgbw)

datatype any_value = Any string boxed

record dpt_metadata =
  dm_number :: string
  dm_value_type :: string
  dm_unit :: "string option"
  dm_ha_device_class :: "string option"
  dm_byte_length :: nat

record dyn_decoder =
  dd_decode_bytes :: "bytes \<Rightarrow> any_value result"
  dd_encode_any :: "any_value \<Rightarrow> bytes result"
  dd_number :: string
  dd_metadata :: dpt_metadata

text \<open>\<open>downcast_ref\<close>: the type has to be the same; the contents then have its shape.\<close>

fun downcast :: "string \<Rightarrow> (boxed \<Rightarrow> bool) \<Rightarrow> (boxed \<Rightarrow> 'a) \<Rightarrow> any_value \<Rightarrow> 'a option" where
  "downcast ty is_X un_X (Any ty' b) = (if ty' = ty \<and> is_X b then Some (un_X b) else None)"

definition metadata :: "string option \<Rightarrow> string option \<Rightarrow> 'a dpt_value \<Rightarrow> dpt_metadata" where
  "metadata u h D =
     \<lparr>dm_number = dv_number D, dm_value_type = dv_value_type D, dm_unit = u, dm_ha_device_class = h,
      dm_byte_length = dv_byte_length D\<rparr>"

definition generic_decoder ::
  "string \<Rightarrow> string option \<Rightarrow> string option \<Rightarrow> ('a \<Rightarrow> boxed) \<Rightarrow> (boxed \<Rightarrow> bool) \<Rightarrow> (boxed \<Rightarrow> 'a) \<Rightarrow>
   'a dpt_value \<Rightarrow> dyn_decoder" where
  "generic_decoder ty u h X is_X un_X D =
     \<lparr>dd_decode_bytes = (\<lambda>data. bind_res (dv_decode D data) (\<lambda>v. Ok (Any ty (X v)))),
      dd_encode_any = (\<lambda>value.
        case downcast ty is_X un_X value of
          None \<Rightarrow> Err (err_dpt (dv_number D))
        | Some v \<Rightarrow> Ok (dv_as_bytes D v)),
      dd_number = dv_number D,
      dd_metadata = metadata u h D\<rparr>"

text \<open>\<open>dpt_alias!\<close> gives a struct another number and value type.\<close>

fun renamed :: "(string \<times> string) option \<Rightarrow> 'a dpt_value \<Rightarrow> 'a dpt_value" where
  "renamed None D = D"
| "renamed (Some (num, ty)) D = dpt_alias num ty D"

type_synonym dpt_row =
  "dpt_struct \<times> string \<times> (string \<times> string) option \<times> string option \<times> string option"


fun struct_decoder ::
  "dpt_struct \<Rightarrow> string \<Rightarrow> (string \<times> string) option \<Rightarrow> string option \<Rightarrow> string option \<Rightarrow> dyn_decoder" where
  "struct_decoder S_Switch ty al u h =
     generic_decoder ty u h X_Switch is_X_Switch un_Switch (renamed al Switch_dpt)"
| "struct_decoder S_BinaryControl ty al u h =
     generic_decoder ty u h X_BinaryControl is_X_BinaryControl un_BinaryControl (renamed al BinaryControl_dpt)"
| "struct_decoder S_ControlDimming ty al u h =
     generic_decoder ty u h X_ControlDimming is_X_ControlDimming un_ControlDimming (renamed al ControlDimming_dpt)"
| "struct_decoder S_ControlBlinds ty al u h =
     generic_decoder ty u h X_ControlBlinds is_X_ControlBlinds un_ControlBlinds (renamed al ControlBlinds_dpt)"
| "struct_decoder S_Scaling ty al u h =
     generic_decoder ty u h X_Scaling is_X_Scaling un_Scaling (renamed al Scaling_dpt)"
| "struct_decoder S_PercentV8 ty al u h =
     generic_decoder ty u h X_PercentV8 is_X_PercentV8 un_PercentV8 (renamed al PercentV8_dpt)"
| "struct_decoder S_Value1Count ty al u h =
     generic_decoder ty u h X_Value1Count is_X_Value1Count un_Value1Count (renamed al Value1Count_dpt)"
| "struct_decoder S_Value2ByteUnsigned ty al u h =
     generic_decoder ty u h X_Value2ByteUnsigned is_X_Value2ByteUnsigned un_Value2ByteUnsigned (renamed al Value2ByteUnsigned_dpt)"
| "struct_decoder S_Brightness ty al u h =
     generic_decoder ty u h X_Brightness is_X_Brightness un_Brightness (renamed al Brightness_dpt)"
| "struct_decoder S_Value2ByteSigned ty al u h =
     generic_decoder ty u h X_Value2ByteSigned is_X_Value2ByteSigned un_Value2ByteSigned (renamed al Value2ByteSigned_dpt)"
| "struct_decoder S_DPTPercentV16 ty al u h =
     generic_decoder ty u h X_DPTPercentV16 is_X_DPTPercentV16 un_DPTPercentV16 (renamed al DPTPercentV16_dpt)"
| "struct_decoder S_Temperature ty al u h =
     generic_decoder ty u h X_Temperature is_X_Temperature un_Temperature (renamed al Temperature_dpt)"
| "struct_decoder S_Value4ByteUnsigned ty al u h =
     generic_decoder ty u h X_Value4ByteUnsigned is_X_Value4ByteUnsigned un_Value4ByteUnsigned (renamed al Value4ByteUnsigned_dpt)"
| "struct_decoder S_Value4ByteSigned ty al u h =
     generic_decoder ty u h X_Value4ByteSigned is_X_Value4ByteSigned un_Value4ByteSigned (renamed al Value4ByteSigned_dpt)"
| "struct_decoder S_ActiveEnergy ty al u h =
     generic_decoder ty u h X_ActiveEnergy is_X_ActiveEnergy un_ActiveEnergy (renamed al ActiveEnergy_dpt)"
| "struct_decoder S_Dpt14Float ty al u h =
     generic_decoder ty u h X_Dpt14Float is_X_Dpt14Float un_Dpt14Float (renamed al Dpt14Float_dpt)"
| "struct_decoder S_TimeOfDay ty al u h =
     generic_decoder ty u h X_TimeOfDay is_X_TimeOfDay un_TimeOfDay (renamed al TimeOfDay_dpt)"
| "struct_decoder S_Date ty al u h =
     generic_decoder ty u h X_Date is_X_Date un_Date (renamed al Date_dpt)"
| "struct_decoder S_StringAscii ty al u h =
     generic_decoder ty u h X_StringAscii is_X_StringAscii un_StringAscii (renamed al StringAscii_dpt)"
| "struct_decoder S_StringLatin1 ty al u h =
     generic_decoder ty u h X_StringLatin1 is_X_StringLatin1 un_StringLatin1 (renamed al StringLatin1_dpt)"
| "struct_decoder S_SceneNumber ty al u h =
     generic_decoder ty u h X_SceneNumber is_X_SceneNumber un_SceneNumber (renamed al SceneNumber_dpt)"
| "struct_decoder S_SceneControl ty al u h =
     generic_decoder ty u h X_SceneControl is_X_SceneControl un_SceneControl (renamed al SceneControl_dpt)"
| "struct_decoder S_DateTime ty al u h =
     generic_decoder ty u h X_DateTime is_X_DateTime un_DateTime (renamed al DateTime_dpt)"
| "struct_decoder S_HVACMode ty al u h =
     generic_decoder ty u h X_HVACMode is_X_HVACMode un_HVACMode (renamed al HVACMode_dpt)"
| "struct_decoder S_HVACControllerMode ty al u h =
     generic_decoder ty u h X_HVACControllerMode is_X_HVACControllerMode un_HVACControllerMode (renamed al HVACControllerMode_dpt)"
| "struct_decoder S_ActiveEnergy8Byte ty al u h =
     generic_decoder ty u h X_ActiveEnergy8Byte is_X_ActiveEnergy8Byte un_ActiveEnergy8Byte (renamed al ActiveEnergy8Byte_dpt)"
| "struct_decoder S_ColorRGB ty al u h =
     generic_decoder ty u h X_ColorRGB is_X_ColorRGB un_ColorRGB (renamed al ColorRGB_dpt)"
| "struct_decoder S_TariffActiveEnergy ty al u h =
     generic_decoder ty u h X_TariffActiveEnergy is_X_TariffActiveEnergy un_TariffActiveEnergy (renamed al TariffActiveEnergy_dpt)"
| "struct_decoder S_ColorXYY ty al u h =
     generic_decoder ty u h X_ColorXYY is_X_ColorXYY un_ColorXYY (renamed al ColorXYY_dpt)"
| "struct_decoder S_ColorRGBW ty al u h =
     generic_decoder ty u h X_ColorRGBW is_X_ColorRGBW un_ColorRGBW (renamed al ColorRGBW_dpt)"

text \<open>The registered types, one list per source file.\<close>

definition dpt1_types :: "dpt_row list" where
  "dpt1_types = [
     (S_Switch, ''DPTSwitch'', Some (''1.001'', ''switch''), None, None),
     (S_Switch, ''DPTBool'', Some (''1.002'', ''bool''), None, None),
     (S_Switch, ''DPTEnable'', Some (''1.003'', ''enable''), None, None),
     (S_Switch, ''DPTRamp'', Some (''1.004'', ''ramp''), None, None),
     (S_Switch, ''DPTAlarm'', Some (''1.005'', ''alarm''), None, None),
     (S_Switch, ''DPTBinaryValue'', Some (''1.006'', ''binary_value''), None, None),
     (S_Switch, ''DPTStep'', Some (''1.007'', ''step''), None, None),
     (S_Switch, ''DPTUpDown'', Some (''1.008'', ''up_down''), None, None),
     (S_Switch, ''DPTOpenClose'', Some (''1.009'', ''open_close''), None, None),
     (S_Switch, ''DPTStart'', Some (''1.010'', ''start''), None, None),
     (S_Switch, ''DPTState'', Some (''1.011'', ''state''), None, None),
     (S_Switch, ''DPTInvert'', Some (''1.012'', ''invert''), None, None),
     (S_Switch, ''DPTDimSendStyle'', Some (''1.013'', ''dim_send_style''), None, None),
     (S_Switch, ''DPTInputSource'', Some (''1.014'', ''input_source''), None, None),
     (S_Switch, ''DPTReset'', Some (''1.015'', ''reset''), None, None),
     (S_Switch, ''DPTAck'', Some (''1.016'', ''ack''), None, None),
     (S_Switch, ''DPTTrigger'', Some (''1.017'', ''trigger''), None, None),
     (S_Switch, ''DPTOccupancy'', Some (''1.018'', ''occupancy''), None, None),
     (S_Switch, ''DPTWindowDoor'', Some (''1.019'', ''window_door''), None, None),
     (S_Switch, ''DPTLogicalFunction'', Some (''1.021'', ''logical_function''), None, None),
     (S_Switch, ''DPTSceneAB'', Some (''1.022'', ''scene_ab''), None, None),
     (S_Switch, ''DPTShutterBlindsMode'', Some (''1.023'', ''shutter_blinds_mode''), None, None),
     (S_Switch, ''DPTDayNight'', Some (''1.024'', ''day_night''), None, None),
     (S_Switch, ''DPTHeatCool'', Some (''1.100'', ''heat_cool''), None, None),
     (S_Switch, ''DPTConsumerProducer'', Some (''1.1200'', ''consumer_producer''), None, None),
     (S_Switch, ''DPTEnergyDirection'', Some (''1.1201'', ''energy_direction''), None, None)]"

definition dpt2_types :: "dpt_row list" where
  "dpt2_types = [
     (S_BinaryControl, ''DPTSwitchControl'', Some (''2.001'', ''switch_control''), None, None),
     (S_BinaryControl, ''DPTBoolControl'', Some (''2.002'', ''bool_control''), None, None),
     (S_BinaryControl, ''DPTEnableControl'', Some (''2.003'', ''enable_control''), None, None),
     (S_BinaryControl, ''DPTRampControl'', Some (''2.004'', ''ramp_control''), None, None),
     (S_BinaryControl, ''DPTAlarmControl'', Some (''2.005'', ''alarm_control''), None, None),
     (S_BinaryControl, ''DPTBinaryValueControl'', Some (''2.006'', ''binary_value_control''), None, None),
     (S_BinaryControl, ''DPTStepControl'', Some (''2.007'', ''step_control''), None, None),
     (S_BinaryControl, ''DPTDirection1Control'', Some (''2.008'', ''direction1_control''), None, None),
     (S_BinaryControl, ''DPTDirection2Control'', Some (''2.009'', ''direction2_control''), None, None),
     (S_BinaryControl, ''DPTStartControl'', Some (''2.010'', ''start_control''), None, None),
     (S_BinaryControl, ''DPTStateControl'', Some (''2.011'', ''state_control''), None, None),
     (S_BinaryControl, ''DPTInvertControl'', Some (''2.012'', ''invert_control''), None, None)]"

definition dpt3_types :: "dpt_row list" where
  "dpt3_types = [
     (S_ControlDimming, ''ControlDimming'', None, None, None),
     (S_ControlBlinds, ''ControlBlinds'', None, None, None)]"

definition dpt5_types :: "dpt_row list" where
  "dpt5_types = [
     (S_Scaling, ''DPTScaling'', Some (''5.001'', ''percent''), Some ''%'', None),
     (S_Scaling, ''DPTAngle'', Some (''5.003'', ''angle''), Some ([CHR 0xC2, CHR 0xB0]), None),
     (S_Scaling, ''DPTPercentU8'', Some (''5.004'', ''percentU8''), Some ''%'', None),
     (S_Scaling, ''DPTDecimalFactor'', Some (''5.005'', ''decimal_factor''), None, None),
     (S_Scaling, ''DPTTariff'', Some (''5.006'', ''tariff''), None, None),
     (S_Scaling, ''DPTValue1Ucount'', Some (''5.010'', ''pulse''), None, None)]"

definition dpt6_types :: "dpt_row list" where
  "dpt6_types = [
     (S_PercentV8, ''DPTPercentV8'', Some (''6.001'', ''percentV8''), Some ''%'', None),
     (S_Value1Count, ''DPTValue1Count'', Some (''6.010'', ''counter_pulses''), Some ''counter pulses'', None)]"

definition dpt7_types :: "dpt_row list" where
  "dpt7_types = [
     (S_Value2ByteUnsigned, ''DPT2Ucount'', Some (''7.001'', ''pulse_2byte''), None, None),
     (S_Value2ByteUnsigned, ''DPTTimePeriodMsec'', Some (''7.002'', ''time_period_msec''), Some ''ms'', None),
     (S_Value2ByteUnsigned, ''DPTTimePeriod10Msec'', Some (''7.003'', ''time_period_10msec''), Some ''ms'', None),
     (S_Value2ByteUnsigned, ''DPTTimePeriod100Msec'', Some (''7.004'', ''time_period_100msec''), Some ''ms'', None),
     (S_Value2ByteUnsigned, ''DPTTimePeriodSec'', Some (''7.005'', ''time_period_sec''), Some ''s'', None),
     (S_Value2ByteUnsigned, ''DPTTimePeriodMin'', Some (''7.006'', ''time_period_min''), Some ''min'', None),
     (S_Value2ByteUnsigned, ''DPTTimePeriodHrs'', Some (''7.007'', ''time_period_hrs''), Some ''h'', None),
     (S_Value2ByteUnsigned, ''DPTPropDataType'', Some (''7.010'', ''prop_data_type''), None, None),
     (S_Value2ByteUnsigned, ''DPTLengthMm'', Some (''7.011'', ''length_mm''), Some ''mm'', None),
     (S_Value2ByteUnsigned, ''DPTUElCurrentmA'', Some (''7.012'', ''current''), Some ''mA'', None),
     (S_Brightness, ''DPTBrightness'', Some (''7.013'', ''brightness''), Some ''lux'', Some ''illuminance''),
     (S_Value2ByteUnsigned, ''DPTColorTemperature'', Some (''7.600'', ''color_temperature''), Some ''K'', None)]"

definition dpt8_types :: "dpt_row list" where
  "dpt8_types = [
     (S_Value2ByteSigned, ''DPTValue2Count'', Some (''8.001'', ''pulse_2byte_signed''), None, None),
     (S_Value2ByteSigned, ''DPTDeltaTimeMsec'', Some (''8.002'', ''delta_time_ms''), Some ''ms'', None),
     (S_Value2ByteSigned, ''DPTDeltaTime10Msec'', Some (''8.003'', ''delta_time_10ms''), Some ''ms'', None),
     (S_Value2ByteSigned, ''DPTDeltaTime100Msec'', Some (''8.004'', ''delta_time_100ms''), Some ''ms'', None),
     (S_Value2ByteSigned, ''DPTDeltaTimeSec'', Some (''8.005'', ''delta_time_sec''), Some ''s'', None),
     (S_Value2ByteSigned, ''DPTDeltaTimeMin'', Some (''8.006'', ''delta_time_min''), Some ''min'', None),
     (S_Value2ByteSigned, ''DPTDeltaTimeHrs'', Some (''8.007'', ''delta_time_hrs''), Some ''h'', None),
     (S_DPTPercentV16, ''DPTPercentV16'', None, Some ''%'', None),
     (S_Value2ByteSigned, ''DPTRotationAngle'', Some (''8.011'', ''rotation_angle''), Some ([CHR 0xC2, CHR 0xB0]), None),
     (S_Value2ByteSigned, ''DPTLengthM'', Some (''8.012'', ''length_m''), Some ''m'', None)]"

definition dpt9_types :: "dpt_row list" where
  "dpt9_types = [
     (S_Temperature, ''DPTTemperature'', Some (''9.001'', ''temperature''), Some ([CHR 0xC2, CHR 0xB0] @ ''C''), Some ''temperature''),
     (S_Temperature, ''DPTTemperatureDifference2Byte'', Some (''9.002'', ''temperature_difference_2byte''), Some ''K'', Some ''temperature''),
     (S_Temperature, ''DPTTemperatureA'', Some (''9.003'', ''temperature_a''), Some ''K/h'', None),
     (S_Temperature, ''DPTLux'', Some (''9.004'', ''illuminance''), Some ''lx'', Some ''illuminance''),
     (S_Temperature, ''DPTWsp'', Some (''9.005'', ''wind_speed_ms''), Some ''m/s'', Some ''wind_speed''),
     (S_Temperature, ''DPTPressure2Byte'', Some (''9.006'', ''pressure_2byte''), Some ''Pa'', Some ''pressure''),
     (S_Temperature, ''DPTHumidity'', Some (''9.007'', ''humidity''), Some ''%'', Some ''humidity''),
     (S_Temperature, ''DPTPartsPerMillion'', Some (''9.008'', ''ppm''), Some ''ppm'', None),
     (S_Temperature, ''DPTAirFlow'', Some (''9.009'', ''air_flow''), Some (''m'' @ [CHR 0xC2, CHR 0xB3] @ ''/h''), None),
     (S_Temperature, ''DPTTime1'', Some (''9.010'', ''time_1''), Some ''s'', None),
     (S_Temperature, ''DPTTime2'', Some (''9.011'', ''time_2''), Some ''ms'', None),
     (S_Temperature, ''DPTVoltage'', Some (''9.020'', ''voltage''), Some ''mV'', Some ''voltage''),
     (S_Temperature, ''DPTCurrent'', Some (''9.021'', ''curr''), Some ''mA'', Some ''current''),
     (S_Temperature, ''DPTPowerDensity'', Some (''9.022'', ''power_density''), Some (''W/m'' @ [CHR 0xC2, CHR 0xB2]), None),
     (S_Temperature, ''DPTKelvinPerPercent'', Some (''9.023'', ''kelvin_per_percent''), Some ''K/%'', None),
     (S_Temperature, ''DPTPower2Byte'', Some (''9.024'', ''power_2byte''), Some ''kW'', Some ''power''),
     (S_Temperature, ''DPTVolumeFlow'', Some (''9.025'', ''volume_flow''), Some ''L/h'', None),
     (S_Temperature, ''DPTRainAmount'', Some (''9.026'', ''rain_amount''), Some (''L/m'' @ [CHR 0xC2, CHR 0xB2]), None),
     (S_Temperature, ''DPTTemperatureF'', Some (''9.027'', ''temperature_f''), Some ([CHR 0xC2, CHR 0xB0] @ ''F''), Some ''temperature''),
     (S_Temperature, ''DPTWspKmh'', Some (''9.028'', ''wind_speed_kmh''), Some ''km/h'', Some ''wind_speed''),
     (S_Temperature, ''DPTAbsoluteHumidity'', Some (''9.029'', ''absolute_humidity''), Some (''g/m'' @ [CHR 0xC2, CHR 0xB3]), None),
     (S_Temperature, ''DPTConcentrationUGM3'', Some (''9.030'', ''concentration_ugm3''), Some ([CHR 0xCE, CHR 0xBC] @ ''g/m'' @ [CHR 0xC2, CHR 0xB3]), None),
     (S_Temperature, ''DPTEnthalpy'', Some (''9.60000'', ''enthalpy''), Some ''H'', None)]"

definition dpt12_types :: "dpt_row list" where
  "dpt12_types = [
     (S_Value4ByteUnsigned, ''DPTValue4Ucount'', Some (''12.001'', ''pulse_4_ucount''), Some ''counter pulses'', None),
     (S_Value4ByteUnsigned, ''DPTLongTimePeriodSec'', Some (''12.100'', ''long_time_period_sec''), Some ''s'', None),
     (S_Value4ByteUnsigned, ''DPTLongTimePeriodMin'', Some (''12.101'', ''long_time_period_min''), Some ''min'', None),
     (S_Value4ByteUnsigned, ''DPTLongTimePeriodHrs'', Some (''12.102'', ''long_time_period_hrs''), Some ''h'', None),
     (S_Value4ByteUnsigned, ''DPTVolumeLiquidLitre'', Some (''12.1200'', ''volume_liquid_litre''), Some ''L'', None),
     (S_Value4ByteUnsigned, ''DPTVolumeM3'', Some (''12.1201'', ''volume_m3''), Some (''m'' @ [CHR 0xC2, CHR 0xB3]), None)]"

definition dpt13_types :: "dpt_row list" where
  "dpt13_types = [
     (S_Value4ByteSigned, ''DPTValue4Count'', Some (''13.001'', ''pulse_4byte''), Some ''counter pulses'', None),
     (S_Value4ByteSigned, ''DPTFlowRateM3H'', Some (''13.002'', ''flow_rate_m3h''), Some (''m'' @ [CHR 0xC2, CHR 0xB3] @ ''/h''), None),
     (S_ActiveEnergy, ''DPTActiveEnergy'', Some (''13.010'', ''active_energy''), Some ''Wh'', Some ''energy''),
     (S_Value4ByteSigned, ''DPTApparantEnergy'', Some (''13.011'', ''apparant_energy''), Some ''VAh'', None),
     (S_Value4ByteSigned, ''DPTReactiveEnergy'', Some (''13.012'', ''reactive_energy''), Some ''VARh'', None),
     (S_Value4ByteSigned, ''DPTActiveEnergykWh'', Some (''13.013'', ''active_energy_kwh''), Some ''kWh'', Some ''energy''),
     (S_Value4ByteSigned, ''DPTApparantEnergykVAh'', Some (''13.014'', ''apparant_energy_kvah''), Some ''kVAh'', None),
     (S_Value4ByteSigned, ''DPTReactiveEnergykVARh'', Some (''13.015'', ''reactive_energy_kvarh''), Some ''kVARh'', None),
     (S_Value4ByteSigned, ''DPTActiveEnergyMWh'', Some (''13.016'', ''active_energy_mwh''), Some ''MWh'', Some ''energy''),
     (S_Value4ByteSigned, ''DPTLongDeltaTimeSec'', Some (''13.100'', ''long_delta_timesec''), Some ''s'', None),
     (S_Value4ByteSigned, ''DPTDeltaVolumeLiquidLitre'', Some (''13.1200'', ''delta_volume_liquid_litre''), Some ''L'', None),
     (S_Value4ByteSigned, ''DPTDeltaVolumeM3'', Some (''13.1201'', ''delta_volume_m3''), Some (''m'' @ [CHR 0xC2, CHR 0xB3]), None)]"

definition dpt14_000_types :: "dpt_row list" where
  "dpt14_000_types = [
     (S_Dpt14Float, ''DPTAcceleration'', Some (''14.000'', ''acceleration''), Some (''m/s'' @ [CHR 0xC2, CHR 0xB2]), None),
     (S_Dpt14Float, ''DPTAccelerationAngular'', Some (''14.001'', ''acceleration_angular''), Some (''rad/s'' @ [CHR 0xC2, CHR 0xB2]), None),
     (S_Dpt14Float, ''DPTActivationEnergy'', Some (''14.002'', ''activation_energy''), Some ''J/mol'', None),
     (S_Dpt14Float, ''DPTActivity'', Some (''14.003'', ''activity''), Some (''s'' @ [CHR 0xE2, CHR 0x81, CHR 0xBB] @ [CHR 0xC2, CHR 0xB9]), None),
     (S_Dpt14Float, ''DPTMol'', Some (''14.004'', ''mol''), Some ''mol'', None),
     (S_Dpt14Float, ''DPTAmplitude'', Some (''14.005'', ''amplitude''), None, None),
     (S_Dpt14Float, ''DPTAngleRad'', Some (''14.006'', ''angle_rad''), Some ''rad'', None),
     (S_Dpt14Float, ''DPTAngleDeg'', Some (''14.007'', ''angle_deg''), Some ([CHR 0xC2, CHR 0xB0]), None),
     (S_Dpt14Float, ''DPTAngularMomentum'', Some (''14.008'', ''angular_momentum''), Some ''J s'', None),
     (S_Dpt14Float, ''DPTAngularVelocity'', Some (''14.009'', ''angular_velocity''), Some ''rad/s'', None),
     (S_Dpt14Float, ''DPTArea'', Some (''14.010'', ''area''), Some (''m'' @ [CHR 0xC2, CHR 0xB2]), None),
     (S_Dpt14Float, ''DPTCapacitance'', Some (''14.011'', ''capacitance''), Some ''F'', None),
     (S_Dpt14Float, ''DPTChargeDensitySurface'', Some (''14.012'', ''charge_density_surface''), Some (''C/m'' @ [CHR 0xC2, CHR 0xB2]), None),
     (S_Dpt14Float, ''DPTChargeDensityVolume'', Some (''14.013'', ''charge_density_volume''), Some (''C/m'' @ [CHR 0xC2, CHR 0xB3]), None),
     (S_Dpt14Float, ''DPTCompressibility'', Some (''14.014'', ''compressibility''), Some (''m'' @ [CHR 0xC2, CHR 0xB2] @ ''/N''), None),
     (S_Dpt14Float, ''DPTConductance'', Some (''14.015'', ''conductance''), Some ''S'', None),
     (S_Dpt14Float, ''DPTElectricalConductivity'', Some (''14.016'', ''electrical_conductivity''), Some ''S/m'', None),
     (S_Dpt14Float, ''DPTDensity'', Some (''14.017'', ''density''), Some (''kg/m'' @ [CHR 0xC2, CHR 0xB3]), None),
     (S_Dpt14Float, ''DPTElectricCharge'', Some (''14.018'', ''electric_charge''), Some ''C'', None),
     (S_Dpt14Float, ''DPTElectricCurrent'', Some (''14.019'', ''electric_current''), Some ''A'', Some ''current'')]"

definition dpt14_020_types :: "dpt_row list" where
  "dpt14_020_types = [
     (S_Dpt14Float, ''DPTElectricCurrentDensity'', Some (''14.020'', ''electric_current_density''), Some (''A/m'' @ [CHR 0xC2, CHR 0xB2]), None),
     (S_Dpt14Float, ''DPTElectricDipoleMoment'', Some (''14.021'', ''electric_dipole_moment''), Some ''C m'', None),
     (S_Dpt14Float, ''DPTElectricDisplacement'', Some (''14.022'', ''electric_displacement''), Some (''C/m'' @ [CHR 0xC2, CHR 0xB2]), None),
     (S_Dpt14Float, ''DPTElectricFieldStrength'', Some (''14.023'', ''electric_field_strength''), Some ''V/m'', None),
     (S_Dpt14Float, ''DPTElectricFlux'', Some (''14.024'', ''electric_flux''), Some ''c'', None),
     (S_Dpt14Float, ''DPTElectricFluxDensity'', Some (''14.025'', ''electric_flux_density''), Some (''C/m'' @ [CHR 0xC2, CHR 0xB2]), None),
     (S_Dpt14Float, ''DPTElectricPolarization'', Some (''14.026'', ''electric_polarization''), Some (''C/m'' @ [CHR 0xC2, CHR 0xB2]), None),
     (S_Dpt14Float, ''DPTElectricPotential'', Some (''14.027'', ''electric_potential''), Some ''V'', None),
     (S_Dpt14Float, ''DPTElectricPotentialDifference'', Some (''14.028'', ''electric_potential_difference''), Some ''V'', None),
     (S_Dpt14Float, ''DPTElectromagneticMoment'', Some (''14.029'', ''electromagnetic_moment''), Some (''A m'' @ [CHR 0xC2, CHR 0xB2]), None),
     (S_Dpt14Float, ''DPTElectromotiveForce'', Some (''14.030'', ''electromotive_force''), Some ''V'', None),
     (S_Dpt14Float, ''DPTEnergy'', Some (''14.031'', ''energy''), Some ''J'', None),
     (S_Dpt14Float, ''DPTForce'', Some (''14.032'', ''force''), Some ''N'', None),
     (S_Dpt14Float, ''DPTFrequency'', Some (''14.033'', ''frequency''), Some ''Hz'', Some ''frequency''),
     (S_Dpt14Float, ''DPTAngularFrequency'', Some (''14.034'', ''angular_frequency''), Some ''rad/s'', None),
     (S_Dpt14Float, ''DPTHeatCapacity'', Some (''14.035'', ''heatcapacity''), Some ''J/K'', None),
     (S_Dpt14Float, ''DPTHeatFlowRate'', Some (''14.036'', ''heatflowrate''), Some ''W'', None),
     (S_Dpt14Float, ''DPTHeatQuantity'', Some (''14.037'', ''heat_quantity''), Some ''J'', None),
     (S_Dpt14Float, ''DPTImpedance'', Some (''14.038'', ''impedance''), Some ([CHR 0xCE, CHR 0xA9]), None),
     (S_Dpt14Float, ''DPTLength'', Some (''14.039'', ''length''), Some ''m'', Some ''distance'')]"

definition dpt14_040_types :: "dpt_row list" where
  "dpt14_040_types = [
     (S_Dpt14Float, ''DPTLightQuantity'', Some (''14.040'', ''light_quantity''), Some ''lm s'', None),
     (S_Dpt14Float, ''DPTLuminance'', Some (''14.041'', ''luminance''), Some (''cd/m'' @ [CHR 0xC2, CHR 0xB2]), None),
     (S_Dpt14Float, ''DPTLuminousFlux'', Some (''14.042'', ''luminous_flux''), Some ''lm'', None),
     (S_Dpt14Float, ''DPTLuminousIntensity'', Some (''14.043'', ''luminous_intensity''), Some ''cd'', None),
     (S_Dpt14Float, ''DPTMagneticFieldStrength'', Some (''14.044'', ''magnetic_field_strength''), Some ''A/m'', None),
     (S_Dpt14Float, ''DPTMagneticFlux'', Some (''14.045'', ''magnetic_flux''), Some ''Wb'', None),
     (S_Dpt14Float, ''DPTMagneticFluxDensity'', Some (''14.046'', ''magnetic_flux_density''), Some ''T'', None),
     (S_Dpt14Float, ''DPTMagneticMoment'', Some (''14.047'', ''magnetic_moment''), Some (''A m'' @ [CHR 0xC2, CHR 0xB2]), None),
     (S_Dpt14Float, ''DPTMagneticPolarization'', Some (''14.048'', ''magnetic_polarization''), Some ''T'', None),
     (S_Dpt14Float, ''DPTMagnetization'', Some (''14.049'', ''magnetization''), Some ''A/m'', None),
     (S_Dpt14Float, ''DPTMagnetomotiveForce'', Some (''14.050'', ''magnetomotive_force''), Some ''A'', None),
     (S_Dpt14Float, ''DPTMass'', Some (''14.051'', ''mass''), Some ''kg'', Some ''weight''),
     (S_Dpt14Float, ''DPTMassFlux'', Some (''14.052'', ''mass_flux''), Some ''kg/s'', None),
     (S_Dpt14Float, ''DPTMomentum'', Some (''14.053'', ''momentum''), Some ''N/s'', None),
     (S_Dpt14Float, ''DPTPhaseAngleRad'', Some (''14.054'', ''phaseanglerad''), Some ''rad'', None),
     (S_Dpt14Float, ''DPTPhaseAngleDeg'', Some (''14.055'', ''phaseangledeg''), Some ([CHR 0xC2, CHR 0xB0]), None),
     (S_Dpt14Float, ''DPTPower'', Some (''14.056'', ''power''), Some ''W'', Some ''power''),
     (S_Dpt14Float, ''DPTPowerFactor'', Some (''14.057'', ''powerfactor''), None, Some ''power_factor''),
     (S_Dpt14Float, ''DPTPressure'', Some (''14.058'', ''pressure''), Some ''Pa'', Some ''pressure''),
     (S_Dpt14Float, ''DPTReactance'', Some (''14.059'', ''reactance''), Some ([CHR 0xCE, CHR 0xA9]), None)]"

definition dpt14_060_types :: "dpt_row list" where
  "dpt14_060_types = [
     (S_Dpt14Float, ''DPTResistance'', Some (''14.060'', ''resistance''), Some ([CHR 0xCE, CHR 0xA9]), None),
     (S_Dpt14Float, ''DPTResistivity'', Some (''14.061'', ''resistivity''), Some ([CHR 0xCE, CHR 0xA9] @ ''m''), None),
     (S_Dpt14Float, ''DPTSelfInductance'', Some (''14.062'', ''self_inductance''), Some ''H'', None),
     (S_Dpt14Float, ''DPTSolidAngle'', Some (''14.063'', ''solid_angle''), Some ''sr'', None),
     (S_Dpt14Float, ''DPTSoundIntensity'', Some (''14.064'', ''sound_intensity''), Some (''W/m'' @ [CHR 0xC2, CHR 0xB2]), None),
     (S_Dpt14Float, ''DPTSpeed'', Some (''14.065'', ''speed''), Some ''m/s'', Some ''speed''),
     (S_Dpt14Float, ''DPTStress'', Some (''14.066'', ''stress''), Some ''Pa'', None),
     (S_Dpt14Float, ''DPTSurfaceTension'', Some (''14.067'', ''surface_tension''), Some ''N/m'', None),
     (S_Dpt14Float, ''DPTCommonTemperature'', Some (''14.068'', ''common_temperature''), Some ([CHR 0xC2, CHR 0xB0] @ ''C''), None),
     (S_Dpt14Float, ''DPTAbsoluteTemperature'', Some (''14.069'', ''absolute_temperature''), Some ''K'', None),
     (S_Dpt14Float, ''DPTTemperatureDifference'', Some (''14.070'', ''temperature_difference''), Some ''K'', None),
     (S_Dpt14Float, ''DPTThermalCapacity'', Some (''14.071'', ''thermal_capacity''), Some ''J/K'', None),
     (S_Dpt14Float, ''DPTThermalConductivity'', Some (''14.072'', ''thermal_conductivity''), Some ''W/mK'', None),
     (S_Dpt14Float, ''DPTThermoelectricPower'', Some (''14.073'', ''thermoelectric_power''), Some ''V/K'', None),
     (S_Dpt14Float, ''DPTTimeSeconds'', Some (''14.074'', ''time_seconds''), Some ''s'', None),
     (S_Dpt14Float, ''DPTTorque'', Some (''14.075'', ''torque''), Some ''Nm'', None),
     (S_Dpt14Float, ''DPTVolume'', Some (''14.076'', ''volume''), Some (''m'' @ [CHR 0xC2, CHR 0xB3]), None),
     (S_Dpt14Float, ''DPTVolumeFlux'', Some (''14.077'', ''volume_flux''), Some (''m'' @ [CHR 0xC2, CHR 0xB3] @ ''/s''), None),
     (S_Dpt14Float, ''DPTWeight'', Some (''14.078'', ''weight''), Some ''N'', None),
     (S_Dpt14Float, ''DPTWork'', Some (''14.079'', ''work''), Some ''J'', None),
     (S_Dpt14Float, ''DPTApparentPower'', Some (''14.080'', ''apparent_power''), Some ''VA'', Some ''apparent_power'')]"

definition dpt14_1200_types :: "dpt_row list" where
  "dpt14_1200_types = [
     (S_Dpt14Float, ''DPTVolumeFluxMeter'', Some (''14.1200'', ''volume_flux_meter''), Some (''m'' @ [CHR 0xC2, CHR 0xB3] @ ''/h''), None),
     (S_Dpt14Float, ''DPTVolumeFluxLs'', Some (''14.1201'', ''volume_flux_ls''), Some ''L/s'', None)]"

definition dpt10_types :: "dpt_row list" where
  "dpt10_types = [
     (S_TimeOfDay, ''TimeOfDay'', None, None, None)]"

definition dpt11_types :: "dpt_row list" where
  "dpt11_types = [
     (S_Date, ''Date'', None, None, None)]"

definition dpt16_types :: "dpt_row list" where
  "dpt16_types = [
     (S_StringAscii, ''StringAscii'', None, None, None),
     (S_StringLatin1, ''StringLatin1'', None, None, None)]"

definition dpt17_types :: "dpt_row list" where
  "dpt17_types = [
     (S_SceneNumber, ''DPTSceneNumber'', Some (''17.001'', ''scene_number''), None, None)]"

definition dpt18_types :: "dpt_row list" where
  "dpt18_types = [
     (S_SceneControl, ''SceneControl'', None, None, None)]"

definition dpt19_types :: "dpt_row list" where
  "dpt19_types = [
     (S_DateTime, ''DateTime'', None, None, None)]"

definition dpt20_types :: "dpt_row list" where
  "dpt20_types = [
     (S_HVACMode, ''DPTHVACMode'', Some (''20.102'', ''hvac_mode''), None, None),
     (S_HVACControllerMode, ''DPTHVACContrMode'', Some (''20.105'', ''hvac_controller_mode''), None, None)]"

definition dpt29_types :: "dpt_row list" where
  "dpt29_types = [
     (S_ActiveEnergy8Byte, ''DPTActiveEnergy8Byte'', Some (''29.010'', ''active_energy_8byte''), Some ''Wh'', Some ''energy''),
     (S_ActiveEnergy8Byte, ''DPTApparantEnergy8Byte'', Some (''29.011'', ''apparant_energy_8byte''), Some ''VAh'', None),
     (S_ActiveEnergy8Byte, ''DPTReactiveEnergy8Byte'', Some (''29.012'', ''reactive_energy_8byte''), Some ''VARh'', None)]"

definition dpt232_types :: "dpt_row list" where
  "dpt232_types = [
     (S_ColorRGB, ''ColorRGB'', None, None, None)]"

definition dpt235_types :: "dpt_row list" where
  "dpt235_types = [
     (S_TariffActiveEnergy, ''TariffActiveEnergy'', None, Some ''Wh'', Some ''energy'')]"

definition dpt242_types :: "dpt_row list" where
  "dpt242_types = [
     (S_ColorXYY, ''ColorXYY'', None, None, None)]"

definition dpt251_types :: "dpt_row list" where
  "dpt251_types = [
     (S_ColorRGBW, ''ColorRGBW'', None, None, None)]"

definition registered_dpt1_13 :: "dpt_row list" where
  "registered_dpt1_13 =
     dpt1_types @ dpt2_types @ dpt3_types @ dpt5_types @ dpt6_types @ dpt7_types @ dpt8_types @
     dpt9_types @ dpt12_types @ dpt13_types"

definition registered_dpt14_251 :: "dpt_row list" where
  "registered_dpt14_251 =
     dpt14_000_types @ dpt14_020_types @ dpt14_040_types @ dpt14_060_types @ dpt14_1200_types @
     dpt10_types @ dpt11_types @ dpt16_types @ dpt17_types @ dpt18_types @ dpt19_types @
     dpt20_types @ dpt29_types @ dpt232_types @ dpt235_types @ dpt242_types @ dpt251_types"

definition registered_types :: "dpt_row list" where
  "registered_types = registered_dpt1_13 @ registered_dpt14_251"

section \<open>The registry\<close>

record dpt_registry =
  rg_decoders :: "string \<rightharpoonup> dyn_decoder"
  rg_value_types :: "string \<rightharpoonup> string"

fun row_decoder :: "dpt_row \<Rightarrow> dyn_decoder" where
  "row_decoder (s, ty, al, u, h) = struct_decoder s ty al u h"

definition DptRegistry_register :: "dyn_decoder \<Rightarrow> dpt_registry \<Rightarrow> dpt_registry" where
  "DptRegistry_register T r =
     r\<lparr>rg_decoders := (rg_decoders r)(dd_number T \<mapsto> T),
       rg_value_types := (rg_value_types r)(dm_value_type (dd_metadata T) \<mapsto> dd_number T)\<rparr>"

definition DptRegistry_new :: dpt_registry where
  "DptRegistry_new =
     fold DptRegistry_register (map row_decoder registered_types) \<lparr>rg_decoders = Map.empty, rg_value_types = Map.empty\<rparr>"

definition dpt_number_for_value_type :: "dpt_registry \<Rightarrow> string \<Rightarrow> string result" where
  "dpt_number_for_value_type r value_type =
     (case rg_value_types r value_type of None \<Rightarrow> Err (err_dpt value_type) | Some n \<Rightarrow> Ok n)"

definition registry_metadata :: "dpt_registry \<Rightarrow> string \<Rightarrow> dpt_metadata result" where
  "registry_metadata r dpt =
     (case rg_decoders r dpt of None \<Rightarrow> Err (err_dpt dpt) | Some T \<Rightarrow> Ok (dd_metadata T))"

definition registry_decode :: "dpt_registry \<Rightarrow> string \<Rightarrow> bytes \<Rightarrow> any_value result" where
  "registry_decode r dpt data =
     (case rg_decoders r dpt of None \<Rightarrow> Err (err_dpt dpt) | Some T \<Rightarrow> dd_decode_bytes T data)"

definition registry_encode :: "dpt_registry \<Rightarrow> string \<Rightarrow> any_value \<Rightarrow> bytes result" where
  "registry_encode r dpt value =
     (case rg_decoders r dpt of None \<Rightarrow> Err (err_dpt dpt) | Some T \<Rightarrow> dd_encode_any T value)"

section \<open>The registered types are the variants of the runtime type\<close>

text \<open>The runtime types in the order of registration: times and dates come after the floats.\<close>

definition registered_dpts :: "dpt_type list" where
  "registered_dpts =
     map DptType (take 93 dpt_variants @ drop 95 (take 196 dpt_variants) @ drop 93 (take 95 dpt_variants) @
       drop 196 dpt_variants)"

fun row_number :: "dpt_row \<Rightarrow> string" where
  "row_number (s, ty, al, u, h) = dd_number (struct_decoder s ty al u h)"

fun struct_main :: "dpt_struct \<Rightarrow> u16" where
  "struct_main S_Switch = 1" | "struct_main S_BinaryControl = 2" | "struct_main S_ControlDimming = 3"
| "struct_main S_ControlBlinds = 3" | "struct_main S_Scaling = 5" | "struct_main S_PercentV8 = 6"
| "struct_main S_Value1Count = 6" | "struct_main S_Value2ByteUnsigned = 7" | "struct_main S_Brightness = 7"
| "struct_main S_Value2ByteSigned = 8" | "struct_main S_DPTPercentV16 = 8" | "struct_main S_Temperature = 9"
| "struct_main S_Value4ByteUnsigned = 12" | "struct_main S_Value4ByteSigned = 13"
| "struct_main S_ActiveEnergy = 13" | "struct_main S_Dpt14Float = 14" | "struct_main S_TimeOfDay = 10"
| "struct_main S_Date = 11" | "struct_main S_StringAscii = 16" | "struct_main S_StringLatin1 = 16"
| "struct_main S_SceneNumber = 17" | "struct_main S_SceneControl = 18" | "struct_main S_DateTime = 19"
| "struct_main S_HVACMode = 20" | "struct_main S_HVACControllerMode = 20"
| "struct_main S_ActiveEnergy8Byte = 29" | "struct_main S_ColorRGB = 232"
| "struct_main S_TariffActiveEnergy = 235" | "struct_main S_ColorXYY = 242" | "struct_main S_ColorRGBW = 251"

lemma variants_split:
  "dpt_variants =
     take 93 dpt_variants @ drop 93 (take 95 dpt_variants) @ drop 95 (take 196 dpt_variants) @ drop 196 dpt_variants"
  by (simp add: dpt_variants_def)

lemma registered_dpts_set: "set registered_dpts = {d. dpt_valid d}"
proof -
  have "set registered_dpts = DptType ` set dpt_variants"
    by (subst variants_split) (auto simp: registered_dpts_def)
  also have "\<dots> = {d. dpt_valid d}"
    by (auto simp: dpt_valid_def image_iff) (metis dpt_type.exhaust_sel)
  finally show ?thesis .
qed

lemmas own_numbers = TimeOfDay_dpt_def Date_dpt_def StringAscii_dpt_def StringLatin1_dpt_def
  SceneControl_dpt_def DateTime_dpt_def ColorRGB_dpt_def TariffActiveEnergy_dpt_def ColorXYY_dpt_def ColorRGBW_dpt_def
  ControlDimming_dpt_def ControlBlinds_dpt_def DPTPercentV16_dpt_def array_dpt_def

lemma registered_rows:
  "map (\<lambda>r. (row_number r, struct_main (fst r))) registered_types = map (\<lambda>d. (number_str d, dpt_main d)) registered_dpts"
  by (simp add: registered_types_def registered_dpt1_13_def registered_dpt14_251_def dpt1_types_def dpt2_types_def dpt3_types_def dpt5_types_def
    dpt6_types_def dpt7_types_def dpt8_types_def dpt9_types_def dpt10_types_def dpt11_types_def dpt12_types_def dpt13_types_def
    dpt14_000_types_def dpt14_020_types_def dpt14_040_types_def dpt14_060_types_def dpt14_1200_types_def dpt16_types_def dpt17_types_def
    dpt18_types_def dpt19_types_def dpt20_types_def dpt29_types_def dpt232_types_def dpt235_types_def dpt242_types_def dpt251_types_def
    registered_dpts_def dpt_variants_def number_str_eval generic_decoder_def dpt_alias_def own_numbers show_pad_def show_nat.simps digit_chars replicate_2 dpt_main_def)

lemma distinct_variants: "distinct dpt_variants"
  by (simp add: dpt_variants_def)

lemma distinct_registered_dpts: "distinct registered_dpts"
proof -
  have "distinct (take 93 dpt_variants @ drop 93 (take 95 dpt_variants) @ drop 95 (take 196 dpt_variants) @ drop 196 dpt_variants)"
    using variants_split distinct_variants by (rule subst)
  then show ?thesis
    unfolding registered_dpts_def by (subst distinct_map) (auto simp: inj_on_def)
qed

lemma number_str_inj: "inj_on number_str {d. dpt_valid d}"
proof (rule inj_onI)
  fix d e assume d: "d \<in> {d. dpt_valid d}" "e \<in> {d. dpt_valid d}" "number_str d = number_str e"
  then have "(Ok (Some d) :: (unit, dpt_type option) res) = dpt_from_str True (number_str d)"
    by (intro from_str_number_str [symmetric]) simp
  also have "\<dots> = dpt_from_str True (number_str e)"
    using d(3) by (rule arg_cong)
  also have "\<dots> = Ok (Some e)"
    using d by (intro from_str_number_str) simp
  finally show "d = e"
    by simp
qed

lemma distinct_numbers: "distinct (map row_number registered_types)"
proof -
  have "map row_number registered_types = map number_str registered_dpts"
    using arg_cong [OF registered_rows, of "map fst"] by (simp add: comp_def)
  then show ?thesis
    using distinct_registered_dpts number_str_inj by (simp add: distinct_map registered_dpts_set)
qed

lemma row_dpt:
  assumes "r \<in> set registered_types"
  obtains d where "dpt_valid d" "number_str d = row_number r" "dpt_main d = struct_main (fst r)"
proof -
  have "(row_number r, struct_main (fst r)) \<in> set (map (\<lambda>d. (number_str d, dpt_main d)) registered_dpts)"
    using assms unfolding registered_rows [symmetric] by simp
  then show ?thesis
    using that by (auto simp: registered_dpts_set)
qed

lemma dpt_row:
  assumes "dpt_valid d"
  obtains r where "r \<in> set registered_types" "row_number r = number_str d" "struct_main (fst r) = dpt_main d"
proof -
  have "(number_str d, dpt_main d) \<in> set (map (\<lambda>r. (row_number r, struct_main (fst r))) registered_types)"
    using assms unfolding registered_rows by (simp add: registered_dpts_set)
  then show ?thesis
    using that by auto
qed

text \<open>Registering in any order is looking up in the list, as long as no number occurs twice.\<close>

lemma fold_register:
  "rg_decoders (fold DptRegistry_register Ts r) = rg_decoders r ++ map_of (rev (map (\<lambda>T. (dd_number T, T)) Ts))"
  by (induction Ts arbitrary: r) (simp_all add: DptRegistry_register_def)

lemma row_number_decoder: "row_number r = dd_number (row_decoder r)"
  by (cases r) simp

lemma registry_lookup:
  "rg_decoders DptRegistry_new s = Some T \<longleftrightarrow> (\<exists>r \<in> set registered_types. s = row_number r \<and> T = row_decoder r)"
proof -
  let ?xs = "rev (map (\<lambda>r. (row_number r, row_decoder r)) registered_types)"
  have d: "distinct (map fst ?xs)"
    using distinct_numbers by (simp add: comp_def flip: rev_map)
  have m: "map (\<lambda>T. (dd_number T, T)) (map row_decoder registered_types) =
      map (\<lambda>r. (row_number r, row_decoder r)) registered_types"
    unfolding map_map comp_def row_number_decoder ..
  have "rg_decoders DptRegistry_new = map_of ?xs"
    unfolding DptRegistry_new_def fold_register m by simp
  then have "rg_decoders DptRegistry_new s = Some T \<longleftrightarrow> (s, T) \<in> set ?xs"
    by (simp only: map_of_eq_Some_iff [OF d])
  also have "\<dots> \<longleftrightarrow> (\<exists>r \<in> set registered_types. s = row_number r \<and> T = row_decoder r)"
    unfolding set_rev set_map image_iff prod.inject ..
  finally show ?thesis .
qed

section \<open>The contract of a decoder\<close>

locale dpt_decoder =
  fixes T :: dyn_decoder
  assumes wrong_length: "length bs \<noteq> dm_byte_length (dd_metadata T) \<Longrightarrow> \<exists>num. dd_decode_bytes T bs = Err (err_dpt num)"
    and no_panic: "dd_decode_bytes T bs \<noteq> Panic"
    and re_encode: "dd_decode_bytes T bs = Ok v \<Longrightarrow>
      \<exists>b w. dd_encode_any T v = Ok b \<and> length b = dm_byte_length (dd_metadata T) \<and>
        dd_decode_bytes T b = Ok w \<and> dd_encode_any T w = Ok b"
begin

lemma decoded_length: "dd_decode_bytes T bs = Ok v \<Longrightarrow> length bs = dm_byte_length (dd_metadata T)"
  using wrong_length [of bs] by (cases "length bs = dm_byte_length (dd_metadata T)") auto

end

lemma generic_decoder_contract:
  assumes "dpt_codec D num" and X: "\<And>v. is_X (X v)" "\<And>v. un_X (X v) = v"
  shows "dpt_decoder (generic_decoder ty u h X is_X un_X D)"
proof
  let ?T = "generic_decoder ty u h X is_X un_X D"
  note c = dpt_codec.wrong_length [OF assms(1)] dpt_codec.no_panic [OF assms(1)]
  fix bs
  show "\<exists>num. dd_decode_bytes ?T bs = Err (err_dpt num)" if "length bs \<noteq> dm_byte_length (dd_metadata ?T)"
    using that c(1) [of bs] by (auto simp: generic_decoder_def metadata_def dv_decode_def)
  show "dd_decode_bytes ?T bs \<noteq> Panic"
    using c(2) [of bs] by (cases "dv_from_bytes D bs") (simp_all add: generic_decoder_def dv_decode_def)
  show "\<exists>b w. dd_encode_any ?T v = Ok b \<and> length b = dm_byte_length (dd_metadata ?T) \<and>
      dd_decode_bytes ?T b = Ok w \<and> dd_encode_any ?T w = Ok b" if ok: "dd_decode_bytes ?T bs = Ok v" for v
  proof -
    obtain a where a: "dv_from_bytes D bs = Ok a" "v = Any ty (X a)"
      using ok by (cases "dv_from_bytes D bs") (auto simp: generic_decoder_def dv_decode_def)
    then show ?thesis
      using dpt_codec.encoded_length [OF assms(1) a(1)] dpt_codec.stable [OF assms(1) a(1)] X
      by (auto simp: generic_decoder_def metadata_def dv_decode_def)
  qed
qed

lemma renamed_codec: "dpt_codec D num \<Longrightarrow> dpt_codec (renamed al D) num"
  by (cases al rule: renamed.cases [of "(al, D)" for al]) (auto intro: dpt_alias_codec)

lemma struct_decoder_contract: "dpt_decoder (struct_decoder s ty al u h)"
  by (cases s) (simp, rule generic_decoder_contract, rule renamed_codec, rule
    Switch.dpt_codec_axioms BinaryControl.dpt_codec_axioms ControlDimming.dpt_codec_axioms
    ControlBlinds.dpt_codec_axioms Scaling.dpt_codec_axioms PercentV8.dpt_codec_axioms
    Value1Count.dpt_codec_axioms Value2ByteUnsigned.dpt_codec_axioms Brightness.dpt_codec_axioms
    Value2ByteSigned.dpt_codec_axioms DPTPercentV16.dpt_codec_axioms Temperature.dpt_codec_axioms
    Value4ByteUnsigned.dpt_codec_axioms Value4ByteSigned.dpt_codec_axioms ActiveEnergy.dpt_codec_axioms
    Dpt14Float.dpt_codec_axioms TimeOfDay.dpt_codec_axioms Date.dpt_codec_axioms
    StringAscii.dpt_codec_axioms StringLatin1.dpt_codec_axioms SceneNumber.dpt_codec_axioms
    SceneControl.dpt_codec_axioms DateTime.dpt_codec_axioms HVACMode.dpt_codec_axioms
    HVACControllerMode.dpt_codec_axioms ActiveEnergy8Byte.dpt_codec_axioms ColorRGB.dpt_codec_axioms
    TariffActiveEnergy.dpt_codec_axioms ColorXYY.dpt_codec_axioms ColorRGBW.dpt_codec_axioms, simp, simp)+

interpretation registered: dpt_decoder "struct_decoder s ty al u h" for s ty al u h
  by (rule struct_decoder_contract)

section \<open>Typed and runtime decoders\<close>

text \<open>
  The payload with the values that the accessors of a typed value give.  There is none for DPT 235, which
  the runtime decoder refuses; for texts, where the typed decoders drop every NUL while the runtime one
  stops at the first; for DPT 8.010, which only the typed decoder scales; and for DPT 9, where the
  two compute in different precisions.
\<close>

fun typed_payload :: "boxed \<Rightarrow> dpt_payload option" where
  "typed_payload (X_Switch b) = Some (P_Bool (Switch_value b))"
| "typed_payload (X_BinaryControl b) = Some (P_BinaryControl (BinaryControl_control b) (BinaryControl_value b))"
| "typed_payload (X_ControlDimming b) = Some (P_Control (Control_control b) (Control_step_code b))"
| "typed_payload (X_ControlBlinds b) = Some (P_Control (Control_control b) (Control_step_code b))"
| "typed_payload (X_Scaling b) = Some (P_UnsignedInt (ucast (Scaling_value b)))"
| "typed_payload (X_PercentV8 b) = Some (P_SignedInt (scast (PercentV8_value b)))"
| "typed_payload (X_Value1Count b) = Some (P_SignedInt (scast (PercentV8_value b)))"
| "typed_payload (X_Value2ByteUnsigned b) = Some (P_UnsignedInt (ucast (Value2ByteUnsigned_value b)))"
| "typed_payload (X_Brightness b) = Some (P_UnsignedInt (ucast (Value2ByteUnsigned_value b)))"
| "typed_payload (X_Value2ByteSigned b) = Some (P_SignedInt (scast (Value2ByteSigned_value b)))"
| "typed_payload (X_DPTPercentV16 b) = None"
| "typed_payload (X_Temperature b) = None"
| "typed_payload (X_Value4ByteUnsigned b) = Some (P_UnsignedInt (ucast (Value4ByteUnsigned_value b)))"
| "typed_payload (X_Value4ByteSigned b) = Some (P_SignedInt (scast (Value4ByteSigned_value b)))"
| "typed_payload (X_ActiveEnergy b) = Some (P_SignedInt (scast (Value4ByteSigned_value b)))"
| "typed_payload (X_Dpt14Float b) = Some (P_Float (fp_cast binary64 (Dpt14Float_value b)))"
| "typed_payload (X_TimeOfDay t) = Some (P_Time (td_day t) (td_hour t) (td_minute t) (td_second t))"
| "typed_payload (X_Date t) = Some (P_Date (da_day t) (da_month t)
     (if 90 \<le> da_year t then 1900 + ucast (da_year t) else 2000 + ucast (da_year t)))"
| "typed_payload (X_StringAscii s) = None"
| "typed_payload (X_StringLatin1 s) = None"
| "typed_payload (X_SceneNumber s) = Some (P_Scene (sn_scene_number s))"
| "typed_payload (X_SceneControl s) = Some (P_Scene (sc_scene_number s))"
| "typed_payload (X_DateTime t) = (let p = dt_parts t in
     Some (P_DateTime (ucast (dp_year p) + 1900) (dp_month p) (dp_day p) (dp_day_of_week p) (dp_hour p)
       (dp_minute p) (dp_second p)))"
| "typed_payload (X_HVACMode m) = Some (P_Enum (hv_value m))"
| "typed_payload (X_HVACControllerMode m) = Some (P_Enum (hv_value m))"
| "typed_payload (X_ActiveEnergy8Byte e) = Some (P_SignedInt (e8_value e))"
| "typed_payload (X_ColorRGB c) = Some (P_ColorRGB (rgb_red c) (rgb_green c) (rgb_blue c))"
| "typed_payload (X_TariffActiveEnergy t) = None"
| "typed_payload (X_ColorXYY c) = Some (P_ColorXYY (xyy_component (xy_x c)) (xyy_component (xy_y c)) (xy_brightness c))"
| "typed_payload (X_ColorRGBW c) = Some (P_ColorRGBW (rw_red c) (rw_green c) (rw_blue c) (rw_white c))"

lemma renamed_from_bytes [simp]: "dv_from_bytes (renamed al D) = dv_from_bytes D"
  "dv_byte_length (renamed al D) = dv_byte_length D"
  by (cases al; auto simp: dpt_alias_def)+

lemmas agree_simps = decoded_value_def decode_ref_main view_defs guard_res_def idx_def slice_def

lemma decode_bytes_Ok:
  "dd_decode_bytes (generic_decoder ty u h X is_X un_X (renamed al D)) bs = Ok (Any ty' v) \<longleftrightarrow>
     (\<exists>a. dv_from_bytes D bs = Ok a \<and> v = X a \<and> ty' = ty)"
  by (cases "dv_from_bytes D bs") (auto simp: generic_decoder_def dv_decode_def)

lemma array_from_bytes_Ok: "array_from_bytes num n bs = Ok v \<longleftrightarrow> length bs = n \<and> v = bs"
  by (auto simp: array_from_bytes_def check_len_def guard_res_def)

lemma agree_1:
  assumes "Switch_from_bytes bs = Ok v" "dpt_main d = 1"
  shows "decoded_value d bs = Ok (P_Bool (Switch_value v))"
  using assms by (auto simp: agree_simps Switch_from_bytes_def Switch_validate_def Switch_value_def check_len_def split: if_splits)

lemma agree_2:
  assumes "BinaryControl_from_bytes bs = Ok v" "dpt_main d = 2"
  shows "decoded_value d bs = Ok (P_BinaryControl (BinaryControl_control v) (BinaryControl_value v))"
  using assms by (auto simp: agree_simps BinaryControl_from_bytes_def BinaryControl_validate_def BinaryControl_value_def
     BinaryControl_control_def check_len_def split: if_splits)

lemma length_bytes:
  "length bs = 1 \<longleftrightarrow> (\<exists>a. bs = [a])" "length bs = 2 \<longleftrightarrow> (\<exists>a b. bs = [a, b])" "length bs = 3 \<longleftrightarrow> (\<exists>a b c. bs = [a, b, c])"
  "length bs = 4 \<longleftrightarrow> (\<exists>a b c d. bs = [a, b, c, d])"
  "length bs = 6 \<longleftrightarrow> (\<exists>a b c d e f. bs = [a, b, c, d, e, f])"
  "length bs = 8 \<longleftrightarrow> (\<exists>a b c d e f g h. bs = [a, b, c, d, e, f, g, h])"
  by (auto simp: length_Suc_conv numeral_eq_Suc)

lemmas typed_values = Control_control_def
  Control_step_code_def Scaling_value_def PercentV8_value_def Value2ByteUnsigned_value_def
  Value2ByteSigned_value_def Value4ByteUnsigned_value_def Value4ByteSigned_value_def Dpt14Float_value_def

lemma agree_array:
  "\<lbrakk>dpt_main d = 3; length bs = 1\<rbrakk> \<Longrightarrow> decoded_value d bs = Ok (P_Control (Control_control bs) (Control_step_code bs))"
  "\<lbrakk>dpt_main d = 5; length bs = 1\<rbrakk> \<Longrightarrow> decoded_value d bs = Ok (P_UnsignedInt (ucast (Scaling_value bs)))"
  "\<lbrakk>dpt_main d = 6; length bs = 1\<rbrakk> \<Longrightarrow> decoded_value d bs = Ok (P_SignedInt (scast (PercentV8_value bs)))"
  "\<lbrakk>dpt_main d = 7; length bs = 2\<rbrakk> \<Longrightarrow> decoded_value d bs = Ok (P_UnsignedInt (ucast (Value2ByteUnsigned_value bs)))"
  "\<lbrakk>dpt_main d = 8; length bs = 2\<rbrakk> \<Longrightarrow> decoded_value d bs = Ok (P_SignedInt (scast (Value2ByteSigned_value bs)))"
  "\<lbrakk>dpt_main d = 12; length bs = 4\<rbrakk> \<Longrightarrow> decoded_value d bs = Ok (P_UnsignedInt (ucast (Value4ByteUnsigned_value bs)))"
  "\<lbrakk>dpt_main d = 13; length bs = 4\<rbrakk> \<Longrightarrow> decoded_value d bs = Ok (P_SignedInt (scast (Value4ByteSigned_value bs)))"
  "\<lbrakk>dpt_main d = 14; length bs = 4\<rbrakk> \<Longrightarrow> decoded_value d bs = Ok (P_Float (fp_cast binary64 (Dpt14Float_value bs)))"
  by (simp_all add: agree_simps typed_values)

lemma date_year: "(90 \<le> (c AND 0x7F :: u8)) = (90 \<le> (ucast (c AND 0x7F) :: u16))"
proof -
  have "unat (c AND 0x7F) < 2 ^ LENGTH(8)"
    by (rule unsigned_less)
  then have "take_bit 16 (unat (c AND 0x7F)) = unat (c AND 0x7F)"
    by (intro take_bit_nat_eq_self) (rule less_le_trans, assumption, simp)
  then show ?thesis
    by (simp add: word_le_nat_alt unsigned_ucast_eq)
qed

lemma agree_10:
  assumes "TimeOfDay_decode bs = Ok t" "dpt_main d = 10"
  shows "decoded_value d bs = Ok (P_Time (td_day t) (td_hour t) (td_minute t) (td_second t))"
  using assms by (auto simp: agree_simps TimeOfDay_decode_def TimeOfDay_new_cases check_len_def length_bytes split: if_splits)

lemma agree_11:
  assumes "Date_decode bs = Ok t" "dpt_main d = 11"
  shows "decoded_value d bs = Ok (P_Date (da_day t) (da_month t)
     (if 90 \<le> da_year t then 1900 + ucast (da_year t) else 2000 + ucast (da_year t)))"
  using assms by (auto simp: agree_simps Date_decode_def Date_new_cases check_len_def length_bytes Let_def date_year split: if_splits)

lemma agree_19:
  assumes "DateTime_decode bs = Ok t" "dpt_main d = 19"
  shows "decoded_value d bs = Ok (P_DateTime (ucast (dp_year (dt_parts t)) + 1900) (dp_month (dt_parts t)) (dp_day (dt_parts t))
    (dp_day_of_week (dt_parts t)) (dp_hour (dt_parts t)) (dp_minute (dt_parts t)) (dp_second (dt_parts t)))"
proof (cases "length bs = 8")
  case True
  then obtain a b c e f g h i where bs: "bs = [a, b, c, e, f, g, h, i]"
    unfolding length_bytes by blast
  then have "dt_parts t = \<lparr>dp_year = a, dp_month = b AND 0x0F, dp_day = c AND 0x1F, dp_day_of_week = drop_bit 5 e AND 0x07,
       dp_hour = e AND 0x1F, dp_minute = f AND 0x3F, dp_second = g AND 0x3F\<rparr>"
    using assms(1) by (auto simp: DateTime_decode_def check_len_def guard_res_def Let_def)
  then show ?thesis
    using assms(2) by (simp add: bs agree_simps)
next
  case False
  with assms show ?thesis
    by (simp add: DateTime_decode_def check_len_def guard_res_def)
qed

lemma agree_scene:
  "\<lbrakk>SceneNumber_decode bs = Ok v; dpt_main d = 17\<rbrakk> \<Longrightarrow> decoded_value d bs = Ok (P_Scene (sn_scene_number v))"
  "\<lbrakk>SceneControl_decode bs = Ok w; dpt_main d = 18\<rbrakk> \<Longrightarrow> decoded_value d bs = Ok (P_Scene (sc_scene_number w))"
  by (auto simp: agree_simps SceneNumber_decode_def SceneControl_decode_def check_len_def length_bytes Let_def split: if_splits)

lemma agree_enum:
  "\<lbrakk>HVACMode_decode bs = Ok v; dpt_main d = 20\<rbrakk> \<Longrightarrow> decoded_value d bs = Ok (P_Enum (hv_value v))"
  "\<lbrakk>HVACControllerMode_decode bs = Ok v; dpt_main d = 20\<rbrakk> \<Longrightarrow> decoded_value d bs = Ok (P_Enum (hv_value v))"
  by (auto simp: agree_simps HVACMode_decode_def HVACMode_new_def HVACControllerMode_decode_def
      HVACControllerMode_new_def check_len_def split: if_splits)

lemma agree_29:
  "\<lbrakk>ActiveEnergy8Byte_decode bs = Ok v; dpt_main d = 29\<rbrakk> \<Longrightarrow> decoded_value d bs = Ok (P_SignedInt (e8_value v))"
  by (auto simp: agree_simps ActiveEnergy8Byte_decode_def ActiveEnergy8Byte_new_def check_len_def split: if_splits)

lemma agree_color:
  "\<lbrakk>ColorRGB_decode bs = Ok c; dpt_main d = 232\<rbrakk> \<Longrightarrow>
     decoded_value d bs = Ok (P_ColorRGB (rgb_red c) (rgb_green c) (rgb_blue c))"
  "\<lbrakk>ColorXYY_decode bs = Ok x; dpt_main d = 242\<rbrakk> \<Longrightarrow>
     decoded_value d bs = Ok (P_ColorXYY (xyy_component (xy_x x)) (xyy_component (xy_y x)) (xy_brightness x))"
  "\<lbrakk>ColorRGBW_decode bs = Ok w; dpt_main d = 251\<rbrakk> \<Longrightarrow>
     decoded_value d bs = Ok (P_ColorRGBW (rw_red w) (rw_green w) (rw_blue w) (rw_white w))"
  by (auto simp: agree_simps ColorRGB_decode_def ColorRGB_new_def ColorXYY_decode_def ColorXYY_new_with_validity_def
      ColorRGBW_decode_def ColorRGBW_new_with_validity_def check_len_def length_bytes split: if_splits)

text \<open>Every struct decodes to the value the runtime decoder of its main number gives.\<close>

lemma struct_agree:
  assumes "dd_decode_bytes (struct_decoder s ty al u h) bs = Ok (Any ty' v)" "dpt_main d = struct_main s"
    "typed_payload v = Some p"
  shows "decoded_value d bs = Ok p"
  using assms
  by (cases s) (auto simp: decode_bytes_Ok Switch_dpt_def BinaryControl_dpt_def array_dpt_defs array_dpt_def
    Dpt14Float_dpt_def array_from_bytes_Ok TimeOfDay_dpt_def Date_dpt_def DateTime_dpt_def SceneNumber_dpt_def
    SceneControl_dpt_def HVACMode_dpt_def HVACControllerMode_dpt_def ActiveEnergy8Byte_dpt_def ColorRGB_dpt_def
    ColorXYY_dpt_def ColorRGBW_dpt_def Let_def agree_1 agree_2 agree_array agree_10 agree_11 agree_19 agree_scene agree_enum agree_29 agree_color)

section \<open>Properties\<close>

lemma struct_length: "dpt_main d = struct_main s \<Longrightarrow> dm_byte_length (dd_metadata (struct_decoder s ty al u h)) = byte_length d"
  by (cases s) (simp_all add: generic_decoder_def metadata_def byte_length_def Switch_dpt_def BinaryControl_dpt_def
    array_dpt_defs array_dpt_def Dpt14Float_dpt_def TimeOfDay_dpt_def Date_dpt_def DateTime_dpt_def SceneNumber_dpt_def
    SceneControl_dpt_def HVACMode_dpt_def HVACControllerMode_dpt_def ActiveEnergy8Byte_dpt_def ColorRGB_dpt_def
    ColorXYY_dpt_def ColorRGBW_dpt_def TariffActiveEnergy_dpt_def StringAscii_dpt_def StringLatin1_dpt_def Temperature_dpt_def)

lemma registry_decoder:
  assumes "rg_decoders DptRegistry_new s = Some T"
  obtains st ty al u h d where "T = struct_decoder st ty al u h" "dd_number T = s" "dpt_valid d" "number_str d = s"
    "dpt_main d = struct_main st"
proof -
  obtain r where r: "r \<in> set registered_types" "s = row_number r" "T = row_decoder r"
    using assms unfolding registry_lookup by blast
  obtain d where "dpt_valid d" "number_str d = row_number r" "dpt_main d = struct_main (fst r)"
    using row_dpt [OF r(1)] .
  moreover obtain st ty al u h where "r = (st, ty, al, u, h)"
    by (cases r)
  ultimately show ?thesis
    using that [of st ty al u h d] r by simp
qed

text \<open>
  C17: The typed registry and the runtime type describe the same datapoint types: a number has a decoder
  exactly when it is the number of a variant of \<open>DptType\<close>; the decoder then carries that number, \<open>from_str\<close>
  finds the variant, and both agree on the length of the encoding.
\<close>

theorem registry_matches_dpt_type:
  "case rg_decoders DptRegistry_new s of
     None \<Rightarrow> \<not> (\<exists>d. dpt_valid d \<and> number_str d = s)
   | Some T \<Rightarrow> \<exists>d. dpt_valid d \<and> number_str d = s \<and> dpt_from_str checks s = Ok (Some d) \<and>
       dd_number T = s \<and> dm_byte_length (dd_metadata T) = byte_length d"
proof (cases "rg_decoders DptRegistry_new s")
  case None
  have "\<not> (dpt_valid d \<and> number_str d = s)" for d
  proof
    assume d: "dpt_valid d \<and> number_str d = s"
    then have "dpt_valid d" ..
    then obtain r where "r \<in> set registered_types" "row_number r = number_str d" "struct_main (fst r) = dpt_main d"
      by (rule dpt_row)
    then have "rg_decoders DptRegistry_new s = Some (row_decoder r)"
      unfolding registry_lookup using d by auto
    with None show False
      by simp
  qed
  with None show ?thesis
    by simp
next
  case (Some T)
  then obtain st ty al u h d where T: "T = struct_decoder st ty al u h" "dd_number T = s" "dpt_valid d" "number_str d = s"
    "dpt_main d = struct_main st"
    by (rule registry_decoder)
  then show ?thesis
    using from_str_number_str [OF T(3), of checks] struct_length [OF T(5)] Some by auto
qed

text \<open>Through the registry nothing panics, and what was decoded can be encoded and decoded again.\<close>

lemma registry_roundtrip:
  "registry_decode DptRegistry_new s bs \<noteq> Panic"
  "registry_decode DptRegistry_new s bs = Ok v \<Longrightarrow>
     \<exists>b w. registry_encode DptRegistry_new s v = Ok b \<and> registry_decode DptRegistry_new s b = Ok w \<and>
       registry_encode DptRegistry_new s w = Ok b"
proof -
  show "registry_decode DptRegistry_new s bs \<noteq> Panic"
    using registered.no_panic
    by (cases "rg_decoders DptRegistry_new s") (auto simp: registry_decode_def elim: registry_decoder)
  assume "registry_decode DptRegistry_new s bs = Ok v"
  then show "\<exists>b w. registry_encode DptRegistry_new s v = Ok b \<and> registry_decode DptRegistry_new s b = Ok w \<and>
       registry_encode DptRegistry_new s w = Ok b"
    using registered.re_encode
    by (cases "rg_decoders DptRegistry_new s") (fastforce simp: registry_decode_def registry_encode_def elim: registry_decoder)+
qed


lemma registry_row:
  "r \<in> set registered_types \<Longrightarrow> rg_decoders DptRegistry_new (row_number r) = Some (row_decoder r)"
  unfolding registry_lookup by blast

lemma switch_row: "(S_Switch, ''DPTSwitch'', Some (''1.001'', ''switch''), None, None) \<in> set registered_types"
  by (simp add: registered_types_def registered_dpt1_13_def dpt1_types_def)


text \<open>
  The units are not the same everywhere.  DPT 9.020 is in millivolt for the typed registry and in volt for the
  runtime type, DPT 14.080 in voltampere and in watt.
\<close>

lemma units_differ:
  "registry_metadata DptRegistry_new (number_str Dpt_Voltage) = Ok m \<Longrightarrow> dm_unit m = Some ''mV''"
  "map_option unit_symbol (dpt_unit Dpt_Voltage) = Some ''V''"
  "registry_metadata DptRegistry_new (number_str Dpt_ApparentPower) = Ok m' \<Longrightarrow> dm_unit m' = Some ''VA''"
  "map_option unit_symbol (dpt_unit Dpt_ApparentPower) = Some ''W''"
proof -
  let ?v = "(S_Temperature, ''DPTVoltage'', Some (''9.020'', ''voltage''), Some ''mV'', Some ''voltage'')"
  let ?p = "(S_Dpt14Float, ''DPTApparentPower'', Some (''14.080'', ''apparent_power''), Some ''VA'', Some ''apparent_power'')"
  have "?v \<in> set registered_types" "?p \<in> set registered_types"
    by (simp_all add: registered_types_def registered_dpt1_13_def registered_dpt14_251_def dpt9_types_def dpt14_060_types_def)
  then have "rg_decoders DptRegistry_new ''9.020'' = Some (row_decoder ?v)"
    "rg_decoders DptRegistry_new ''14.080'' = Some (row_decoder ?p)"
    using registry_row [of ?v] registry_row [of ?p] by (simp_all add: generic_decoder_def dpt_alias_def)
  moreover have "number_str Dpt_Voltage = ''9.020''" "number_str Dpt_ApparentPower = ''14.080''"
    by (simp_all add: number_str_eval show_pad_def show_nat.simps digit_chars)
  ultimately show "registry_metadata DptRegistry_new (number_str Dpt_Voltage) = Ok m \<Longrightarrow> dm_unit m = Some ''mV''"
    "registry_metadata DptRegistry_new (number_str Dpt_ApparentPower) = Ok m' \<Longrightarrow> dm_unit m' = Some ''VA''"
    by (auto simp: registry_metadata_def generic_decoder_def metadata_def)
  show "map_option unit_symbol (dpt_unit Dpt_Voltage) = Some ''V''"
    "map_option unit_symbol (dpt_unit Dpt_ApparentPower) = Some ''W''"
    by (simp_all add: dpt_unit_def unit_symbol_def unit_symbols_def)
qed

end
