(* ===== verification/Group_Registry.thy ===== *)
theory Group_Registry
  imports Dpt_Type Address
begin

text \<open>
  The binding of group addresses to datapoint types, \<open>src/protocol/dpt/group_registry.rs\<close>.

  \<^item> A registry is a finite map from addresses to bindings.  Times are nanoseconds of the monotonic clock;
    the operations that read the clock take the current time.
  \<^item> A hash map is iterated in an unspecified order: the operations that iterate take the order of the keys
    as an argument.
  \<^item> Every operation holds its locks from beginning to end and is one step.  A poisoned lock is entered
    all the same, so there is no panic.

  Shown: a binding stays as it is until the address is unregistered (\<open>binding_stable\<close>); \<open>next_stale\<close>
  answers with a stale address that no other stale address should precede (\<open>next_stale_correct\<close>); and an
  address that stays stale is refreshed after at most as many attempts as there are addresses
  (\<open>refresh_fair\<close>).
\<close>

section \<open>Definitions\<close>

record binding =
  bd_dpt :: dpt_type
  bd_ttl :: "nat option"
  bd_last_seen :: "nat option"
  bd_last_seen_value :: "bytes option"
  bd_last_tried :: "nat option"

type_synonym group_registry = "group_address \<rightharpoonup> binding"

definition GroupAddressRegistry_new :: group_registry where
  "GroupAddressRegistry_new = Map.empty"

definition group_register :: "group_address \<Rightarrow> dpt_type \<Rightarrow> group_registry \<Rightarrow> unit result \<times> group_registry" where
  "group_register a dpt r =
     (case r a of
        Some existing \<Rightarrow>
          if bd_dpt existing \<noteq> dpt then (Err (Protocol (DptError (number_str dpt))), r) else (Ok (), r)
      | None \<Rightarrow>
          (Ok (), r(a \<mapsto> \<lparr>bd_dpt = dpt, bd_ttl = None, bd_last_seen = None, bd_last_seen_value = None,
                        bd_last_tried = None\<rparr>)))"

definition group_get :: "group_address \<Rightarrow> group_registry \<Rightarrow> dpt_type option" where
  "group_get a r = map_option bd_dpt (r a)"

definition group_unregister :: "group_address \<Rightarrow> group_registry \<Rightarrow> dpt_type option \<times> group_registry" where
  "group_unregister a r = (map_option bd_dpt (r a), r(a := None))"

definition group_entries :: "group_address list \<Rightarrow> group_registry \<Rightarrow> (group_address \<times> dpt_type) list" where
  "group_entries order r = map (\<lambda>a. (a, bd_dpt (the (r a)))) order"

definition group_len :: "group_registry \<Rightarrow> nat" where
  "group_len r = card (dom r)"

definition set_refresh_ttl :: "group_address \<Rightarrow> nat option \<Rightarrow> group_registry \<Rightarrow> unit result \<times> group_registry" where
  "set_refresh_ttl a ttl r =
     (case r a of
        Some b \<Rightarrow> (Ok (), r(a \<mapsto> b\<lparr>bd_ttl := ttl\<rparr>))
      | None \<Rightarrow> (Err (Protocol (DptError [])), r))"

definition record_seen :: "nat \<Rightarrow> group_address \<Rightarrow> bytes \<Rightarrow> group_registry \<Rightarrow> group_registry" where
  "record_seen now a v r =
     (case r a of
        Some b \<Rightarrow> r(a \<mapsto> b\<lparr>bd_last_seen := Some now, bd_last_seen_value := Some v\<rparr>)
      | None \<Rightarrow> r)"

definition record_tried :: "nat \<Rightarrow> group_address \<Rightarrow> group_registry \<Rightarrow> group_registry" where
  "record_tried now a r =
     (case r a of Some b \<Rightarrow> r(a \<mapsto> b\<lparr>bd_last_tried := Some now\<rparr>) | None \<Rightarrow> r)"

text \<open>\<open>saturating_duration_since\<close> is the subtraction of natural numbers.\<close>

definition is_stale :: "nat \<Rightarrow> binding \<Rightarrow> bool" where
  "is_stale now b =
     (case bd_ttl b of
        None \<Rightarrow> False
      | Some ttl \<Rightarrow> (case bd_last_seen b of Some seen \<Rightarrow> now - seen \<ge> ttl | None \<Rightarrow> True))"

text \<open>The comparison of \<open>min_by\<close>: never tried comes first, then the oldest attempt.\<close>

fun tried_before :: "nat option \<Rightarrow> nat option \<Rightarrow> bool" where
  "tried_before None None = False"
| "tried_before None (Some _) = True"
| "tried_before (Some _) None = False"
| "tried_before (Some x) (Some y) = (x < y)"

text \<open>\<open>Iterator::min_by\<close> keeps the first of equal elements.\<close>

fun min_by :: "('a \<Rightarrow> 'a \<Rightarrow> bool) \<Rightarrow> 'a list \<Rightarrow> 'a option" where
  "min_by lt [] = None"
| "min_by lt [x] = Some x"
| "min_by lt (x # y # zs) = min_by lt ((if lt y x then y else x) # zs)"

definition next_stale :: "group_address list \<Rightarrow> nat \<Rightarrow> group_registry \<Rightarrow> group_address option" where
  "next_stale order now r =
     min_by (\<lambda>a b. tried_before (bd_last_tried (the (r a))) (bd_last_tried (the (r b))))
       (filter (\<lambda>a. is_stale now (the (r a))) order)"

definition group_state :: "group_address \<Rightarrow> group_registry \<Rightarrow> binding option" where
  "group_state a r = r a"

section \<open>Bindings\<close>

datatype group_op =
    G_Register group_address dpt_type
  | G_Unregister group_address
  | G_Set_Ttl group_address "nat option"
  | G_Seen nat group_address bytes
  | G_Tried nat group_address

fun group_step :: "group_op \<Rightarrow> group_registry \<Rightarrow> group_registry" where
  "group_step (G_Register a d) r = snd (group_register a d r)"
| "group_step (G_Unregister a) r = snd (group_unregister a r)"
| "group_step (G_Set_Ttl a t) r = snd (set_refresh_ttl a t r)"
| "group_step (G_Seen now a v) r = record_seen now a v r"
| "group_step (G_Tried now a) r = record_tried now a r"

lemmas group_defs = group_register_def group_unregister_def group_get_def set_refresh_ttl_def
  record_seen_def record_tried_def

lemma group_step_get:
  "group_get a (group_step op r) =
     (case op of
        G_Register b d \<Rightarrow> if b = a \<and> group_get a r = None then Some d else group_get a r
      | G_Unregister b \<Rightarrow> if b = a then None else group_get a r
      | _ \<Rightarrow> group_get a r)"
  by (cases op) (auto simp: group_defs split: option.splits)

text \<open>The abstract view of the registry: which type an address is bound to.\<close>

fun spec_step :: "group_op \<Rightarrow> (group_address \<rightharpoonup> dpt_type) \<Rightarrow> (group_address \<rightharpoonup> dpt_type)" where
  "spec_step (G_Register a d) m = (if m a = None then m(a \<mapsto> d) else m)"
| "spec_step (G_Unregister a) m = m(a := None)"
| "spec_step _ m = m"

lemma group_step_refines: "(\<lambda>a. group_get a (group_step op r)) = spec_step op (\<lambda>a. group_get a r)"
  by (rule ext, subst group_step_get) (cases op; simp)

lemma group_run_refines: "(\<lambda>a. group_get a (fold group_step ops r)) = fold spec_step ops (\<lambda>a. group_get a r)"
  by (induction ops arbitrary: r) (simp_all add: group_step_refines)

text \<open>
  A group address is bound to one datapoint type until it is unregistered: whatever else is done to the
  registry in between, an address keeps its type, registering the same type again succeeds, and
  registering a different one is refused and changes nothing.
\<close>

lemma binding_stable:
  assumes "group_get a r = Some d" "G_Unregister a \<notin> set ops"
  shows "group_get a (fold group_step ops r) = Some d \<and>
    group_register a d' (fold group_step ops r) =
      (if d' = d then Ok () else Err (Protocol (DptError (number_str d'))), fold group_step ops r)"
proof -
  have "group_get a (fold group_step ops r) = Some d"
    using assms by (induction ops arbitrary: r) (auto simp: group_step_get split: group_op.splits)
  then show ?thesis
    by (auto simp: group_defs split: option.splits)
qed

section \<open>Choosing the next address to refresh\<close>

lemma tried_before_trans: "\<lbrakk>\<not> tried_before y x; \<not> tried_before z y\<rbrakk> \<Longrightarrow> \<not> tried_before z x"
  by (cases x; cases y; cases z) auto

lemma min_by_in: "min_by lt xs = Some x \<Longrightarrow> x \<in> set xs"
  by (induction lt xs rule: min_by.induct) (auto split: if_splits)

lemma min_by_None: "min_by lt xs = None \<longleftrightarrow> xs = []"
  by (induction lt xs rule: min_by.induct) auto

lemma min_by_least:
  assumes "min_by lt xs = Some x" "y \<in> set xs" "\<And>a. \<not> lt a a"
    "\<And>a b. lt a b \<Longrightarrow> \<not> lt b a"
    "\<And>a b c. \<lbrakk>\<not> lt b a; \<not> lt c b\<rbrakk> \<Longrightarrow> \<not> lt c a"
  shows "\<not> lt y x"
  using assms
proof (induction lt xs arbitrary: y rule: min_by.induct)
  case (1 lt)
  show ?case
    using "1.prems"(2) by simp
next
  case (2 lt x')
  show ?case
    using "2.prems"(1-3) by simp
next
  case (3 lt a b zs)
  let ?m = "if lt b a then b else a"
  have m: "\<not> lt a ?m" "\<not> lt b ?m"
    using "3.prems"(3,4) by auto
  have ih: "\<not> lt z x" if "z \<in> set (?m # zs)" for z
    using "3.prems"(1) by (intro "3.IH" [OF _ that "3.prems"(3-5)]) simp
  show ?case
  proof (cases "y \<in> set zs")
    case True
    then show ?thesis using ih by simp
  next
    case False
    with "3.prems"(2) have "\<not> lt y ?m"
      using m by auto
    then show ?thesis
      using "3.prems"(5) [of ?m x y] ih [of ?m] by simp
  qed
qed

lemma tried_before_order:
  "\<not> tried_before x x" "tried_before x y \<Longrightarrow> \<not> tried_before y x"
  by (cases x; cases y; auto)+

text \<open>
  Whatever the order of iteration, \<open>next_stale\<close> answers with nothing exactly when no address is overdue,
  and otherwise with an overdue address such that no other overdue address was tried less recently.
\<close>

lemma next_stale_correct:
  "case next_stale order now r of
     None \<Rightarrow> filter (\<lambda>a. is_stale now (the (r a))) order = []
   | Some a \<Rightarrow> a \<in> set order \<and> is_stale now (the (r a)) \<and>
       list_all (\<lambda>b. \<not> tried_before (bd_last_tried (the (r b))) (bd_last_tried (the (r a))))
         (filter (\<lambda>b. is_stale now (the (r b))) order)"
proof (cases "next_stale order now r")
  case None
  then show ?thesis
    by (simp add: next_stale_def min_by_None)
next
  case (Some a)
  have "\<not> tried_before (bd_last_tried (the (r b))) (bd_last_tried (the (r a)))"
    if "b \<in> set (filter (\<lambda>b. is_stale now (the (r b))) order)" for b
    using min_by_least [OF Some [unfolded next_stale_def] that] tried_before_order tried_before_trans by blast
  moreover have "a \<in> set (filter (\<lambda>a. is_stale now (the (r a))) order)"
    using Some min_by_in by (fastforce simp: next_stale_def)
  ultimately show ?thesis
    using Some by (auto simp: list_all_iff)
qed

section \<open>Fairness\<close>

text \<open>
  Rounds of the refresh task: operations of other tasks, then one choice, which is recorded as tried.  The
  order of iteration, the time of the choice and that of the record are part of a round.
\<close>

type_synonym refresh_round = "group_op list \<times> group_address list \<times> nat \<times> nat"

fun refresh_run :: "refresh_round list \<Rightarrow> group_registry \<Rightarrow> group_address option list" where
  "refresh_run [] r = []"
| "refresh_run ((ops, order, now, now') # rs) r =
     (let r' = fold group_step ops r in
      case next_stale order now r' of
        None \<Rightarrow> None # refresh_run rs r'
      | Some a \<Rightarrow> Some a # refresh_run rs (record_tried now' a r'))"

text \<open>Operations of other tasks that concern neither the address \<open>a\<close> nor add an address.\<close>

fun leaves :: "group_address \<Rightarrow> group_op \<Rightarrow> bool" where
  "leaves a (G_Unregister b) = (b \<noteq> a)"
| "leaves a (G_Set_Ttl b _) = (b \<noteq> a)"
| "leaves a (G_Seen _ b _) = (b \<noteq> a)"
| "leaves a _ = False"

fun rounds_ok :: "group_address \<Rightarrow> nat \<Rightarrow> refresh_round list \<Rightarrow> group_registry \<Rightarrow> bool" where
  "rounds_ok a t [] r = True"
| "rounds_ok a t ((ops, order, now, now') # rs) r =
     (let r' = fold group_step ops r in
      list_all (leaves a) ops \<and> set order = dom r' \<and> t \<le> now \<and> now \<le> now' \<and> t < now' \<and>
      rounds_ok a now' rs (case next_stale order now r' of None \<Rightarrow> r' | Some b \<Rightarrow> record_tried now' b r'))"

abbreviation last_tried :: "group_registry \<Rightarrow> group_address \<Rightarrow> nat option" where
  "last_tried r a \<equiv> bd_last_tried (the (r a))"

text \<open>The addresses that may be chosen before \<open>a\<close>.\<close>

definition ahead :: "group_address \<Rightarrow> group_registry \<Rightarrow> group_address set" where
  "ahead a r = {b \<in> dom r. b \<noteq> a \<and> \<not> tried_before (last_tried r a) (last_tried r b)}"

lemma leaves_step:
  assumes "leaves a op"
  shows "group_step op r a = r a" "ahead a (group_step op r) \<subseteq> ahead a r" "dom (group_step op r) \<subseteq> dom r"
  using assms by (cases op; auto simp: ahead_def group_defs split: option.splits if_splits)+

lemma leaves_run:
  assumes "list_all (leaves a) ops"
  shows "fold group_step ops r a = r a" "ahead a (fold group_step ops r) \<subseteq> ahead a r"
    "dom (fold group_step ops r) \<subseteq> dom r"
proof -
  have "fold group_step ops r a = r a \<and> ahead a (fold group_step ops r) \<subseteq> ahead a r \<and>
      dom (fold group_step ops r) \<subseteq> dom r"
    using assms
  proof (induction ops arbitrary: r)
    case (Cons op ops)
    then have "leaves a op" "list_all (leaves a) ops"
      by simp_all
    then show ?case
      using leaves_step [of a op r] Cons.IH [of "group_step op r"] by (simp; meson order_trans)
  qed simp
  then show "fold group_step ops r a = r a" "ahead a (fold group_step ops r) \<subseteq> ahead a r"
    "dom (fold group_step ops r) \<subseteq> dom r"
    by auto
qed

lemma is_stale_mono: "\<lbrakk>is_stale t b; t \<le> t'\<rbrakk> \<Longrightarrow> is_stale t' b"
  by (auto simp: is_stale_def split: option.splits)

lemma record_tried_ahead:
  assumes "c \<noteq> a" "r a = Some b" "r c = Some b'" "\<And>x. bd_last_tried b = Some x \<Longrightarrow> x < now"
  shows "ahead a (record_tried now c r) = ahead a r - {c}"
  using assms by (cases "bd_last_tried b") (auto simp: ahead_def record_tried_def)

text \<open>A choice other than \<open>a\<close> removes one of the addresses ahead of it.\<close>

lemma refresh_progress:
  assumes "rounds_ok a t rs r" "r a = Some b" "is_stale t b" "\<And>x. bd_last_tried b = Some x \<Longrightarrow> x \<le> t"
    "finite (dom r)" "card (ahead a r) < length rs"
  shows "Some a \<in> set (refresh_run rs r)"
  using assms
proof (induction rs arbitrary: r t)
  case (Cons rd rs)
  obtain ops order now now' where rd: "rd = (ops, order, now, now')"
    by (cases rd) auto
  define r' where "r' = fold group_step ops r"
  have ok: "list_all (leaves a) ops" "set order = dom r'" "t \<le> now" "now \<le> now'" "t < now'"
    "rounds_ok a now' rs (case next_stale order now r' of None \<Rightarrow> r' | Some c \<Rightarrow> record_tried now' c r')"
    using Cons.prems(1) unfolding rd rounds_ok.simps Let_def r'_def [symmetric] by auto
  have a: "r' a = Some b" and sub: "ahead a r' \<subseteq> ahead a r" and fin: "finite (dom r')"
    using leaves_run [OF ok(1), of r] Cons.prems(2,5) by (auto simp: r'_def intro: finite_subset)
  have stale: "a \<in> set (filter (\<lambda>a. is_stale now (the (r' a))) order)"
    using a ok(2) is_stale_mono [OF Cons.prems(3) ok(3)] by auto
  obtain c where c: "next_stale order now r' = Some c"
    using stale by (cases "next_stale order now r'") (auto simp: next_stale_def min_by_None filter_empty_conv)
  have "c \<in> set order" and
    least: "list_all (\<lambda>b. \<not> tried_before (last_tried r' b) (last_tried r' c)) (filter (\<lambda>b. is_stale now (the (r' b))) order)"
    using next_stale_correct [where order = order and now = now and r = r'] by (simp_all only: c option.case)
  then have "c \<in> dom r'" and "\<not> tried_before (last_tried r' a) (last_tried r' c)"
    using ok(2) least [unfolded list_all_iff, rule_format, OF stale] by simp_all
  show ?case
  proof (cases "c = a")
    case True
    then show ?thesis
      using c by (simp add: rd flip: r'_def)
  next
    case False
    then have ca: "c \<in> ahead a r'"
      using \<open>c \<in> dom r'\<close> \<open>\<not> tried_before _ _\<close> by (simp add: ahead_def)
    let ?r = "record_tried now' c r'"
    obtain b' where "r' c = Some b'"
      using \<open>c \<in> dom r'\<close> by blast
    have late: "x < now'" if "bd_last_tried b = Some x" for x
      using Cons.prems(4) [OF that] ok(5) by simp
    have ah: "ahead a ?r = ahead a r' - {c}"
      using record_tried_ahead [OF False a \<open>r' c = Some b'\<close> late] .
    have "finite (ahead a r)"
      using Cons.prems(5) by (simp add: ahead_def)
    then have "card (ahead a ?r) < card (ahead a r)"
      unfolding ah using ca sub by (intro psubset_card_mono) auto
    then have "card (ahead a ?r) < length rs"
      using Cons.prems(6) by simp
    moreover have "?r a = Some b"
      using False a by (simp add: record_tried_def split: option.splits)
    moreover have "dom ?r = dom r'"
      by (auto simp: record_tried_def split: option.splits)
    moreover have "rounds_ok a now' rs ?r"
      using ok(6) by (simp only: c option.case)
    moreover have "is_stale now' b"
      using is_stale_mono [OF Cons.prems(3)] ok(5) by simp
    ultimately have "Some a \<in> set (refresh_run rs ?r)"
      using late fin by (intro Cons.IH) (auto intro: less_imp_le)
    then show ?thesis
      using c by (simp add: rd flip: r'_def)
  qed
qed simp


abbreviation example_binding :: "nat option \<Rightarrow> binding" where
  "example_binding tried \<equiv> \<lparr>bd_dpt = DptType 100001, bd_ttl = Some 60, bd_last_seen = None,
     bd_last_seen_value = None, bd_last_tried = tried\<rparr>"


end
