(* ===== verification/Callbacks.thy ===== *)
theory Callbacks
  imports Telegram
begin

text \<open>
  The callback system, \<open>src/application/callbacks.rs\<close>.

  \<^item> A callback is code of the user of the library: the entries are polymorphic in it, and what a call does is a
    parameter, a function from a callback and its argument to the outcome of the call (returned, timed
    out, or panicked).
  \<^item> Handles come from an atomic 64-bit counter, which wraps.
  \<^item> Registering takes two atomic actions, the handle and then the entry.  Between them other tasks may act, so
    the interleaving is explicit (\<open>cb_step\<close>).

  Shown: handles are unique (\<open>handles_unique\<close>) and unregistering removes exactly one registration
  (\<open>unregister_exact\<close>); a telegram reaches exactly the matching callbacks in the order of registration
  unless one panics, which keeps it from all later ones (\<open>notify_delivery\<close>).
\<close>

section \<open>Filters\<close>

datatype telegram_filter =
    GroupAddresses "group_address list"
  | AddressRange group_address group_address
  | Custom "telegram \<Rightarrow> bool"
  | All_Telegrams

fun filter_matches :: "telegram_filter \<Rightarrow> telegram \<Rightarrow> bool" where
  "filter_matches (GroupAddresses addresses) t =
     (case tg_destination t of Group a \<Rightarrow> a \<in> set addresses | Individual _ \<Rightarrow> False)"
| "filter_matches (AddressRange start end') t =
     (case tg_destination t of
        Group a \<Rightarrow> ga_raw start \<le> ga_raw a \<and> ga_raw a \<le> ga_raw end'
      | Individual _ \<Rightarrow> False)"
| "filter_matches (Custom f) t = f t"
| "filter_matches All_Telegrams t = True"

datatype callback_connection_state = CB_Disconnected | CB_Connecting | CB_Connected | CB_Disconnecting | CB_Error

fun callback_connection_state_fmt :: "callback_connection_state \<Rightarrow> string" where
  "callback_connection_state_fmt CB_Disconnected = ''disconnected''"
| "callback_connection_state_fmt CB_Connecting = ''connecting''"
| "callback_connection_state_fmt CB_Connected = ''connected''"
| "callback_connection_state_fmt CB_Disconnecting = ''disconnecting''"
| "callback_connection_state_fmt CB_Error = ''error''"

section \<open>The event handler\<close>

record 'cb telegram_entry =
  te_id :: u64
  te_callback :: 'cb
  te_filter :: telegram_filter
  te_include_outgoing :: bool

record 'cb connection_entry =
  ce_id :: u64
  ce_callback :: 'cb

record ('t, 'c) event_handler =
  eh_telegram :: "'t telegram_entry list"
  eh_connection :: "'c connection_entry list"
  eh_next_id :: u64

definition EventHandler_new :: "('t, 'c) event_handler" where
  "EventHandler_new = \<lparr>eh_telegram = [], eh_connection = [], eh_next_id = 1\<rparr>"

definition generate_handle :: "('t, 'c) event_handler \<Rightarrow> u64 \<times> ('t, 'c) event_handler" where
  "generate_handle h = (eh_next_id h, h\<lparr>eh_next_id := eh_next_id h + 1\<rparr>)"

definition push_telegram :: "'t telegram_entry \<Rightarrow> ('t, 'c) event_handler \<Rightarrow> ('t, 'c) event_handler" where
  "push_telegram e h = h\<lparr>eh_telegram := eh_telegram h @ [e]\<rparr>"

definition push_connection :: "'c connection_entry \<Rightarrow> ('t, 'c) event_handler \<Rightarrow> ('t, 'c) event_handler" where
  "push_connection e h = h\<lparr>eh_connection := eh_connection h @ [e]\<rparr>"

text \<open>A whole registration, when no other task acts in between.\<close>

definition register_telegram_callback_filtered ::
  "'t \<Rightarrow> telegram_filter \<Rightarrow> bool \<Rightarrow> ('t, 'c) event_handler \<Rightarrow> u64 \<times> ('t, 'c) event_handler" where
  "register_telegram_callback_filtered callback flt include_outgoing h =
     (case generate_handle h of (handle, h') \<Rightarrow>
        (handle, push_telegram \<lparr>te_id = handle, te_callback = callback, te_filter = flt,
                                te_include_outgoing = include_outgoing\<rparr> h'))"

definition register_telegram_callback :: "'t \<Rightarrow> ('t, 'c) event_handler \<Rightarrow> u64 \<times> ('t, 'c) event_handler" where
  "register_telegram_callback callback = register_telegram_callback_filtered callback All_Telegrams False"

definition register_connection_callback :: "'c \<Rightarrow> ('t, 'c) event_handler \<Rightarrow> u64 \<times> ('t, 'c) event_handler" where
  "register_connection_callback callback h =
     (case generate_handle h of (handle, h') \<Rightarrow>
        (handle, push_connection \<lparr>ce_id = handle, ce_callback = callback\<rparr> h'))"

text \<open>\<open>position\<close> and \<open>remove\<close>: the first entry with the handle goes.\<close>

fun remove_first :: "('a \<Rightarrow> bool) \<Rightarrow> 'a list \<Rightarrow> bool \<times> 'a list" where
  "remove_first P [] = (False, [])"
| "remove_first P (x # xs) =
     (if P x then (True, xs) else (case remove_first P xs of (found, ys) \<Rightarrow> (found, x # ys)))"

definition unregister_telegram_callback :: "u64 \<Rightarrow> ('t, 'c) event_handler \<Rightarrow> bool \<times> ('t, 'c) event_handler" where
  "unregister_telegram_callback handle h =
     (case remove_first (\<lambda>e. te_id e = handle) (eh_telegram h) of
        (found, es) \<Rightarrow> (found, h\<lparr>eh_telegram := es\<rparr>))"

definition unregister_connection_callback :: "u64 \<Rightarrow> ('t, 'c) event_handler \<Rightarrow> bool \<times> ('t, 'c) event_handler" where
  "unregister_connection_callback handle h =
     (case remove_first (\<lambda>e. ce_id e = handle) (eh_connection h) of
        (found, es) \<Rightarrow> (found, h\<lparr>eh_connection := es\<rparr>))"

definition unregister_callback :: "u64 \<Rightarrow> ('t, 'c) event_handler \<Rightarrow> bool \<times> ('t, 'c) event_handler" where
  "unregister_callback handle h =
     (case unregister_telegram_callback handle h of (telegram_removed, h) \<Rightarrow>
      case unregister_connection_callback handle h of (connection_removed, h) \<Rightarrow>
        (telegram_removed \<or> connection_removed, h))"

text \<open>The outcome of a call, and of a notification: whether it came to its end and which callbacks ran.\<close>

datatype call_outcome = Returned | Timed_Out | Panicked

fun call_loop :: "('cb \<Rightarrow> 'arg \<Rightarrow> call_outcome) \<Rightarrow> 'arg \<Rightarrow> 'cb list \<Rightarrow> 'cb list \<times> bool" where
  "call_loop call x [] = ([], True)"
| "call_loop call x (c # cs) =
     (case call c x of
        Panicked \<Rightarrow> ([c], False)
      | _ \<Rightarrow> (case call_loop call x cs of (called, ended) \<Rightarrow> (c # called, ended)))"

definition entry_applies :: "telegram \<Rightarrow> 't telegram_entry \<Rightarrow> bool" where
  "entry_applies t e =
     (\<not> (\<not> te_include_outgoing e \<and> tg_direction t = Outgoing) \<and> filter_matches (te_filter e) t)"

fun notify_loop :: "('t \<Rightarrow> telegram \<Rightarrow> call_outcome) \<Rightarrow> telegram \<Rightarrow> 't telegram_entry list \<Rightarrow> 't list \<times> bool" where
  "notify_loop call t [] = ([], True)"
| "notify_loop call t (e # es) =
     (if \<not> te_include_outgoing e \<and> tg_direction t = Outgoing then notify_loop call t es
      else if \<not> filter_matches (te_filter e) t then notify_loop call t es
      else case call (te_callback e) t of
        Panicked \<Rightarrow> ([te_callback e], False)
      | _ \<Rightarrow> (case notify_loop call t es of (called, ended) \<Rightarrow> (te_callback e # called, ended)))"

definition notify_telegram_received ::
  "('t \<Rightarrow> telegram \<Rightarrow> call_outcome) \<Rightarrow> telegram \<Rightarrow> ('t, 'c) event_handler \<Rightarrow> 't list \<times> bool" where
  "notify_telegram_received call t h = notify_loop call t (eh_telegram h)"

definition notify_connection_state_changed ::
  "('c \<Rightarrow> callback_connection_state \<Rightarrow> call_outcome) \<Rightarrow> callback_connection_state \<Rightarrow> ('t, 'c) event_handler \<Rightarrow>
   'c list \<times> bool" where
  "notify_connection_state_changed call st h = call_loop call st (map ce_callback (eh_connection h))"

definition telegram_callback_count :: "('t, 'c) event_handler \<Rightarrow> nat" where
  "telegram_callback_count h = length (eh_telegram h)"

definition connection_callback_count :: "('t, 'c) event_handler \<Rightarrow> nat" where
  "connection_callback_count h = length (eh_connection h)"

definition total_callback_count :: "('t, 'c) event_handler \<Rightarrow> nat" where
  "total_callback_count h = telegram_callback_count h + connection_callback_count h"

definition clear_all_callbacks :: "('t, 'c) event_handler \<Rightarrow> ('t, 'c) event_handler" where
  "clear_all_callbacks h = h\<lparr>eh_telegram := [], eh_connection := []\<rparr>"

section \<open>Interleavings\<close>

text \<open>
  Tasks in the middle of a registration hold their handle and wait for the lock; the task may be dropped
  there (\<open>abandon\<close>).  Every other operation is one action: it works under the lock it takes.  A state also
  counts the handles given out so far.
\<close>

datatype ('t, 'c) pending = Pending_Telegram "'t telegram_entry" | Pending_Connection "'c connection_entry"

fun pending_id :: "('t, 'c) pending \<Rightarrow> u64" where
  "pending_id (Pending_Telegram e) = te_id e"
| "pending_id (Pending_Connection e) = ce_id e"

record ('t, 'c) cb_state =
  cb_handler :: "('t, 'c) event_handler"
  cb_pending :: "('t, 'c) pending list"
  cb_given :: nat

definition cb_init :: "('t, 'c) cb_state" where
  "cb_init = \<lparr>cb_handler = EventHandler_new, cb_pending = [], cb_given = 0\<rparr>"

inductive cb_step :: "('t, 'c) cb_state \<Rightarrow> ('t, 'c) cb_state \<Rightarrow> bool" where
  take_telegram: "generate_handle (cb_handler s) = (handle, h) \<Longrightarrow>
    cb_step s (s\<lparr>cb_handler := h, cb_given := cb_given s + 1,
      cb_pending := cb_pending s @ [Pending_Telegram \<lparr>te_id = handle, te_callback = c, te_filter = f,
        te_include_outgoing = o'\<rparr>]\<rparr>)"
| take_connection: "generate_handle (cb_handler s) = (handle, h) \<Longrightarrow>
    cb_step s (s\<lparr>cb_handler := h, cb_given := cb_given s + 1,
      cb_pending := cb_pending s @ [Pending_Connection \<lparr>ce_id = handle, ce_callback = k\<rparr>]\<rparr>)"
| store_telegram: "cb_pending s = ps @ Pending_Telegram e # qs \<Longrightarrow>
    cb_step s (s\<lparr>cb_handler := push_telegram e (cb_handler s), cb_pending := ps @ qs\<rparr>)"
| store_connection: "cb_pending s = ps @ Pending_Connection e' # qs \<Longrightarrow>
    cb_step s (s\<lparr>cb_handler := push_connection e' (cb_handler s), cb_pending := ps @ qs\<rparr>)"
| abandon: "cb_pending s = ps @ p # qs \<Longrightarrow> cb_step s (s\<lparr>cb_pending := ps @ qs\<rparr>)"
| unregister_t: "unregister_telegram_callback handle (cb_handler s) = (b, h) \<Longrightarrow>
    cb_step s (s\<lparr>cb_handler := h\<rparr>)"
| unregister_c: "unregister_connection_callback handle (cb_handler s) = (b, h) \<Longrightarrow>
    cb_step s (s\<lparr>cb_handler := h\<rparr>)"
| clear: "cb_step s (s\<lparr>cb_handler := clear_all_callbacks (cb_handler s)\<rparr>)"

inductive cb_reachable :: "('t, 'c) cb_state \<Rightarrow> bool" where
  cb_start: "cb_reachable cb_init"
| cb_next: "\<lbrakk>cb_reachable s; cb_step s s'\<rbrakk> \<Longrightarrow> cb_reachable s'"

text \<open>The handles in use.\<close>

definition cb_ids :: "('t, 'c) cb_state \<Rightarrow> u64 list" where
  "cb_ids s = map te_id (eh_telegram (cb_handler s)) @ map ce_id (eh_connection (cb_handler s)) @
     map pending_id (cb_pending s)"

section \<open>Handles\<close>

text \<open>The handles in use are among the first \<open>cb_given\<close> values of the counter.\<close>

definition given_ids :: "nat \<Rightarrow> u64 set" where
  "given_ids n = word_of_nat ` {1..n}"

definition cb_inv :: "('t, 'c) cb_state \<Rightarrow> bool" where
  "cb_inv s = (eh_next_id (cb_handler s) = word_of_nat (cb_given s + 1) \<and>
     (cb_given s < 2 ^ 64 \<longrightarrow> distinct (cb_ids s) \<and> set (cb_ids s) \<subseteq> given_ids (cb_given s)))"

lemma given_ids_Suc: "given_ids (Suc n) = insert (1 + word_of_nat n) (given_ids n)"
  by (auto simp: given_ids_def atLeastAtMostSuc_conv)

lemma unat_id: "k < 2 ^ 64 \<Longrightarrow> unat (word_of_nat k :: u64) = k"
  by (simp add: unsigned_of_nat take_bit_nat_eq_self)

lemma fresh_id: "\<lbrakk>Suc n < 2 ^ 64; S \<subseteq> given_ids n\<rbrakk> \<Longrightarrow> 1 + word_of_nat n \<notin> S"
proof
  assume n: "Suc n < 2 ^ 64" and "S \<subseteq> given_ids n" "(1 + word_of_nat n :: u64) \<in> S"
  then have "(1 + word_of_nat n :: u64) \<in> given_ids n"
    by blast
  then obtain k where k: "1 \<le> k" "k \<le> n" "(word_of_nat (Suc n) :: u64) = word_of_nat k"
    by (auto simp: given_ids_def)
  then have "unat (word_of_nat (Suc n) :: u64) = unat (word_of_nat k :: u64)"
    by simp
  then show False
    using k(1,2) n unat_id [of "Suc n"] unat_id [of k] by linarith
qed

lemma remove_first_split:
  "remove_first P xs = (b, ys) \<Longrightarrow>
     (if b then \<exists>us x vs. xs = us @ x # vs \<and> ys = us @ vs \<and> P x \<and> \<not> (\<exists>u \<in> set us. P u)
      else ys = xs \<and> \<not> (\<exists>x \<in> set xs. P x))"
proof (induction xs arbitrary: b ys)
  case (Cons x xs)
  show ?case
  proof (cases "P x")
    case True
    with Cons.prems show ?thesis
      by (auto intro!: exI [of _ "[]"])
  next
    case False
    obtain zs where "remove_first P xs = (b, zs)" "ys = x # zs"
      using Cons.prems False by (auto split: prod.splits)
    with Cons.IH [of b zs] False show ?thesis
      by (auto split: if_splits) (metis append_Cons set_ConsD)
  qed
qed simp

lemmas handler_ops = generate_handle_def push_telegram_def push_connection_def
  unregister_telegram_callback_def unregister_connection_callback_def clear_all_callbacks_def

lemma take_inv:
  assumes "cb_inv s" "cb_ids s' = cb_ids s @ [eh_next_id (cb_handler s)]" "cb_given s' = cb_given s + 1"
    "eh_next_id (cb_handler s') = eh_next_id (cb_handler s) + 1"
  shows "cb_inv s'"
proof -
  have next_id: "eh_next_id (cb_handler s) = 1 + word_of_nat (cb_given s)"
    using assms(1) by (simp add: cb_inv_def)
  have "distinct (cb_ids s') \<and> set (cb_ids s') \<subseteq> given_ids (cb_given s')" if "cb_given s' < 2 ^ 64"
  proof -
    have "distinct (cb_ids s)" "set (cb_ids s) \<subseteq> given_ids (cb_given s)"
      using assms(1,3) that by (simp_all add: cb_inv_def)
    then show ?thesis
      using fresh_id [of "cb_given s" "set (cb_ids s)"] assms(2,3) that next_id
      by (simp add: given_ids_Suc subset_insertI2)
  qed
  with next_id assms(3,4) show ?thesis
    unfolding cb_inv_def by simp
qed

lemma shrink_inv:
  assumes "cb_inv s" "cb_ids s = us @ i # vs" "cb_ids s' = us @ vs" "cb_given s' = cb_given s"
    "eh_next_id (cb_handler s') = eh_next_id (cb_handler s)"
  shows "cb_inv s'"
  using assms by (auto simp: cb_inv_def)

lemma cb_step_inv: "\<lbrakk>cb_step s s'; cb_inv s\<rbrakk> \<Longrightarrow> cb_inv s'"
proof (induction rule: cb_step.induct)
  case (take_telegram s handle h c f o')
  then show ?case
    by - (rule take_inv [of s], auto simp: cb_ids_def generate_handle_def)
next
  case (take_connection s handle h k)
  then show ?case
    by - (rule take_inv [of s], auto simp: cb_ids_def generate_handle_def)
next
  case (unregister_t handle s b h)
  obtain es where es: "remove_first (\<lambda>e. te_id e = handle) (eh_telegram (cb_handler s)) = (b, es)"
    and h: "h = (cb_handler s)\<lparr>eh_telegram := es\<rparr>"
    using unregister_t.hyps by (auto simp: handler_ops split: prod.splits)
  show ?case
  proof (cases b)
    case True
    then obtain us x vs where "eh_telegram (cb_handler s) = us @ x # vs" "es = us @ vs"
      using remove_first_split [OF es] by auto
    then show ?thesis
      using unregister_t.prems h
      by - (rule shrink_inv [of s "map te_id us" "te_id x" "map te_id vs @ map ce_id (eh_connection (cb_handler s)) @ map pending_id (cb_pending s)"], auto simp: cb_ids_def)
  next
    case False
    then show ?thesis
      using remove_first_split [OF es] unregister_t.prems h by simp
  qed
next
  case (unregister_c handle s b h)
  obtain es where es: "remove_first (\<lambda>e. ce_id e = handle) (eh_connection (cb_handler s)) = (b, es)"
    and h: "h = (cb_handler s)\<lparr>eh_connection := es\<rparr>"
    using unregister_c.hyps by (auto simp: handler_ops split: prod.splits)
  show ?case
  proof (cases b)
    case True
    then obtain us x vs where "eh_connection (cb_handler s) = us @ x # vs" "es = us @ vs"
      using remove_first_split [OF es] by auto
    then show ?thesis
      using unregister_c.prems h
      by - (rule shrink_inv [of s "map te_id (eh_telegram (cb_handler s)) @ map ce_id us" "ce_id x" "map ce_id vs @ map pending_id (cb_pending s)"], auto simp: cb_ids_def)
  next
    case False
    then show ?thesis
      using remove_first_split [OF es] unregister_c.prems h by simp
  qed
qed (auto simp: cb_inv_def cb_ids_def handler_ops)

lemma cb_reachable_inv: "cb_reachable s \<Longrightarrow> cb_inv s"
proof (induction rule: cb_reachable.induct)
  case cb_start
  show ?case
    by (simp add: cb_inv_def cb_init_def cb_ids_def EventHandler_new_def)
qed (rule cb_step_inv)

text \<open>
  Handles are unique.  However registrations, removals and clearing of several tasks interleave, no two
  callbacks, telegram or connection, stored or about to be stored, have the same handle, as long as
  fewer than 2 to the 64 handles have been given out.
\<close>

lemma handles_unique:
  assumes "cb_reachable s" "cb_given s < 2 ^ 64"
  shows "distinct (cb_ids s)"
  using cb_reachable_inv [OF assms(1)] assms(2) by (simp add: cb_inv_def)

text \<open>Unregistering a handle removes the one callback that has it and keeps the others in their order.\<close>

lemma unregister_exact:
  assumes "cb_reachable s" "cb_given s < 2 ^ 64"
  shows "unregister_telegram_callback handle (cb_handler s) =
    (handle \<in> te_id ` set (eh_telegram (cb_handler s)),
     (cb_handler s)\<lparr>eh_telegram := filter (\<lambda>e. te_id e \<noteq> handle) (eh_telegram (cb_handler s))\<rparr>)"
proof -
  have d: "distinct (map te_id (eh_telegram (cb_handler s)))"
    using cb_reachable_inv [OF assms(1)] assms(2) by (simp add: cb_inv_def cb_ids_def)
  have "remove_first (\<lambda>e. te_id e = handle) es =
      (handle \<in> te_id ` set es, filter (\<lambda>e. te_id e \<noteq> handle) es)" if "distinct (map te_id es)" for es
    using that
  proof (induction es)
    case (Cons e es)
    show ?case
    proof (cases "te_id e = handle")
      case True
      then have "\<forall>x \<in> set es. te_id x \<noteq> handle"
        using Cons.prems by (auto simp: image_iff)
      with True show ?thesis
        by simp
    qed (use Cons in auto)
  qed simp
  from this [OF d] show ?thesis
    by (simp add: unregister_telegram_callback_def)
qed

section \<open>Delivery\<close>

lemma notify_loop_eq: "notify_loop call t es = call_loop call t (map te_callback (filter (entry_applies t) es))"
  by (induction es) (auto simp: entry_applies_def split: call_outcome.splits)

lemma call_loop_prefix:
  "call_loop call x cs =
     (let quiet = takeWhile (\<lambda>c. call c x \<noteq> Panicked) cs in
      if quiet = cs then (cs, True) else (take (Suc (length quiet)) cs, False))"
  by (induction cs) (auto simp: Let_def split: call_outcome.splits if_splits)

text \<open>
  A telegram reaches exactly the callbacks whose filter matches it, and outgoing telegrams only those
  that asked for them, in the order of registration.  Timeouts do not matter.  A callback that panics
  ends the delivery: the callbacks after it do not run and the panic reaches the caller.
\<close>

lemma notify_delivery:
  "notify_telegram_received call t h =
     (let due = map te_callback (filter (entry_applies t) (eh_telegram h));
          quiet = takeWhile (\<lambda>c. call c t \<noteq> Panicked) due in
      if quiet = due then (due, True) else (take (Suc (length quiet)) due, False))"
  by (simp add: notify_telegram_received_def notify_loop_eq call_loop_prefix Let_def)

end
