(* ===== verification/Group_Values.thy ===== *)
theory Group_Values
  imports Group_Registry Callbacks Queue Telegram_Codec Dpt_Float
begin

text \<open>
  Group values in \<open>src/application/knx.rs\<close>: typed group addresses, reading a value and waiting for the answer,
  the processing task, the refresh task, and \<open>src/protocol/dpt/decode.rs\<close>.

  \<^item> The shared state of these parts is the record \<open>group_node\<close>: the telegram queue, the group registry, the
    callbacks and the channels of the reads that wait for an answer.
  \<^item> The callbacks of the user are a parameter (see \<open>Callbacks\<close>); the callback of a waiting read puts the
    payload into its channel, which holds one message.
  \<^item> \<open>read_group_value\<close> is split at its \<open>await\<close>: what it does before it waits (\<open>read_group_value_begin\<close>) and
    after (\<open>read_group_value_finish\<close>).  In between the other tasks act (\<open>node_step\<close>).

  Shown: a read returns the payload of the first telegram to its address that the processing task
  handles while it waits, and times out if there is none (\<open>read_answer\<close>); the state of a group
  address has the value of the last write or response that was handled (\<open>last_value\<close>); a value written to a typed
  address arrives as its wire form at every other typed address (\<open>value_on_bus\<close>); and a callback that panics
  stops the processing for good (\<open>panic_stops_processing\<close>).
\<close>

section \<open>The shared state\<close>

datatype 'u telegram_callback = User_Callback 'u | GroupValueReadCallback group_address nat

record ('u, 'c) group_node =
  gn_address :: individual_address
  gn_queue :: queue_state
  gn_registry :: group_registry
  gn_handler :: "('u telegram_callback, 'c) event_handler"
  gn_channels :: "nat \<rightharpoonup> bytes"
  gn_next_channel :: nat
  gn_processing :: bool

definition Knx_send_telegram ::
  "queue_config \<Rightarrow> nat \<Rightarrow> telegram \<Rightarrow> ('u, 'c) group_node \<Rightarrow> unit result \<times> ('u, 'c) group_node" where
  "Knx_send_telegram cfg now t nd =
     (case enqueue_outgoing cfg now (t\<lparr>tg_source := gn_address nd\<rparr>) (gn_queue nd) of
        (r, q) \<Rightarrow> (r, nd\<lparr>gn_queue := q\<rparr>))"

section \<open>Typed group addresses\<close>

record typed_group_address =
  ta_address :: group_address
  ta_dpt :: dpt_type

definition check_dpt_current :: "typed_group_address \<Rightarrow> ('u, 'c) group_node \<Rightarrow> unit result" where
  "check_dpt_current ta nd =
     (case group_get (ta_address ta) (gn_registry nd) of
        Some dpt \<Rightarrow> if dpt = ta_dpt ta then Ok () else Err (dpt_error (ta_dpt ta))
      | None \<Rightarrow> Err (dpt_error (ta_dpt ta)))"

definition DptValue_dpt_type :: "bool \<Rightarrow> 'a dpt_value \<Rightarrow> dpt_type result" where
  "DptValue_dpt_type checks D =
     bind_res (dpt_from_str checks (dv_number D)) (\<lambda>d.
       case d of Some dpt \<Rightarrow> Ok dpt | None \<Rightarrow> Err (err_dpt (dv_number D)))"

text \<open>The value to write resolves to a value of the type: a \<open>T\<close> resolves to itself.\<close>

definition resolve_self :: "'a \<Rightarrow> dpt_type \<Rightarrow> 'a result" where
  "resolve_self v dpt = Ok v"

definition encode_value :: "bool \<Rightarrow> 'a dpt_value \<Rightarrow> (dpt_type \<Rightarrow> 'a result) \<Rightarrow> unit \<Rightarrow> bytes result" where
  "encode_value checks D resolve _ =
     bind_res (DptValue_dpt_type checks D) (\<lambda>dpt.
     bind_res (resolve dpt) (\<lambda>v.
     bind_res (dv_validate D v) (\<lambda>_. dv_encode D v)))"

definition typed_write ::
  "bool \<Rightarrow> queue_config \<Rightarrow> nat \<Rightarrow> system_time \<Rightarrow> 'a dpt_value \<Rightarrow> (dpt_type \<Rightarrow> 'a result) \<Rightarrow> typed_group_address \<Rightarrow>
   ('u, 'c) group_node \<Rightarrow> unit result \<times> ('u, 'c) group_node" where
  "typed_write checks cfg now time D resolve ta nd =
     (case check_dpt_current ta nd of
        Ok _ \<Rightarrow>
          (case Telegram_group_write_value (encode_value checks D resolve) time (ta_address ta) of
             Ok t \<Rightarrow> Knx_send_telegram cfg now t nd
           | Err e \<Rightarrow> (Err e, nd)
           | Panic \<Rightarrow> (Panic, nd))
      | Err e \<Rightarrow> (Err e, nd)
      | Panic \<Rightarrow> (Panic, nd))"

definition typed_decode :: "'a dpt_value \<Rightarrow> typed_group_address \<Rightarrow> telegram \<Rightarrow> ('u, 'c) group_node \<Rightarrow> 'a result option" where
  "typed_decode D ta t nd =
     (if tg_destination t \<noteq> Group (ta_address ta) then None
      else if tg_type t = GroupValueRead then None
      else case check_dpt_current ta nd of
        Err e \<Rightarrow> Some (Err e)
      | Panic \<Rightarrow> Some Panic
      | Ok _ \<Rightarrow> Some (dv_decode D (tg_payload t)))"

definition register_group_address_dyn ::
  "group_address \<Rightarrow> dpt_type \<Rightarrow> ('u, 'c) group_node \<Rightarrow> unit result \<times> ('u, 'c) group_node" where
  "register_group_address_dyn a dpt nd =
     (case group_register a dpt (gn_registry nd) of (r, reg) \<Rightarrow> (r, nd\<lparr>gn_registry := reg\<rparr>))"

definition Knx_group_address ::
  "bool \<Rightarrow> 'a dpt_value \<Rightarrow> group_address \<Rightarrow> ('u, 'c) group_node \<Rightarrow> typed_group_address result \<times> ('u, 'c) group_node" where
  "Knx_group_address checks D a nd =
     (case DptValue_dpt_type checks D of
        Ok dpt \<Rightarrow>
          (case register_group_address_dyn a dpt nd of (r, nd) \<Rightarrow>
             (bind_res r (\<lambda>_. Ok \<lparr>ta_address = a, ta_dpt = dpt\<rparr>), nd))
      | Err e \<Rightarrow> (Err e, nd)
      | Panic \<Rightarrow> (Panic, nd))"

fun register_group_addresses_from_ets ::
  "(group_address \<times> dpt_type) list \<Rightarrow> ('u, 'c) group_node \<Rightarrow> unit result \<times> ('u, 'c) group_node" where
  "register_group_addresses_from_ets [] nd = (Ok (), nd)"
| "register_group_addresses_from_ets ((a, dpt) # configs) nd =
     (case register_group_address_dyn a dpt nd of
        (Ok _, nd) \<Rightarrow> register_group_addresses_from_ets configs nd
      | (Err e, nd) \<Rightarrow> (Err e, nd)
      | (Panic, nd) \<Rightarrow> (Panic, nd))"

definition decode_group_value :: "telegram \<Rightarrow> ('u, 'c) group_node \<Rightarrow> dpt_view result option" where
  "decode_group_value t nd =
     (case tg_destination t of
        Individual _ \<Rightarrow> None
      | Group a \<Rightarrow>
          if tg_type t = GroupValueRead then None
          else map_option (\<lambda>dpt. decode_ref dpt (tg_payload t)) (group_get a (gn_registry nd)))"

text \<open>\<open>decode_telegram\<close> of \<open>src/protocol/dpt/decode.rs\<close>.\<close>

record decoded_telegram =
  dc_source :: individual_address
  dc_destination :: group_address
  dc_type :: telegram_type
  dc_dpt :: dpt_type
  dc_view :: dpt_view
  dc_group_name :: "string option"

definition decode_telegram :: "telegram \<Rightarrow> dpt_type \<Rightarrow> string option \<Rightarrow> decoded_telegram result" where
  "decode_telegram t dpt name =
     (case tg_destination t of
        Individual _ \<Rightarrow> Err (dpt_error dpt)
      | Group destination \<Rightarrow>
          bind_res (decode_ref dpt (tg_payload t)) (\<lambda>view.
            Ok \<lparr>dc_source = tg_source t, dc_destination = destination, dc_type = tg_type t,
                dc_dpt = dpt, dc_view = view, dc_group_name = name\<rparr>))"

section \<open>Reading a value\<close>

definition read_callback_call :: "group_address \<Rightarrow> nat \<Rightarrow> telegram \<Rightarrow> (nat \<rightharpoonup> bytes) \<Rightarrow> (nat \<rightharpoonup> bytes)" where
  "read_callback_call a ch t chans =
     (if tg_destination t = Group a \<and> tg_payload t \<noteq> [] then
        (case chans ch of None \<Rightarrow> chans(ch \<mapsto> tg_payload t) | Some _ \<Rightarrow> chans)
      else chans)"

definition read_group_value_begin ::
  "queue_config \<Rightarrow> nat \<Rightarrow> system_time \<Rightarrow> group_address \<Rightarrow> ('u, 'c) group_node \<Rightarrow>
   (u64 \<times> nat) result \<times> ('u, 'c) group_node" where
  "read_group_value_begin cfg now time a nd =
     (let ch = gn_next_channel nd;
          nd = nd\<lparr>gn_next_channel := ch + 1, gn_channels := (gn_channels nd)(ch := None)\<rparr> in
      case register_telegram_callback (GroupValueReadCallback a ch) (gn_handler nd) of (handle, h) \<Rightarrow>
      case Knx_send_telegram cfg now (Telegram_group_read time a) (nd\<lparr>gn_handler := h\<rparr>) of
        (Ok _, nd) \<Rightarrow> (Ok (handle, ch), nd)
      | (Err e, nd) \<Rightarrow> (Err e, nd\<lparr>gn_handler := snd (unregister_callback handle (gn_handler nd))\<rparr>)
      | (Panic, nd) \<Rightarrow> (Panic, nd))"

definition read_group_value_finish ::
  "group_address \<Rightarrow> nat \<Rightarrow> u64 \<times> nat \<Rightarrow> ('u, 'c) group_node \<Rightarrow> bytes result \<times> ('u, 'c) group_node" where
  "read_group_value_finish a timeout_ms waiting nd =
     (case waiting of (handle, ch) \<Rightarrow>
        (case gn_channels nd ch of
           Some payload \<Rightarrow> Ok payload
         | None \<Rightarrow> Err (Device (CommunicationTimeout (''group address '' @ ga_display a) (word_of_nat timeout_ms))),
         nd\<lparr>gn_handler := snd (unregister_callback handle (gn_handler nd))\<rparr>))"

section \<open>The processing task\<close>

definition record_group_value_if_present :: "nat \<Rightarrow> telegram \<Rightarrow> group_registry \<Rightarrow> group_registry" where
  "record_group_value_if_present now t reg =
     (case tg_destination t of
        Group a \<Rightarrow>
          if tg_type t = GroupValueWrite \<or> tg_type t = GroupValueResponse
          then record_seen now a (tg_payload t) reg else reg
      | Individual _ \<Rightarrow> reg)"

fun node_call :: "('u \<Rightarrow> telegram \<Rightarrow> call_outcome) \<Rightarrow> 'u telegram_callback \<Rightarrow> telegram \<Rightarrow> call_outcome" where
  "node_call call (User_Callback u) t = call u t"
| "node_call call (GroupValueReadCallback a ch) t = Returned"

fun call_effect :: "telegram \<Rightarrow> 'u telegram_callback \<Rightarrow> (nat \<rightharpoonup> bytes) \<Rightarrow> (nat \<rightharpoonup> bytes)" where
  "call_effect t (User_Callback u) chans = chans"
| "call_effect t (GroupValueReadCallback a ch) chans = read_callback_call a ch t chans"

text \<open>One telegram; a panic ends the task.\<close>

definition process_telegram ::
  "('u \<Rightarrow> telegram \<Rightarrow> call_outcome) \<Rightarrow> nat \<Rightarrow> telegram \<Rightarrow> ('u, 'c) group_node \<Rightarrow> ('u, 'c) group_node" where
  "process_telegram call now t nd =
     (case notify_telegram_received (node_call call) t (gn_handler nd) of (called, ended) \<Rightarrow>
        nd\<lparr>gn_registry := record_group_value_if_present now t (gn_registry nd),
           gn_channels := fold (call_effect t) called (gn_channels nd),
           gn_processing := ended\<rparr>)"

text \<open>One round of the loop, with the telegram it handled.\<close>

definition processing_round ::
  "bool \<Rightarrow> ('u \<Rightarrow> telegram \<Rightarrow> call_outcome) \<Rightarrow> nat \<Rightarrow> ('u, 'c) group_node \<Rightarrow> telegram list \<times> ('u, 'c) group_node" where
  "processing_round shutdown call now nd =
     (if \<not> gn_processing nd then ([], nd)
      else if shutdown \<and> queue_is_empty (gn_queue nd) then ([], nd\<lparr>gn_processing := False\<rparr>)
      else case dequeue_incoming (gn_queue nd) of
        (Ready (Some t), q) \<Rightarrow> ([t], process_telegram call now t (nd\<lparr>gn_queue := q\<rparr>))
      | (Ready None, q) \<Rightarrow> ([], nd\<lparr>gn_queue := q, gn_processing := False\<rparr>)
      | (Pending, q) \<Rightarrow> ([], nd))"

section \<open>The refresh task\<close>

definition refresh_round ::
  "queue_config \<Rightarrow> group_address list \<Rightarrow> nat \<Rightarrow> system_time \<Rightarrow> ('u, 'c) group_node \<Rightarrow> ('u, 'c) group_node" where
  "refresh_round cfg order now time nd =
     (case next_stale order now (gn_registry nd) of
        None \<Rightarrow> nd
      | Some a \<Rightarrow>
          (case Knx_send_telegram cfg now ((Telegram_group_read time a)\<lparr>tg_priority := Low\<rparr>) nd of
             (Ok _, nd) \<Rightarrow> nd\<lparr>gn_registry := record_tried now a (gn_registry nd)\<rparr>
           | (_, nd) \<Rightarrow> nd))"

section \<open>Interleavings\<close>

datatype 'u node_event =
    Arrive telegram
  | Process bool nat
  | Refresh "group_address list" nat system_time
  | Send nat
  | Registry_Op group_op
  | Begin_Read nat system_time group_address
  | Register_Callback 'u telegram_filter bool
  | Unregister_Callback u64

fun node_step ::
  "queue_config \<Rightarrow> (nat \<Rightarrow> nat \<Rightarrow> nat) \<Rightarrow> ('u \<Rightarrow> telegram \<Rightarrow> call_outcome) \<Rightarrow> 'u node_event \<Rightarrow>
   ('u, 'c) group_node \<Rightarrow> telegram list \<times> ('u, 'c) group_node" where
  "node_step cfg ema call (Arrive t) nd = ([], nd\<lparr>gn_queue := snd (enqueue_incoming cfg t (gn_queue nd))\<rparr>)"
| "node_step cfg ema call (Process shutdown now) nd = processing_round shutdown call now nd"
| "node_step cfg ema call (Refresh order now time) nd = ([], refresh_round cfg order now time nd)"
| "node_step cfg ema call (Send now) nd = ([], nd\<lparr>gn_queue := snd (dequeue_outgoing ema now (gn_queue nd))\<rparr>)"
| "node_step cfg ema call (Registry_Op op) nd = ([], nd\<lparr>gn_registry := group_step op (gn_registry nd)\<rparr>)"
| "node_step cfg ema call (Begin_Read now time a) nd = ([], snd (read_group_value_begin cfg now time a nd))"
| "node_step cfg ema call (Register_Callback u f outgoing) nd =
     ([], nd\<lparr>gn_handler := snd (register_telegram_callback_filtered (User_Callback u) f outgoing (gn_handler nd))\<rparr>)"
| "node_step cfg ema call (Unregister_Callback handle) nd =
     ([], nd\<lparr>gn_handler := snd (unregister_callback handle (gn_handler nd))\<rparr>)"

fun node_run ::
  "queue_config \<Rightarrow> (nat \<Rightarrow> nat \<Rightarrow> nat) \<Rightarrow> ('u \<Rightarrow> telegram \<Rightarrow> call_outcome) \<Rightarrow> 'u node_event list \<Rightarrow>
   ('u, 'c) group_node \<Rightarrow> telegram list \<times> ('u, 'c) group_node" where
  "node_run cfg ema call [] nd = ([], nd)"
| "node_run cfg ema call (ev # evs) nd =
     (case node_step cfg ema call ev nd of (ts, nd) \<Rightarrow>
      case node_run cfg ema call evs nd of (us, nd) \<Rightarrow> (ts @ us, nd))"

section \<open>What a read returns\<close>

definition answers :: "group_address \<Rightarrow> telegram \<Rightarrow> bool" where
  "answers a t = (tg_destination t = Group a \<and> tg_payload t \<noteq> [] \<and> tg_direction t = Incoming)"

text \<open>Channel numbers are not used again.\<close>

definition channels_fresh :: "('u, 'c) group_node \<Rightarrow> bool" where
  "channels_fresh nd =
     list_all (\<lambda>e. case te_callback e of GroupValueReadCallback _ ch \<Rightarrow> ch < gn_next_channel nd | User_Callback _ \<Rightarrow> True)
       (eh_telegram (gn_handler nd))"

text \<open>A read for \<open>a\<close> waits at channel \<open>ch\<close> with a handle that was given out \<open>k\<close> registrations ago.\<close>

definition waits :: "group_address \<Rightarrow> u64 \<times> nat \<Rightarrow> nat \<Rightarrow> ('u, 'c) group_node \<Rightarrow> bool" where
  "waits a w k nd =
     (\<lparr>te_id = fst w, te_callback = GroupValueReadCallback a (snd w), te_filter = All_Telegrams,
       te_include_outgoing = False\<rparr> \<in> set (eh_telegram (gn_handler nd)) \<and>
      (\<forall>e \<in> set (eh_telegram (gn_handler nd)). \<forall>b. te_callback e = GroupValueReadCallback b (snd w) \<longrightarrow>
         b = a \<and> \<not> te_include_outgoing e) \<and>
      snd w < gn_next_channel nd \<and>
      eh_next_id (gn_handler nd) = fst w + word_of_nat k)"

lemma remove_first_keeps: "\<lbrakk>x \<in> set xs; \<not> P x\<rbrakk> \<Longrightarrow> x \<in> set (snd (remove_first P xs))"
  by (induction xs) (auto split: prod.splits)

lemma remove_first_subset: "x \<in> set (snd (remove_first P xs)) \<Longrightarrow> x \<in> set xs"
  by (induction xs) (auto split: prod.splits if_splits)

lemma unregister_handler:
  "eh_telegram (snd (unregister_callback handle h)) = snd (remove_first (\<lambda>e. te_id e = handle) (eh_telegram h))"
  "eh_next_id (snd (unregister_callback handle h)) = eh_next_id h"
  by (simp_all add: unregister_callback_def unregister_telegram_callback_def unregister_connection_callback_def
      split: prod.splits)

lemma waits_unregister:
  assumes "waits a w k nd" "handle \<noteq> fst w"
  shows "waits a w k (nd\<lparr>gn_handler := snd (unregister_callback handle (gn_handler nd))\<rparr>)"
proof -
  have "\<lparr>te_id = fst w, te_callback = GroupValueReadCallback a (snd w), te_filter = All_Telegrams,
      te_include_outgoing = False\<rparr> \<in> set (snd (remove_first (\<lambda>e. te_id e = handle) (eh_telegram (gn_handler nd))))"
    using assms by (intro remove_first_keeps) (simp_all add: waits_def)
  moreover have "set (snd (remove_first (\<lambda>e. te_id e = handle) (eh_telegram (gn_handler nd)))) \<subseteq>
      set (eh_telegram (gn_handler nd))"
    by (rule subsetI) (erule remove_first_subset)
  ultimately show ?thesis
    using assms(1) unfolding waits_def unregister_handler by (simp add: unregister_handler) blast
qed

text \<open>The effect of a round of callbacks on one channel.\<close>

lemma fold_call_effect:
  assumes "\<And>b. GroupValueReadCallback b ch \<in> set cs \<Longrightarrow> b = a"
  shows "fold (call_effect t) cs chans ch =
    (if chans ch = None \<and> GroupValueReadCallback a ch \<in> set cs \<and> tg_destination t = Group a \<and> tg_payload t \<noteq> []
     then Some (tg_payload t) else chans ch)"
  using assms
proof (induction cs arbitrary: chans)
  case (Cons c cs)
  have IH: "fold (call_effect t) cs chans ch =
    (if chans ch = None \<and> GroupValueReadCallback a ch \<in> set cs \<and> tg_destination t = Group a \<and> tg_payload t \<noteq> []
     then Some (tg_payload t) else chans ch)" for chans
    by (rule Cons.IH) (rule Cons.prems, simp)
  show ?case
  proof (cases "\<exists>b. c = GroupValueReadCallback b ch")
    case True
    then have "c = GroupValueReadCallback a ch"
      using Cons.prems by auto
    then show ?thesis
      by (simp add: IH read_callback_call_def split: option.splits)
  next
    case False
    then have "call_effect t c chans ch = chans ch" "c \<noteq> GroupValueReadCallback a ch"
      by (cases c; auto simp: read_callback_call_def split: option.splits)+
    then show ?thesis
      by (simp add: IH)
  qed
qed simp

lemma quiet_calls: "(\<And>c. c \<in> set cs \<Longrightarrow> call c x \<noteq> Panicked) \<Longrightarrow> call_loop call x cs = (cs, True)"
  by (induction cs) (auto split: call_outcome.splits)

lemma process_waits:
  assumes w: "waits a w k nd" and quiet: "\<forall>u t. call u t \<noteq> Panicked"
  shows "waits a w k (process_telegram call now t nd)"
    "gn_channels (process_telegram call now t nd) (snd w) =
      (if gn_channels nd (snd w) = None \<and> answers a t then Some (tg_payload t) else gn_channels nd (snd w))"
proof -
  let ?due = "map te_callback (filter (entry_applies t) (eh_telegram (gn_handler nd)))"
  have "node_call call c t \<noteq> Panicked" for c
    using quiet by (cases c) auto
  then have n: "notify_telegram_received (node_call call) t (gn_handler nd) = (?due, True)"
    unfolding notify_telegram_received_def notify_loop_eq by (rule quiet_calls)
  then show "waits a w k (process_telegram call now t nd)"
    using w by (simp add: process_telegram_def waits_def)
  let ?e = "\<lparr>te_id = fst w, te_callback = GroupValueReadCallback a (snd w), te_filter = All_Telegrams,
    te_include_outgoing = False\<rparr>"
  have only: "b = a" if due: "GroupValueReadCallback b (snd w) \<in> set ?due" for b
  proof -
    obtain e where "e \<in> set (eh_telegram (gn_handler nd))" "te_callback e = GroupValueReadCallback b (snd w)"
      using due by auto
    then show ?thesis
      using w unfolding waits_def by blast
  qed
  have mine: "?e \<in> set (eh_telegram (gn_handler nd))"
    and others: "\<And>e. \<lbrakk>e \<in> set (eh_telegram (gn_handler nd)); te_callback e = GroupValueReadCallback a (snd w)\<rbrakk> \<Longrightarrow>
      \<not> te_include_outgoing e"
    using w unfolding waits_def by blast+
  have "GroupValueReadCallback a (snd w) \<in> set ?due \<longleftrightarrow> tg_direction t = Incoming"
  proof
    assume "GroupValueReadCallback a (snd w) \<in> set ?due"
    then obtain e where "e \<in> set (eh_telegram (gn_handler nd))" "entry_applies t e"
      "te_callback e = GroupValueReadCallback a (snd w)"
      by auto
    then show "tg_direction t = Incoming"
      using others [of e] by (cases "tg_direction t") (simp_all add: entry_applies_def)
  next
    assume "tg_direction t = Incoming"
    then have "?e \<in> set (filter (entry_applies t) (eh_telegram (gn_handler nd)))"
      using mine by (simp add: entry_applies_def)
    then have "te_callback ?e \<in> set ?due"
      unfolding set_map by (rule imageI)
    then show "GroupValueReadCallback a (snd w) \<in> set ?due"
      by simp
  qed
  moreover have "fold (call_effect t) ?due (gn_channels nd) (snd w) =
      (if gn_channels nd (snd w) = None \<and> GroupValueReadCallback a (snd w) \<in> set ?due \<and>
          tg_destination t = Group a \<and> tg_payload t \<noteq> []
       then Some (tg_payload t) else gn_channels nd (snd w))"
    by (rule fold_call_effect) (rule only)
  ultimately show "gn_channels (process_telegram call now t nd) (snd w) =
      (if gn_channels nd (snd w) = None \<and> answers a t then Some (tg_payload t) else gn_channels nd (snd w))"
    using n by (simp add: process_telegram_def answers_def del: set_map set_filter)
qed

lemma waits_cong:
  "\<lbrakk>gn_handler nd' = gn_handler nd; gn_next_channel nd' = gn_next_channel nd\<rbrakk> \<Longrightarrow> waits a w k nd' = waits a w k nd"
  by (simp add: waits_def)

lemma waits_update [simp]:
  "waits a w k (nd\<lparr>gn_queue := q\<rparr>) = waits a w k nd" "waits a w k (nd\<lparr>gn_registry := r\<rparr>) = waits a w k nd"
  by (simp_all add: waits_def)

lemma waits_push:
  assumes "waits a w k nd" "eh_telegram h = eh_telegram (gn_handler nd) @ [e]"
    "eh_next_id h = eh_next_id (gn_handler nd) + 1" "\<And>b. te_callback e \<noteq> GroupValueReadCallback b (snd w)"
    "gn_handler nd' = h" "gn_next_channel nd \<le> gn_next_channel nd'"
  shows "waits a w (Suc k) nd'"
proof -
  have "set (eh_telegram h) = insert e (set (eh_telegram (gn_handler nd)))"
    using assms(2) by simp
  then show ?thesis
    using assms(1,3-6) unfolding waits_def by (simp add: ball_simps(7) add.assoc add.commute)
qed

lemma waits_begin:
  assumes w: "waits a w k nd" and k: "1 \<le> k" "k < 2 ^ 64"
  shows "waits a w (Suc k) (snd (read_group_value_begin cfg now time b nd))"
    "gn_channels (snd (read_group_value_begin cfg now time b nd)) (snd w) = gn_channels nd (snd w)"
proof -
  let ?ch = "gn_next_channel nd"
  let ?h = "snd (register_telegram_callback (GroupValueReadCallback b ?ch) (gn_handler nd))"
  let ?q = "snd (enqueue_outgoing cfg now ((Telegram_group_read time b)\<lparr>tg_source := gn_address nd\<rparr>) (gn_queue nd))"
  let ?nd = "nd\<lparr>gn_next_channel := Suc ?ch, gn_channels := (gn_channels nd)(?ch := None), gn_handler := ?h, gn_queue := ?q\<rparr>"
  let ?un = "?nd\<lparr>gn_handler := snd (unregister_callback (eh_next_id (gn_handler nd)) (gn_handler ?nd))\<rparr>"
  have "eh_next_id (gn_handler nd) \<noteq> fst w"
    using w k unat_id [of k] by (auto simp: waits_def)
  moreover have "snd w \<noteq> ?ch"
    using w by (simp add: waits_def)
  then have pushed: "waits a w (Suc k) ?nd"
    by (intro waits_push [OF w, where h = ?h])
       (auto simp: register_telegram_callback_def register_telegram_callback_filtered_def handler_ops)
  ultimately have "waits a w (Suc k) ?un"
    by (rule waits_unregister [rotated])
  moreover have "snd (read_group_value_begin cfg now time b nd) = ?nd \<or>
      snd (read_group_value_begin cfg now time b nd) = ?un"
    by (auto simp: read_group_value_begin_def Knx_send_telegram_def Let_def register_telegram_callback_def
        register_telegram_callback_filtered_def generate_handle_def split: prod.splits res.splits)
  moreover have "snd w \<noteq> ?ch"
    using w by (simp add: waits_def)
  ultimately show "waits a w (Suc k) (snd (read_group_value_begin cfg now time b nd))"
    "gn_channels (snd (read_group_value_begin cfg now time b nd)) (snd w) = gn_channels nd (snd w)"
    using pushed by (elim disjE; simp)+
qed

lemma waits_round:
  assumes w: "waits a w k nd" and quiet: "\<forall>u t. call u t \<noteq> Panicked"
    and round: "processing_round shutdown call now nd = (ts, nd')"
  shows "waits a w k nd' \<and> gn_channels nd' (snd w) =
      (case gn_channels nd (snd w) of Some p \<Rightarrow> Some p | None \<Rightarrow> map_option tg_payload (find (answers a) ts))"
proof -
  consider "ts = []" "gn_handler nd' = gn_handler nd" "gn_next_channel nd' = gn_next_channel nd"
      "gn_channels nd' = gn_channels nd"
    | q t where "ts = [t]" "nd' = process_telegram call now t (nd\<lparr>gn_queue := q\<rparr>)"
    using round by (auto simp: processing_round_def split: if_splits prod.splits poll.splits option.splits)
  then show ?thesis
  proof cases
    case 1
    then show ?thesis
      using w waits_cong [of nd' nd] by (simp split: option.splits)
  next
    case (2 q t)
    have "waits a w k (nd\<lparr>gn_queue := q\<rparr>)"
      using w by (simp add: waits_def)
    from process_waits [OF this quiet, of now t] 2 show ?thesis
      by (auto split: option.splits)
  qed
qed

lemma step_waits:
  assumes w: "waits a w k nd" and k: "1 \<le> k" "k < 2 ^ 64" and quiet: "\<forall>u t. call u t \<noteq> Panicked"
    and ev: "ev \<noteq> Unregister_Callback (fst w)" and step: "node_step cfg ema call ev nd = (ts, nd')"
  shows "(waits a w k nd' \<or> waits a w (Suc k) nd') \<and>
    gn_channels nd' (snd w) =
      (case gn_channels nd (snd w) of Some p \<Rightarrow> Some p | None \<Rightarrow> map_option tg_payload (find (answers a) ts))"
proof (cases "\<exists>shutdown now. ev = Process shutdown now")
  case True
  then show ?thesis
    using waits_round [OF w quiet] step by auto
next
  case False
  have "(waits a w k nd' \<or> waits a w (Suc k) nd') \<and> gn_channels nd' (snd w) = gn_channels nd (snd w)"
  proof (cases ev)
    case (Refresh order now time)
    then have "gn_handler nd' = gn_handler nd" "gn_next_channel nd' = gn_next_channel nd" "gn_channels nd' = gn_channels nd"
      using step by (auto simp: refresh_round_def Knx_send_telegram_def split: option.splits prod.splits res.splits)
    then show ?thesis
      using w waits_cong [of nd' nd] by simp_all
  next
    case (Begin_Read now time b)
    then show ?thesis
      using waits_begin [OF w k, of cfg now time b] step by auto
  next
    case (Register_Callback u f outgoing)
    then have "nd' = nd\<lparr>gn_handler := snd (register_telegram_callback_filtered (User_Callback u) f outgoing (gn_handler nd))\<rparr>"
      using step by simp
    moreover from this have "waits a w (Suc k) nd'"
      by (intro waits_push [OF w, where h = "gn_handler nd'"]) (auto simp: register_telegram_callback_filtered_def handler_ops)
    ultimately show ?thesis
      by simp
  next
    case (Unregister_Callback handle)
    then show ?thesis
      using waits_unregister [OF w, of handle] ev step by auto
  qed (use False w step in auto)
  moreover have "ts = []"
    using False step by (cases ev) auto
  ultimately show ?thesis
    by (simp split: option.splits)
qed

lemma find_append: "find P (xs @ ys) = (case find P xs of Some x \<Rightarrow> Some x | None \<Rightarrow> find P ys)"
  by (induction xs) auto

lemma run_waits:
  assumes "waits a w k nd" "1 \<le> k" "k + length evs \<le> 2 ^ 64" "\<forall>u t. call u t \<noteq> Panicked"
    "Unregister_Callback (fst w) \<notin> set evs" "node_run cfg ema call evs nd = (ts, nd')"
  shows "gn_channels nd' (snd w) =
    (case gn_channels nd (snd w) of Some p \<Rightarrow> Some p | None \<Rightarrow> map_option tg_payload (find (answers a) ts))"
  using assms
proof (induction evs arbitrary: nd k ts)
  case Nil
  then show ?case
    by (simp split: option.splits)
next
  case (Cons ev evs)
  obtain ts1 nd1 ts2 where 1: "node_step cfg ema call ev nd = (ts1, nd1)"
    and 2: "node_run cfg ema call evs nd1 = (ts2, nd')" "ts = ts1 @ ts2"
    using Cons.prems(6) by (auto split: prod.splits)
  have s: "(waits a w k nd1 \<or> waits a w (Suc k) nd1) \<and> gn_channels nd1 (snd w) =
      (case gn_channels nd (snd w) of Some p \<Rightarrow> Some p | None \<Rightarrow> map_option tg_payload (find (answers a) ts1))"
    using Cons.prems(1-5) by (intro step_waits [OF _ _ _ _ _ 1]) auto
  obtain k' where k': "waits a w k' nd1" "1 \<le> k'" "k' + length evs \<le> 2 ^ 64"
    using s Cons.prems(2,3) by (elim conjE disjE) auto
  have "gn_channels nd' (snd w) =
      (case gn_channels nd1 (snd w) of Some p \<Rightarrow> Some p | None \<Rightarrow> map_option tg_payload (find (answers a) ts2))"
    using Cons.IH [OF k' Cons.prems(4) _ 2(1)] Cons.prems(5) by simp
  then show ?case
    using s 2(2) by (auto simp: find_append split: option.splits)
qed

lemma begin_waits:
  assumes "read_group_value_begin cfg now time a nd = (Ok w, nd1)" "channels_fresh nd"
  shows "waits a w 1 nd1 \<and> gn_channels nd1 (snd w) = None"
proof -
  have fresh: "te_callback e \<noteq> GroupValueReadCallback b (gn_next_channel nd)"
    if "e \<in> set (eh_telegram (gn_handler nd))" for e b
    using assms(2) that by (auto simp: channels_fresh_def list_all_iff split: telegram_callback.splits)
  show ?thesis
    using assms(1) fresh
    by (auto simp: read_group_value_begin_def Let_def Knx_send_telegram_def register_telegram_callback_def
        register_telegram_callback_filtered_def handler_ops waits_def split: prod.splits res.splits)
qed

text \<open>
  C21: What a read returns.  While \<open>read_group_value\<close> waits, telegrams arrive and are processed, other reads
  and callbacks come and go, addresses are refreshed and bound, in any order.  If no callback of the user
  panics, the read returns the payload of the first processed incoming telegram to its address
  that has a payload, and a timeout if there is none.  The kind of the telegram is not looked at: the read request of another device,
  which is received with the payload 0, answers as well.
\<close>

theorem read_answer:
  assumes "read_group_value_begin cfg now time a nd = (Ok w, nd1)" "channels_fresh nd"
    "\<forall>u t. call u t \<noteq> Panicked" "Unregister_Callback (fst w) \<notin> set evs" "length evs < 2 ^ 64"
    "node_run cfg ema call evs nd1 = (ts, nd2)"
  shows "fst (read_group_value_finish a timeout_ms w nd2) =
    (case find (answers a) ts of
       Some t \<Rightarrow> Ok (tg_payload t)
     | None \<Rightarrow> Err (Device (CommunicationTimeout (''group address '' @ ga_display a) (word_of_nat timeout_ms))))"
proof -
  have "waits a w 1 nd1 \<and> gn_channels nd1 (snd w) = None"
    by (rule begin_waits) (rule assms(1,2))+
  then have "gn_channels nd2 (snd w) = map_option tg_payload (find (answers a) ts)"
    using run_waits [of a w 1 nd1 evs call cfg ema ts nd2] assms(3-6) by simp
  then show ?thesis
    by (cases w) (simp add: read_group_value_finish_def split: option.splits)
qed

definition node0 :: "(nat, nat) group_node" where
  "node0 = \<lparr>gn_address = IndividualAddress 0x1101, gn_queue = queue_new, gn_registry = GroupAddressRegistry_new,
     gn_handler = EventHandler_new, gn_channels = Map.empty, gn_next_channel = 0, gn_processing = True\<rparr>"

definition waiting0 :: "(nat, nat) group_node" where
  "waiting0 = snd (read_group_value_begin QueueConfig_default 0 0 (GroupAddress 0x0901) node0)"

lemma waiting0_begin:
  "read_group_value_begin QueueConfig_default 0 0 (GroupAddress 0x0901) node0 = (Ok (1, 0), waiting0)"
  by (simp add: waiting0_def node0_def read_group_value_begin_def register_telegram_callback_def
      register_telegram_callback_filtered_def generate_handle_def EventHandler_new_def Knx_send_telegram_def
      enqueue_outgoing_def queue_new_def QueueConfig_default_def Let_def push_telegram_def)

theorem read_answer_witness:
  "\<exists>nd2. node_run QueueConfig_default (\<lambda>x y. x) (\<lambda>(u :: nat) t. Returned)
     [Arrive (Telegram_received 5 (IndividualAddress 0x1102) (GroupAddress 0x0901) GroupValueRead [0]), Process False 6]
     waiting0 = ([Telegram_received 5 (IndividualAddress 0x1102) (GroupAddress 0x0901) GroupValueRead [0]], nd2) \<and>
   fst (read_group_value_finish (GroupAddress 0x0901) 1000 (1, 0) nd2) = Ok [0]"
proof -
  let ?t = "Telegram_received 5 (IndividualAddress 0x1102) (GroupAddress 0x0901) GroupValueRead [0]"
  let ?evs = "[Arrive ?t, Process False 6] :: nat node_event list"
  obtain nd2 where run: "node_run QueueConfig_default (\<lambda>x y. x) (\<lambda>(u :: nat) t. Returned) ?evs waiting0 = ([?t], nd2)"
    by (simp add: waiting0_def node0_def read_group_value_begin_def register_telegram_callback_def
      register_telegram_callback_filtered_def generate_handle_def EventHandler_new_def Knx_send_telegram_def
      enqueue_outgoing_def queue_new_def QueueConfig_default_def Let_def push_telegram_def
      processing_round_def dequeue_incoming_def enqueue_incoming_def)
  have "answers (GroupAddress 0x0901) ?t"
    by (simp add: answers_def Telegram_received_def)
  then have "fst (read_group_value_finish (GroupAddress 0x0901) 1000 (1, 0) nd2) = Ok [0]"
    using read_answer [OF waiting0_begin _ _ _ _ run, of 1000]
    by (simp add: channels_fresh_def node0_def EventHandler_new_def Telegram_received_def)
  with run show ?thesis
    by blast
qed

section \<open>The last known value\<close>

definition sets_value :: "group_address \<Rightarrow> telegram \<Rightarrow> bool" where
  "sets_value a t = (tg_destination t = Group a \<and> (tg_type t = GroupValueWrite \<or> tg_type t = GroupValueResponse))"

text \<open>The events that do not remove the binding of \<open>a\<close> and do not record a value themselves.\<close>

fun keeps_binding :: "group_address \<Rightarrow> 'u node_event \<Rightarrow> bool" where
  "keeps_binding a (Registry_Op (G_Unregister b)) = (b \<noteq> a)"
| "keeps_binding a (Registry_Op (G_Seen now b v)) = (b \<noteq> a)"
| "keeps_binding a _ = True"

definition last_seen_value :: "group_address \<Rightarrow> ('u, 'c) group_node \<Rightarrow> bytes option option" where
  "last_seen_value a nd = map_option bd_last_seen_value (group_state a (gn_registry nd))"

lemma last_seen_value_update [simp]:
  "last_seen_value a (nd\<lparr>gn_queue := q\<rparr>) = last_seen_value a nd"
  "last_seen_value a (nd\<lparr>gn_handler := h\<rparr>) = last_seen_value a nd"
  "last_seen_value a (nd\<lparr>gn_processing := b\<rparr>) = last_seen_value a nd"
  by (simp_all add: last_seen_value_def)

lemma last_seen_value_process:
  "last_seen_value a nd = Some v \<Longrightarrow>
     last_seen_value a (process_telegram call now t nd) = Some (if sets_value a t then Some (tg_payload t) else v)"
  by (auto simp: last_seen_value_def process_telegram_def record_group_value_if_present_def record_seen_def
      sets_value_def group_state_def split: prod.splits address.splits option.splits)

lemma last_seen_value_send [simp]: "last_seen_value a (snd (Knx_send_telegram cfg now t nd)) = last_seen_value a nd"
  by (simp add: Knx_send_telegram_def split: prod.splits)

lemma last_seen_value_refresh: "last_seen_value a (refresh_round cfg order now time nd) = last_seen_value a nd"
  by (auto simp: refresh_round_def Knx_send_telegram_def last_seen_value_def group_state_def record_tried_def
      split: option.splits prod.splits res.splits)

lemma last_seen_value_begin: "last_seen_value a (snd (read_group_value_begin cfg now time b nd)) = last_seen_value a nd"
  by (simp add: read_group_value_begin_def Knx_send_telegram_def last_seen_value_def Let_def
      split: prod.splits res.splits)

lemma last_seen_value_op:
  "\<lbrakk>last_seen_value a nd = Some v; keeps_binding a (Registry_Op op)\<rbrakk> \<Longrightarrow>
     last_seen_value a (nd\<lparr>gn_registry := group_step op (gn_registry nd)\<rparr>) = Some v"
  by (cases op) (auto simp: last_seen_value_def group_state_def group_defs split: option.splits if_splits)

lemma last_seen_value_step:
  assumes "last_seen_value a nd = Some v" "keeps_binding a ev" "node_step cfg ema call ev nd = (ts, nd')"
  shows "last_seen_value a nd' = Some (last (v # map (Some \<circ> tg_payload) (filter (sets_value a) ts)))"
proof (cases ev)
  case (Process shutdown now)
  then show ?thesis
    using assms(1,3) last_seen_value_process [of a "nd\<lparr>gn_queue := q\<rparr>" v call now for q]
    by (auto simp: processing_round_def split: if_splits prod.splits poll.splits option.splits)
next
  case (Registry_Op op)
  then show ?thesis
    using last_seen_value_op [OF assms(1)] assms(2,3) by auto
qed (use assms(1,3) in \<open>auto simp: last_seen_value_refresh last_seen_value_begin\<close>)

text \<open>
  C22: The last known value.  However the tasks of a node interleave, while a group address stays bound
  its state holds the payload of the last write or response to it that was processed, or the value from before if none was.
  Read requests, telegrams to other addresses and refreshes leave it as it is, and so does a panic.
\<close>

theorem last_value:
  assumes "last_seen_value a nd = Some v" "list_all (keeps_binding a) evs" "node_run cfg ema call evs nd = (ts, nd')"
  shows "last_seen_value a nd' = Some (last (v # map (Some \<circ> tg_payload) (filter (sets_value a) ts)))"
  using assms
proof (induction evs arbitrary: nd v ts)
  case (Cons ev evs)
  obtain ts1 nd1 ts2 where 1: "node_step cfg ema call ev nd = (ts1, nd1)"
    and 2: "node_run cfg ema call evs nd1 = (ts2, nd')" "ts = ts1 @ ts2"
    using Cons.prems(3) by (auto split: prod.splits)
  have "last_seen_value a nd1 = Some (last (v # map (Some \<circ> tg_payload) (filter (sets_value a) ts1)))"
    using Cons.prems(1,2) by (intro last_seen_value_step [OF _ _ 1]) simp_all
  from Cons.IH [OF this _ 2(1)] Cons.prems(2) 2(2) show ?case
    by (simp add: last_append comp_def)
qed simp

theorem last_value_witness:
  "let a = GroupAddress 0x0901; t = Telegram_received 5 (IndividualAddress 0x1102) a GroupValueWrite [1];
       r = Telegram_received 6 (IndividualAddress 0x1103) a GroupValueRead [0];
       nd = node0\<lparr>gn_registry := snd (group_register a Dpt_Switch (gn_registry node0))\<rparr> in
   \<exists>ts nd'. node_run QueueConfig_default (\<lambda>x y. x) (\<lambda>(u :: nat) t. Returned)
     [Arrive t, Arrive r, Process False 6, Process False 7] nd = (ts, nd') \<and> last_seen_value a nd' = Some (Some [1])"
proof -
  let ?a = "GroupAddress 0x0901"
  let ?t = "Telegram_received 5 (IndividualAddress 0x1102) ?a GroupValueWrite [1]"
  let ?r = "Telegram_received 6 (IndividualAddress 0x1103) ?a GroupValueRead [0]"
  let ?nd = "node0\<lparr>gn_registry := snd (group_register ?a Dpt_Switch (gn_registry node0))\<rparr>"
  let ?evs = "[Arrive ?t, Arrive ?r, Process False 6, Process False 7] :: nat node_event list"
  obtain nd' where run: "node_run QueueConfig_default (\<lambda>x y. x) (\<lambda>(u :: nat) t. Returned) ?evs ?nd = ([?t, ?r], nd')"
    by (simp add: node0_def queue_new_def QueueConfig_default_def EventHandler_new_def enqueue_incoming_def
        processing_round_def dequeue_incoming_def process_telegram_def notify_telegram_received_def Let_def)
  have "last_seen_value ?a ?nd = Some None"
    by (simp add: last_seen_value_def group_state_def group_register_def node0_def GroupAddressRegistry_new_def)
  from last_value [OF this _ run] have "last_seen_value ?a nd' = Some (Some [1])"
    by (simp add: sets_value_def Telegram_received_def)
  with run show ?thesis
    unfolding Let_def by blast
qed

section \<open>A panic in a callback\<close>

lemma stopped_step: "\<not> gn_processing nd \<Longrightarrow> fst (node_step cfg ema call ev nd) = [] \<and> \<not> gn_processing (snd (node_step cfg ema call ev nd))"
  by (cases ev) (auto simp: processing_round_def refresh_round_def read_group_value_begin_def Knx_send_telegram_def Let_def
      split: option.splits prod.splits res.splits)

lemma fst_node_run: "fst (node_run cfg ema call (ev # evs) nd) =
    fst (node_step cfg ema call ev nd) @ fst (node_run cfg ema call evs (snd (node_step cfg ema call ev nd)))"
  by (simp split: prod.splits)

lemma stopped_run: "\<not> gn_processing nd \<Longrightarrow> fst (node_run cfg ema call evs nd) = []"
proof (induction evs arbitrary: nd)
  case (Cons ev evs)
  then show ?case
    using stopped_step [OF Cons.prems, of cfg ema call ev] by (simp only: fst_node_run) simp
qed simp

lemma panic_call_loop:
  "\<lbrakk>c \<in> set cs; call c x = Panicked\<rbrakk> \<Longrightarrow> snd (call_loop call x cs) = False"
  by (induction cs) (auto split: call_outcome.splits prod.splits)

text \<open>
  C28: A panic in a callback stops the processing for good.  When a callback of the user panics on a
  telegram, the task that processes telegrams ends: whatever happens later, no further telegram is
  processed, for no callback, no read and no group address.
\<close>

theorem panic_stops_processing:
  assumes "gn_processing nd" "q_incoming (gn_queue nd) = t # rest" "e \<in> set (eh_telegram (gn_handler nd))"
    "entry_applies t e" "te_callback e = User_Callback u" "call u t = Panicked"
  shows "fst (node_run cfg ema call (Process False now # evs) nd) = [t]"
proof -
  let ?cs = "map te_callback (filter (entry_applies t) (eh_telegram (gn_handler nd)))"
  have "User_Callback u \<in> set ?cs"
    using assms(3-5) by force
  then have "snd (call_loop (node_call call) t ?cs) = False"
    by (rule panic_call_loop) (simp add: assms(6))
  then have "\<not> gn_processing (process_telegram call now t (nd\<lparr>gn_queue := q\<rparr>))" for q
    by (auto simp: process_telegram_def notify_telegram_received_def notify_loop_eq split: prod.splits)
  then show ?thesis
    using assms(1,2) unfolding fst_node_run
    by (simp add: processing_round_def dequeue_incoming_def Let_def stopped_run)
qed

theorem panic_stops_processing_witness:
  "let nd = node0\<lparr>gn_handler := snd (register_telegram_callback (User_Callback 3) EventHandler_new),
      gn_queue := queue_new\<lparr>q_incoming := [Telegram_received 5 (IndividualAddress 0x1102) (GroupAddress 1) GroupValueWrite [1],
        Telegram_received 6 (IndividualAddress 0x1102) (GroupAddress 2) GroupValueWrite [1]]\<rparr>\<rparr> in
   fst (node_run QueueConfig_default (\<lambda>x y. x) (\<lambda>(u :: nat) t. if tg_destination t = Group (GroupAddress 1) then Panicked else Returned)
     [Process False 6, Process False 7] nd) =
   [Telegram_received 5 (IndividualAddress 0x1102) (GroupAddress 1) GroupValueWrite [1]]"
  unfolding Let_def
  by (rule panic_stops_processing [where e = "\<lparr>te_id = 1, te_callback = User_Callback 3, te_filter = All_Telegrams,
        te_include_outgoing = False\<rparr>" and u = 3])
     (simp_all add: node0_def register_telegram_callback_def register_telegram_callback_filtered_def
        generate_handle_def EventHandler_new_def push_telegram_def entry_applies_def Telegram_received_def)

section \<open>Values on the bus\<close>

text \<open>
  C23: From a write to a read.  When \<open>write\<close> of a typed address succeeds on a node with nothing else to send,
  the next telegram to send is a write of the encoded value, and the frame made for it is received as
  a telegram that a typed address of another node, bound to the same address, decodes from the wire form of the encoded value.
  The wire form is the encoded value itself, except that a value of one byte loses its two high bits.
\<close>

theorem value_on_bus:
  assumes "typed_write checks cfg now time D (resolve_self v) ta A = (Ok (), A')" "q_outgoing (gn_queue A) = []"
    "ga_valid (ta_address ta)" "dv_as_bytes D v \<noteq> []" "length (dv_as_bytes D v) \<le> 254"
    "ta_address tb = ta_address ta" "check_dpt_current tb B = Ok ()"
  shows "\<exists>t q. dequeue_outgoing ema now' (gn_queue A') = (Ready (Some t), q) \<and>
    bind_res (KnxIpFrame_parse (build_outgoing_frame_for_connection t Via_Routing))
      (\<lambda>f. parse_cemi_to_telegram time' (kf_body f)) = Ok (received_as time' t) \<and>
    typed_decode D tb (received_as time' t) B = Some (dv_decode D (wire_payload (dv_as_bytes D v)))"
proof -
  let ?t = "(Telegram_group_write time (ta_address ta) (dv_as_bytes D v))\<lparr>tg_source := gn_address A\<rparr>"
  have "Knx_send_telegram cfg now (Telegram_group_write time (ta_address ta) (dv_as_bytes D v)) A = (Ok (), A')"
    using assms(1)
    by (auto simp: typed_write_def Telegram_group_write_value_def encode_value_def resolve_self_def dv_encode_def
        split: res.splits)
  then have "\<exists>q. dequeue_outgoing ema now' (gn_queue A') = (Ready (Some ?t), q)"
    using assms(2)
    by (auto simp: Knx_send_telegram_def enqueue_outgoing_def dequeue_outgoing_def heap_push_def heap_pop_def Let_def
        split: if_splits prod.splits)
  moreover have "sendable ?t"
    using assms(3,5) by (simp add: sendable_def Telegram_group_write_def address_valid_def)
  then have "bind_res (KnxIpFrame_parse (build_outgoing_frame_for_connection ?t Via_Routing))
      (\<lambda>f. parse_cemi_to_telegram time' (kf_body f)) = Ok (received_as time' ?t)"
    by (rule routing_frame_received)
  moreover have "typed_decode D tb (received_as time' ?t) B = Some (dv_decode D (wire_payload (dv_as_bytes D v)))"
    using assms(4,6,7) by (simp add: typed_decode_def received_as_def Telegram_group_write_def)
  ultimately show ?thesis
    by blast
qed

theorem value_on_bus_witness:
  "let D = Scaling_dpt; a = GroupAddress 0x0901; ta = \<lparr>ta_address = a, ta_dpt = Dpt_Scaling\<rparr>;
       nd = node0\<lparr>gn_registry := snd (group_register a Dpt_Scaling (gn_registry node0))\<rparr> in
   \<exists>t q. dequeue_outgoing (\<lambda>x y. x) 3 (gn_queue (snd (typed_write True QueueConfig_default 1 2 D (resolve_self [100]) ta nd))) =
       (Ready (Some t), q) \<and>
     typed_decode D ta (received_as 4 t) nd = Some (Ok [36])"
proof -
  let ?a = "GroupAddress 0x0901"
  let ?nd = "node0\<lparr>gn_registry := snd (group_register ?a Dpt_Scaling (gn_registry node0))\<rparr>"
  let ?ta = "\<lparr>ta_address = ?a, ta_dpt = Dpt_Scaling\<rparr>"
  have current: "check_dpt_current ?ta ?nd = Ok ()"
    by (simp add: check_dpt_current_def group_get_def group_register_def node0_def GroupAddressRegistry_new_def)
  have "dpt_from_str True ''5.001'' = (Ok (Some Dpt_Scaling) :: (knx_error, dpt_type option) res)"
    using from_str_number_str [of Dpt_Scaling True]
    by (simp add: dpt_valid_def dpt_variants_def number_str_eval show_pad_def show_nat.simps digit_chars replicate_2)
  then have enc: "encode_value True Scaling_dpt (resolve_self [100]) () = Ok [100]"
    by (simp add: encode_value_def DptValue_dpt_type_def resolve_self_def dv_encode_def Scaling_dpt_def array_dpt_def
        always_valid_def)
  have "q_outgoing (gn_queue ?nd) = []" "\<not> q_closed (gn_queue ?nd)"
    by (simp_all add: node0_def queue_new_def)
  then have "fst (typed_write True QueueConfig_default 1 2 Scaling_dpt (resolve_self [100]) ?ta ?nd) = Ok ()"
    by (simp add: typed_write_def current Telegram_group_write_value_def enc Knx_send_telegram_def enqueue_outgoing_def
        QueueConfig_default_def Let_def del: group_node.update_convs)
  then have w: "typed_write True QueueConfig_default 1 2 Scaling_dpt (resolve_self [100]) ?ta ?nd =
      (Ok (), snd (typed_write True QueueConfig_default 1 2 Scaling_dpt (resolve_self [100]) ?ta ?nd))"
    by (simp add: prod_eq_iff)
  have "\<exists>t q. dequeue_outgoing (\<lambda>x y. x) 3 (gn_queue (snd (typed_write True QueueConfig_default 1 2 Scaling_dpt
        (resolve_self [100]) ?ta ?nd))) = (Ready (Some t), q) \<and>
      bind_res (KnxIpFrame_parse (build_outgoing_frame_for_connection t Via_Routing))
        (\<lambda>f. parse_cemi_to_telegram 4 (kf_body f)) = Ok (received_as 4 t) \<and>
      typed_decode Scaling_dpt ?ta (received_as 4 t) ?nd = Some (dv_decode Scaling_dpt (wire_payload (dv_as_bytes Scaling_dpt [100])))"
    by (rule value_on_bus [OF w _ _ _ _ _ current])
       (simp_all add: node0_def queue_new_def ga_valid_def Scaling_dpt_def array_dpt_def)
  then show ?thesis
    by (auto simp: Scaling_dpt_def array_dpt_def dv_decode_def wire_payload_def array_from_bytes_def check_len_def guard_res_def)
qed

end
