(* ===== verification/Crypto.thy ===== *)
theory Crypto
  imports Errors Address
begin

text \<open>
  The primitives of KNX Secure, \<open>src/security/primitives.rs\<close>, the keys, \<open>src/security/keys.rs\<close>, and Data
  Secure group payloads, \<open>src/security/group.rs\<close>.

  \<^item> The cryptographic libraries are a parameter, the record \<open>crypto\<close>: the AES-128 block function, the
    keystream of AES in counter mode, SHA-256, PBKDF2 and X25519.  What the code relies on is
    \<open>crypto_laws\<close>: the lengths of their results and that both sides of a Diffie-Hellman exchange get the
    same secret.
  \<^item> \<open>rand::random\<close> is an argument, and so is the hexadecimal decoder.

  Shown: counter mode is its own inverse (\<open>decrypt_encrypt_ctr\<close>), a message authentication code has
  16 bytes and is computed without a panic (\<open>mac_cbc_ok\<close>), a group payload that was encrypted decrypts to itself
  (\<open>group_payload_roundtrip\<close>), and the key ring accepts the sequence numbers of a sender only in
  increasing order (\<open>validate_sequence_increasing\<close>).
\<close>

section \<open>Primitives\<close>

record crypto =
  cr_aes :: "bytes \<Rightarrow> bytes \<Rightarrow> bytes"
  cr_keystream :: "bytes \<Rightarrow> bytes \<Rightarrow> nat \<Rightarrow> u8"
  cr_sha256 :: "bytes \<Rightarrow> bytes"
  cr_pbkdf2 :: "string \<Rightarrow> string \<Rightarrow> nat \<Rightarrow> nat \<Rightarrow> bytes"
  cr_public :: "bytes \<Rightarrow> bytes"
  cr_diffie_hellman :: "bytes \<Rightarrow> bytes \<Rightarrow> bytes"

text \<open>The documented behaviour of the libraries.\<close>

definition crypto_laws :: "crypto \<Rightarrow> bool" where
  "crypto_laws c =
     ((\<forall>k b. length (cr_aes c k b) = 16) \<and> (\<forall>d. length (cr_sha256 c d) = 32) \<and>
      (\<forall>p s i n. length (cr_pbkdf2 c p s i n) = n) \<and> (\<forall>a. length (cr_public c a) = 32) \<and>
      (\<forall>a b. cr_diffie_hellman c a (cr_public c b) = cr_diffie_hellman c b (cr_public c a)))"

abbreviation crypto_error :: knx_error where
  "crypto_error \<equiv> Security CryptographicError"

abbreviation credentials_error :: knx_error where
  "credentials_error \<equiv> Security InvalidCredentials"

definition KEY_LENGTH :: nat where
  "KEY_LENGTH = 16"

definition PBKDF2_ITERATIONS :: nat where
  "PBKDF2_ITERATIONS = 65536"

text \<open>A remainder by zero panics.\<close>

definition byte_pad :: "bytes \<Rightarrow> nat \<Rightarrow> bytes result" where
  "byte_pad data block_size =
     (if block_size = 0 then Panic
      else let remainder = length data mod block_size in
        if remainder = 0 then Ok data else Ok (data @ replicate (block_size - remainder) 0))"

definition bytes_xor :: "bytes \<Rightarrow> bytes \<Rightarrow> bytes result" where
  "bytes_xor a b = guard_res (length a \<noteq> length b) crypto_error (Ok (map2 (XOR) a b))"

definition sha256_hash :: "crypto \<Rightarrow> bytes \<Rightarrow> bytes" where
  "sha256_hash c data = cr_sha256 c data"

text \<open>\<open>slice::chunks\<close>, and the loop over the blocks: the bytes of a chunk are added to the front of \<open>y\<close>.\<close>

function chunks :: "nat \<Rightarrow> bytes \<Rightarrow> bytes list" where
  "chunks n xs = (if n = 0 \<or> xs = [] then [] else take n xs # chunks n (drop n xs))"
  by auto
termination
  by (relation "measure (\<lambda>(n, xs). length xs)") auto

declare chunks.simps [simp del]

definition xor_front :: "bytes \<Rightarrow> bytes \<Rightarrow> bytes" where
  "xor_front chunk y = map2 (XOR) (take (length chunk) y) chunk @ drop (length chunk) y"

definition cbc_block :: "crypto \<Rightarrow> bytes \<Rightarrow> bytes \<Rightarrow> bytes \<Rightarrow> bytes" where
  "cbc_block c key chunk y = cr_aes c key (xor_front chunk y)"

definition calculate_mac_cbc :: "crypto \<Rightarrow> bytes \<Rightarrow> bytes \<Rightarrow> bytes \<Rightarrow> bytes \<Rightarrow> bytes result" where
  "calculate_mac_cbc c key additional_data payload block_0 =
     guard_res (length key \<noteq> KEY_LENGTH) credentials_error
     (guard_res (length block_0 \<noteq> 16) crypto_error
       (let ad_len = u16_to_be_bytes (as_u16 (length additional_data));
            blocks = block_0 @ ad_len @ additional_data @ payload in
        bind_res (byte_pad blocks 16) (\<lambda>padded.
          Ok (fold (cbc_block c key) (chunks 16 padded) (replicate 16 0)))))"

text \<open>\<open>apply_keystream\<close> adds the keystream from the current position on; the second call goes on where the
  first one stopped.\<close>

definition apply_keystream :: "(nat \<Rightarrow> u8) \<Rightarrow> nat \<Rightarrow> bytes \<Rightarrow> bytes" where
  "apply_keystream ks pos data = map2 (\<lambda>i b. b XOR ks (pos + i)) [0..<length data] data"

definition decrypt_ctr :: "crypto \<Rightarrow> bytes \<Rightarrow> bytes \<Rightarrow> bytes \<Rightarrow> bytes \<Rightarrow> (bytes \<times> bytes) result" where
  "decrypt_ctr c key counter_0 mac payload =
     guard_res (length key \<noteq> KEY_LENGTH) credentials_error
     (guard_res (length counter_0 \<noteq> 16) crypto_error
       (let ks = cr_keystream c key counter_0;
            mac_decrypted = apply_keystream ks 0 mac;
            decrypted_data = apply_keystream ks (length mac) payload in
        Ok (decrypted_data, mac_decrypted)))"

definition encrypt_ctr :: "crypto \<Rightarrow> bytes \<Rightarrow> bytes \<Rightarrow> bytes \<Rightarrow> bytes \<Rightarrow> (bytes \<times> bytes) result" where
  "encrypt_ctr c key counter_0 mac_cbc payload =
     guard_res (length key \<noteq> KEY_LENGTH) credentials_error
     (guard_res (length counter_0 \<noteq> 16) crypto_error
       (let ks = cr_keystream c key counter_0;
            mac_encrypted = apply_keystream ks 0 mac_cbc;
            encrypted_data = apply_keystream ks (length mac_cbc) payload in
        Ok (encrypted_data, mac_encrypted)))"

definition derive_device_authentication_password :: "crypto \<Rightarrow> string \<Rightarrow> bytes" where
  "derive_device_authentication_password c password =
     cr_pbkdf2 c password ''device-authentication-code.1.secure.ip.knx.org'' PBKDF2_ITERATIONS KEY_LENGTH"

definition derive_user_password :: "crypto \<Rightarrow> string \<Rightarrow> bytes" where
  "derive_user_password c password =
     cr_pbkdf2 c password ''user-password.1.secure.ip.knx.org'' PBKDF2_ITERATIONS KEY_LENGTH"

record ecdh_key_pair =
  kp_private :: bytes
  kp_public :: bytes

definition EcdhKeyPair_generate :: "crypto \<Rightarrow> bytes \<Rightarrow> ecdh_key_pair" where
  "EcdhKeyPair_generate c rnd = \<lparr>kp_private = rnd, kp_public = cr_public c rnd\<rparr>"

definition EcdhKeyPair_exchange :: "crypto \<Rightarrow> ecdh_key_pair \<Rightarrow> bytes \<Rightarrow> bytes" where
  "EcdhKeyPair_exchange c kp peer_public_key = cr_diffie_hellman c (kp_private kp) peer_public_key"

section \<open>Keys\<close>

definition SecurityKey_from_hex :: "(string \<Rightarrow> bytes option) \<Rightarrow> string \<Rightarrow> bytes result" where
  "SecurityKey_from_hex hex_decode hex =
     (case hex_decode (filter (\<lambda>ch. ch \<noteq> CHR '' '' \<and> ch \<noteq> CHR '':'') hex) of
        None \<Rightarrow> Err credentials_error
      | Some key \<Rightarrow> Ok key)"

record security_credentials =
  sc_user_id :: u8
  sc_user_password :: bytes
  sc_device_auth :: "bytes option"
  sc_backbone_key :: "bytes option"

definition SecurityCredentials_new :: "u8 \<Rightarrow> bytes \<Rightarrow> security_credentials" where
  "SecurityCredentials_new user_id user_password =
     \<lparr>sc_user_id = user_id, sc_user_password = user_password, sc_device_auth = None, sc_backbone_key = None\<rparr>"

definition with_device_auth :: "bytes \<Rightarrow> security_credentials \<Rightarrow> security_credentials" where
  "with_device_auth key sc = sc\<lparr>sc_device_auth := Some key\<rparr>"

definition with_backbone_key :: "bytes \<Rightarrow> security_credentials \<Rightarrow> security_credentials" where
  "with_backbone_key key sc = sc\<lparr>sc_backbone_key := Some key\<rparr>"

record key_ring =
  kr_group_keys :: "group_address \<rightharpoonup> bytes"
  kr_sequence_numbers :: "individual_address \<rightharpoonup> u64"
  kr_tunnel_credentials :: "string \<rightharpoonup> security_credentials"

definition KeyRing_new :: key_ring where
  "KeyRing_new = \<lparr>kr_group_keys = Map.empty, kr_sequence_numbers = Map.empty, kr_tunnel_credentials = Map.empty\<rparr>"

definition add_group_key :: "group_address \<Rightarrow> bytes \<Rightarrow> key_ring \<Rightarrow> key_ring" where
  "add_group_key a key kr = kr\<lparr>kr_group_keys := (kr_group_keys kr)(a \<mapsto> key)\<rparr>"

definition get_group_key :: "group_address \<Rightarrow> key_ring \<Rightarrow> bytes option" where
  "get_group_key a kr = kr_group_keys kr a"

definition is_group_secured :: "group_address \<Rightarrow> key_ring \<Rightarrow> bool" where
  "is_group_secured a kr = (kr_group_keys kr a \<noteq> None)"

definition set_sequence_number :: "individual_address \<Rightarrow> u64 \<Rightarrow> key_ring \<Rightarrow> key_ring" where
  "set_sequence_number a seq kr = kr\<lparr>kr_sequence_numbers := (kr_sequence_numbers kr)(a \<mapsto> seq)\<rparr>"

definition get_sequence_number :: "individual_address \<Rightarrow> key_ring \<Rightarrow> u64 option" where
  "get_sequence_number a kr = kr_sequence_numbers kr a"

definition validate_sequence :: "individual_address \<Rightarrow> u64 \<Rightarrow> key_ring \<Rightarrow> unit result \<times> key_ring" where
  "validate_sequence a seq kr =
     (case kr_sequence_numbers kr a of
        Some last_seq \<Rightarrow>
          if seq \<le> last_seq then (Err crypto_error, kr)
          else (Ok (), kr\<lparr>kr_sequence_numbers := (kr_sequence_numbers kr)(a \<mapsto> seq)\<rparr>)
      | None \<Rightarrow> (Ok (), kr\<lparr>kr_sequence_numbers := (kr_sequence_numbers kr)(a \<mapsto> seq)\<rparr>))"

definition add_tunnel_credentials :: "string \<Rightarrow> security_credentials \<Rightarrow> key_ring \<Rightarrow> key_ring" where
  "add_tunnel_credentials host sc kr = kr\<lparr>kr_tunnel_credentials := (kr_tunnel_credentials kr)(host \<mapsto> sc)\<rparr>"

definition get_tunnel_credentials :: "string \<Rightarrow> key_ring \<Rightarrow> security_credentials option" where
  "get_tunnel_credentials host kr = kr_tunnel_credentials kr host"

section \<open>Group payloads\<close>

definition u64_to_be_bytes :: "u64 \<Rightarrow> bytes" where
  "u64_to_be_bytes w = map (\<lambda>k. ucast (drop_bit (8 * k) w)) [7, 6, 5, 4, 3, 2, 1, 0]"

definition u64_from_be_bytes :: "bytes \<Rightarrow> u64" where
  "u64_from_be_bytes bs = foldl (\<lambda>acc b. push_bit 8 acc OR ucast b) 0 bs"

definition seq_to_bytes :: "u64 \<Rightarrow> bytes" where
  "seq_to_bytes sequence_number = drop 2 (u64_to_be_bytes sequence_number)"

definition build_counter_0 :: "bytes \<Rightarrow> bytes" where
  "build_counter_0 seq_bytes = [0x01] @ seq_bytes @ replicate 9 0"

definition build_block_0 :: "bytes \<Rightarrow> nat \<Rightarrow> bytes" where
  "build_block_0 seq_bytes payload_len =
     [0x49] @ seq_bytes @ replicate 7 0 @ u16_to_be_bytes (as_u16 payload_len)"

definition encrypt_group_payload :: "crypto \<Rightarrow> key_ring \<Rightarrow> group_address \<Rightarrow> bytes \<Rightarrow> u64 \<Rightarrow> bytes result" where
  "encrypt_group_payload c kr destination payload sequence_number =
     (case get_group_key destination kr of
        None \<Rightarrow> Err credentials_error
      | Some key \<Rightarrow>
          let seq_bytes = seq_to_bytes sequence_number;
              block_0 = build_block_0 seq_bytes (length payload);
              counter_0 = build_counter_0 seq_bytes in
          bind_res (calculate_mac_cbc c key seq_bytes payload block_0) (\<lambda>mac_full.
          bind_res (encrypt_ctr c key counter_0 mac_full payload) (\<lambda>(encrypted_payload, encrypted_mac).
          bind_res (slice encrypted_mac 0 4) (\<lambda>mac.
            Ok (seq_bytes @ encrypted_payload @ mac)))))"

definition decrypt_group_payload :: "crypto \<Rightarrow> key_ring \<Rightarrow> group_address \<Rightarrow> bytes \<Rightarrow> bytes result" where
  "decrypt_group_payload c kr destination secured_payload =
     guard_res (length secured_payload < 10) crypto_error
       (case get_group_key destination kr of
          None \<Rightarrow> Err credentials_error
        | Some key \<Rightarrow>
            bind_res (slice secured_payload 0 6) (\<lambda>seq_bytes.
            bind_res (slice secured_payload 6 (length secured_payload - 4)) (\<lambda>encrypted_data.
            bind_res (slice_from secured_payload (length secured_payload - 4)) (\<lambda>encrypted_mac.
            let counter_0 = build_counter_0 seq_bytes;
                mac_padded = encrypted_mac @ replicate 12 0 in
            bind_res (decrypt_ctr c key counter_0 mac_padded encrypted_data) (\<lambda>(decrypted_payload, decrypted_mac_full).
            let block_0 = build_block_0 seq_bytes (length decrypted_payload) in
            bind_res (calculate_mac_cbc c key seq_bytes decrypted_payload block_0) (\<lambda>expected_mac.
            bind_res (slice expected_mac 0 4) (\<lambda>expected.
            bind_res (slice decrypted_mac_full 0 4) (\<lambda>received.
              guard_res (expected \<noteq> received) crypto_error (Ok decrypted_payload)))))))))"

section \<open>Lemmas\<close>

lemma length_apply_keystream [simp]: "length (apply_keystream ks pos data) = length data"
  by (simp add: apply_keystream_def)

lemma nth_apply_keystream: "i < length data \<Longrightarrow> apply_keystream ks pos data ! i = data ! i XOR ks (pos + i)"
  by (simp add: apply_keystream_def)

lemma apply_keystream_twice [simp]: "apply_keystream ks pos (apply_keystream ks pos data) = data"
  by (rule nth_equalityI) (simp_all add: nth_apply_keystream xor.assoc)

lemma apply_keystream_inj: "apply_keystream ks pos a = b \<longleftrightarrow> a = apply_keystream ks pos b"
  by (metis apply_keystream_twice)

lemma take_apply_keystream: "take n (apply_keystream ks pos data) = apply_keystream ks pos (take n data)"
  by (rule nth_equalityI) (simp_all add: nth_apply_keystream)

lemma decrypt_encrypt_ctr:
  assumes "encrypt_ctr c key counter mac payload = Ok (data, mac')"
  shows "decrypt_ctr c key counter mac' data = Ok (payload, mac)"
  using assms by (auto simp: encrypt_ctr_def decrypt_ctr_def Let_def)

lemma length_cbc: "\<lbrakk>crypto_laws c; length y = 16\<rbrakk> \<Longrightarrow> length (fold (cbc_block c key) cs y) = 16"
  by (induction cs arbitrary: y) (simp_all add: cbc_block_def crypto_laws_def)

lemma mac_cbc_ok:
  assumes "crypto_laws c" "length key = 16" "length block_0 = 16"
  shows "\<exists>mac. calculate_mac_cbc c key ad payload block_0 = Ok mac \<and> length mac = 16"
  using assms length_cbc [OF assms(1), of "replicate 16 0" key]
  by (auto simp: calculate_mac_cbc_def KEY_LENGTH_def byte_pad_def Let_def)

lemma length_seq_to_bytes [simp]: "length (seq_to_bytes w) = 6"
  by (simp add: seq_to_bytes_def u64_to_be_bytes_def)

lemma length_blocks [simp]:
  "length (build_counter_0 bs) = length bs + 10" "length (build_block_0 bs n) = length bs + 10"
  by (simp_all add: build_counter_0_def build_block_0_def)

lemma seq_byte: "push_bit 8 (drop_bit (n + 8) w) OR ucast (ucast (drop_bit n w) :: u8) = drop_bit n (w :: u64)"
  by (rule bit_word_eqI) (auto simp: bit_push_bit_iff bit_or_iff bit_drop_bit_eq bit_ucast_iff)

lemma seq_to_bytes_take_bit: "seq_to_bytes (take_bit 48 w) = seq_to_bytes w"
proof -
  have "ucast (drop_bit n (take_bit 48 w)) = (ucast (drop_bit n w) :: u8)" if "n \<le> 40" for n
    using that by (intro bit_word_eqI) (auto simp: bit_ucast_iff bit_drop_bit_eq bit_take_bit_iff)
  from this [of 40] this [of 32] this [of 24] this [of 16] this [of 8] this [of 0] show ?thesis
    by (simp add: seq_to_bytes_def u64_to_be_bytes_def)
qed

lemma u64_seq_bytes: "u64_from_be_bytes ([0, 0] @ seq_to_bytes w) = take_bit 48 w"
proof -
  let ?v = "take_bit 48 w"
  have top: "drop_bit 48 ?v = 0"
    by (rule bit_word_eqI) (simp add: bit_drop_bit_eq bit_take_bit_iff)
  have "u64_from_be_bytes ([0, 0] @ seq_to_bytes ?v) = ?v"
    using seq_byte [of 40 ?v] seq_byte [of 32 ?v] seq_byte [of 24 ?v] seq_byte [of 16 ?v] seq_byte [of 8 ?v]
      seq_byte [of 0 ?v] top
    unfolding u64_from_be_bytes_def seq_to_bytes_def u64_to_be_bytes_def
    by (simp del: push_bit_or drop_bit_take_bit)
  then show ?thesis
    by (simp add: seq_to_bytes_take_bit)
qed

text \<open>
  A group payload survives encryption.  With a key of 16 bytes for the address, encrypting any payload with any
  sequence number succeeds, adds ten bytes, and decrypting the result gives the payload back.  Decryption needs no
  state: the sequence number is not checked, so the result decrypts as often as it is presented.
\<close>

lemma group_payload_roundtrip:
  assumes "crypto_laws c" "get_group_key a kr = Some key" "length key = 16"
  shows "\<exists>s. encrypt_group_payload c kr a payload n = Ok s \<and> length s = length payload + 10 \<and>
    decrypt_group_payload c kr a s = Ok payload"
proof -
  obtain mac where mac: "calculate_mac_cbc c key (seq_to_bytes n) payload (build_block_0 (seq_to_bytes n) (length payload)) = Ok mac"
    "length mac = 16"
    using mac_cbc_ok [OF assms(1,3), of "build_block_0 (seq_to_bytes n) (length payload)" "seq_to_bytes n" payload] by auto
  let ?ks = "cr_keystream c key (build_counter_0 (seq_to_bytes n))"
  let ?mac = "take 4 (apply_keystream ?ks 0 mac)"
  let ?s = "seq_to_bytes n @ apply_keystream ?ks 16 payload @ ?mac"
  have "encrypt_group_payload c kr a payload n = Ok ?s"
    using assms(2,3) mac by (simp add: encrypt_group_payload_def encrypt_ctr_def KEY_LENGTH_def Let_def)
  moreover have "take 4 (apply_keystream ?ks 0 (?mac @ replicate 12 0)) = take 4 mac"
    using mac(2) by (simp add: take_apply_keystream)
  then have "decrypt_group_payload c kr a ?s = Ok payload"
    using assms(2,3) mac
    by (simp add: decrypt_group_payload_def decrypt_ctr_def KEY_LENGTH_def Let_def)
  ultimately show ?thesis
    using mac(2) by (intro exI [of _ ?s]) simp
qed

text \<open>A concrete instance of the parameters, for examples.\<close>

definition fit :: "nat \<Rightarrow> bytes \<Rightarrow> bytes" where
  "fit n bs = take n (bs @ replicate n 0)"

definition plain_crypto :: crypto where
  "plain_crypto =
     \<lparr>cr_aes = (\<lambda>k b. fit 16 b), cr_keystream = (\<lambda>k i n. 0x5A), cr_sha256 = (\<lambda>d. fit 32 d),
      cr_pbkdf2 = (\<lambda>p s i n. replicate n 7), cr_public = (\<lambda>a. fit 32 a),
      cr_diffie_hellman = (\<lambda>a b. map2 (+) (fit 32 a) b)\<rparr>"

lemma length_fit [simp]: "length (fit n bs) = n"
  by (simp add: fit_def)

lemma plain_crypto_laws: "crypto_laws plain_crypto"
proof -
  have "map2 (+) (fit 32 a) (fit 32 b) = map2 (+) (fit 32 b) (fit 32 a)" for a b
    by (rule nth_equalityI) (simp_all add: add.commute)
  then show ?thesis
    by (simp add: crypto_laws_def plain_crypto_def)
qed

text \<open>The sequence numbers that the key ring accepts from a sender, in the order of arrival.\<close>

fun accepted_numbers :: "individual_address \<Rightarrow> (individual_address \<times> u64) list \<Rightarrow> key_ring \<Rightarrow> u64 list" where
  "accepted_numbers a [] kr = []"
| "accepted_numbers a ((b, n) # ps) kr =
     (case validate_sequence b n kr of
        (Ok _, kr') \<Rightarrow> (if b = a then [n] else []) @ accepted_numbers a ps kr'
      | (_, kr') \<Rightarrow> accepted_numbers a ps kr')"

lemma validate_sequence_increasing:
  "sorted_wrt (<) (accepted_numbers a ps kr) \<and>
   (\<forall>last_seq. kr_sequence_numbers kr a = Some last_seq \<longrightarrow> (\<forall>n \<in> set (accepted_numbers a ps kr). last_seq < n))"
proof (induction ps arbitrary: kr)
  case (Cons p ps)
  obtain b n where p: "p = (b, n)"
    by (cases p)
  let ?kr = "kr\<lparr>kr_sequence_numbers := (kr_sequence_numbers kr)(b \<mapsto> n)\<rparr>"
  show ?case
    using Cons.IH [of kr] Cons.IH [of ?kr]
    by (cases "b = a") (auto simp: p validate_sequence_def not_le split: option.splits intro: less_trans)
qed simp

end
