(* ===== verification/Secure_Session.thy ===== *)
theory Secure_Session
  imports Crypto
begin

text \<open>
  Sessions of KNX IP Secure, \<open>src/security/session.rs\<close>: the handshake of the client and of the server, and the
  encryption of frames.

  \<^item> A session is a record; the fields behind locks and atomics are fields of it.  \<open>fetch_add\<close> on the sequence
    number wraps.
  \<^item> Public keys are arrays of 32 bytes in the code; the lemmas assume the length where it matters.

  Shown: two sessions with the same passwords complete the handshake and get the same key
  (\<open>handshake_completes\<close>); the server accepts exactly one authentication code (\<open>authenticate_exact\<close>); a frame encrypted by
  one session is decrypted by the other (\<open>secure_frame_roundtrip\<close>); the sequence numbers of accepted
  frames increase, except that the number 0 can come again (\<open>accepted_increasing\<close>,
  \<open>replayed_frame\<close>); and decrypting never panics (\<open>decrypt_frame_no_panic\<close>).
\<close>

section \<open>Definitions\<close>

record session_config =
  sf_user_id :: u8
  sf_user_password :: string
  sf_device_auth_password :: "string option"
  sf_keepalive_interval :: u32

definition SessionConfig_default :: session_config where
  "SessionConfig_default =
     \<lparr>sf_user_id = 1, sf_user_password = [], sf_device_auth_password = None, sf_keepalive_interval = 60\<rparr>"

datatype secure_session_state = SS_Uninitialized | SS_Handshaking | SS_Authenticated | SS_Closed | SS_Error

record session_key =
  sk_key :: bytes
  sk_initialized :: bool

definition SessionKey_default :: session_key where
  "SessionKey_default = \<lparr>sk_key = replicate 16 0, sk_initialized = False\<rparr>"

record secure_session =
  ss_session_id :: u16
  ss_session_key :: session_key
  ss_sequence_number :: u64
  ss_sequence_number_received :: u64
  ss_state :: secure_session_state
  ss_key_pair :: "ecdh_key_pair option"
  ss_device_auth_code :: "bytes option"
  ss_user_password :: bytes
  ss_user_id :: u8

definition COUNTER_0_HANDSHAKE :: bytes where
  "COUNTER_0_HANDSHAKE = replicate 14 0 @ [0xFF, 0x00]"

definition MESSAGE_TAG_TUNNELLING :: bytes where
  "MESSAGE_TAG_TUNNELLING = [0x00, 0x00]"

definition DEVICE_SERIAL_NUMBER :: bytes where
  "DEVICE_SERIAL_NUMBER = replicate 6 0"

abbreviation session_config_error :: knx_error where
  "session_config_error \<equiv> Security InvalidConfiguration_Security"

definition SecureSession_new :: "crypto \<Rightarrow> session_config \<Rightarrow> secure_session" where
  "SecureSession_new c cfg =
     \<lparr>ss_session_id = 0, ss_session_key = SessionKey_default, ss_sequence_number = 0,
      ss_sequence_number_received = 0, ss_state = SS_Uninitialized, ss_key_pair = None,
      ss_device_auth_code = map_option (derive_device_authentication_password c) (sf_device_auth_password cfg),
      ss_user_password = derive_user_password c (sf_user_password cfg), ss_user_id = sf_user_id cfg\<rparr>"

definition initialize :: "crypto \<Rightarrow> bytes \<Rightarrow> secure_session \<Rightarrow> bytes \<times> secure_session" where
  "initialize c rnd s =
     (let kp = EcdhKeyPair_generate c rnd in
      (kp_public kp,
       s\<lparr>ss_key_pair := Some kp, ss_state := SS_Handshaking, ss_sequence_number := 0,
         ss_sequence_number_received := 0\<rparr>))"

text \<open>The data that the two handshake codes authenticate.\<close>

definition response_data :: "u16 \<Rightarrow> bytes \<Rightarrow> bytes" where
  "response_data session_id pub_keys_xor =
     [0x06, 0x10, 0x09, 0x52, 0x00, 0x38] @ u16_to_be_bytes session_id @ pub_keys_xor"

definition authenticate_data :: "u8 \<Rightarrow> bytes \<Rightarrow> bytes" where
  "authenticate_data user_id pub_keys_xor =
     [0x06, 0x10, 0x09, 0x53, 0x00, 0x18] @ [0x00, user_id] @ pub_keys_xor"

definition generate_authenticate_mac :: "crypto \<Rightarrow> bytes \<Rightarrow> secure_session \<Rightarrow> bytes result" where
  "generate_authenticate_mac c server_public_key s =
     (case ss_key_pair s of
        None \<Rightarrow> Err session_config_error
      | Some kp \<Rightarrow>
          bind_res (bytes_xor (kp_public kp) server_public_key) (\<lambda>pub_keys_xor.
          bind_res (calculate_mac_cbc c (ss_user_password s) (authenticate_data (ss_user_id s) pub_keys_xor) []
            (replicate 16 0)) (\<lambda>mac_cbc.
          bind_res (encrypt_ctr c (ss_user_password s) COUNTER_0_HANDSHAKE mac_cbc []) (\<lambda>(_, mac). Ok mac))))"

text \<open>The session key: the first half of the hash of the shared secret.\<close>

definition derived_key :: "crypto \<Rightarrow> ecdh_key_pair \<Rightarrow> bytes \<Rightarrow> session_key result" where
  "derived_key c kp peer_public_key =
     bind_res (slice (sha256_hash c (EcdhKeyPair_exchange c kp peer_public_key)) 0 16) (\<lambda>key.
       Ok \<lparr>sk_key = key, sk_initialized = True\<rparr>)"

definition verify_server_mac :: "crypto \<Rightarrow> ecdh_key_pair \<Rightarrow> u16 \<Rightarrow> bytes \<Rightarrow> bytes \<Rightarrow> secure_session \<Rightarrow> unit result" where
  "verify_server_mac c kp session_id server_public_key server_mac s =
     (case ss_device_auth_code s of
        None \<Rightarrow> Ok ()
      | Some device_auth \<Rightarrow>
          bind_res (bytes_xor (kp_public kp) server_public_key) (\<lambda>pub_keys_xor.
          bind_res (calculate_mac_cbc c device_auth (response_data session_id pub_keys_xor) [] (replicate 16 0)) (\<lambda>mac_cbc.
          bind_res (decrypt_ctr c device_auth COUNTER_0_HANDSHAKE server_mac []) (\<lambda>(_, mac_tr).
            guard_res (mac_cbc \<noteq> mac_tr) (Security AuthenticationFailed) (Ok ())))))"

definition process_session_response ::
  "crypto \<Rightarrow> u16 \<Rightarrow> bytes \<Rightarrow> bytes \<Rightarrow> secure_session \<Rightarrow> bytes result \<times> secure_session" where
  "process_session_response c session_id server_public_key server_mac s =
     (case ss_key_pair s of
        None \<Rightarrow> (Err session_config_error, s)
      | Some kp \<Rightarrow>
          (case verify_server_mac c kp session_id server_public_key server_mac s of
             Err e \<Rightarrow> (Err e, s)
           | Panic \<Rightarrow> (Panic, s)
           | Ok _ \<Rightarrow>
               let s = s\<lparr>ss_session_id := session_id\<rparr> in
               (case derived_key c kp server_public_key of
                  Ok key \<Rightarrow>
                    let s = s\<lparr>ss_session_key := key\<rparr> in
                    (generate_authenticate_mac c server_public_key s, s)
                | Err e \<Rightarrow> (Err e, s)
                | Panic \<Rightarrow> (Panic, s))))"

definition process_session_request ::
  "crypto \<Rightarrow> bytes \<Rightarrow> u16 \<Rightarrow> secure_session \<Rightarrow> bytes result \<times> secure_session" where
  "process_session_request c client_public_key session_id s =
     (case ss_key_pair s of
        None \<Rightarrow> (Err session_config_error, s)
      | Some kp \<Rightarrow>
          let s = s\<lparr>ss_session_id := session_id\<rparr> in
          (case derived_key c kp client_public_key of
             Ok key \<Rightarrow>
               let s = s\<lparr>ss_session_key := key\<rparr> in
               (case ss_device_auth_code s of
                  None \<Rightarrow> (Ok (replicate 16 0), s)
                | Some device_auth \<Rightarrow>
                    (bind_res (bytes_xor (kp_public kp) client_public_key) (\<lambda>pub_keys_xor.
                     bind_res (calculate_mac_cbc c device_auth (response_data session_id pub_keys_xor) [] (replicate 16 0)) (\<lambda>mac_cbc.
                     bind_res (encrypt_ctr c device_auth COUNTER_0_HANDSHAKE mac_cbc []) (\<lambda>(_, mac). Ok mac))), s))
           | Err e \<Rightarrow> (Err e, s)
           | Panic \<Rightarrow> (Panic, s)))"

definition verify_authenticate_mac ::
  "crypto \<Rightarrow> bytes \<Rightarrow> u8 \<Rightarrow> bytes \<Rightarrow> secure_session \<Rightarrow> bool result \<times> secure_session" where
  "verify_authenticate_mac c client_public_key received_user_id received_mac s =
     (if received_user_id \<noteq> ss_user_id s then (Ok False, s)
      else case ss_key_pair s of
        None \<Rightarrow> (Err session_config_error, s)
      | Some kp \<Rightarrow>
          (case bind_res (bytes_xor (kp_public kp) client_public_key) (\<lambda>pub_keys_xor.
                bind_res (calculate_mac_cbc c (ss_user_password s) (authenticate_data received_user_id pub_keys_xor) []
                  (replicate 16 0)) (\<lambda>mac_cbc.
                bind_res (decrypt_ctr c (ss_user_password s) COUNTER_0_HANDSHAKE received_mac []) (\<lambda>(_, mac_tr).
                  Ok (mac_cbc = mac_tr)))) of
             Ok matches \<Rightarrow>
               if \<not> matches then (Ok False, s) else (Ok True, s\<lparr>ss_state := SS_Authenticated\<rparr>)
           | Err e \<Rightarrow> (Err e, s)
           | Panic \<Rightarrow> (Panic, s)))"

definition complete_authentication :: "u8 \<Rightarrow> secure_session \<Rightarrow> unit result \<times> secure_session" where
  "complete_authentication status_code s =
     (if status_code \<noteq> 0x00 then (Err (Security AuthenticationFailed), s\<lparr>ss_state := SS_Error\<rparr>)
      else (Ok (), s\<lparr>ss_state := SS_Authenticated\<rparr>))"

definition get_next_sequence_number :: "secure_session \<Rightarrow> bytes \<times> secure_session" where
  "get_next_sequence_number s =
     (drop 2 (u64_to_be_bytes (ss_sequence_number s)), s\<lparr>ss_sequence_number := ss_sequence_number s + 1\<rparr>)"

definition encrypt_frame :: "crypto \<Rightarrow> bytes \<Rightarrow> secure_session \<Rightarrow> bytes result \<times> secure_session" where
  "encrypt_frame c plain_frame s =
     (if \<not> sk_initialized (ss_session_key s) then (Err session_config_error, s)
      else case get_next_sequence_number s of (sequence_info, s) \<Rightarrow>
        let key = sk_key (ss_session_key s);
            payload_length = length plain_frame;
            wrapper_header = [0x06, 0x10, 0x09, 0x50] @ u16_to_be_bytes (as_u16 (38 + payload_length));
            block_0 = sequence_info @ DEVICE_SERIAL_NUMBER @ MESSAGE_TAG_TUNNELLING @ u16_to_be_bytes (as_u16 payload_length);
            additional_data = wrapper_header @ u16_to_be_bytes (ss_session_id s);
            counter_0 = sequence_info @ DEVICE_SERIAL_NUMBER @ MESSAGE_TAG_TUNNELLING @ [0xFF, 0x00] in
        (bind_res (calculate_mac_cbc c key additional_data plain_frame block_0) (\<lambda>mac_cbc.
         bind_res (encrypt_ctr c key counter_0 mac_cbc plain_frame) (\<lambda>(encrypted_data, encrypted_mac).
           Ok (wrapper_header @ u16_to_be_bytes (ss_session_id s) @ sequence_info @ DEVICE_SERIAL_NUMBER @
               MESSAGE_TAG_TUNNELLING @ encrypted_data @ encrypted_mac))), s))"

text \<open>The checks of \<open>decrypt_frame\<close>, with the decrypted data and the new sequence number.\<close>

definition open_frame :: "crypto \<Rightarrow> bytes \<Rightarrow> secure_session \<Rightarrow> (bytes \<times> u64) result" where
  "open_frame c encrypted_frame s =
     (let n = length encrypted_frame; key = sk_key (ss_session_key s) in
      guard_res (\<not> sk_initialized (ss_session_key s)) session_config_error
      (guard_res (n < 38) crypto_error
        (bind_res (idx encrypted_frame 6) (\<lambda>id_hi.
         bind_res (idx encrypted_frame 7) (\<lambda>id_lo.
         guard_res (u16_from_be_bytes id_hi id_lo \<noteq> ss_session_id s) crypto_error
        (bind_res (slice encrypted_frame 8 14) (\<lambda>sequence_info.
         bind_res (slice encrypted_frame 14 20) (\<lambda>serial_number.
         bind_res (slice encrypted_frame 20 22) (\<lambda>message_tag.
         bind_res (slice encrypted_frame 22 (n - 16)) (\<lambda>encrypted_data.
         bind_res (slice_from encrypted_frame (n - 16)) (\<lambda>mac.
         let received_seq = u64_from_be_bytes ([0, 0] @ sequence_info);
             last_seq = ss_sequence_number_received s in
         guard_res (received_seq \<le> last_seq \<and> last_seq \<noteq> 0) crypto_error
        (let counter_0 = sequence_info @ serial_number @ message_tag @ [0xFF, 0x00] in
         bind_res (decrypt_ctr c key counter_0 mac encrypted_data) (\<lambda>(decrypted_data, mac_tr).
         bind_res (slice encrypted_frame 0 6) (\<lambda>wrapper_header.
         let additional_data = wrapper_header @ u16_to_be_bytes (ss_session_id s);
             block_0 = sequence_info @ serial_number @ message_tag @ u16_to_be_bytes (as_u16 (length decrypted_data)) in
         bind_res (calculate_mac_cbc c key additional_data decrypted_data block_0) (\<lambda>mac_cbc.
           guard_res (mac_cbc \<noteq> mac_tr) crypto_error (Ok (decrypted_data, received_seq)))))))))))))))))"

definition decrypt_frame :: "crypto \<Rightarrow> bytes \<Rightarrow> secure_session \<Rightarrow> bytes result \<times> secure_session" where
  "decrypt_frame c encrypted_frame s =
     (case open_frame c encrypted_frame s of
        Ok (data, received_seq) \<Rightarrow> (Ok data, s\<lparr>ss_sequence_number_received := received_seq\<rparr>)
      | Err e \<Rightarrow> (Err e, s)
      | Panic \<Rightarrow> (Panic, s))"

definition close_session :: "secure_session \<Rightarrow> secure_session" where
  "close_session s = s\<lparr>ss_state := SS_Closed, ss_session_key := \<lparr>sk_key = replicate 16 0, sk_initialized = False\<rparr>\<rparr>"

definition is_authenticated :: "secure_session \<Rightarrow> bool" where
  "is_authenticated s = (ss_state s = SS_Authenticated)"

section \<open>Encrypted frames\<close>

lemma mac_no_panic [simp]: "calculate_mac_cbc c key ad p b \<noteq> Panic"
  by (auto simp: calculate_mac_cbc_def byte_pad_def Let_def)

lemma ctr_no_panic [simp]: "decrypt_ctr c key i m p \<noteq> Panic" "encrypt_ctr c key i m p \<noteq> Panic"
  by (auto simp: decrypt_ctr_def encrypt_ctr_def Let_def)

lemma bytes_xor_no_panic [simp]: "bytes_xor a b \<noteq> Panic"
  by (simp add: bytes_xor_def)

lemma open_wrapped:
  assumes "sk_initialized (ss_session_key s)" "u16_from_be_bytes a b = ss_session_id s"
    "length h = 6" "length q = 6" "length sn = 6" "length tg = 2" "length m = 16"
  shows "open_frame c (h @ [a, b] @ q @ sn @ tg @ d @ m) s =
    (let seq = u64_from_be_bytes ([0, 0] @ q); last_seq = ss_sequence_number_received s; key = sk_key (ss_session_key s) in
     guard_res (seq \<le> last_seq \<and> last_seq \<noteq> 0) crypto_error
      (bind_res (decrypt_ctr c key (q @ sn @ tg @ [0xFF, 0x00]) m d) (\<lambda>(data, mac_tr).
       bind_res (calculate_mac_cbc c key (h @ u16_to_be_bytes (ss_session_id s)) data
         (q @ sn @ tg @ u16_to_be_bytes (as_u16 (length data)))) (\<lambda>mac_cbc.
         guard_res (mac_cbc \<noteq> mac_tr) crypto_error (Ok (data, seq))))))"
  using assms by (simp add: open_frame_def Let_def nth_append drop_Cons')

definition fresh_number :: "u64 \<Rightarrow> u64 \<Rightarrow> bool" where
  "fresh_number last_seq seq = (last_seq < seq \<or> last_seq = 0)"

lemma sent_frame_opened:
  assumes "crypto_laws c" "sk_initialized (ss_session_key s)" "length (sk_key (ss_session_key s)) = 16"
    "ss_session_key r = ss_session_key s" "ss_session_id r = ss_session_id s"
    "fresh_number (ss_sequence_number_received r) (take_bit 48 (ss_sequence_number s))"
  shows "\<exists>w. encrypt_frame c plain s = (Ok w, s\<lparr>ss_sequence_number := ss_sequence_number s + 1\<rparr>) \<and>
    length w = length plain + 38 \<and> open_frame c w r = Ok (plain, take_bit 48 (ss_sequence_number s))"
proof -
  let ?key = "sk_key (ss_session_key s)" and ?q = "seq_to_bytes (ss_sequence_number s)"
  let ?h = "[0x06, 0x10, 0x09, 0x50] @ u16_to_be_bytes (as_u16 (38 + length plain)) :: bytes"
  let ?i = "u16_to_be_bytes (ss_session_id s)"
  let ?b = "?q @ DEVICE_SERIAL_NUMBER @ MESSAGE_TAG_TUNNELLING @ u16_to_be_bytes (as_u16 (length plain))"
  let ?ctr = "?q @ DEVICE_SERIAL_NUMBER @ MESSAGE_TAG_TUNNELLING @ [0xFF, 0x00]"
  have len: "length DEVICE_SERIAL_NUMBER = 6" "length MESSAGE_TAG_TUNNELLING = 2"
    by (simp_all add: DEVICE_SERIAL_NUMBER_def MESSAGE_TAG_TUNNELLING_def)
  obtain mac where mac: "calculate_mac_cbc c ?key (?h @ ?i) plain ?b = Ok mac" "length mac = 16"
    using mac_cbc_ok [OF assms(1,3), of ?b "?h @ ?i" plain] len by auto
  obtain d m where enc: "encrypt_ctr c ?key ?ctr mac plain = Ok (d, m)" "length d = length plain" "length m = 16"
    using assms(3) mac(2) len by (auto simp: encrypt_ctr_def KEY_LENGTH_def Let_def)
  let ?w = "?h @ ?i @ ?q @ DEVICE_SERIAL_NUMBER @ MESSAGE_TAG_TUNNELLING @ d @ m"
  have "encrypt_frame c plain s = (Ok ?w, s\<lparr>ss_sequence_number := ss_sequence_number s + 1\<rparr>)"
    using assms(2) mac(1) enc(1)
    by (simp add: encrypt_frame_def get_next_sequence_number_def seq_to_bytes_def [symmetric] Let_def del: append.simps)
  moreover have "open_frame c ?w r = Ok (plain, take_bit 48 (ss_sequence_number s))"
  proof -
    have "open_frame c (?h @ [ucast (drop_bit 8 (ss_session_id s)), ucast (ss_session_id s)] @ ?q @
        DEVICE_SERIAL_NUMBER @ MESSAGE_TAG_TUNNELLING @ d @ m) r = Ok (plain, take_bit 48 (ss_sequence_number s))"
      using assms(2,4-6) mac(1) decrypt_encrypt_ctr [OF enc(1)] u64_seq_bytes [of "ss_sequence_number s"]
      by (subst open_wrapped) (auto simp: len enc(3) fresh_number_def Let_def simp del: append.simps)
    then show ?thesis
      by (simp add: u16_to_be_bytes_def)
  qed
  ultimately show ?thesis
    using len enc(2,3) by (intro exI [of _ ?w]) simp
qed

text \<open>
  Encrypted frames come back.  Let two sessions have the same session id and key.  A frame encrypted by
  one of them is decrypted to the same frame by the other, provided that its number, of which 48 bits
  are sent, is new to the receiver.  The wrapper adds 38 bytes, the sender moves on to the next
  number and the receiver remembers the number it got.
\<close>

lemma secure_frame_roundtrip:
  assumes "crypto_laws c" "sk_initialized (ss_session_key s)" "length (sk_key (ss_session_key s)) = 16"
    "ss_session_key r = ss_session_key s" "ss_session_id r = ss_session_id s"
    "fresh_number (ss_sequence_number_received r) (take_bit 48 (ss_sequence_number s))"
  shows "\<exists>w. encrypt_frame c plain s = (Ok w, s\<lparr>ss_sequence_number := ss_sequence_number s + 1\<rparr>) \<and>
    length w = length plain + 38 \<and>
    decrypt_frame c w r = (Ok plain, r\<lparr>ss_sequence_number_received := take_bit 48 (ss_sequence_number s)\<rparr>)"
  using sent_frame_opened [OF assms, of plain] by (auto simp: decrypt_frame_def)

definition example_session :: secure_session where
  "example_session = (SecureSession_new plain_crypto SessionConfig_default)
     \<lparr>ss_session_id := 5, ss_session_key := \<lparr>sk_key = replicate 16 9, sk_initialized = True\<rparr>\<rparr>"

lemma example_session_simps:
  "sk_initialized (ss_session_key example_session)" "length (sk_key (ss_session_key example_session)) = 16"
  "ss_sequence_number_received example_session = 0"
  by (simp_all add: example_session_def SecureSession_new_def)

text \<open>Decrypting never panics, whatever the bytes and the session are.\<close>

lemma decrypt_frame_no_panic: "fst (decrypt_frame c w s) \<noteq> Panic"
  by (auto simp: decrypt_frame_def open_frame_def Let_def split: res.splits)

lemma open_frame_fresh: "open_frame c w s = Ok (d, n) \<Longrightarrow> fresh_number (ss_sequence_number_received s) n"
  by (auto simp: open_frame_def Let_def fresh_number_def)

section \<open>Replayed frames\<close>

text \<open>The sequence numbers of the frames that a session accepts from a stream of frames.\<close>

fun accepted_seqs :: "crypto \<Rightarrow> bytes list \<Rightarrow> secure_session \<Rightarrow> u64 list" where
  "accepted_seqs c [] s = []"
| "accepted_seqs c (w # ws) s =
     (case decrypt_frame c w s of
        (Ok _, s') \<Rightarrow> ss_sequence_number_received s' # accepted_seqs c ws s'
      | (_, s') \<Rightarrow> accepted_seqs c ws s')"

text \<open>
  C19: Replay protection.  Whatever frames reach a session, the sequence numbers of the frames it accepts are
  some zeros followed by strictly increasing numbers above the last number from before; once a number other than 0
  has been accepted there are no zeros.
\<close>

theorem accepted_increasing:
  "\<exists>n xs. accepted_seqs c ws s = replicate n 0 @ xs \<and> sorted_wrt (<) (ss_sequence_number_received s # xs) \<and>
     (if ss_sequence_number_received s = 0 then True else n = 0)"
proof (induction ws arbitrary: s)
  case (Cons w ws)
  show ?case
  proof (cases "open_frame c w s")
    case (Ok p)
    obtain d q where p: "p = (d, q)"
      by (cases p)
    let ?s = "s\<lparr>ss_sequence_number_received := q\<rparr>"
    have step: "accepted_seqs c (w # ws) s = q # accepted_seqs c ws ?s"
      using Ok p by (simp add: decrypt_frame_def)
    have fresh: "ss_sequence_number_received s < q \<or> ss_sequence_number_received s = 0"
      using open_frame_fresh Ok p by (simp add: fresh_number_def)
    obtain n xs where IH: "accepted_seqs c ws ?s = replicate n 0 @ xs" "sorted_wrt (<) (q # xs)" "q = 0 \<or> n = 0"
      using Cons.IH [of ?s] by (auto split: if_splits)
    show ?thesis
    proof (cases "q = 0")
      case True
      then show ?thesis
        using IH fresh step by (intro exI [of _ "Suc n"] exI [of _ xs]) auto
    next
      case False
      then have "ss_sequence_number_received s < q"
        using fresh word_gt_0 [of q] by auto
      then show ?thesis
        using False IH step by (intro exI [of _ 0] exI [of _ "q # xs"]) (auto intro: less_trans)
    qed
  qed (use Cons.IH [of s] in \<open>simp_all add: decrypt_frame_def\<close>)
qed (simp add: exI [of _ "[]"])

text \<open>
  C20: What happens to a second copy.  When a session has accepted a frame, it rejects the same bytes the next time, unless the
  number of the frame is 0: then the session is as it was before, and it accepts the frame again and again.
\<close>

theorem replayed_frame:
  assumes "decrypt_frame c w s = (Ok d, s')"
  shows "decrypt_frame c w s' = (if ss_sequence_number_received s' = 0 then (Ok d, s') else (Err crypto_error, s'))"
proof -
  obtain q where q: "open_frame c w s = Ok (d, q)" "s' = s\<lparr>ss_sequence_number_received := q\<rparr>"
    using assms by (auto simp: decrypt_frame_def split: res.splits)
  show ?thesis
  proof (cases "q = 0")
    case True
    then have "s' = s" "ss_sequence_number_received s' = 0"
      using open_frame_fresh [OF q(1)] q(2) by (auto simp: fresh_number_def)
    then show ?thesis
      using assms by simp
  next
    case False
    have "open_frame c w s' = Err crypto_error"
      using q False by (auto simp: open_frame_def Let_def)
    then show ?thesis
      using False q(2) by (simp add: decrypt_frame_def)
  qed
qed

theorem replayed_frame_witness:
  "\<exists>w. decrypt_frame plain_crypto w example_session = (Ok [1, 2, 3], example_session) \<and>
     decrypt_frame plain_crypto w example_session =
       (if ss_sequence_number_received example_session = 0 then (Ok [1, 2, 3], example_session)
        else (Err crypto_error, example_session))"
proof -
  have id_same: "example_session\<lparr>ss_sequence_number_received := take_bit 48 (ss_sequence_number example_session)\<rparr> = example_session"
    by (simp add: example_session_def SecureSession_new_def)
  obtain w where "open_frame plain_crypto w example_session = Ok ([1, 2, 3], take_bit 48 (ss_sequence_number example_session))"
    using sent_frame_opened [OF plain_crypto_laws example_session_simps(1,2) refl refl, of "[1, 2, 3]"]
    by (auto simp: fresh_number_def example_session_simps)
  then have "decrypt_frame plain_crypto w example_session = (Ok [1, 2, 3], example_session)"
    by (simp add: decrypt_frame_def id_same)
  then show ?thesis
    using replayed_frame by blast
qed

section \<open>The handshake\<close>

lemma map2_xor_commute: "length a = length b \<Longrightarrow> map2 (XOR) a b = map2 (XOR) b (a :: bytes)"
  by (rule nth_equalityI) (simp_all add: xor.commute)

text \<open>A handshake code: the message authentication code, encrypted.\<close>

definition handshake_code :: "crypto \<Rightarrow> bytes \<Rightarrow> bytes \<Rightarrow> bytes" where
  "handshake_code c key mac = apply_keystream (cr_keystream c key COUNTER_0_HANDSHAKE) 0 mac"

lemma handshake_ctr:
  assumes "length key = 16"
  shows "encrypt_ctr c key COUNTER_0_HANDSHAKE m [] = Ok ([], handshake_code c key m)"
    "decrypt_ctr c key COUNTER_0_HANDSHAKE m [] = Ok ([], handshake_code c key m)"
  using assms
  by (simp_all add: encrypt_ctr_def decrypt_ctr_def COUNTER_0_HANDSHAKE_def KEY_LENGTH_def Let_def handshake_code_def
      apply_keystream_def)

lemma handshake_code_twice [simp]: "handshake_code c key (handshake_code c key m) = m"
  by (simp add: handshake_code_def)

lemma handshake_mac:
  assumes "crypto_laws c" "length key = 16"
  shows "\<exists>m. calculate_mac_cbc c key ad [] (replicate 16 0) = Ok m \<and>
    encrypt_ctr c key COUNTER_0_HANDSHAKE m [] = Ok ([], handshake_code c key m) \<and>
    decrypt_ctr c key COUNTER_0_HANDSHAKE (handshake_code c key m) [] = Ok ([], m) \<and>
    length (handshake_code c key m) = 16"
  using mac_cbc_ok [OF assms, of "replicate 16 0" ad "[]"] handshake_ctr [OF assms(2)]
  by (auto simp: handshake_code_def)

text \<open>
  Authentication.  A server session with a key pair accepts the authentication message of a client for exactly
  one user id and one code of 16 bytes: its own user id and the code that a client with the same password computes
  for the two public keys.  Only then does the state change.
\<close>

lemma authenticate_exact:
  assumes "crypto_laws c" "ss_key_pair s = Some kp" "length (kp_public kp) = length client_key" "length (ss_user_password s) = 16"
  shows "\<exists>m. generate_authenticate_mac c client_key s = Ok m \<and> length m = 16 \<and>
    (\<forall>user_id x. verify_authenticate_mac c client_key user_id x s =
       (if user_id = ss_user_id s \<and> x = m then (Ok True, s\<lparr>ss_state := SS_Authenticated\<rparr>) else (Ok False, s)))"
proof -
  let ?pw = "ss_user_password s"
  let ?ad = "authenticate_data (ss_user_id s) (map2 (XOR) (kp_public kp) client_key)"
  have x: "bytes_xor (kp_public kp) client_key = Ok (map2 (XOR) (kp_public kp) client_key)"
    using assms(3) by (simp add: bytes_xor_def)
  obtain m where m: "calculate_mac_cbc c ?pw ?ad [] (replicate 16 0) = Ok m" "length m = 16"
    using mac_cbc_ok [OF assms(1,4), of "replicate 16 0" ?ad "[]"] by auto
  have "m = handshake_code c ?pw x \<longleftrightarrow> x = handshake_code c ?pw m" for x
    by (metis handshake_code_twice)
  then show ?thesis
    using assms(2) x m handshake_ctr [OF assms(4)]
    by (intro exI [of _ "handshake_code c ?pw m"])
       (simp add: generate_authenticate_mac_def verify_authenticate_mac_def handshake_code_def [of c ?pw m])
qed

text \<open>
  The handshake.  A client and a server with the same configuration exchange public keys, the server's code
  and the client's code.  Every step succeeds, the server accepts the client, and both end with the session id
  the server gave and the same session key of 16 bytes.
\<close>

lemma handshake_completes:
  assumes laws: "crypto_laws c"
    and client: "initialize c r1 (SecureSession_new c cfg) = (client_key, client)"
    and server: "initialize c r2 (SecureSession_new c cfg) = (server_key, server)"
  shows "\<exists>m1 server1 m2 client1 server2.
    process_session_request c client_key sid server = (Ok m1, server1) \<and>
    process_session_response c sid server_key m1 client = (Ok m2, client1) \<and>
    verify_authenticate_mac c client_key (ss_user_id client1) m2 server1 = (Ok True, server2) \<and>
    is_authenticated server2 \<and> ss_session_id client1 = sid \<and> ss_session_id server2 = sid \<and>
    ss_session_key client1 = ss_session_key server2 \<and> sk_initialized (ss_session_key server2) \<and>
    length (sk_key (ss_session_key server2)) = 16 \<and> length m1 = 16 \<and> length m2 = 16 \<and>
    ss_sequence_number client1 = 0 \<and> ss_sequence_number_received server2 = 0 \<and>
    ss_sequence_number server2 = 0 \<and> ss_sequence_number_received client1 = 0"
proof -
  let ?k1 = "EcdhKeyPair_generate c r1" and ?k2 = "EcdhKeyPair_generate c r2"
  let ?key = "\<lparr>sk_key = take 16 (cr_sha256 c (cr_diffie_hellman c r1 (cr_public c r2))), sk_initialized = True\<rparr>"
  let ?x = "map2 (XOR) (cr_public c r1) (cr_public c r2)"
  have keys: "client_key = cr_public c r1" "server_key = cr_public c r2"
    using client server by (auto simp: initialize_def EcdhKeyPair_generate_def Let_def)
  have len: "length (cr_public c r) = 32" "length (cr_sha256 c d) = 32" "length (cr_pbkdf2 c p sa i n) = n" for r d p sa i n
    using laws by (simp_all add: crypto_laws_def)
  have dh: "cr_diffie_hellman c r2 (cr_public c r1) = cr_diffie_hellman c r1 (cr_public c r2)"
    using laws by (simp add: crypto_laws_def)
  have derived: "derived_key c ?k1 server_key = Ok ?key" "derived_key c ?k2 client_key = Ok ?key"
    using keys dh by (simp_all add: derived_key_def sha256_hash_def EcdhKeyPair_exchange_def EcdhKeyPair_generate_def len)
  have x: "bytes_xor (kp_public ?k1) server_key = Ok ?x" "bytes_xor (kp_public ?k2) client_key = Ok ?x"
    using map2_xor_commute [of "cr_public c r1" "cr_public c r2"] keys
    by (simp_all add: EcdhKeyPair_generate_def bytes_xor_def len)
  let ?pw = "derive_user_password c (sf_user_password cfg)" and ?uid = "sf_user_id cfg"
  let ?da = "map_option (derive_device_authentication_password c) (sf_device_auth_password cfg)"
  let ?s1 = "server\<lparr>ss_session_id := sid, ss_session_key := ?key\<rparr>"
  have new: "ss_key_pair client = Some ?k1" "ss_key_pair server = Some ?k2" "ss_user_password client = ?pw"
    "ss_user_password server = ?pw" "ss_user_id client = ?uid" "ss_user_id server = ?uid"
    "ss_device_auth_code client = ?da" "ss_device_auth_code server = ?da"
    "ss_sequence_number client = 0" "ss_sequence_number_received client = 0"
    "ss_sequence_number server = 0" "ss_sequence_number_received server = 0"
    using client server by (auto simp: initialize_def SecureSession_new_def Let_def)
  have pw: "length ?pw = 16"
    by (simp add: derive_user_password_def len KEY_LENGTH_def)
  obtain m where m: "calculate_mac_cbc c ?pw (authenticate_data ?uid ?x) [] (replicate 16 0) = Ok m"
    "encrypt_ctr c ?pw COUNTER_0_HANDSHAKE m [] = Ok ([], handshake_code c ?pw m)"
    "decrypt_ctr c ?pw COUNTER_0_HANDSHAKE (handshake_code c ?pw m) [] = Ok ([], m)"
    "length (handshake_code c ?pw m) = 16"
    using handshake_mac [OF laws pw] by blast
  have "\<exists>m1. process_session_request c client_key sid server = (Ok m1, ?s1) \<and>
      verify_server_mac c ?k1 sid server_key m1 client = Ok () \<and> length m1 = 16"
  proof (cases ?da)
    case None
    then show ?thesis
      by (simp add: process_session_request_def verify_server_mac_def new derived Let_def)
  next
    case (Some da)
    then have "length da = 16"
      by (auto simp: derive_device_authentication_password_def len KEY_LENGTH_def)
    then obtain n where "calculate_mac_cbc c da (response_data sid ?x) [] (replicate 16 0) = Ok n"
      "encrypt_ctr c da COUNTER_0_HANDSHAKE n [] = Ok ([], handshake_code c da n)"
      "decrypt_ctr c da COUNTER_0_HANDSHAKE (handshake_code c da n) [] = Ok ([], n)"
      "length (handshake_code c da n) = 16"
      using handshake_mac [OF laws] by blast
    with Some show ?thesis
      by (simp add: process_session_request_def verify_server_mac_def new derived x Let_def del: map_option_eq_Some)
  qed
  then obtain m1 where m1: "process_session_request c client_key sid server = (Ok m1, ?s1)"
    "verify_server_mac c ?k1 sid server_key m1 client = Ok ()" "length m1 = 16"
    by blast
  moreover have "process_session_response c sid server_key m1 client =
      (Ok (handshake_code c ?pw m), client\<lparr>ss_session_id := sid, ss_session_key := ?key\<rparr>)"
    using m1(2) m by (simp add: process_session_response_def generate_authenticate_mac_def new derived x Let_def)
  moreover have "verify_authenticate_mac c client_key ?uid (handshake_code c ?pw m) ?s1 =
      (Ok True, ?s1\<lparr>ss_state := SS_Authenticated\<rparr>)"
    using m by (simp add: verify_authenticate_mac_def new x)
  ultimately show ?thesis
    using m(4) by (simp add: is_authenticated_def new len)
qed

end
