(* ===== verification/Secure_Server.thy ===== *)
theory Secure_Server
  imports Server Secure_Session
begin

text \<open>
  KNX IP Secure at both ends: the secure parts of the tunnelling server, \<open>src/transport/server.rs\<close>, and the session
  set-up of the client, \<open>Tunnel::connect_secure\<close> of \<open>src/transport/tunnel.rs\<close>.

  \<^item> A secure server is the plain server of \<open>Server\<close> with its security configuration, one secure session per peer
    address, and the next session id.
  \<^item> Inside \<open>dispatch_plain_frame\<close> the handlers are those of \<open>Server\<close>.  They answer through \<open>send_reply\<close>, which encrypts
    for the peer: \<open>wrap_effects\<close> does this to their replies.
  \<^item> The client is modelled from its session request to the end of the authentication.  The connect request
    that follows is the one of \<open>Tunnel\<close>, encrypted by \<open>encrypt_frame\<close>.

  Shown: the frames of a client that follow \<open>connect_secure\<close> establish a session on the server
  (\<open>secure_session_established\<close>), after which the server treats an encrypted frame of the client like a plain server
  the frame inside (\<open>encrypted_frame_dispatched\<close>); a server that requires security changes its channels and publishes
  telegrams only for frames that an authenticated session decrypts (\<open>secure_gate\<close>); a session becomes
  authenticated only with the code of its password (\<open>authenticated_by_password\<close>); but anybody who sends from the address
  of a client can throw out its session (\<open>session_evicted\<close>).
\<close>

section \<open>The server\<close>

record secure_entry =
  se_session :: secure_session
  se_client_public_key :: bytes

record secure_server =
  xs_server :: server
  xs_secure_config :: "session_config option"
  xs_secure_sessions :: "socket_addr \<rightharpoonup> secure_entry"
  xs_next_session_id :: u16

type_synonym 'a secured = "'a result \<times> effect list \<times> secure_server"

definition secure_server_init :: "session_config option \<Rightarrow> socket_addr \<Rightarrow> individual_address \<Rightarrow> secure_server" where
  "secure_server_init cfg addr ia =
     \<lparr>xs_server = server_init addr ia, xs_secure_config = cfg, xs_secure_sessions = Map.empty, xs_next_session_id = 1\<rparr>"

definition set_session :: "socket_addr \<Rightarrow> secure_session \<Rightarrow> secure_server \<Rightarrow> secure_server" where
  "set_session peer s xs =
     xs\<lparr>xs_secure_sessions := (xs_secure_sessions xs)
       (peer := map_option (\<lambda>e. e\<lparr>se_session := s\<rparr>) (xs_secure_sessions xs peer))\<rparr>"

definition remove_session :: "socket_addr \<Rightarrow> secure_server \<Rightarrow> secure_server" where
  "remove_session peer xs = xs\<lparr>xs_secure_sessions := (xs_secure_sessions xs)(peer := None)\<rparr>"

definition maybe_encrypt :: "crypto \<Rightarrow> bytes \<Rightarrow> socket_addr \<Rightarrow> secure_server \<Rightarrow> bytes result \<times> secure_server" where
  "maybe_encrypt c frame peer xs =
     (case xs_secure_sessions xs peer of
        Some e \<Rightarrow> (case encrypt_frame c frame (se_session e) of (r, s) \<Rightarrow> (r, set_session peer s xs))
      | None \<Rightarrow> (Ok frame, xs))"

text \<open>A reply that cannot be encrypted ends the handler.\<close>

fun wrap_effects :: "crypto \<Rightarrow> effect list \<Rightarrow> secure_server \<Rightarrow> unit secured" where
  "wrap_effects c [] xs = (Ok (), [], xs)"
| "wrap_effects c (Reply link frame # out) xs =
     (case maybe_encrypt c frame (link_peer_addr link) xs of
        (Ok w, xs) \<Rightarrow> (case wrap_effects c out xs of (r, out, xs) \<Rightarrow> (r, Reply link w # out, xs))
      | (Err e, xs) \<Rightarrow> (Err e, [], xs)
      | (Panic, xs) \<Rightarrow> (Panic, [], xs))"
| "wrap_effects c (e # out) xs = (case wrap_effects c out xs of (r, out, xs) \<Rightarrow> (r, e # out, xs))"

text \<open>A disconnect request removes the secure session of the client it answers to, before it answers.\<close>

definition forget_secure :: "knxip_frame \<Rightarrow> client_link \<Rightarrow> secure_server \<Rightarrow> secure_server" where
  "forget_secure frame link xs =
     (if kh_service_type (kf_header frame) = DisconnectRequest then
        (case DisconnectRequest_parse (kf_body frame) of
           Ok request \<Rightarrow>
             remove_session (link_peer_addr
               (case sv_sessions (xs_server xs) (dreq_channel_id request) of Some s \<Rightarrow> ss_link s | None \<Rightarrow> link)) xs
         | _ \<Rightarrow> xs)
      else xs)"

definition secure_dispatch ::
  "crypto \<Rightarrow> sender \<Rightarrow> nat \<Rightarrow> system_time \<Rightarrow> knxip_frame \<Rightarrow> client_link \<Rightarrow> bool \<Rightarrow> secure_server \<Rightarrow> u8 option secured" where
  "secure_dispatch c snd_to now wall frame link was_encrypted xs =
     (if xs_secure_config xs \<noteq> None \<and> \<not> was_encrypted then (Ok None, [], xs)
      else case dispatch_plain_frame snd_to now wall frame link (xs_server xs) of (r, out, sv) \<Rightarrow>
        (case wrap_effects c out ((forget_secure frame link xs)\<lparr>xs_server := sv\<rparr>) of (w, out, xs) \<Rightarrow>
           (bind_res w (\<lambda>_. r), out, xs)))"

definition handle_session_request ::
  "crypto \<Rightarrow> bytes \<Rightarrow> sender \<Rightarrow> bytes \<Rightarrow> client_link \<Rightarrow> secure_server \<Rightarrow> unit secured" where
  "handle_session_request c rnd snd_to body link xs =
     (case xs_secure_config xs of
        None \<Rightarrow> (Ok (), [], xs)
      | Some security \<Rightarrow>
          (case SessionRequest_parse body of
             Err e \<Rightarrow> (Err e, [], xs)
           | Panic \<Rightarrow> (Panic, [], xs)
           | Ok request \<Rightarrow>
               (case initialize c rnd (SecureSession_new c security) of (server_public_key, session) \<Rightarrow>
                if length server_public_key \<noteq> 32 then (Err (Transport InvalidConfiguration_Transport), [], xs)
                else
                  let session_id = xs_next_session_id xs; xs = xs\<lparr>xs_next_session_id := session_id + 1\<rparr> in
                  (case process_session_request c (sreq_public_key request) session_id session of
                     (Err e, _) \<Rightarrow> (Err e, [], xs)
                   | (Panic, _) \<Rightarrow> (Panic, [], xs)
                   | (Ok mac, session) \<Rightarrow>
                       if length mac \<noteq> 16 then (Panic, [], xs)
                       else
                         let response = \<lparr>sresp_session_id = session_id, sresp_public_key = server_public_key, sresp_mac = mac\<rparr>;
                             out = [Reply link (KnxIpFrame_serialize (KnxIpFrame_new SessionResponse (SessionResponse_serialize response)))] in
                         (case snd_to link of
                            Ok _ \<Rightarrow> (Ok (), out,
                              xs\<lparr>xs_secure_sessions := (xs_secure_sessions xs)(link_peer_addr link \<mapsto>
                                \<lparr>se_session = session, se_client_public_key = sreq_public_key request\<rparr>)\<rparr>)
                          | Err e \<Rightarrow> (Err e, out, xs)
                          | Panic \<Rightarrow> (Panic, out, xs))))))"

definition handle_session_authenticate ::
  "crypto \<Rightarrow> sender \<Rightarrow> bytes \<Rightarrow> client_link \<Rightarrow> secure_server \<Rightarrow> unit secured" where
  "handle_session_authenticate c snd_to body link xs =
     (case SessionAuthenticate_parse body of
        Err e \<Rightarrow> (Err e, [], xs)
      | Panic \<Rightarrow> (Panic, [], xs)
      | Ok auth \<Rightarrow>
          let peer = link_peer_addr link in
          (case xs_secure_sessions xs peer of
             None \<Rightarrow> (Ok (), [], xs)
           | Some entry \<Rightarrow>
               (case verify_authenticate_mac c (se_client_public_key entry) (sauth_user_id auth) (sauth_mac auth) (se_session entry) of
                  (Err e, s) \<Rightarrow> (Err e, [], set_session peer s xs)
                | (Panic, s) \<Rightarrow> (Panic, [], set_session peer s xs)
                | (Ok ok, s) \<Rightarrow>
                    let xs = set_session peer s xs;
                        out = [Reply link (KnxIpFrame_serialize (KnxIpFrame_new SessionStatus
                          (SessionStatus_serialize \<lparr>sstat_status = (if ok then 0 else 1)\<rparr>)))] in
                    (case snd_to link of
                       Ok _ \<Rightarrow> (Ok (), out, if ok then xs else remove_session peer xs)
                     | Err e \<Rightarrow> (Err e, out, xs)
                     | Panic \<Rightarrow> (Panic, out, xs)))))"

definition no_id :: "unit secured \<Rightarrow> u8 option secured" where
  "no_id h = (case h of (r, out, xs) \<Rightarrow> (bind_res r (\<lambda>_. Ok None), out, xs))"

definition secure_handle_frame ::
  "crypto \<Rightarrow> bytes \<Rightarrow> sender \<Rightarrow> nat \<Rightarrow> system_time \<Rightarrow> bytes \<Rightarrow> client_link \<Rightarrow> secure_server \<Rightarrow> u8 option secured" where
  "secure_handle_frame c rnd snd_to now wall data link xs =
     (case KnxIpFrame_parse data of
        Err e \<Rightarrow> (Err e, [], xs)
      | Panic \<Rightarrow> (Panic, [], xs)
      | Ok frame \<Rightarrow>
          (case kh_service_type (kf_header frame) of
             SessionRequest \<Rightarrow> no_id (handle_session_request c rnd snd_to (kf_body frame) link xs)
           | SessionAuthenticate \<Rightarrow> no_id (handle_session_authenticate c snd_to (kf_body frame) link xs)
           | SecureWrapper \<Rightarrow>
               let peer = link_peer_addr link in
               (case xs_secure_sessions xs peer of
                  None \<Rightarrow> (Ok None, [], xs)
                | Some entry \<Rightarrow>
                    if \<not> is_authenticated (se_session entry) then (Ok None, [], xs)
                    else case decrypt_frame c data (se_session entry) of
                      (Err e, s) \<Rightarrow> (Err e, [], set_session peer s xs)
                    | (Panic, s) \<Rightarrow> (Panic, [], set_session peer s xs)
                    | (Ok decrypted, s) \<Rightarrow>
                        let xs = set_session peer s xs in
                        (case KnxIpFrame_parse decrypted of
                           Err e \<Rightarrow> (Err e, [], xs)
                         | Panic \<Rightarrow> (Panic, [], xs)
                         | Ok inner \<Rightarrow> secure_dispatch c snd_to now wall inner link True xs))
           | _ \<Rightarrow> secure_dispatch c snd_to now wall frame link False xs))"

text \<open>The end of a TCP stream also removes the secure session of the peer.\<close>

definition secure_tcp_close :: "u8 option \<Rightarrow> socket_addr \<Rightarrow> secure_server \<Rightarrow> secure_server" where
  "secure_tcp_close assigned peer xs =
     remove_session peer (xs\<lparr>xs_server := tcp_close (assigned, xs_server xs)\<rparr>)"

section \<open>The client\<close>

record security_config =
  sec_user_password :: "string option"
  sec_device_auth_password :: string
  sec_session_timeout :: u32

definition secure_client_config :: "security_config \<Rightarrow> session_config" where
  "secure_client_config security =
     \<lparr>sf_user_id = 1, sf_user_password = (case sec_user_password security of Some p \<Rightarrow> p | None \<Rightarrow> []),
      sf_device_auth_password = Some (sec_device_auth_password security),
      sf_keepalive_interval = sec_session_timeout security\<rparr>"

definition client_session_request :: "crypto \<Rightarrow> security_config \<Rightarrow> bytes \<Rightarrow> hpai \<Rightarrow> bytes \<times> secure_session" where
  "client_session_request c security rnd hpai =
     (case initialize c rnd (SecureSession_new c (secure_client_config security)) of (public_key, session) \<Rightarrow>
        ([0x06, 0x10, 0x09, 0x51, 0x00, 0x2E] @ Hpai_serialize hpai @ public_key, session))"

definition client_session_response :: "crypto \<Rightarrow> bytes \<Rightarrow> secure_session \<Rightarrow> bytes result \<times> secure_session" where
  "client_session_response c reply session =
     (if length reply < 56 then (Err (Transport InvalidConfiguration_Transport), session)
      else case bind_res (idx reply 6) (\<lambda>hi. bind_res (idx reply 7) (\<lambda>lo.
                bind_res (slice reply 8 40) (\<lambda>server_public_key.
                bind_res (slice reply 40 56) (\<lambda>server_mac.
                  Ok (u16_from_be_bytes hi lo, server_public_key, server_mac))))) of
          Ok (session_id, server_public_key, server_mac) \<Rightarrow>
            (case process_session_response c session_id server_public_key server_mac session of (r, session) \<Rightarrow>
               (bind_res r (\<lambda>auth_mac. Ok ([0x06, 0x10, 0x09, 0x53, 0x00, 0x18] @ [0x00, 1] @ auth_mac)), session))
        | Err e \<Rightarrow> (Err e, session)
        | Panic \<Rightarrow> (Panic, session))"

definition client_session_status :: "bytes \<Rightarrow> secure_session \<Rightarrow> unit result \<times> secure_session" where
  "client_session_status status_data session =
     (if length status_data < 8 then (Err (Transport InvalidConfiguration_Transport), session)
      else complete_authentication (status_data ! 7) session)"

section \<open>Frames and sessions\<close>

lemma session_updates [simp]:
  "xs_server (set_session p s xs) = xs_server xs" "xs_secure_config (set_session p s xs) = xs_secure_config xs"
  "xs_server (remove_session p xs) = xs_server xs" "xs_secure_config (remove_session p xs) = xs_secure_config xs"
  "xs_secure_sessions (remove_session p xs) = (xs_secure_sessions xs)(p := None)"
  "xs_secure_sessions (set_session p s xs) q =
     (if q = p then map_option (\<lambda>e. e\<lparr>se_session := s\<rparr>) (xs_secure_sessions xs p) else xs_secure_sessions xs q)"
  by (simp_all add: set_session_def remove_session_def)

abbreviation after_secure :: "'a secured \<Rightarrow> secure_server" where
  "after_secure h \<equiv> snd (snd h)"

lemma maybe_encrypt_server: "maybe_encrypt c f p xs = (r, xs') \<Longrightarrow> xs_server xs' = xs_server xs"
  by (auto simp: maybe_encrypt_def split: option.splits prod.splits)

lemma wrap_effects_server: "wrap_effects c out xs = (r, out', xs') \<Longrightarrow> xs_server xs' = xs_server xs"
  by (induction c out xs arbitrary: r out' xs' rule: wrap_effects.induct)
     (auto dest: maybe_encrypt_server split: prod.splits res.splits)

lemma wrap_effects_publish: "Publish t \<in> set (fst (snd (wrap_effects c out xs))) \<Longrightarrow> Publish t \<in> set out"
  by (induction c out xs rule: wrap_effects.induct) (auto split: prod.splits res.splits)

lemma forget_secure_server [simp]:
  "xs_server (forget_secure frame link xs) = xs_server xs"
  by (simp add: forget_secure_def split: res.splits option.splits)

lemma secure_dispatch_server:
  "xs_server (after_secure (secure_dispatch c snd_to now wall frame link enc xs)) =
     (if xs_secure_config xs \<noteq> None \<and> \<not> enc then xs_server xs
      else after (dispatch_plain_frame snd_to now wall frame link (xs_server xs)))"
  by (auto simp: secure_dispatch_def dest: wrap_effects_server split: prod.splits)

text \<open>What a frame can do, by its kind.\<close>

lemma session_request_server:
  "xs_server (after_secure (handle_session_request c rnd snd_to body link xs)) = xs_server xs"
  "Publish t \<notin> set (fst (snd (handle_session_request c rnd snd_to body link xs)))"
  by (auto simp: handle_session_request_def Let_def split: option.splits res.splits prod.splits)

lemma session_authenticate_server:
  "xs_server (after_secure (handle_session_authenticate c snd_to body link xs)) = xs_server xs"
  "Publish t \<notin> set (fst (snd (handle_session_authenticate c snd_to body link xs)))"
  by (auto simp: handle_session_authenticate_def Let_def split: option.splits res.splits prod.splits if_splits)

lemma no_id_simps [simp]:
  "after_secure (no_id h) = after_secure h" "fst (snd (no_id h)) = fst (snd h)"
  by (simp_all add: no_id_def split: prod.splits)

section \<open>The gate\<close>

text \<open>
  C12: No change without authentication.  When a server that requires security changes its client channels or publishes
  a telegram while it handles a frame, the sender's address has an authenticated session, and the frame was a wrapper that
  this session decrypts.  Every other frame, in particular every plain one, leaves the channels alone.
\<close>

theorem secure_gate:
  assumes "xs_secure_config xs \<noteq> None"
    and "xs_server (after_secure (secure_handle_frame c rnd snd_to now wall data link xs)) \<noteq> xs_server xs \<or>
      Publish t \<in> set (fst (snd (secure_handle_frame c rnd snd_to now wall data link xs)))"
  shows "\<exists>e plain n. xs_secure_sessions xs (link_peer_addr link) = Some e \<and> is_authenticated (se_session e) \<and>
    open_frame c data (se_session e) = Ok (plain, n)"
proof (rule ccontr)
  assume no: "\<nexists>e plain n. xs_secure_sessions xs (link_peer_addr link) = Some e \<and> is_authenticated (se_session e) \<and>
    open_frame c data (se_session e) = Ok (plain, n)"
  have plain: "secure_dispatch c snd_to now wall frame link False xs = (Ok None, [], xs)" for frame
    using assms(1) by (simp add: secure_dispatch_def)
  show False
    using assms(2) no session_request_server session_authenticate_server
    by (auto simp: secure_handle_frame_def plain decrypt_frame_def Let_def
        split: res.splits service_type.splits option.splits prod.splits if_splits)
qed

section \<open>Sessions in the table\<close>

text \<open>The entries that the handshake makes: a key pair, passwords and a session key of the right lengths.\<close>

definition entry_ok :: "secure_entry \<Rightarrow> bool" where
  "entry_ok e =
     ((case ss_key_pair (se_session e) of Some kp \<Rightarrow> length (kp_public kp) = 32 | None \<Rightarrow> False) \<and>
      length (se_client_public_key e) = 32 \<and> length (ss_user_password (se_session e)) = 16 \<and>
      sk_initialized (ss_session_key (se_session e)) \<and> length (sk_key (ss_session_key (se_session e))) = 16)"

definition entries_ok :: "secure_server \<Rightarrow> bool" where
  "entries_ok xs = (\<forall>p e. xs_secure_sessions xs p = Some e \<longrightarrow> entry_ok e)"

lemma entry_ok_update [simp]:
  "entry_ok (e\<lparr>se_session := (se_session e)\<lparr>ss_sequence_number := n\<rparr>\<rparr>) = entry_ok e"
  "entry_ok (e\<lparr>se_session := (se_session e)\<lparr>ss_sequence_number_received := n\<rparr>\<rparr>) = entry_ok e"
  "entry_ok (e\<lparr>se_session := (se_session e)\<lparr>ss_state := st\<rparr>\<rparr>) = entry_ok e"
  "entry_ok (e\<lparr>se_session := se_session e\<rparr>) = entry_ok e"
  by (simp_all add: entry_ok_def)

lemma entries_okD: "\<lbrakk>entries_ok xs; xs_secure_sessions xs p = Some e\<rbrakk> \<Longrightarrow> entry_ok e"
  unfolding entries_ok_def by blast

lemma entries_okI: "(\<And>p e. xs_secure_sessions xs p = Some e \<Longrightarrow> entry_ok e) \<Longrightarrow> entries_ok xs"
  unfolding entries_ok_def by blast

lemma entries_ok_set:
  "\<lbrakk>entries_ok xs; \<And>e. xs_secure_sessions xs p = Some e \<Longrightarrow> entry_ok (e\<lparr>se_session := s\<rparr>)\<rbrakk> \<Longrightarrow> entries_ok (set_session p s xs)"
  by (rule entries_okI) (auto dest: entries_okD split: if_splits)

lemma entries_ok_remove: "entries_ok xs \<Longrightarrow> entries_ok (remove_session p xs)"
  by (rule entries_okI) (auto dest: entries_okD split: if_splits)

lemma entries_ok_server [simp]: "entries_ok (xs\<lparr>xs_server := sv\<rparr>) = entries_ok xs"
  by (simp add: entries_ok_def)

lemma entries_ok_next [simp]: "entries_ok (xs\<lparr>xs_next_session_id := n\<rparr>) = entries_ok xs"
  by (simp add: entries_ok_def)

lemma entries_ok_insert:
  "\<lbrakk>entries_ok xs; entry_ok e\<rbrakk> \<Longrightarrow>
     entries_ok (xs\<lparr>xs_next_session_id := n, xs_secure_sessions := (xs_secure_sessions xs)(p \<mapsto> e)\<rparr>)"
  by (rule entries_okI) (auto dest: entries_okD split: if_splits)

lemma encrypt_entry:
  assumes "crypto_laws c" "entry_ok e"
  shows "\<exists>w. encrypt_frame c f (se_session e) =
    (Ok w, (se_session e)\<lparr>ss_sequence_number := ss_sequence_number (se_session e) + 1\<rparr>)"
  using sent_frame_opened [OF assms(1), of "se_session e"
      "(se_session e)\<lparr>ss_sequence_number_received := 0\<rparr>" f] assms(2)
  by (auto simp: entry_ok_def fresh_number_def)

text \<open>With such entries every reply can be encrypted.\<close>

lemma wrap_effects_ok:
  assumes "crypto_laws c" "entries_ok xs"
  shows "fst (wrap_effects c out xs) = Ok () \<and> entries_ok (after_secure (wrap_effects c out xs))"
  using assms
proof (induction c out xs rule: wrap_effects.induct)
  case (2 c link frame out xs)
  obtain w xs' where m: "maybe_encrypt c frame (link_peer_addr link) xs = (Ok w, xs')" "entries_ok xs'"
  proof (cases "xs_secure_sessions xs (link_peer_addr link)")
    case None
    then show ?thesis
      using that 2(3) by (simp add: maybe_encrypt_def)
  next
    case (Some e)
    then have "entry_ok e"
      by (rule entries_okD [OF 2(3)])
    from encrypt_entry [OF 2(2) this, of frame] obtain w where
      "encrypt_frame c frame (se_session e) =
        (Ok w, (se_session e)\<lparr>ss_sequence_number := ss_sequence_number (se_session e) + 1\<rparr>)"
      by blast
    moreover have "entries_ok (set_session (link_peer_addr link)
        ((se_session e)\<lparr>ss_sequence_number := ss_sequence_number (se_session e) + 1\<rparr>) xs)"
      using Some \<open>entry_ok e\<close> by (intro entries_ok_set [OF 2(3)]) simp
    ultimately show ?thesis
      using Some that by (simp add: maybe_encrypt_def)
  qed
  then show ?case
    using 2(1) [OF m(1) [symmetric] refl 2(2) m(2)] m(1) by (auto split: prod.splits)
qed (auto split: prod.splits)

lemma entries_ok_dispatch:
  assumes "crypto_laws c" "entries_ok xs"
  shows "entries_ok (after_secure (secure_dispatch c snd_to now wall frame link enc xs))"
proof -
  have "entries_ok (forget_secure frame link xs)"
    using assms(2) by (simp add: forget_secure_def entries_ok_remove split: res.splits)
  then have "entries_ok ys" if "wrap_effects c out ((forget_secure frame link xs)\<lparr>xs_server := sv\<rparr>) = (w, out', ys)" for out sv w out' ys
    using wrap_effects_ok [OF assms(1), of "(forget_secure frame link xs)\<lparr>xs_server := sv\<rparr>" out] that by simp
  then show ?thesis
    using assms by (auto simp: secure_dispatch_def split: prod.splits)
qed

lemma verify_session:
  "verify_authenticate_mac c k u m s = (r, s') \<Longrightarrow> s' = s \<or> s' = s\<lparr>ss_state := SS_Authenticated\<rparr>"
  by (auto simp: verify_authenticate_mac_def split: if_splits option.splits res.splits)

lemma entries_ok_authenticate:
  assumes "entries_ok xs"
  shows "entries_ok (after_secure (handle_session_authenticate c snd_to body link xs))"
proof -
  have "entries_ok (set_session (link_peer_addr link) s xs)"
    if "xs_secure_sessions xs (link_peer_addr link) = Some e"
      "verify_authenticate_mac c (se_client_public_key e) u m (se_session e) = (r, s)" for e u m r s
    using that(1) verify_session [OF that(2)] entries_okD [OF assms that(1)] by (auto intro!: entries_ok_set [OF assms])
  then show ?thesis
    using assms
    by (auto simp: handle_session_authenticate_def Let_def entries_ok_remove split: res.splits option.splits prod.splits)
qed

lemma request_session:
  assumes "crypto_laws c" "initialize c rnd (SecureSession_new c cfg) = (pk, s)"
    "process_session_request c client_key sid s = (Ok m, s')" "length client_key = 32"
  shows "entry_ok \<lparr>se_session = s', se_client_public_key = client_key\<rparr>"
  using assms
  by (auto simp: process_session_request_def initialize_def SecureSession_new_def EcdhKeyPair_generate_def entry_ok_def
      derived_key_def sha256_hash_def crypto_laws_def derive_user_password_def KEY_LENGTH_def Let_def
      split: option.splits res.splits)

lemma entries_ok_request:
  assumes "crypto_laws c" "entries_ok xs"
  shows "entries_ok (after_secure (handle_session_request c rnd snd_to body link xs))"
proof -
  have "length (sreq_public_key r) = 32" if "SessionRequest_parse body = Ok r" for r
    using that by (auto simp: SessionRequest_parse_def)
  then show ?thesis
    using assms(2) request_session [OF assms(1)] entries_ok_insert [OF assms(2)]
    by (simp add: handle_session_request_def Let_def split: option.splits res.splits prod.splits)
qed

text \<open>The entries of the table are good whatever frames arrive.\<close>

lemma entries_ok_handle_frame:
  assumes "crypto_laws c" "entries_ok xs"
  shows "entries_ok (after_secure (secure_handle_frame c rnd snd_to now wall data link xs))"
proof -
  have d: "entries_ok (set_session (link_peer_addr link) s xs)"
    if "xs_secure_sessions xs (link_peer_addr link) = Some e" "decrypt_frame c data (se_session e) = (r, s)" for e r s
    using that entries_okD [OF assms(2) that(1)]
    by (auto simp: decrypt_frame_def intro!: entries_ok_set [OF assms(2)] split: res.splits)
  show ?thesis
    using assms d entries_ok_request [OF assms] entries_ok_authenticate [OF assms(2)] entries_ok_dispatch [OF assms(1)]
    by (auto simp: secure_handle_frame_def Let_def split: res.splits service_type.splits option.splits prod.splits)
qed

section \<open>Encrypted frames at the server\<close>

lemma wrapper_frame:
  assumes "encrypt_frame c plain s = (Ok w, s')" "length w = length plain + 38" "length plain \<le> 65497"
  shows "\<exists>body. KnxIpFrame_parse w = Ok (KnxIpFrame_new SecureWrapper body)"
proof -
  obtain body where w: "w = [0x06, 0x10, 0x09, 0x50] @ u16_to_be_bytes (as_u16 (38 + length plain)) @ body"
    using assms(1)
    by (auto simp: encrypt_frame_def Let_def split: if_splits prod.splits dest!: sym [of _ w])
  then have len: "length body = length plain + 32"
    using assms(2) by simp
  have "w = KnxIpFrame_serialize (KnxIpFrame_new SecureWrapper body) @ []"
    by (simp add: w len KnxIpFrame_serialize_def KnxIpFrame_new_def KnxIpHeader_new_def KnxIpHeader_serialize_def
        u16_to_be_bytes_def)
  then show ?thesis
    using KnxIpFrame_parse_serialize [OF KnxIpFrame_new_fits, of body SecureWrapper "[]"] len assms(3) by auto
qed

fun is_inner :: "effect \<Rightarrow> bool" where
  "is_inner (Reply _ _) = False"
| "is_inner (Publish _) = True"
| "is_inner (Pass_Ack _ _) = True"

lemma wrap_effects_filter:
  "fst (wrap_effects c out xs) = Ok () \<Longrightarrow> filter is_inner (fst (snd (wrap_effects c out xs))) = filter is_inner out"
  by (induction c out xs rule: wrap_effects.induct) (auto split: prod.splits res.splits)

lemma secure_dispatch_plain:
  assumes "crypto_laws c" "entries_ok xs"
  shows "fst (secure_dispatch c snd_to now wall frame link True xs) =
      fst (dispatch_plain_frame snd_to now wall frame link (xs_server xs))"
    "filter is_inner (fst (snd (secure_dispatch c snd_to now wall frame link True xs))) =
      filter is_inner (fst (snd (dispatch_plain_frame snd_to now wall frame link (xs_server xs))))"
proof -
  have ok: "entries_ok ((forget_secure frame link xs)\<lparr>xs_server := sv\<rparr>)" for sv
    using assms(2) by (simp add: forget_secure_def entries_ok_remove split: res.splits)
  have w: "fst (wrap_effects c out ((forget_secure frame link xs)\<lparr>xs_server := sv\<rparr>)) = Ok ()" for out sv
    using wrap_effects_ok [OF assms(1) ok] by simp
  note f = wrap_effects_filter [OF w]
  show "fst (secure_dispatch c snd_to now wall frame link True xs) =
      fst (dispatch_plain_frame snd_to now wall frame link (xs_server xs))"
    using w by (auto simp: secure_dispatch_def split: prod.splits) (metis bind_res.simps(1) fst_conv)
  show "filter is_inner (fst (snd (secure_dispatch c snd_to now wall frame link True xs))) =
      filter is_inner (fst (snd (dispatch_plain_frame snd_to now wall frame link (xs_server xs))))"
    using f by (auto simp: secure_dispatch_def split: prod.splits) (metis fst_conv snd_conv)
qed

lemma wrapper_handled:
  assumes "crypto_laws c" "entries_ok xs" "xs_secure_sessions xs (link_peer_addr link) = Some e"
    "is_authenticated (se_session e)" "ss_session_key client = ss_session_key (se_session e)"
    "ss_session_id client = ss_session_id (se_session e)"
    "fresh_number (ss_sequence_number_received (se_session e)) (take_bit 48 (ss_sequence_number client))"
    "length f \<le> 65497"
  shows "\<exists>w xs'. fst (encrypt_frame c f client) = Ok w \<and> entries_ok xs' \<and> xs_server xs' = xs_server xs \<and>
    secure_handle_frame c rnd snd_to now wall w link xs =
      (case KnxIpFrame_parse f of
         Err x \<Rightarrow> (Err x, [], xs')
       | Panic \<Rightarrow> (Panic, [], xs')
       | Ok inner \<Rightarrow> secure_dispatch c snd_to now wall inner link True xs')"
proof -
  have e: "entry_ok e"
    by (rule entries_okD [OF assms(2,3)])
  then have key: "sk_initialized (ss_session_key client)" "length (sk_key (ss_session_key client)) = 16"
    unfolding entry_ok_def assms(5) by simp_all
  let ?q = "take_bit 48 (ss_sequence_number client)"
  let ?s = "(se_session e)\<lparr>ss_sequence_number_received := ?q\<rparr>"
  let ?xs = "set_session (link_peer_addr link) ?s xs"
  obtain w where w: "encrypt_frame c f client = (Ok w, client\<lparr>ss_sequence_number := ss_sequence_number client + 1\<rparr>)"
    "length w = length f + 38" "open_frame c w (se_session e) = Ok (f, ?q)"
    using sent_frame_opened [OF assms(1) key assms(5,6) [symmetric] assms(7), of f] by blast
  obtain body where p: "KnxIpFrame_parse w = Ok (KnxIpFrame_new SecureWrapper body)"
    using wrapper_frame [OF w(1,2) assms(8)] by blast
  have ok: "entries_ok ?xs"
    using assms(3) e by (intro entries_ok_set [OF assms(2)]) simp
  have sent: "fst (encrypt_frame c f client) = Ok w"
    by (simp add: w(1))
  have handled: "secure_handle_frame c rnd snd_to now wall w link xs =
      (case KnxIpFrame_parse f of
         Err x \<Rightarrow> (Err x, [], ?xs)
       | Panic \<Rightarrow> (Panic, [], ?xs)
       | Ok inner \<Rightarrow> secure_dispatch c snd_to now wall inner link True ?xs)"
    using assms(3,4) p w(3) by (simp add: secure_handle_frame_def decrypt_frame_def Let_def)
  show ?thesis
    by (intro exI [of _ w] exI [of _ ?xs] conjI) (rule sent ok handled session_updates)+
qed

lemma wrapper_server:
  assumes "crypto_laws c" "entries_ok xs" "xs_secure_sessions xs (link_peer_addr link) = Some e"
    "is_authenticated (se_session e)" "ss_session_key client = ss_session_key (se_session e)"
    "ss_session_id client = ss_session_id (se_session e)"
    "fresh_number (ss_sequence_number_received (se_session e)) (take_bit 48 (ss_sequence_number client))"
    "length f \<le> 65497"
  shows "\<exists>w. fst (encrypt_frame c f client) = Ok w \<and>
    xs_server (after_secure (secure_handle_frame c rnd snd_to now wall w link xs)) =
      after (server_handle_frame snd_to now wall f link (xs_server xs))"
  using wrapper_handled [OF assms, of rnd snd_to now wall]
  by (auto simp: secure_dispatch_server server_handle_frame_def split: res.split)

text \<open>
  C14: Encryption is transparent.  Let the address of a client have an authenticated session on the server, and let the
  client's session have its key and id and a next number that is new to the server.  Whatever frame the client
  encrypts, valid or not, the server treats the wrapper like a server without security the frame itself: the same result, the
  same changes to its channels, the same telegrams published and acks passed on, in the same order.
\<close>

theorem encrypted_frame_dispatched:
  assumes "crypto_laws c" "entries_ok xs" "xs_secure_sessions xs (link_peer_addr link) = Some e"
    "is_authenticated (se_session e)" "ss_session_key client = ss_session_key (se_session e)"
    "ss_session_id client = ss_session_id (se_session e)"
    "fresh_number (ss_sequence_number_received (se_session e)) (take_bit 48 (ss_sequence_number client))"
    "length f \<le> 65497"
  shows "\<exists>w r out xs' r' out' sv'. fst (encrypt_frame c f client) = Ok w \<and>
    secure_handle_frame c rnd snd_to now wall w link xs = (r, out, xs') \<and>
    server_handle_frame snd_to now wall f link (xs_server xs) = (r', out', sv') \<and>
    r = r' \<and> xs_server xs' = sv' \<and> filter is_inner out = filter is_inner out'"
proof -
  obtain w ys where w: "fst (encrypt_frame c f client) = Ok w" "entries_ok ys" "xs_server ys = xs_server xs"
    and handled: "secure_handle_frame c rnd snd_to now wall w link xs =
      (case KnxIpFrame_parse f of
         Err x \<Rightarrow> (Err x, [], ys)
       | Panic \<Rightarrow> (Panic, [], ys)
       | Ok inner \<Rightarrow> secure_dispatch c snd_to now wall inner link True ys)"
    using wrapper_handled [OF assms] by blast
  let ?h = "secure_handle_frame c rnd snd_to now wall w link xs"
  let ?g = "server_handle_frame snd_to now wall f link (xs_server xs)"
  have "fst ?h = fst ?g \<and> xs_server (after_secure ?h) = after ?g \<and>
      filter is_inner (fst (snd ?h)) = filter is_inner (fst (snd ?g))"
  proof (cases "KnxIpFrame_parse f")
    case (Ok inner)
    then show ?thesis
      using secure_dispatch_plain [OF assms(1) w(2), of snd_to now wall inner link]
        secure_dispatch_server [of c snd_to now wall inner link True ys]
      by (simp add: handled server_handle_frame_def w(3))
  qed (simp_all add: handled server_handle_frame_def w(3))
  then show ?thesis
    using w(1) by (cases ?h; cases ?g) auto
qed

section \<open>Who is authenticated\<close>

definition authenticated_at :: "secure_server \<Rightarrow> socket_addr \<Rightarrow> bool" where
  "authenticated_at xs p = (case xs_secure_sessions xs p of Some e \<Rightarrow> is_authenticated (se_session e) | None \<Rightarrow> False)"

lemma authenticated_at_simps [simp]:
  "authenticated_at (remove_session p xs) q = (q \<noteq> p \<and> authenticated_at xs q)"
  "authenticated_at (xs\<lparr>xs_server := sv\<rparr>) q = authenticated_at xs q"
  "authenticated_at (xs\<lparr>xs_next_session_id := n\<rparr>) q = authenticated_at xs q"
  by (auto simp: authenticated_at_def)

lemma authenticated_at_set:
  assumes "xs_secure_sessions xs p = Some e" "ss_state s = ss_state (se_session e)"
  shows "authenticated_at (set_session p s xs) q = authenticated_at xs q"
  using assms by (auto simp: authenticated_at_def is_authenticated_def)

lemma encrypt_frame_state: "encrypt_frame c f s = (r, s') \<Longrightarrow> ss_state s' = ss_state s"
  by (auto simp: encrypt_frame_def get_next_sequence_number_def Let_def split: if_splits)

lemma decrypt_frame_state: "decrypt_frame c f s = (r, s') \<Longrightarrow> ss_state s' = ss_state s"
  by (auto simp: decrypt_frame_def split: res.splits)

lemma maybe_encrypt_authenticated:
  "maybe_encrypt c f p xs = (r, xs') \<Longrightarrow> authenticated_at xs' q = authenticated_at xs q"
  by (auto simp: maybe_encrypt_def authenticated_at_set dest: encrypt_frame_state split: option.splits prod.splits)

lemma wrap_effects_authenticated:
  "wrap_effects c out xs = (r, out', xs') \<Longrightarrow> authenticated_at xs' q = authenticated_at xs q"
  by (induction c out xs arbitrary: r out' xs' rule: wrap_effects.induct)
     (auto dest: maybe_encrypt_authenticated split: prod.splits res.splits)

lemma dispatch_authenticated:
  assumes "authenticated_at (after_secure (secure_dispatch c snd_to now wall frame link enc xs)) q"
  shows "authenticated_at xs q"
proof -
  have "authenticated_at (forget_secure frame link xs) q \<Longrightarrow> authenticated_at xs q"
    by (simp add: forget_secure_def split: if_splits res.splits)
  then show ?thesis
    using assms by (auto simp: secure_dispatch_def dest: wrap_effects_authenticated [where q = q] split: prod.splits if_splits)
qed

lemma request_not_authenticated:
  assumes "initialize c rnd (SecureSession_new c cfg) = (pk, s)" "process_session_request c k sid s = (r, s')"
  shows "\<not> is_authenticated s'"
  using assms
  by (auto simp: initialize_def process_session_request_def is_authenticated_def Let_def split: option.splits res.splits)

lemma session_request_authenticated:
  assumes "authenticated_at (after_secure (handle_session_request c rnd snd_to body link xs)) q"
  shows "authenticated_at xs q"
proof -
  have "authenticated_at xs q"
    if "authenticated_at (xs\<lparr>xs_next_session_id := n, xs_secure_sessions := (xs_secure_sessions xs)(p \<mapsto> e)\<rparr>) q"
      "\<not> is_authenticated (se_session e)" for n p e
    using that by (auto simp: authenticated_at_def split: if_splits)
  then show ?thesis
    using assms request_not_authenticated
    by (simp add: handle_session_request_def Let_def split: option.splits res.splits prod.splits if_splits)
qed

text \<open>
  C13: Passwords.  When a frame makes the session of some address authenticated, the address is the sender's, there was
  an unauthenticated session for it, and the frame is an authenticate message with the user id of the
  session and with the code that its password gives for the two public keys.
\<close>

theorem authenticated_by_password:
  assumes "crypto_laws c" "entries_ok xs" "\<not> authenticated_at xs p"
    "authenticated_at (after_secure (secure_handle_frame c rnd snd_to now wall data link xs)) p"
  shows "p = link_peer_addr link \<and> (\<exists>frame auth e.
    KnxIpFrame_parse data = Ok frame \<and> kh_service_type (kf_header frame) = SessionAuthenticate \<and>
    SessionAuthenticate_parse (kf_body frame) = Ok auth \<and> xs_secure_sessions xs p = Some e \<and>
    sauth_user_id auth = ss_user_id (se_session e) \<and>
    generate_authenticate_mac c (se_client_public_key e) (se_session e) = Ok (sauth_mac auth))"
proof -
  let ?peer = "link_peer_addr link"
  obtain frame where frame: "KnxIpFrame_parse data = Ok frame"
    using assms(3,4) by (cases "KnxIpFrame_parse data") (auto simp: secure_handle_frame_def)
  have dec: "\<not> authenticated_at (set_session ?peer s xs) p"
    if "xs_secure_sessions xs ?peer = Some e" "decrypt_frame c data (se_session e) = (r, s)" for e r s
    using assms(3) authenticated_at_set [OF that(1) decrypt_frame_state [OF that(2)]] by simp
  have kind: "kh_service_type (kf_header frame) = SessionAuthenticate"
  proof (rule ccontr)
    assume "kh_service_type (kf_header frame) \<noteq> SessionAuthenticate"
    then show False
      using assms(3,4) dec session_request_authenticated [of c rnd snd_to "kf_body frame" link xs p]
      by (auto simp: secure_handle_frame_def frame Let_def dest: dispatch_authenticated
          split: service_type.splits option.splits prod.splits res.splits if_splits)
  qed
  then have auth: "authenticated_at (after_secure (handle_session_authenticate c snd_to (kf_body frame) link xs)) p"
    using assms(4) by (simp add: secure_handle_frame_def frame)
  then obtain a where a: "SessionAuthenticate_parse (kf_body frame) = Ok a"
    using assms(3) by (cases "SessionAuthenticate_parse (kf_body frame)") (auto simp: handle_session_authenticate_def)
  obtain e where e: "xs_secure_sessions xs ?peer = Some e"
    using assms(3) auth by (cases "xs_secure_sessions xs ?peer") (auto simp: handle_session_authenticate_def a Let_def)
  obtain kp where kp: "ss_key_pair (se_session e) = Some kp" "length (kp_public kp) = length (se_client_public_key e)"
    "length (ss_user_password (se_session e)) = 16"
    using entries_okD [OF assms(2) e] by (auto simp: entry_ok_def split: option.splits)
  obtain m where m: "generate_authenticate_mac c (se_client_public_key e) (se_session e) = Ok m"
    "verify_authenticate_mac c (se_client_public_key e) u x (se_session e) =
       (if u = ss_user_id (se_session e) \<and> x = m then (Ok True, (se_session e)\<lparr>ss_state := SS_Authenticated\<rparr>)
        else (Ok False, se_session e))" for u x
    using authenticate_exact [OF assms(1) kp] by blast
  have same: "\<not> authenticated_at (set_session ?peer (se_session e) xs) p"
    using assms(3) authenticated_at_set [OF e refl] by simp
  have good: "sauth_user_id a = ss_user_id (se_session e) \<and> sauth_mac a = m"
  proof (rule ccontr)
    assume "\<not> ?thesis"
    then show False
      using auth same by (auto simp: handle_session_authenticate_def a e m Let_def split: res.splits)
  qed
  moreover have "p = ?peer"
  proof (rule ccontr)
    assume "p \<noteq> ?peer"
    then have "authenticated_at (set_session ?peer s xs) p = authenticated_at xs p" for s
      by (simp add: authenticated_at_def)
    then show False
      using auth good assms(3) by (auto simp: handle_session_authenticate_def a e m Let_def split: res.splits)
  qed
  ultimately show ?thesis
    using frame kind a e m(1) by auto
qed

text \<open>
  Anybody at the address can end a session.  An authenticate message with another user id, sent in the
  clear from the address of a client with an established session, removes the session, whatever its code is.
\<close>

lemma session_evicted:
  assumes "xs_secure_sessions xs (link_peer_addr link) = Some e" "user_id \<noteq> ss_user_id (se_session e)" "length mac = 16"
    "snd_to link = Ok ()"
  shows "xs_secure_sessions (after_secure (secure_handle_frame c rnd snd_to now wall
      (KnxIpFrame_serialize (KnxIpFrame_new SessionAuthenticate
        (SessionAuthenticate_serialize \<lparr>sauth_user_id = user_id, sauth_mac = mac\<rparr>))) link xs)) (link_peer_addr link) = None"
proof -
  let ?a = "\<lparr>sauth_user_id = user_id, sauth_mac = mac\<rparr>"
  have len: "length (SessionAuthenticate_serialize ?a) \<le> 65529"
    using assms(3) by (simp add: SessionAuthenticate_serialize_def)
  have "SessionAuthenticate_parse (SessionAuthenticate_serialize ?a) = Ok ?a"
    using assms(3) by (simp add: SessionAuthenticate_parse_def SessionAuthenticate_serialize_def)
  then show ?thesis
    using KnxIpFrame_parse_serialize [OF KnxIpFrame_new_fits [OF len], of SessionAuthenticate "[]"] assms(1,2,4)
    by (simp add: secure_handle_frame_def handle_session_authenticate_def verify_authenticate_mac_def Let_def)
qed

section \<open>Establishing a session\<close>

lemma session_request_frame:
  assumes "length key = 32"
  shows "[0x06, 0x10, 0x09, 0x51, 0x00, 0x2E] @ Hpai_serialize hpai @ key =
    KnxIpFrame_serialize (KnxIpFrame_new SessionRequest
      (SessionRequest_serialize \<lparr>sreq_control_endpoint = hpai, sreq_public_key = key\<rparr>))"
  using assms
  by (simp add: KnxIpFrame_serialize_def KnxIpFrame_new_def KnxIpHeader_new_def KnxIpHeader_serialize_def
      SessionRequest_serialize_def u16_to_be_bytes_def)

lemma session_authenticate_frame:
  assumes "length mac = 16"
  shows "[0x06, 0x10, 0x09, 0x53, 0x00, 0x18] @ [0x00, u] @ mac =
    KnxIpFrame_serialize (KnxIpFrame_new SessionAuthenticate
      (SessionAuthenticate_serialize \<lparr>sauth_user_id = u, sauth_mac = mac\<rparr>))"
  using assms
  by (simp add: KnxIpFrame_serialize_def KnxIpFrame_new_def KnxIpHeader_new_def KnxIpHeader_serialize_def
      SessionAuthenticate_serialize_def u16_to_be_bytes_def)

lemma client_reads_response:
  assumes "length key = 32" "length mac = 16"
  shows "client_session_response c (KnxIpFrame_serialize (KnxIpFrame_new SessionResponse
      (SessionResponse_serialize \<lparr>sresp_session_id = sid, sresp_public_key = key, sresp_mac = mac\<rparr>))) s =
    (case process_session_response c sid key mac s of (r, s') \<Rightarrow>
       (bind_res r (\<lambda>m. Ok ([0x06, 0x10, 0x09, 0x53, 0x00, 0x18] @ [0x00, 1] @ m)), s'))"
proof -
  let ?f = "KnxIpFrame_serialize (KnxIpFrame_new SessionResponse
      (SessionResponse_serialize \<lparr>sresp_session_id = sid, sresp_public_key = key, sresp_mac = mac\<rparr>))"
  have f: "?f = KnxIpHeader_serialize (KnxIpHeader_new SessionResponse (as_u16 50)) @
      [ucast (drop_bit 8 sid), ucast sid] @ key @ mac"
    using assms
    by (simp add: KnxIpFrame_serialize_def KnxIpFrame_new_def SessionResponse_serialize_def u16_to_be_bytes_def)
  show ?thesis
    unfolding client_session_response_def f using assms by (simp add: nth_append drop_Cons')
qed

lemma client_reads_status:
  "client_session_status (KnxIpFrame_serialize (KnxIpFrame_new SessionStatus (SessionStatus_serialize \<lparr>sstat_status = 0\<rparr>))) s =
     (Ok (), s\<lparr>ss_state := SS_Authenticated\<rparr>)"
  by (simp add: client_session_status_def KnxIpFrame_serialize_def KnxIpFrame_new_def SessionStatus_serialize_def
      KnxIpHeader_serialize_def u16_to_be_bytes_def complete_authentication_def)

lemma request_answered:
  assumes "xs_secure_config xs = Some cfg" "initialize c rnd (SecureSession_new c cfg) = (sk, server)"
    "process_session_request c ck (xs_next_session_id xs) server = (Ok m, server')" "snd_to link = Ok ()" "hpai_fits hpai"
    "length ck = 32" "length sk = 32" "length m = 16"
  shows "secure_handle_frame c rnd snd_to now wall ([0x06, 0x10, 0x09, 0x51, 0x00, 0x2E] @ Hpai_serialize hpai @ ck) link xs =
    (Ok None,
     [Reply link (KnxIpFrame_serialize (KnxIpFrame_new SessionResponse (SessionResponse_serialize
        \<lparr>sresp_session_id = xs_next_session_id xs, sresp_public_key = sk, sresp_mac = m\<rparr>)))],
     xs\<lparr>xs_next_session_id := xs_next_session_id xs + 1, xs_secure_sessions := (xs_secure_sessions xs)
       (link_peer_addr link \<mapsto> \<lparr>se_session = server', se_client_public_key = ck\<rparr>)\<rparr>)"
proof -
  let ?q = "\<lparr>sreq_control_endpoint = hpai, sreq_public_key = ck\<rparr>"
  have "KnxIpFrame_parse ([0x06, 0x10, 0x09, 0x51, 0x00, 0x2E] @ Hpai_serialize hpai @ ck) =
      Ok (KnxIpFrame_new SessionRequest (SessionRequest_serialize ?q))"
    using KnxIpFrame_parse_serialize [OF KnxIpFrame_new_fits, of "SessionRequest_serialize ?q" SessionRequest "[]"] assms(6)
    unfolding session_request_frame [OF assms(6)] by (simp add: SessionRequest_serialize_def)
  moreover have "SessionRequest_parse (SessionRequest_serialize ?q) = Ok ?q"
    using assms(5,6) Hpai_parse_serialize [of hpai ck] by (simp add: SessionRequest_parse_def SessionRequest_serialize_def)
  ultimately show ?thesis
    using assms
    by (simp add: secure_handle_frame_def handle_session_request_def Let_def no_id_def del: append.simps append_Cons)
qed

lemma authentication_answered:
  assumes "xs_secure_sessions xs (link_peer_addr link) = Some e"
    "verify_authenticate_mac c (se_client_public_key e) u m (se_session e) = (Ok True, s)" "snd_to link = Ok ()"
    "length m = 16"
  shows "secure_handle_frame c rnd snd_to now wall ([0x06, 0x10, 0x09, 0x53, 0x00, 0x18] @ [0x00, u] @ m) link xs =
    (Ok None, [Reply link (KnxIpFrame_serialize (KnxIpFrame_new SessionStatus (SessionStatus_serialize \<lparr>sstat_status = 0\<rparr>)))],
     set_session (link_peer_addr link) s xs)"
proof -
  let ?a = "\<lparr>sauth_user_id = u, sauth_mac = m\<rparr>"
  have "KnxIpFrame_parse ([0x06, 0x10, 0x09, 0x53, 0x00, 0x18] @ [0x00, u] @ m) =
      Ok (KnxIpFrame_new SessionAuthenticate (SessionAuthenticate_serialize ?a))"
    using KnxIpFrame_parse_serialize [OF KnxIpFrame_new_fits, of "SessionAuthenticate_serialize ?a" SessionAuthenticate "[]"]
      assms(4)
    unfolding session_authenticate_frame [OF assms(4)] by (simp add: SessionAuthenticate_serialize_def)
  moreover have "SessionAuthenticate_parse (SessionAuthenticate_serialize ?a) = Ok ?a"
    using assms(4) by (simp add: SessionAuthenticate_parse_def SessionAuthenticate_serialize_def)
  ultimately show ?thesis
    using assms(1-3)
    by (simp add: secure_handle_frame_def handle_session_authenticate_def Let_def no_id_def del: append.simps append_Cons)
qed

text \<open>
  The handshake.  The frames of \<open>connect_secure\<close> and the answers of a server with the same passwords and the user id 1: both
  sessions are authenticated, have the same id and key and no frame counted.
\<close>

lemma handshake_run:
  assumes laws: "crypto_laws c" and "hpai_fits hpai" and sent: "snd_to link = Ok ()"
    and cfg: "xs_secure_config xs = Some cfg" "sf_user_id cfg = 1"
      "sf_user_password cfg = sf_user_password (secure_client_config security)"
      "sf_device_auth_password cfg = Some (sec_device_auth_password security)"
    and req: "client_session_request c security r1 hpai = (req, client0)"
  shows "\<exists>reply xs1 auth client1 status xs2 client2 e.
    secure_handle_frame c r2 snd_to now wall req link xs = (Ok None, [Reply link reply], xs1) \<and>
    client_session_response c reply client0 = (Ok auth, client1) \<and>
    secure_handle_frame c r3 snd_to now' wall' auth link xs1 = (Ok None, [Reply link status], xs2) \<and>
    client_session_status status client1 = (Ok (), client2) \<and>
    xs_server xs2 = xs_server xs \<and> xs_secure_sessions xs2 (link_peer_addr link) = Some e \<and>
    is_authenticated client2 \<and> is_authenticated (se_session e) \<and>
    ss_session_id client2 = xs_next_session_id xs \<and> ss_session_id (se_session e) = xs_next_session_id xs \<and>
    ss_session_key client2 = ss_session_key (se_session e) \<and> ss_sequence_number client2 = 0 \<and>
    ss_sequence_number_received (se_session e) = 0 \<and> ss_sequence_number (se_session e) = 0 \<and>
    ss_sequence_number_received client2 = 0"
proof -
  let ?sid = "xs_next_session_id xs"
  have new: "SecureSession_new c cfg = SecureSession_new c (secure_client_config security)"
    using cfg(2-4) by (simp add: SecureSession_new_def secure_client_config_def)
  obtain ck where ck: "initialize c r1 (SecureSession_new c cfg) = (ck, client0)"
    "req = [0x06, 0x10, 0x09, 0x51, 0x00, 0x2E] @ Hpai_serialize hpai @ ck"
    using req by (auto simp: client_session_request_def new split: prod.splits)
  obtain sk server where sk: "initialize c r2 (SecureSession_new c cfg) = (sk, server)"
    by (cases "initialize c r2 (SecureSession_new c cfg)")
  have len: "length ck = 32" "length sk = 32"
    using ck(1) sk laws by (auto simp: initialize_def EcdhKeyPair_generate_def crypto_laws_def Let_def)
  obtain m1 server1 m2 client1 server2 where h:
    "process_session_request c ck ?sid server = (Ok m1, server1)"
    "process_session_response c ?sid sk m1 client0 = (Ok m2, client1)"
    "verify_authenticate_mac c ck (ss_user_id client1) m2 server1 = (Ok True, server2)"
    and both: "is_authenticated server2" "ss_session_id client1 = ?sid" "ss_session_id server2 = ?sid"
    "ss_session_key client1 = ss_session_key server2" "ss_sequence_number client1 = 0"
    "ss_sequence_number_received server2 = 0" "ss_sequence_number server2 = 0" "ss_sequence_number_received client1 = 0"
    and lens: "length m1 = 16" "length m2 = 16"
    using handshake_completes [OF laws ck(1) sk, of ?sid] by blast
  have uid: "ss_user_id client1 = 1"
    using h(2) ck(1) cfg(2)
    by (auto simp: process_session_response_def initialize_def SecureSession_new_def Let_def split: option.splits res.splits)
  let ?reply = "KnxIpFrame_serialize (KnxIpFrame_new SessionResponse
      (SessionResponse_serialize \<lparr>sresp_session_id = ?sid, sresp_public_key = sk, sresp_mac = m1\<rparr>))"
  let ?xs1 = "xs\<lparr>xs_next_session_id := ?sid + 1, xs_secure_sessions := (xs_secure_sessions xs)
      (link_peer_addr link \<mapsto> \<lparr>se_session = server1, se_client_public_key = ck\<rparr>)\<rparr>"
  let ?auth = "[0x06, 0x10, 0x09, 0x53, 0x00, 0x18] @ [0x00, 1] @ m2"
  let ?status = "KnxIpFrame_serialize (KnxIpFrame_new SessionStatus (SessionStatus_serialize \<lparr>sstat_status = 0\<rparr>))"
  let ?xs2 = "set_session (link_peer_addr link) server2 ?xs1"
  have "secure_handle_frame c r2 snd_to now wall req link xs = (Ok None, [Reply link ?reply], ?xs1)"
    unfolding ck(2) by (rule request_answered [OF cfg(1) sk h(1) _ assms(2) len lens(1)]) (rule sent)
  moreover have "client_session_response c ?reply client0 = (Ok ?auth, client1)"
    using client_reads_response [OF len(2) lens(1)] h(2) by simp
  moreover have "secure_handle_frame c r3 snd_to now' wall' ?auth link ?xs1 = (Ok None, [Reply link ?status], ?xs2)"
    using h(3) uid sent lens(2)
    by (intro authentication_answered [where e = "\<lparr>se_session = server1, se_client_public_key = ck\<rparr>"]) simp_all
  moreover have "client_session_status ?status client1 = (Ok (), client1\<lparr>ss_state := SS_Authenticated\<rparr>)"
    by (rule client_reads_status)
  ultimately show ?thesis
    using both by (intro exI conjI) (assumption | simp add: is_authenticated_def)+
qed

text \<open>
  C11: A secure connection.  The frames that \<open>connect_secure\<close> sends to a server with the same passwords and the user id 1
  establish a session: the server answers the request and the authentication, the client accepts both answers,
  and the server's channels are as before.  After that, whatever frame the client encrypts first, for instance its connect
  request, changes the channels of the server like the plain frame those of a server without security.
\<close>

theorem secure_session_established:
  assumes laws: "crypto_laws c" and ok: "entries_ok xs" and "hpai_fits hpai" and "snd_to link = Ok ()"
    and "xs_secure_config xs = Some cfg" "sf_user_id cfg = 1"
      "sf_user_password cfg = sf_user_password (secure_client_config security)"
      "sf_device_auth_password cfg = Some (sec_device_auth_password security)"
    and "client_session_request c security r1 hpai = (req, client0)" and "length f \<le> 65497"
  shows "\<exists>reply xs1 auth client1 status xs2 client2 w.
    secure_handle_frame c r2 snd_to now wall req link xs = (Ok None, [Reply link reply], xs1) \<and>
    client_session_response c reply client0 = (Ok auth, client1) \<and>
    secure_handle_frame c r3 snd_to now wall auth link xs1 = (Ok None, [Reply link status], xs2) \<and>
    client_session_status status client1 = (Ok (), client2) \<and>
    is_authenticated client2 \<and> xs_server xs2 = xs_server xs \<and> fst (encrypt_frame c f client2) = Ok w \<and>
    xs_server (after_secure (secure_handle_frame c r4 snd_to now wall w link xs2)) =
      after (server_handle_frame snd_to now wall f link (xs_server xs))"
proof -
  obtain reply xs1 auth client1 status xs2 client2 e where run:
    "secure_handle_frame c r2 snd_to now wall req link xs = (Ok None, [Reply link reply], xs1)"
    "client_session_response c reply client0 = (Ok auth, client1)"
    "secure_handle_frame c r3 snd_to now wall auth link xs1 = (Ok None, [Reply link status], xs2)"
    "client_session_status status client1 = (Ok (), client2)" "xs_server xs2 = xs_server xs" "is_authenticated client2"
    and e: "xs_secure_sessions xs2 (link_peer_addr link) = Some e" "is_authenticated (se_session e)"
    "ss_session_id client2 = ss_session_id (se_session e)" "ss_session_key client2 = ss_session_key (se_session e)"
    "ss_sequence_number_received (se_session e) = 0"
    using handshake_run [where snd_to = snd_to and link = link and now = now and now' = now and wall = wall and wall' = wall and ?r2.0 = r2 and ?r3.0 = r3,
        OF laws assms(3-9)] by (elim exE conjE) simp
  have "entries_ok xs2"
    using entries_ok_handle_frame [OF laws entries_ok_handle_frame [OF laws ok], of r3 snd_to now wall auth link
        r2 snd_to now wall req link] run(1,3) by simp
  moreover have "fresh_number (ss_sequence_number_received (se_session e)) (take_bit 48 (ss_sequence_number client2))"
    by (simp add: e(5) fresh_number_def)
  ultimately obtain w where "fst (encrypt_frame c f client2) = Ok w"
    "xs_server (after_secure (secure_handle_frame c r4 snd_to now wall w link xs2)) =
       after (server_handle_frame snd_to now wall f link (xs_server xs2))"
    using wrapper_server [OF laws _ e(1,2,4,3) _ assms(10)] by blast
  then show ?thesis
    using run by (intro exI conjI) (assumption | simp)+
qed

section \<open>Examples\<close>

text \<open>A server that requires security, with an authenticated session for one client, and the client's session.\<close>

definition example_address :: socket_addr where
  "example_address = (V4 10 0 0 2, 5000)"

definition example_client :: secure_session where
  "example_client = (snd (initialize plain_crypto [2] (SecureSession_new plain_crypto SessionConfig_default)))
     \<lparr>ss_session_id := 5, ss_session_key := \<lparr>sk_key = replicate 16 9, sk_initialized = True\<rparr>, ss_state := SS_Authenticated\<rparr>"

definition example_secure_server :: secure_server where
  "example_secure_server = (secure_server_init (Some SessionConfig_default) (V4 10 0 0 1, 3671) (IndividualAddress 0x1101))
     \<lparr>xs_secure_sessions := [example_address \<mapsto> \<lparr>se_session = example_client, se_client_public_key = fit 32 [1]\<rparr>]\<rparr>"

lemma example_client_simps:
  "is_authenticated example_client" "ss_sequence_number_received example_client = 0" "ss_user_id example_client = 1"
  by (simp_all add: example_client_def initialize_def SecureSession_new_def SessionConfig_default_def
      is_authenticated_def Let_def)

lemma example_entries: "entries_ok example_secure_server"
  by (rule entries_okI)
     (auto simp: example_secure_server_def secure_server_init_def entry_ok_def example_client_def initialize_def SecureSession_new_def
        EcdhKeyPair_generate_def plain_crypto_def derive_user_password_def KEY_LENGTH_def Let_def split: if_splits)

lemma example_entry:
  "xs_secure_sessions example_secure_server (link_peer_addr (UdpLink example_address)) =
     Some \<lparr>se_session = example_client, se_client_public_key = fit 32 [1]\<rparr>"
  by (simp add: example_secure_server_def)

lemma length_sample_connect: "length sample_connect_frame \<le> 65497"
  by (simp add: sample_connect_frame_def KnxIpFrame_serialize_def ConnectRequest_serialize_def
      ConnectionRequestInfo_serialize_def ConnectRequest_new_route_back_def ConnectionRequestInfo_new_tunnel_def)

theorem encrypted_frame_dispatched_witness:
  "\<exists>w r out xs' r' out' sv'. fst (encrypt_frame plain_crypto [1, 2] example_client) = Ok w \<and>
    secure_handle_frame plain_crypto [] (\<lambda>_. Ok ()) 0 0 w (UdpLink example_address) example_secure_server = (r, out, xs') \<and>
    server_handle_frame (\<lambda>_. Ok ()) 0 0 [1, 2] (UdpLink example_address) (xs_server example_secure_server) = (r', out', sv') \<and>
    r = r' \<and> xs_server xs' = sv' \<and> filter is_inner out = filter is_inner out'"
  by (rule encrypted_frame_dispatched [OF plain_crypto_laws example_entries example_entry])
     (simp_all add: example_client_simps fresh_number_def)

theorem secure_gate_witness:
  "\<exists>w e plain n. fst (encrypt_frame plain_crypto sample_connect_frame example_client) = Ok w \<and>
     xs_secure_sessions example_secure_server (link_peer_addr (UdpLink example_address)) = Some e \<and>
     is_authenticated (se_session e) \<and> open_frame plain_crypto w (se_session e) = Ok (plain, n)"
proof -
  let ?ok = "\<lambda>_. Ok () :: unit result" and ?link = "UdpLink example_address"
  obtain w where w: "fst (encrypt_frame plain_crypto sample_connect_frame example_client) = Ok w"
    "xs_server (after_secure (secure_handle_frame plain_crypto [] ?ok 0 0 w ?link example_secure_server)) =
      after (server_handle_frame ?ok 0 0 sample_connect_frame ?link (xs_server example_secure_server))"
    using wrapper_server [OF plain_crypto_laws example_entries example_entry _ _ _ _ length_sample_connect, of example_client "[]" ?ok 0 0]
    by (auto simp: example_client_simps fresh_number_def)
  have "sv_sessions (xs_server example_secure_server) = Map.empty"
    by (simp add: example_secure_server_def secure_server_init_def server_init_def)
  then have "sv_sessions (xs_server (after_secure (secure_handle_frame plain_crypto [] ?ok 0 0 w ?link example_secure_server))) 1 \<noteq>
      sv_sessions (xs_server example_secure_server) 1"
    using sample_connects [of "xs_server example_secure_server" ?ok ?link 0 0] by (auto simp: w(2))
  then have "xs_server (after_secure (secure_handle_frame plain_crypto [] ?ok 0 0 w ?link example_secure_server)) \<noteq>
      xs_server example_secure_server"
    by metis
  moreover have "xs_secure_config example_secure_server \<noteq> None"
    by (simp add: example_secure_server_def secure_server_init_def)
  ultimately show ?thesis
    using secure_gate [of example_secure_server plain_crypto "[]" ?ok 0 0 w ?link] w(1) by blast
qed

definition example_security :: security_config where
  "example_security = \<lparr>sec_user_password = Some ''user'', sec_device_auth_password = ''device'', sec_session_timeout = 60\<rparr>"

definition example_fresh_server :: secure_server where
  "example_fresh_server =
     secure_server_init (Some (secure_client_config example_security)) (V4 10 0 0 1, 3671) (IndividualAddress 0x1101)"

definition example_hpai :: hpai where
  "example_hpai = Hpai_route_back"

lemma example_fresh:
  "entries_ok example_fresh_server" "hpai_fits example_hpai"
  "xs_secure_config example_fresh_server = Some (secure_client_config example_security)"
  "sf_user_id (secure_client_config example_security) = 1"
  "sf_device_auth_password (secure_client_config example_security) = Some (sec_device_auth_password example_security)"
  "\<not> authenticated_at example_fresh_server p" "xs_secure_sessions example_fresh_server p = None"
  by (simp_all add: example_fresh_server_def secure_server_init_def entries_ok_def example_hpai_def hpai_fits_def
      Hpai_route_back_def secure_client_config_def authenticated_at_def)

theorem secure_session_established_witness:
  "\<exists>reply xs1 auth client1 status xs2 client2 w.
    secure_handle_frame plain_crypto [2] (\<lambda>_. Ok ()) 0 0 (fst (client_session_request plain_crypto example_security [1] example_hpai))
      (UdpLink example_address) example_fresh_server = (Ok None, [Reply (UdpLink example_address) reply], xs1) \<and>
    client_session_response plain_crypto reply (snd (client_session_request plain_crypto example_security [1] example_hpai)) =
      (Ok auth, client1) \<and>
    secure_handle_frame plain_crypto [] (\<lambda>_. Ok ()) 0 0 auth (UdpLink example_address) xs1 =
      (Ok None, [Reply (UdpLink example_address) status], xs2) \<and>
    client_session_status status client1 = (Ok (), client2) \<and>
    is_authenticated client2 \<and> xs_server xs2 = xs_server example_fresh_server \<and>
    fst (encrypt_frame plain_crypto sample_connect_frame client2) = Ok w \<and>
    xs_server (after_secure (secure_handle_frame plain_crypto [] (\<lambda>_. Ok ()) 0 0 w (UdpLink example_address) xs2)) =
      after (server_handle_frame (\<lambda>_. Ok ()) 0 0 sample_connect_frame (UdpLink example_address) (xs_server example_fresh_server))"
  by (rule secure_session_established [OF plain_crypto_laws example_fresh(1,2) _ example_fresh(3,4) refl example_fresh(5) _
        length_sample_connect]) simp_all

theorem authenticated_by_password_witness:
  "\<exists>data (xs :: secure_server) frame auth e.
    KnxIpFrame_parse data = Ok frame \<and> kh_service_type (kf_header frame) = SessionAuthenticate \<and>
    SessionAuthenticate_parse (kf_body frame) = Ok auth \<and> xs_secure_sessions xs example_address = Some e \<and>
    sauth_user_id auth = ss_user_id (se_session e) \<and>
    generate_authenticate_mac plain_crypto (se_client_public_key e) (se_session e) = Ok (sauth_mac auth)"
proof -
  let ?ok = "\<lambda>_. Ok () :: unit result" and ?link = "UdpLink example_address"
  obtain req client0 where req: "client_session_request plain_crypto example_security [1] example_hpai = (req, client0)"
    by (cases "client_session_request plain_crypto example_security [1] example_hpai")
  obtain reply xs1 auth status xs2 e where run:
    "secure_handle_frame plain_crypto [2] ?ok 0 0 req ?link example_fresh_server = (Ok None, [Reply ?link reply], xs1)"
    "secure_handle_frame plain_crypto [] ?ok 0 0 auth ?link xs1 = (Ok None, [Reply ?link status], xs2)"
    "xs_secure_sessions xs2 example_address = Some e" "is_authenticated (se_session e)"
    using handshake_run [where snd_to = ?ok and link = ?link and now = 0 and now' = 0 and wall = 0 and wall' = 0 and
        ?r2.0 = "[2]" and ?r3.0 = "[]", OF plain_crypto_laws example_fresh(2) refl example_fresh(3,4) refl example_fresh(5) req]
    by (elim exE conjE) simp
  have after: "entries_ok xs1"
    using entries_ok_handle_frame [OF plain_crypto_laws example_fresh(1), of "[2]" ?ok 0 0 req ?link] run(1) by simp
  have "\<not> authenticated_at xs1 example_address"
    using authenticated_by_password [OF plain_crypto_laws example_fresh(1) example_fresh(6) [of example_address], of "[2]" ?ok 0 0 req ?link] run(1)
    by (auto simp: example_fresh(7))
  moreover have "authenticated_at xs2 example_address"
    using run(3,4) by (simp add: authenticated_at_def)
  ultimately show ?thesis
    using authenticated_by_password [OF plain_crypto_laws after, of example_address "[]" ?ok 0 0 auth ?link] run(2)
    by simp blast
qed

end
