(* ===== verification/Secure_Link.thy ===== *)
theory Secure_Link
  imports Secure_Server Tunnel Heartbeat
begin

text \<open>
  A secure tunnel in use: \<open>send_frame\<close> and \<open>recv_frame\<close> of \<open>Tunnel\<close> with a secure session and the frames that do not go
  through them (\<open>src/transport/tunnel.rs\<close>), and how a secure server sends telegrams (\<open>send_to_session\<close> and
  \<open>TunnelServer::send\<close> of \<open>src/transport/server.rs\<close>).

  Shown: what the client sends through \<open>send_frame\<close> arrives like on a plain tunnel (\<open>secure_send_received\<close>), and the
  client reads what the server encrypts (\<open>server_frame_read\<close>).  But its acks, heartbeats and disconnect requests go
  around the encryption, and a secure server drops them (\<open>unencrypted_ignored\<close>).  So the first telegram that a secure server
  sends to a client ends the client's channel (\<open>secure_telegram_drops_client\<close>), and every heartbeat fails
  (\<open>secure_heartbeat_lost\<close>).
\<close>

section \<open>The client\<close>

record secure_tunnel =
  st_tunnel :: tunnel
  st_secure_session :: "secure_session option"

definition secure_send_frame ::
  "crypto \<Rightarrow> net \<Rightarrow> bytes \<Rightarrow> secure_tunnel \<Rightarrow> unit result \<times> bytes list \<times> secure_tunnel" where
  "secure_send_frame c net frame st =
     (case st_secure_session st of
        Some session \<Rightarrow>
          if \<not> tn_transport (st_tunnel st) then
            (case tunnel_send_frame net frame (st_tunnel st) of (r, sent, t) \<Rightarrow> (r, sent, st\<lparr>st_tunnel := t\<rparr>))
          else
            (case encrypt_frame c frame session of
               (Ok data, session) \<Rightarrow>
                 (case tunnel_send_frame net data (st_tunnel st) of (r, sent, t) \<Rightarrow>
                    (r, sent, st\<lparr>st_tunnel := t, st_secure_session := Some session\<rparr>))
             | (Err e, session) \<Rightarrow>
                 (Err e, [], st\<lparr>st_tunnel := (st_tunnel st)\<lparr>tn_stats := record_send_error (Recorded e) (tn_stats (st_tunnel st))\<rparr>,
                   st_secure_session := Some session\<rparr>)
             | (Panic, session) \<Rightarrow> (Panic, [], st\<lparr>st_secure_session := Some session\<rparr>))
      | None \<Rightarrow> (case tunnel_send_frame net frame (st_tunnel st) of (r, sent, t) \<Rightarrow> (r, sent, st\<lparr>st_tunnel := t\<rparr>)))"

text \<open>\<open>recv_frame\<close> when the transport returns \<open>r\<close>.  An error of the decryption counts as a receive error.\<close>

definition secure_recv_frame :: "crypto \<Rightarrow> bytes result \<Rightarrow> secure_tunnel \<Rightarrow> bytes result \<times> secure_tunnel" where
  "secure_recv_frame c r st =
     (case (if tn_transport (st_tunnel st) then r else Err (Transport ConnectionClosed), st_secure_session st) of
        (Ok raw, Some session) \<Rightarrow>
          (case decrypt_frame c raw session of (d, session) \<Rightarrow>
             (case tunnel_recv_frame d (st_tunnel st) of (r, t) \<Rightarrow>
                (r, st\<lparr>st_tunnel := t, st_secure_session := Some session\<rparr>)))
      | (r, _) \<Rightarrow> (case tunnel_recv_frame r (st_tunnel st) of (r, t) \<Rightarrow> (r, st\<lparr>st_tunnel := t\<rparr>)))"

definition send_connectionstate_request :: "net \<Rightarrow> tunnel \<Rightarrow> unit result \<times> bytes list" where
  "send_connectionstate_request net t =
     (let req = \<lparr>csreq_channel_id = tn_channel_id t, csreq_control_endpoint = tn_local_hpai t\<rparr>;
          frame = KnxIpFrame_new ConnectionstateRequest (ConnectionstateRequest_serialize req) in
      case raw_send net t of
        Ok _ \<Rightarrow> (Ok (), [KnxIpFrame_serialize frame])
      | r \<Rightarrow> (r, []))"

text \<open>
  One round of the heartbeat task: the request, then the body of the response that the router delivers within the timeout,
  if there is one, at the time \<open>now\<close>.
\<close>

definition heartbeat_round :: "net \<Rightarrow> bytes option \<Rightarrow> nat \<Rightarrow> tunnel \<Rightarrow> heartbeat_monitor \<Rightarrow> bool \<times> heartbeat_monitor" where
  "heartbeat_round net response now t m =
     (if fst (send_connectionstate_request net t) \<noteq> Ok () then record_failure m
      else
        (case response of
           Some body \<Rightarrow>
             (case ConnectionstateResponse_parse body of
                Ok r \<Rightarrow> if csresp_status r = 0 then (False, record_success now m) else record_failure m
              | _ \<Rightarrow> record_failure m)
         | None \<Rightarrow> record_failure m))"

section \<open>The server\<close>

definition secure_send_to_session ::
  "crypto \<Rightarrow> telegram \<Rightarrow> unit result \<times> tunnelling_ack option \<Rightarrow> unit result \<times> tunnelling_ack option \<Rightarrow>
   client_session \<Rightarrow> secure_server \<Rightarrow> unit result \<times> bytes \<times> client_session \<times> secure_server" where
  "secure_send_to_session c t first second s xs =
     (let seq = ss_send_seq s;
          frame = build_tunnelling_frame_with_code t (ss_channel_id s) seq LDataInd in
      case maybe_encrypt c frame (link_peer_addr (ss_link s)) xs of
        (Ok w, xs) \<Rightarrow> (case send_attempts seq [first, second] s of (r, s') \<Rightarrow> (r, w, s', xs))
      | (Err e, xs) \<Rightarrow> (Err e, [], s, xs)
      | (Panic, xs) \<Rightarrow> (Panic, [], s, xs))"

fun secure_server_send ::
  "crypto \<Rightarrow> telegram \<Rightarrow> (u8 \<Rightarrow> (unit result \<times> tunnelling_ack option) \<times> (unit result \<times> tunnelling_ack option)) \<Rightarrow>
   u8 list \<Rightarrow> secure_server \<Rightarrow> secure_server" where
  "secure_server_send c t tries [] xs = xs"
| "secure_server_send c t tries (ch # order) xs =
     (case sv_sessions (xs_server xs) ch of
        None \<Rightarrow> secure_server_send c t tries order xs
      | Some s \<Rightarrow>
          (case secure_send_to_session c t (fst (tries ch)) (snd (tries ch)) s xs of (r, _, s', xs) \<Rightarrow>
             let m = sv_sessions (xs_server xs);
                 m = (if r = Ok () then m(ch \<mapsto> s') else m(ss_channel_id s := None)) in
             secure_server_send c t tries order (xs\<lparr>xs_server := (xs_server xs)\<lparr>sv_sessions := m\<rparr>\<rparr>)))"

text \<open>The ack that the handling of a frame passes to the sender on a channel.\<close>

definition passed_ack :: "u8 \<Rightarrow> effect list \<Rightarrow> tunnelling_ack option" where
  "passed_ack ch out =
     (case concat (map (\<lambda>e. case e of Pass_Ack c a \<Rightarrow> if c = ch then [a] else [] | _ \<Rightarrow> []) out) of
        a # _ \<Rightarrow> Some a
      | [] \<Rightarrow> None)"

section \<open>Frames in both directions\<close>

lemma secure_send_received:
  assumes "crypto_laws c" "entries_ok xs" "xs_secure_sessions xs (link_peer_addr link) = Some e"
    "is_authenticated (se_session e)" "ss_session_key client = ss_session_key (se_session e)"
    "ss_session_id client = ss_session_id (se_session e)"
    "fresh_number (ss_sequence_number_received (se_session e)) (take_bit 48 (ss_sequence_number client))"
    "length f \<le> 65497" "st_secure_session st = Some client" "tn_transport (st_tunnel st)" "net_send net = Ok ()"
  shows "\<exists>w st'. secure_send_frame c net f st = (Ok (), [w], st') \<and>
    xs_server (after_secure (secure_handle_frame c rnd snd_to now wall w link xs)) =
      after (server_handle_frame snd_to now wall f link (xs_server xs))"
proof -
  obtain w where w: "fst (encrypt_frame c f client) = Ok w"
    "xs_server (after_secure (secure_handle_frame c rnd snd_to now wall w link xs)) =
      after (server_handle_frame snd_to now wall f link (xs_server xs))"
    using wrapper_server [OF assms(1-8)] by blast
  then show ?thesis
    using assms(9-11) by (auto simp: secure_send_frame_def tunnel_send_frame_def raw_send_def split: prod.split)
qed

lemma server_frame_read:
  assumes "crypto_laws c" "entries_ok xs" "xs_secure_sessions xs peer = Some e"
    "ss_session_key client = ss_session_key (se_session e)" "ss_session_id client = ss_session_id (se_session e)"
    "fresh_number (ss_sequence_number_received client) (take_bit 48 (ss_sequence_number (se_session e)))"
    "st_secure_session st = Some client" "tn_transport (st_tunnel st)"
  shows "\<exists>w. fst (maybe_encrypt c f peer xs) = Ok w \<and> fst (secure_recv_frame c (Ok w) st) = Ok f"
proof -
  have "entry_ok e"
    by (rule entries_okD [OF assms(2,3)])
  then have key: "sk_initialized (ss_session_key (se_session e))" "length (sk_key (ss_session_key (se_session e))) = 16"
    by (simp_all add: entry_ok_def)
  show ?thesis
    using sent_frame_opened [OF assms(1) key assms(4-6), of f] assms(3,7,8)
    by (auto simp: maybe_encrypt_def secure_recv_frame_def decrypt_frame_def tunnel_recv_frame_def)
qed

section \<open>Frames around the encryption\<close>

lemma plain_frame_ignored:
  assumes "xs_secure_config xs \<noteq> None" "KnxIpFrame_parse f = Ok frame"
    "kh_service_type (kf_header frame) \<notin> {SessionRequest, SessionAuthenticate, SecureWrapper}"
  shows "secure_handle_frame c rnd snd_to now wall f link xs = (Ok None, [], xs)"
  using assms by (simp add: secure_handle_frame_def secure_dispatch_def split: service_type.split)

lemma ack_ignored:
  assumes "xs_secure_config xs \<noteq> None" "f \<in> set (snd (send_tunnelling_ack net ch seq status t))"
  shows "secure_handle_frame c rnd snd_to now wall f link xs = (Ok None, [], xs)"
  using assms
  by (intro plain_frame_ignored)
     (auto simp: send_tunnelling_ack_def Let_def TunnellingAck_serialize_def new_frame_parsed split: res.splits)

lemma heartbeat_ignored:
  assumes "xs_secure_config xs \<noteq> None" "f \<in> set (snd (send_connectionstate_request net t))"
  shows "secure_handle_frame c rnd snd_to now wall f link xs = (Ok None, [], xs)"
  using assms
  by (intro plain_frame_ignored)
     (auto simp: send_connectionstate_request_def Let_def ConnectionstateRequest_serialize_def new_frame_parsed
       split: res.splits)

text \<open>
  Frames around the encryption.  The acks, the heartbeat requests and the disconnect requests of a client are sent
  without encryption, secure session or not.  A server that requires security drops each of them: no answer
  and no change.
\<close>

lemma unencrypted_ignored:
  assumes "xs_secure_config xs \<noteq> None"
    "f \<in> set (snd (send_tunnelling_ack net ch seq status t)) \<union> set (snd (send_connectionstate_request net t)) \<union>
      set (snd (send_disconnect_request net t))"
  shows "secure_handle_frame c rnd snd_to now wall f link xs = (Ok None, [], xs)"
proof (cases "f \<in> set (snd (send_disconnect_request net t))")
  case True
  then show ?thesis
    using assms(1)
    by (intro plain_frame_ignored)
       (auto simp: send_disconnect_request_def Let_def DisconnectRequest_serialize_def new_frame_parsed split: res.splits)
next
  case False
  then have "f \<in> set (snd (send_tunnelling_ack net ch seq status t)) \<or> f \<in> set (snd (send_connectionstate_request net t))"
    using assms(2) by blast
  then show ?thesis
    by (elim disjE) (rule ack_ignored [OF assms(1)] heartbeat_ignored [OF assms(1)], assumption)+
qed

text \<open>
  C29: The first telegram ends the channel.  Let a secure server send a telegram to a channel, and let the client answer each of the
  two attempts with its ack.  Neither ack is passed to the sender, so the attempts time out and the server
  removes the channel.
\<close>

theorem secure_telegram_drops_client:
  assumes "sv_sessions (xs_server xs) ch = Some s" "ss_channel_id s = ch"
    "xs_secure_config ys \<noteq> None" "ack \<in> set (snd (send_tunnelling_ack net ch (ss_send_seq s) 0 client))"
    "tries ch = (let attempt = (Ok (), passed_ack ch (fst (snd (secure_handle_frame c rnd snd_to now wall ack link ys))))
       in (attempt, attempt))"
  shows "sv_sessions (xs_server (secure_server_send c t tries [ch] xs)) ch = None"
proof -
  have "tries ch = ((Ok (), None), (Ok (), None))"
    by (simp add: assms(5) ack_ignored [OF assms(3,4)] passed_ack_def Let_def)
  then show ?thesis
    using assms(1,2) by (auto simp: secure_send_to_session_def Let_def split: prod.splits res.splits)
qed

section \<open>The heartbeat\<close>

text \<open>What the server answers to the request of a round.\<close>

definition server_answer :: "effect list \<Rightarrow> bytes option" where
  "server_answer out =
     (case out of
        Reply _ f # _ \<Rightarrow> (case KnxIpFrame_parse f of Ok frame \<Rightarrow> Some (kf_body frame) | _ \<Rightarrow> None)
      | _ \<Rightarrow> None)"

lemma failing_rounds:
  "((\<lambda>m. snd (heartbeat_round net None now t m)) ^^ k) m = beats (replicate k Failure) m"
proof (induction k)
  case (Suc k)
  have "heartbeat_round net None now t m = record_failure m" for m
    by (simp add: heartbeat_round_def)
  then show ?case
    using Suc beats_snoc [of "replicate k Failure" Failure m] by (simp add: replicate_append_same [symmetric])
qed (simp add: beats_def)

lemma lost_by_failures: "lost_by n (replicate k Failure) \<longleftrightarrow> n \<le> k"
proof
  assume "lost_by n (replicate k Failure)"
  then obtain pre post where p: "replicate k Failure = pre @ post" "n \<le> trailing_failures pre"
    by (auto simp: lost_by_def)
  have "trailing_failures pre \<le> length pre"
    unfolding trailing_failures_def using length_takeWhile_le [of _ "rev pre"] by simp
  moreover have "k = length pre + length post"
    by (metis p(1) length_append length_replicate)
  ultimately show "n \<le> k"
    using p(2) by simp
next
  have "trailing_failures (replicate k Failure) = k"
    by (simp add: trailing_failures_def takeWhile_eq_all_conv [THEN iffD2])
  then show "n \<le> k \<Longrightarrow> lost_by n (replicate k Failure)"
    unfolding lost_by_def by (intro exI [of _ "replicate k Failure"] exI [of _ "[]"]) simp
qed

text \<open>
  A secure tunnel is always declared lost.  Run the heartbeat of a client against a server that requires security: the
  monitor declares the tunnel lost with the round number \<open>max_failures\<close>, even if the network delivers everything.
\<close>

lemma secure_heartbeat_lost:
  assumes "xs_secure_config xs \<noteq> None" "snd (send_connectionstate_request net t) = [f]" "0 < hc_max_failures cfg"
  shows "hm_tunnel_lost (((\<lambda>m. snd (heartbeat_round net
      (server_answer (fst (snd (secure_handle_frame c rnd snd_to now wall f link xs)))) now t m)) ^^ k)
      (HeartbeatMonitor_new cfg ch)) \<longleftrightarrow> unat (hc_max_failures cfg) \<le> k"
proof -
  have "server_answer (fst (snd (secure_handle_frame c rnd snd_to now wall f link xs))) = None"
    by (subst heartbeat_ignored [OF assms(1), where net = net and t = t]) (simp_all add: assms(2) server_answer_def)
  then show ?thesis
    using assms(3) by (simp add: failing_rounds tunnel_lost_iff lost_by_failures)
qed

section \<open>Examples\<close>

definition example_tunnel :: tunnel where
  "example_tunnel = (tunnel_new_udp 1000)\<lparr>tn_transport := True, tn_channel_id := 1\<rparr>"

lemma example_sends:
  "snd (send_tunnelling_ack sample_net 1 0 0 example_tunnel) =
     [KnxIpFrame_serialize (KnxIpFrame_new TunnellingAck (TunnellingAck_serialize (TunnellingAck_new 1 0 0)))]"
  "snd (send_connectionstate_request sample_net example_tunnel) =
     [KnxIpFrame_serialize (KnxIpFrame_new ConnectionstateRequest (ConnectionstateRequest_serialize
       \<lparr>csreq_channel_id = 1, csreq_control_endpoint = Hpai_route_back\<rparr>))]"
  by (simp_all add: send_tunnelling_ack_def send_connectionstate_request_def raw_send_def example_tunnel_def sample_net_def
      tunnel_new_udp_def tunnel_build_def Let_def)

lemma example_config: "xs_secure_config example_secure_server \<noteq> None"
  by (simp add: example_secure_server_def secure_server_init_def)

theorem secure_telegram_drops_client_witness:
  "sv_sessions (xs_server (secure_server_send plain_crypto (Telegram_group_read 0 (GroupAddress 5))
     (\<lambda>_. let attempt = (Ok (), passed_ack 1 (fst (snd (secure_handle_frame plain_crypto [] (\<lambda>_. Ok ()) 0 0
        (KnxIpFrame_serialize (KnxIpFrame_new TunnellingAck (TunnellingAck_serialize (TunnellingAck_new 1 0 0))))
        (UdpLink example_address) example_secure_server)))) in (attempt, attempt)) [1]
     (example_secure_server\<lparr>xs_server := sample_connected\<rparr>))) 1 = None"
  by (rule secure_telegram_drops_client [where s = sample_session and net = sample_net and client = example_tunnel,
        OF _ _ example_config])
     (simp_all add: example_sends sample_connected_def sample_session_def ClientSession_new_def)

end
