(* ===== verification/Receiving.thy ===== *)
theory Receiving
  imports Client
begin

text \<open>
  The receiving task of the client, \<open>start_telegram_receiving_task\<close> of \<open>src/application/knx.rs\<close>, on a tunnel or on a routing
  connection.

  A round gets what the socket returns, and whether the memory monitor grants the memory for the frame.  The task
  ends with the first error of \<open>recv\<close>, and then closes the queue; an error in the handling of a frame is only logged.

  Shown: telegrams between two nodes of this library over routing arrive, although they are wrapped twice
  (\<open>routing_between_nodes\<close>); the indications of other devices are dropped (\<open>foreign_indication_dropped\<close>); one
  datagram that is no KNX/IP frame stops a routing node for good, in both directions (\<open>junk_stops_node\<close>), while a tunnel
  survives it (\<open>tunnel_survives_junk\<close>).
\<close>

section \<open>Definitions\<close>

definition conn_recv :: "bytes result \<Rightarrow> connection \<Rightarrow> bytes result \<times> connection" where
  "conn_recv r conn =
     (case conn of
        Tunnel_Connection t \<Rightarrow> (case connection_recv r t of (d, t') \<Rightarrow> (d, Tunnel_Connection t'))
      | Routing_Connection rc \<Rightarrow> (case routing_recv r rc of (d, _, rc') \<Rightarrow> (d, Routing_Connection rc')))"

definition receiving_round ::
  "client_env \<Rightarrow> bool \<Rightarrow> bytes result \<Rightarrow> client \<times> bool \<Rightarrow> client_effect list \<times> client \<times> bool" where
  "receiving_round env allocated r st =
     (case st of (cl, running) \<Rightarrow>
        if \<not> running then ([], cl, False)
        else case conn_recv r (cl_connection cl) of
          (Ok frame_data, conn) \<Rightarrow>
            let cl = cl\<lparr>cl_connection := conn\<rparr> in
            if \<not> allocated then ([], cl, True)
            else
              (case handle_incoming_frame env frame_data cl of
                 (Panic, out, cl) \<Rightarrow> (out, cl, False)
               | (_, out, cl) \<Rightarrow> (out, cl, True))
        | (Err _, conn) \<Rightarrow> ([], cl\<lparr>cl_connection := conn, cl_queue := queue_close (cl_queue cl)\<rparr>, False)
        | (Panic, conn) \<Rightarrow> ([], cl\<lparr>cl_connection := conn\<rparr>, False))"

fun receiving_run ::
  "(client_env \<times> bool \<times> bytes result) list \<Rightarrow> client \<times> bool \<Rightarrow> client_effect list \<times> client \<times> bool" where
  "receiving_run [] st = ([], st)"
| "receiving_run ((env, allocated, r) # rounds) st =
     (case receiving_round env allocated r st of (out, st) \<Rightarrow>
        (case receiving_run rounds st of (out', st) \<Rightarrow> (out @ out', st)))"

section \<open>Routing\<close>

lemma cemi_first_byte: "CemiFrame_parse cemi = Ok c \<Longrightarrow> \<exists>b bs. cemi = b # bs \<and> b \<noteq> 6"
  by (cases cemi) (auto simp: CemiFrame_parse_def MessageCode_from_u8_def split: if_splits)

lemma cemi_no_frame:
  assumes "CemiFrame_parse cemi = Ok c"
  shows "\<exists>e. KnxIpFrame_parse cemi = Err e"
proof -
  obtain b bs where "cemi = b # bs" "b \<noteq> 6"
    using cemi_first_byte [OF assms] by blast
  then have "KnxIpHeader_parse cemi \<noteq> Ok h" for h
    using KnxIpHeader_parse_ok [of cemi h] by (auto simp: header_fits_def KnxIpHeader_serialize_def)
  then show ?thesis
    using KnxIpHeader_parse_no_panic [of cemi] by (cases "KnxIpHeader_parse cemi") (auto simp: KnxIpFrame_parse_def)
qed

lemma frame_no_cemi: "\<exists>e. parse_cemi_to_telegram now (KnxIpFrame_serialize (KnxIpFrame_new st body)) = Err e"
  by (simp add: parse_cemi_to_telegram_def CemiFrame_parse_def MessageCode_from_u8_def KnxIpFrame_serialize_def
      KnxIpFrame_new_def KnxIpHeader_new_def KnxIpHeader_serialize_def u16_to_be_bytes_def guard_res_def)

text \<open>
  C30: Routing between two nodes.  What a node of this library sends over a routing connection is wrapped twice: the client
  builds a routing indication, and the connection wraps it again.  Another node of this library takes off the wrappers
  one by one and delivers the telegram, but the body of the indication on the wire is no CEMI frame, which is what any other
  device expects there.
\<close>

theorem routing_between_nodes:
  assumes "sendable t" "net_send net = Ok ()" "rc_state ra = Connected"
    "cl_connection cl = Routing_Connection rb" "rc_state rb = Connected"
  shows "\<exists>f ra' rb' g e. send_outgoing net t (Routing_Connection ra) = ([Frame_Out f], Routing_Connection ra') \<and>
    receiving_round env True (Ok f) (cl, True) =
      (case deliver_incoming env (received_as (ce_wall env) t) (cl\<lparr>cl_connection := Routing_Connection rb'\<rparr>) of
         (out, cl') \<Rightarrow> (out, cl', True)) \<and>
    KnxIpFrame_parse f = Ok g \<and> kh_service_type (kf_header g) = RoutingIndication \<and>
    parse_cemi_to_telegram now (kf_body g) = Err e"
proof -
  let ?raw = "CemiFrame_serialize (telegram_cemi LDataReq t)"
  let ?inner = "KnxIpFrame_serialize (KnxIpFrame_new RoutingIndication ?raw)"
  let ?f = "KnxIpFrame_serialize (KnxIpFrame_new RoutingIndication ?inner)"
  have len: "length ?raw \<le> 300"
    by (rule length_telegram_cemi [OF assms(1)])
  have inner: "build_outgoing_frame_for_connection t Via_Routing = ?inner"
    by (simp add: build_outgoing_frame_for_connection_def Let_def)
  obtain ra' where sent: "send_outgoing net t (Routing_Connection ra) = ([Frame_Out ?f], Routing_Connection ra')"
    using routing_send_frame [OF assms(3), of ?inner] by (auto simp: send_outgoing_def inner assms(2))
  obtain rb' where recv: "routing_recv (Ok ?f) rb = (Ok ?inner, 0, rb')"
    using routing_recv_indication [OF assms(5), of ?inner] len by (auto simp: length_new_frame)
  have "receiving_round env True (Ok ?f) (cl, True) =
      (case deliver_incoming env (received_as (ce_wall env) t) (cl\<lparr>cl_connection := Routing_Connection rb'\<rparr>) of
         (out, cl') \<Rightarrow> (out, cl', True))"
    using len parse_telegram_cemi [OF assms(1), of "ce_wall env" LDataReq]
    by (simp add: receiving_round_def conn_recv_def assms(4) recv handle_incoming_frame_def new_frame_parsed
        handle_routing_indication_def handled_def Let_def split: prod.split)
  moreover have "KnxIpFrame_parse ?f = Ok (KnxIpFrame_new RoutingIndication ?inner)"
    using len by (simp add: new_frame_parsed length_new_frame)
  moreover obtain e where "parse_cemi_to_telegram now (kf_body (KnxIpFrame_new RoutingIndication ?inner)) = Err e"
    using frame_no_cemi [of now RoutingIndication ?raw] by auto
  ultimately show ?thesis
    using sent by (intro exI conjI) (assumption | simp)+
qed

text \<open>
  C32: Routing indications of other devices are dropped.  A routing connection hands the CEMI frame inside an indication
  to the client, which parses it as a KNX/IP frame.  That fails for every CEMI frame, so nothing is delivered.
\<close>

theorem foreign_indication_dropped:
  assumes "CemiFrame_parse cemi = Ok c" "length cemi \<le> 1018"
    "cl_connection cl = Routing_Connection rb" "rc_state rb = Connected"
  shows "\<exists>rb'. receiving_round env allocated (Ok (KnxIpFrame_serialize (KnxIpFrame_new RoutingIndication cemi))) (cl, True) =
    ([], cl\<lparr>cl_connection := Routing_Connection rb'\<rparr>, True)"
proof -
  obtain rb' where recv: "routing_recv (Ok (KnxIpFrame_serialize (KnxIpFrame_new RoutingIndication cemi))) rb = (Ok cemi, 0, rb')"
    using routing_recv_indication [OF assms(4,2)] by blast
  obtain e where "KnxIpFrame_parse cemi = Err e"
    using cemi_no_frame [OF assms(1)] by blast
  then show ?thesis
    by (intro exI [of _ rb']) (simp add: receiving_round_def conn_recv_def assms(3) recv handle_incoming_frame_def Let_def)
qed

lemma stopped_rounds: "receiving_run rounds (cl, False) = ([], cl, False)"
proof (induction rounds)
  case (Cons r rounds)
  then show ?case
    by (cases r) (simp add: receiving_round_def)
qed simp

text \<open>
  C31: One datagram stops a routing node.  When a datagram that is no KNX/IP frame reaches the multicast group, from
  anybody, the receiving task of a routing node ends and the queue is closed: nothing that arrives later is handled, and no telegram
  can be sent any more.
\<close>

theorem junk_stops_node:
  assumes "cl_connection cl = Routing_Connection rb" "rc_state rb = Connected" "KnxIpFrame_parse (take 1024 d) = Err e"
  shows "\<exists>cl'. receiving_run ((env, allocated, Ok d) # rounds) (cl, True) = ([], cl', False) \<and>
    q_incoming (cl_queue cl') = q_incoming (cl_queue cl) \<and>
    send_telegram cfg now ia t cl' = (Err (Transport QueueClosed), cl')"
  using assms
  by (simp add: receiving_round_def conn_recv_def routing_recv_def process_routing_message_def stopped_rounds
      queue_close_def send_telegram_def enqueue_outgoing_def)

text \<open>On a tunnel an error of the parser is only logged.\<close>

lemma tunnel_survives_junk:
  assumes "cl_connection cl = Tunnel_Connection t" "tn_state t = Connected" "tn_transport t" "KnxIpFrame_parse d = Err e"
  shows "\<exists>t'. receiving_round env allocated (Ok d) (cl, True) = ([], cl\<lparr>cl_connection := Tunnel_Connection t'\<rparr>, True)"
  using assms
  by (auto simp: receiving_round_def conn_recv_def connection_recv_def tunnel_recv_frame_def handle_incoming_frame_def Let_def)

section \<open>Examples\<close>

definition example_routing :: routing_connection where
  "example_routing = \<lparr>rc_multicast_addr = (MULTICAST_ADDR, MULTICAST_PORT), rc_local_addr = (V4 10 0 0 7, MULTICAST_PORT),
     rc_state = Connected, rc_stats = ConnectionStats_default, rc_established_at = Some 0, rc_routing_busy_count = 0,
     rc_lost_message_count = 0\<rparr>"

definition example_node :: client where
  "example_node = \<lparr>cl_connection = Routing_Connection example_routing, cl_queue = queue_new, cl_limiter = None\<rparr>"

definition example_env :: client_env where
  "example_env = \<lparr>ce_net = sample_net, ce_queue_config = QueueConfig_default, ce_limit_config = ReceiveLimitConfig_default,
     ce_now = 0, ce_wall = 7, ce_channel_outcome = Channel_Ok, ce_current_channel_id = None\<rparr>"

definition example_telegram :: telegram where
  "example_telegram = Telegram_group_write 3 (GroupAddress 0x0901) [1]"

lemma example_fields:
  "cl_connection example_node = Routing_Connection example_routing" "rc_state example_routing = Connected"
  "net_send sample_net = Ok ()" "sendable example_telegram"
  by (simp_all add: example_node_def example_routing_def sample_net_def example_telegram_def sendable_def
      Telegram_group_write_def address_valid_def ga_valid_def)

theorem routing_between_nodes_witness:
  "\<exists>f ra' rb' g e. send_outgoing sample_net example_telegram (Routing_Connection example_routing) =
      ([Frame_Out f], Routing_Connection ra') \<and>
    receiving_round example_env True (Ok f) (example_node, True) =
      (case deliver_incoming example_env (received_as (ce_wall example_env) example_telegram)
         (example_node\<lparr>cl_connection := Routing_Connection rb'\<rparr>) of (out, cl') \<Rightarrow> (out, cl', True)) \<and>
    KnxIpFrame_parse f = Ok g \<and> kh_service_type (kf_header g) = RoutingIndication \<and>
    parse_cemi_to_telegram 0 (kf_body g) = Err e"
  by (rule routing_between_nodes) (rule example_fields)+

theorem foreign_indication_dropped_witness:
  "\<exists>rb'. receiving_round example_env True
      (Ok (KnxIpFrame_serialize (KnxIpFrame_new RoutingIndication (CemiFrame_serialize (telegram_cemi LDataInd example_telegram)))))
      (example_node, True) = ([], example_node\<lparr>cl_connection := Routing_Connection rb'\<rparr>, True)"
proof (rule foreign_indication_dropped)
  show "CemiFrame_parse (CemiFrame_serialize (telegram_cemi LDataInd example_telegram)) = Ok (telegram_cemi LDataInd example_telegram)"
    using telegram_cemi_wf [OF example_fields(4)] by (rule cemi.parse_ser)
  show "length (CemiFrame_serialize (telegram_cemi LDataInd example_telegram)) \<le> 1018"
    using length_telegram_cemi [OF example_fields(4), of LDataInd] by simp
qed (rule example_fields)+

theorem junk_stops_node_witness:
  "\<exists>cl'. receiving_run [(example_env, True, Ok [1, 2, 3]), (example_env, True, Ok [])] (example_node, True) = ([], cl', False) \<and>
    q_incoming (cl_queue cl') = q_incoming (cl_queue example_node) \<and>
    send_telegram QueueConfig_default 0 (IndividualAddress 1) example_telegram cl' = (Err (Transport QueueClosed), cl')"
  by (rule junk_stops_node [OF example_fields(1,2)]) (simp add: KnxIpFrame_parse_def KnxIpHeader_parse_def)

end
