(* ===== verification/Address_Probe.thy ===== *)
theory Address_Probe
  imports Tunnel Tpci Cemi
begin

text \<open>
  Probing for a free individual address, \<open>src/transport/address_probe.rs\<close>.

  A probe sends a connect frame and a descriptor request to the address, waits for a frame that shows a device there, and sends
  a disconnect frame.  What \<open>recv_frame\<close> returns during the wait is an argument; the end of the list is the timeout.
  The outcome of a whole selection is the argument \<open>net_probe\<close> of \<open>Tunnel\<close>.

  Shown: the frames that are built are what the probe's own parser reads back (\<open>probe_frames_read_back\<close>); the selection returns the
  first candidate that is available and silent (\<open>auto_select_outcome\<close>).  But a probe does not look at the addresses of
  a frame, so the confirmation of the disconnect frame of one probe answers the next one
  (\<open>confirmations_exhaust_selection\<close>), and the requests that a probe acknowledges do not advance the sequence counter of
  the client (\<open>probe_desynchronises\<close>).
\<close>

section \<open>Frames\<close>

definition build_ldata_req_cemi :: "individual_address \<Rightarrow> individual_address \<Rightarrow> u8 \<Rightarrow> bytes \<Rightarrow> bytes" where
  "build_ldata_req_cemi src dst tpci apci =
     [0x11, 0x00, 0xB4, 0x60] @ u16_to_be_bytes (ia_raw src) @ u16_to_be_bytes (ia_raw dst) @ [as_u8 (length apci), tpci] @ apci"

definition build_tconnect_cemi :: "individual_address \<Rightarrow> individual_address \<Rightarrow> bytes" where
  "build_tconnect_cemi src dst = build_ldata_req_cemi src dst (TpciFrame_encode Connect) []"

definition build_tdisconnect_cemi :: "individual_address \<Rightarrow> individual_address \<Rightarrow> bytes" where
  "build_tdisconnect_cemi src dst = build_ldata_req_cemi src dst (TpciFrame_encode Disconnect) []"

definition build_ddr_cemi :: "individual_address \<Rightarrow> individual_address \<Rightarrow> bytes" where
  "build_ddr_cemi src dst =
     (let ddr = DeviceDescriptorRead_encode \<lparr>ddr_descriptor = 0\<rparr>;
          tpci = TpciFrame_encode (DataConnected 0) OR (ddr ! 0 AND 0x03) in
      build_ldata_req_cemi src dst tpci (drop 1 ddr))"

definition parse_probe_cemi :: "bytes \<Rightarrow> cemi_frame result" where
  "parse_probe_cemi raw =
     bind_res (CemiFrame_parse raw) (\<lambda>frame.
       if cm_data_length frame = 0 \<and> cm_tpci frame = 0 then
         bind_res (idx raw 1) (\<lambda>ai_len.
           let ext = (if cm_extended_control_field frame = None then 0 else 1);
               npdu_len_idx = 2 + unat ai_len + 2 + ext + 4;
               tpci_idx = npdu_len_idx + 1 in
           Ok (if tpci_idx < length raw then frame\<lparr>cm_tpci := raw ! tpci_idx\<rparr> else frame))
       else Ok frame)"

datatype probe_signal = Occupied | Other

definition classify_cemi :: "cemi_frame \<Rightarrow> probe_signal" where
  "classify_cemi frame =
     (if cm_tpci frame AND 0x03 = 0x03 \<and> (case cm_apci_data frame of b # _ \<Rightarrow> b AND 0xC0 = 0x40 | [] \<Rightarrow> False) then Occupied
      else if TpciFrame_decode (cm_tpci frame) = Disconnect then Occupied
      else Other)"

section \<open>Probing\<close>

definition wrap_cemi :: "bytes \<Rightarrow> tunnel \<Rightarrow> bytes \<times> tunnel" where
  "wrap_cemi raw_cemi t =
     (case next_sequence t of (seq, t') \<Rightarrow>
        (KnxIpFrame_serialize (KnxIpFrame_new TunnellingRequest
           (TunnellingRequest_serialize (TunnellingRequest_new (tn_channel_id t) seq raw_cemi))), t'))"

fun recv_until_signal :: "net \<Rightarrow> bytes result list \<Rightarrow> tunnel \<Rightarrow> bool result \<times> bytes list \<times> tunnel" where
  "recv_until_signal net [] t = (Ok False, [], t)"
| "recv_until_signal net (r # rs) t =
     (case tunnel_recv_frame r t of
        (Err e, t) \<Rightarrow> (Err e, [], t)
      | (Panic, t) \<Rightarrow> (Panic, [], t)
      | (Ok data, t) \<Rightarrow>
          (case KnxIpFrame_parse data of
             Err _ \<Rightarrow> recv_until_signal net rs t
           | Panic \<Rightarrow> (Panic, [], t)
           | Ok frame \<Rightarrow>
               if kh_service_type (kf_header frame) \<noteq> TunnellingRequest then recv_until_signal net rs t
               else
                 (case TunnellingRequest_parse (kf_body frame) of
                    Err _ \<Rightarrow> recv_until_signal net rs t
                  | Panic \<Rightarrow> (Panic, [], t)
                  | Ok request \<Rightarrow>
                      let acks = (if tn_send_acks t then
                            snd (send_tunnelling_ack net (treq_channel_id request) (treq_sequence_counter request) 0 t) else []) in
                      (case parse_probe_cemi (treq_raw_cemi request) of
                         Panic \<Rightarrow> (Panic, acks, t)
                       | cemi \<Rightarrow>
                           if bind_res cemi (\<lambda>c. Ok (classify_cemi c)) = Ok Occupied then (Ok True, acks, t)
                           else case recv_until_signal net rs t of (r, sent, t) \<Rightarrow> (r, acks @ sent, t)))))"

text \<open>A failed send ends the probe; that of the last frame is ignored.\<close>

definition send_probe_frame :: "net \<Rightarrow> bytes \<Rightarrow> tunnel \<Rightarrow> unit result \<times> bytes list \<times> tunnel" where
  "send_probe_frame net raw_cemi t = (case wrap_cemi raw_cemi t of (frame, t) \<Rightarrow> tunnel_send_frame net frame t)"

definition probe_address ::
  "net \<Rightarrow> bytes result list \<Rightarrow> individual_address \<Rightarrow> tunnel \<Rightarrow> bool result \<times> bytes list \<times> tunnel" where
  "probe_address net received addr t =
     (case send_probe_frame net (build_tconnect_cemi ia_broadcast addr) t of
        (Err e, sent, t) \<Rightarrow> (Err e, sent, t)
      | (Panic, sent, t) \<Rightarrow> (Panic, sent, t)
      | (Ok _, sent1, t) \<Rightarrow>
          (case send_probe_frame net (build_ddr_cemi ia_broadcast addr) t of
             (Err e, sent, t) \<Rightarrow> (Err e, sent1 @ sent, t)
           | (Panic, sent, t) \<Rightarrow> (Panic, sent1 @ sent, t)
           | (Ok _, sent2, t) \<Rightarrow>
               (case recv_until_signal net received t of
                  (Err e, acks, t) \<Rightarrow> (Err e, sent1 @ sent2 @ acks, t)
                | (Panic, acks, t) \<Rightarrow> (Panic, sent1 @ sent2 @ acks, t)
                | (Ok occupied, acks, t) \<Rightarrow>
                    (case send_probe_frame net (build_tdisconnect_cemi ia_broadcast addr) t of
                       (r, sent3, t) \<Rightarrow>
                         (if r = Panic then Panic else Ok occupied, sent1 @ sent2 @ acks @ sent3, t)))))"

section \<open>Selecting\<close>

definition candidate_addresses :: "bool \<Rightarrow> u8 \<Rightarrow> u8 \<Rightarrow> individual_address result list" where
  "candidate_addresses debug area line =
     map (\<lambda>device. IndividualAddress_new debug area line (word_of_nat device)) [240..<255]"

text \<open>The loop over the candidates; \<open>bus\<close> gives the network and the received frames during the probe of an address.\<close>

fun select_loop ::
  "(individual_address \<Rightarrow> net \<times> bytes result list) \<Rightarrow> address_registry \<Rightarrow> individual_address result list \<Rightarrow> tunnel
     \<Rightarrow> individual_address result \<times> bytes list \<times> tunnel" where
  "select_loop bus reg [] t = (Err (Transport InvalidConfiguration_Transport), [], t)"
| "select_loop bus reg (Ok addr # candidates) t =
     (if \<not> registry_is_available addr reg then select_loop bus reg candidates t
      else
        (case probe_address (fst (bus addr)) (snd (bus addr)) addr t of
           (Err e, sent, t) \<Rightarrow> (Err e, sent, t)
         | (Panic, sent, t) \<Rightarrow> (Panic, sent, t)
         | (Ok occupied, sent, t) \<Rightarrow>
             if \<not> occupied then (Ok addr, sent, t)
             else case select_loop bus reg candidates t of (r, sent', t) \<Rightarrow> (r, sent @ sent', t)))"
| "select_loop bus reg (Err e # candidates) t = (Err e, [], t)"
| "select_loop bus reg (Panic # candidates) t = (Panic, [], t)"

definition auto_select_address ::
  "bool \<Rightarrow> (individual_address \<Rightarrow> net \<times> bytes result list) \<Rightarrow> address_registry \<Rightarrow> u8 \<Rightarrow> u8 \<Rightarrow> tunnel
     \<Rightarrow> individual_address result \<times> bytes list \<times> tunnel" where
  "auto_select_address debug bus reg area line t = select_loop bus reg (candidate_addresses debug area line) t"

section \<open>Reading the frames back\<close>

lemma probe_flags:
  "ControlField_to_flags (cm_control_field (CemiFrame_new mc src (Individual dst) data)) = 0xB460"
  by (simp add: CemiFrame_new_def ControlField_to_flags_def Let_def)

lemma probe_bytes:
  "build_ldata_req_cemi src dst tpci [] = CemiFrame_serialize (CemiFrame_new LDataReq src (Individual dst) []) @ [tpci]"
  "build_ldata_req_cemi src dst tpci [b] =
     CemiFrame_serialize ((CemiFrame_new LDataReq src (Individual dst) [b])\<lparr>cm_tpci := tpci\<rparr>)"
  "MessageCode_to_u8 mc # tl (build_ldata_req_cemi src dst tpci []) =
     CemiFrame_serialize (CemiFrame_new mc src (Individual dst) []) @ [tpci]"
  using probe_flags [of LDataReq src dst "[]"] probe_flags [of LDataReq src dst "[b]"] probe_flags [of mc src dst "[]"]
  by (simp_all add: build_ldata_req_cemi_def CemiFrame_serialize_def CemiFrame_new_def u16_to_be_bytes_def Let_def)

lemma probe_wf:
  "cemi_wf (CemiFrame_new mc src (Individual dst) [])"
  "cemi_wf ((CemiFrame_new mc src (Individual dst) [b])\<lparr>cm_tpci := tpci\<rparr>)"
  by (simp_all add: cemi_wf_def CemiFrame_new_def)

text \<open>A frame without data, as it is sent, indicated or confirmed; and a frame with one byte of data.\<close>

lemma parse_probe_bare:
  "parse_probe_cemi (MessageCode_to_u8 mc # tl (build_ldata_req_cemi src dst tpci [])) =
    Ok ((CemiFrame_new mc src (Individual dst) [])\<lparr>cm_tpci := tpci\<rparr>)"
proof -
  let ?f = "CemiFrame_new mc src (Individual dst) []"
  let ?raw = "MessageCode_to_u8 mc # tl (build_ldata_req_cemi src dst tpci [])"
  have raw: "?raw ! Suc 0 = 0" "?raw ! 9 = tpci" "length ?raw = 10"
    by (simp_all add: build_ldata_req_cemi_def u16_to_be_bytes_def)
  have "CemiFrame_parse ?raw = Ok ?f"
    unfolding probe_bytes(3) by (rule CemiFrame_parse_serialize [OF probe_wf(1)])
  then show ?thesis
    using raw by (simp add: parse_probe_cemi_def CemiFrame_new_def Let_def)
qed

lemma parse_probe_data:
  "parse_probe_cemi (build_ldata_req_cemi src dst tpci [b]) =
    Ok ((CemiFrame_new LDataReq src (Individual dst) [b])\<lparr>cm_tpci := tpci\<rparr>)"
  unfolding probe_bytes(2) parse_probe_cemi_def
  using CemiFrame_parse_serialize [OF probe_wf(2), where rest = "[]"] by (simp add: CemiFrame_new_def)

text \<open>
  The three frames of a probe.  Each is read back with its addresses and its control byte; the connect frame and the request
  show no device, the disconnect frame does.
\<close>

lemma probe_frames_read_back:
  "\<exists>f. parse_probe_cemi (build_tconnect_cemi src dst) = Ok f \<and> cm_source_addr f = src \<and> cm_dest_addr f = Individual dst \<and>
     TpciFrame_decode (cm_tpci f) = Connect \<and> classify_cemi f = Other"
  "\<exists>f. parse_probe_cemi (build_ddr_cemi src dst) = Ok f \<and> cm_source_addr f = src \<and> cm_dest_addr f = Individual dst \<and>
     cm_tpci f = 0x43 \<and> cm_apci_data f = [0] \<and> classify_cemi f = Other"
  "\<exists>f. parse_probe_cemi (build_tdisconnect_cemi src dst) = Ok f \<and> cm_source_addr f = src \<and> cm_dest_addr f = Individual dst \<and>
     TpciFrame_decode (cm_tpci f) = Disconnect \<and> classify_cemi f = Occupied"
proof -
  have bare: "build_ldata_req_cemi src dst tpci [] = MessageCode_to_u8 LDataReq # tl (build_ldata_req_cemi src dst tpci [])" for tpci
    by (simp add: build_ldata_req_cemi_def)
  have parse: "parse_probe_cemi (build_ldata_req_cemi src dst tpci []) =
      Ok ((CemiFrame_new LDataReq src (Individual dst) [])\<lparr>cm_tpci := tpci\<rparr>)" for tpci
    by (subst bare) (rule parse_probe_bare)
  show "\<exists>f. parse_probe_cemi (build_tconnect_cemi src dst) = Ok f \<and> cm_source_addr f = src \<and> cm_dest_addr f = Individual dst \<and>
     TpciFrame_decode (cm_tpci f) = Connect \<and> classify_cemi f = Other"
    by (simp add: build_tconnect_cemi_def parse CemiFrame_new_def classify_cemi_def TpciFrame_decode_def)
  show "\<exists>f. parse_probe_cemi (build_tdisconnect_cemi src dst) = Ok f \<and> cm_source_addr f = src \<and> cm_dest_addr f = Individual dst \<and>
     TpciFrame_decode (cm_tpci f) = Disconnect \<and> classify_cemi f = Occupied"
    by (simp add: build_tdisconnect_cemi_def parse CemiFrame_new_def classify_cemi_def TpciFrame_decode_def)
  show "\<exists>f. parse_probe_cemi (build_ddr_cemi src dst) = Ok f \<and> cm_source_addr f = src \<and> cm_dest_addr f = Individual dst \<and>
     cm_tpci f = 0x43 \<and> cm_apci_data f = [0] \<and> classify_cemi f = Other"
    by (simp add: build_ddr_cemi_def DeviceDescriptorRead_encode_def parse_probe_data CemiFrame_new_def classify_cemi_def
        TpciFrame_decode_def Let_def)
qed

section \<open>Waiting for a signal\<close>

definition tunnelled :: "u8 \<Rightarrow> u8 \<Rightarrow> bytes \<Rightarrow> bytes" where
  "tunnelled ch seq raw_cemi = KnxIpFrame_serialize (KnxIpFrame_new TunnellingRequest
     (TunnellingRequest_serialize (TunnellingRequest_new ch seq raw_cemi)))"

definition shows_device :: "bytes \<Rightarrow> bool" where
  "shows_device raw_cemi = (bind_res (parse_probe_cemi raw_cemi) (\<lambda>c. Ok (classify_cemi c)) = Ok Occupied)"

lemma CemiFrame_parse_length: "CemiFrame_parse raw = Ok f \<Longrightarrow> 2 \<le> length raw"
  by (simp add: CemiFrame_parse_def)

lemma parse_probe_no_panic [simp]: "parse_probe_cemi raw \<noteq> Panic"
  by (auto simp: parse_probe_cemi_def Let_def CemiFrame_parse_no_panic dest: CemiFrame_parse_length)

lemma tunnelled_parse:
  assumes "length raw \<le> 65525"
  shows "KnxIpFrame_parse (tunnelled ch seq raw) =
      Ok (KnxIpFrame_new TunnellingRequest (TunnellingRequest_serialize (TunnellingRequest_new ch seq raw)))"
    "TunnellingRequest_parse (TunnellingRequest_serialize (TunnellingRequest_new ch seq raw)) = Ok (TunnellingRequest_new ch seq raw)"
  using assms tunnelling_request.parse_ser [of "TunnellingRequest_new ch seq raw"]
  by (simp_all add: tunnelled_def new_frame_parsed TunnellingRequest_serialize_def TunnellingRequest_new_def)

definition counted :: "tunnel \<Rightarrow> tunnel" where
  "counted t = t\<lparr>tn_stats := (tn_stats t)\<lparr>cs_frames_received := cs_frames_received (tn_stats t) + 1\<rparr>\<rparr>"

lemma recv_tunnelled:
  assumes "length raw \<le> 65525" "tn_transport t"
  shows "recv_until_signal net (Ok (tunnelled ch seq raw) # rs) t =
    (let acks = (if tn_send_acks t then snd (send_tunnelling_ack net ch seq 0 (counted t)) else []) in
     if shows_device raw then (Ok True, acks, counted t)
     else case recv_until_signal net rs (counted t) of (r, sent, t) \<Rightarrow> (r, acks @ sent, t))"
  using assms(2) tunnelled_parse [OF assms(1), of ch seq]
  by (cases "parse_probe_cemi raw")
     (simp_all add: tunnel_recv_frame_def counted_def shows_device_def Let_def TunnellingRequest_new_def)

text \<open>The confirmation that a gateway returns for a frame.\<close>

definition confirmation :: "bytes \<Rightarrow> bytes" where
  "confirmation raw_cemi = MessageCode_to_u8 LDataCon # tl raw_cemi"

lemma confirmation_shows_device:
  "shows_device (confirmation (build_tdisconnect_cemi src dst))" "length (confirmation (build_tdisconnect_cemi src dst)) \<le> 65525"
  by (simp_all add: shows_device_def confirmation_def build_tdisconnect_cemi_def parse_probe_bare CemiFrame_new_def classify_cemi_def
      TpciFrame_decode_def del: MessageCode_to_u8.simps, simp add: build_ldata_req_cemi_def)

section \<open>Probes and the tunnel\<close>

lemma probe_send:
  assumes "tn_transport t" "net_send net = Ok ()"
  shows "\<exists>f t'. send_probe_frame net raw t = (Ok (), [f], t') \<and> tn_transport t' \<and>
    tn_expected_sequence_number t' = tn_expected_sequence_number t \<and> tn_send_acks t' = tn_send_acks t"
  using assms by (simp add: send_probe_frame_def wrap_cemi_def next_sequence_def tunnel_send_frame_def raw_send_def)

lemma tunnel_recv_fields:
  "tunnel_recv_frame r t = (d, t') \<Longrightarrow> tn_transport t' = tn_transport t \<and>
     tn_expected_sequence_number t' = tn_expected_sequence_number t \<and> tn_send_acks t' = tn_send_acks t"
  by (auto simp: tunnel_recv_frame_def split: res.splits if_splits)

lemma recv_until_signal_fields:
  "recv_until_signal net rs t = (r, acks, t') \<Longrightarrow> tn_transport t' = tn_transport t \<and>
     tn_expected_sequence_number t' = tn_expected_sequence_number t"
proof (induction rs arbitrary: t r acks t')
  case (Cons r0 rs)
  obtain d t1 where d: "tunnel_recv_frame r0 t = (d, t1)"
    by (cases "tunnel_recv_frame r0 t")
  have "t' = t1 \<or> (\<exists>r acks. recv_until_signal net rs t1 = (r, acks, t'))"
    using Cons.prems d by (auto simp: Let_def split: res.splits if_splits prod.splits)
  then show ?case
    using Cons.IH [of t1] tunnel_recv_fields [OF d] by metis
qed simp

lemma probe_answered:
  assumes "tn_transport t" "net_send net = Ok ()" "shows_device raw" "length raw \<le> 65525"
  shows "fst (probe_address net (Ok (tunnelled ch seq raw) # rs) addr t) = Ok True \<and>
    tn_transport (snd (snd (probe_address net (Ok (tunnelled ch seq raw) # rs) addr t)))"
proof -
  obtain f1 t1 where 1: "send_probe_frame net (build_tconnect_cemi ia_broadcast addr) t = (Ok (), [f1], t1)" "tn_transport t1"
    using probe_send [OF assms(1,2)] by blast
  obtain f2 t2 where 2: "send_probe_frame net (build_ddr_cemi ia_broadcast addr) t1 = (Ok (), [f2], t2)" "tn_transport t2"
    using probe_send [OF 1(2) assms(2)] by blast
  obtain acks where 3: "recv_until_signal net (Ok (tunnelled ch seq raw) # rs) t2 = (Ok True, acks, counted t2)"
    using recv_tunnelled [OF assms(4) 2(2), of net ch seq rs] assms(3) by (auto simp: Let_def)
  have "tn_transport (counted t2)"
    using 2(2) by (simp add: counted_def)
  then obtain f4 t4 where "send_probe_frame net (build_tdisconnect_cemi ia_broadcast addr) (counted t2) = (Ok (), [f4], t4)"
    "tn_transport t4"
    using probe_send [OF _ assms(2)] by blast
  then show ?thesis
    using 1 2 3 by (simp add: probe_address_def del: recv_until_signal.simps)
qed

section \<open>Selecting an address\<close>

lemma candidates_ok:
  "\<lbrakk>area \<le> 15; line \<le> 15\<rbrakk> \<Longrightarrow>
     candidate_addresses debug area line = map (\<lambda>d. Ok (IndividualAddress (ia_pack area line (word_of_nat d)))) [240..<255]"
  by (auto simp: candidate_addresses_def IndividualAddress_new_def)

text \<open>
  C34: Confirmations exhaust the selection.  A probe takes a disconnect frame for the answer of a device, whatever its
  addresses are, and does not tell a confirmation from an indication.  If in each probe the
  confirmation of the disconnect frame of some other probe arrives first, the selection fails, although no device answered.
\<close>

theorem confirmations_exhaust_selection:
  assumes "tn_transport t" "net_send net = Ok ()" "area \<le> 15" "line \<le> 15"
    "\<And>x. \<exists>ch seq y rs. bus x = (net, Ok (tunnelled ch seq (confirmation (build_tdisconnect_cemi ia_broadcast y))) # rs)"
  shows "fst (auto_select_address debug bus reg area line t) = Err (Transport InvalidConfiguration_Transport)"
proof -
  have "fst (select_loop bus reg (map Ok cs) t) = Err (Transport InvalidConfiguration_Transport)" for cs
    using assms(1)
  proof (induction cs arbitrary: t)
    case (Cons a cs)
    obtain ch seq y rs where b: "bus a = (net, Ok (tunnelled ch seq (confirmation (build_tdisconnect_cemi ia_broadcast y))) # rs)"
      using assms(5) by blast
    obtain sent t' where "probe_address net (snd (bus a)) a t = (Ok True, sent, t')" "tn_transport t'"
      using probe_answered [OF Cons.prems assms(2) confirmation_shows_device, of ch seq ia_broadcast y rs a] b
      by (cases "probe_address net (snd (bus a)) a t") simp
    moreover have "fst (bus a) = net"
      by (simp add: b)
    ultimately show ?case
      using Cons.IH [of t] Cons.IH [of t'] Cons.prems
      by (cases "select_loop bus reg (map Ok cs) t'") simp
  qed simp
  from this [of "map (\<lambda>d. IndividualAddress (ia_pack area line (word_of_nat d))) [240..<255]"] show ?thesis
    unfolding auto_select_address_def candidates_ok [OF assms(3,4)] by (simp only: map_map comp_def)
qed

text \<open>The selected address: the first candidate that is available and whose probe finds nothing.\<close>

lemma auto_select_outcome:
  assumes "auto_select_address debug bus reg area line t = (Ok a, sent, t')"
  shows "\<exists>pre post t1. candidate_addresses debug area line = pre @ Ok a # post \<and> registry_is_available a reg \<and>
    fst (probe_address (fst (bus a)) (snd (bus a)) a t1) = Ok False \<and>
    (\<forall>x. Ok x \<in> set pre \<and> registry_is_available x reg \<longrightarrow>
      (\<exists>t2. fst (probe_address (fst (bus x)) (snd (bus x)) x t2) = Ok True))"
proof -
  have "\<exists>pre post t1. cs = pre @ Ok a # post \<and> registry_is_available a reg \<and>
      fst (probe_address (fst (bus a)) (snd (bus a)) a t1) = Ok False \<and>
      (\<forall>x. Ok x \<in> set pre \<and> registry_is_available x reg \<longrightarrow>
        (\<exists>t2. fst (probe_address (fst (bus x)) (snd (bus x)) x t2) = Ok True))"
    if "select_loop bus reg cs t = (Ok a, sent, t')" for cs t sent
    using that
  proof (induction cs arbitrary: t sent)
    case (Cons c cs)
    then obtain x where c: "c = Ok x"
      by (cases c) auto
    obtain r s1 t1 where p: "probe_address (fst (bus x)) (snd (bus x)) x t = (r, s1, t1)"
      by (cases "probe_address (fst (bus x)) (snd (bus x)) x t")
    consider "registry_is_available x reg" "r = Ok False" "x = a" |
      "registry_is_available x reg" "r = Ok True" "\<exists>s. select_loop bus reg cs t1 = (Ok a, s, t')" |
      "\<not> registry_is_available x reg" "select_loop bus reg cs t = (Ok a, sent, t')"
      using Cons.prems c p by (auto split: if_splits res.splits prod.splits)
    then show ?case
    proof cases
      case 1
      then show ?thesis
        using c p by (intro exI [of _ "[]"] exI [of _ cs] exI [of _ t]) simp
    next
      case 2
      then obtain pre post u where ih: "cs = pre @ Ok a # post" "registry_is_available a reg"
        "fst (probe_address (fst (bus a)) (snd (bus a)) a u) = Ok False"
        "\<And>y. \<lbrakk>Ok y \<in> set pre; registry_is_available y reg\<rbrakk> \<Longrightarrow>
          \<exists>t2. fst (probe_address (fst (bus y)) (snd (bus y)) y t2) = Ok True"
        using Cons.IH by blast
      have "\<exists>t2. fst (probe_address (fst (bus x)) (snd (bus x)) x t2) = Ok True"
        using 2 p by (intro exI [of _ t]) simp
      then show ?thesis
        using ih c by (intro exI [of _ "c # pre"] exI [of _ post] exI [of _ u]) auto
    next
      case 3
      then obtain pre post u where ih: "cs = pre @ Ok a # post" "registry_is_available a reg"
        "fst (probe_address (fst (bus a)) (snd (bus a)) a u) = Ok False"
        "\<And>y. \<lbrakk>Ok y \<in> set pre; registry_is_available y reg\<rbrakk> \<Longrightarrow>
          \<exists>t2. fst (probe_address (fst (bus y)) (snd (bus y)) y t2) = Ok True"
        using Cons.IH by blast
      then show ?thesis
        using 3(1) c by (intro exI [of _ "c # pre"] exI [of _ post] exI [of _ u]) auto
    qed
  qed simp
  then show ?thesis
    using assms unfolding auto_select_address_def by blast
qed

section \<open>Sequence numbers\<close>

definition ack_of :: "u8 \<Rightarrow> u8 \<Rightarrow> bytes" where
  "ack_of ch seq = KnxIpFrame_serialize (KnxIpFrame_new TunnellingAck (TunnellingAck_serialize (TunnellingAck_new ch seq 0)))"

lemma silent_frames_acked:
  assumes "tn_transport t" "tn_send_acks t" "net_send net = Ok ()"
    "\<And>seq raw. (seq, raw) \<in> set ps \<Longrightarrow> \<not> shows_device raw \<and> length raw \<le> 65525"
  shows "\<exists>t'. recv_until_signal net (map (\<lambda>(seq, raw). Ok (tunnelled ch seq raw)) ps) t = (Ok False, map (ack_of ch \<circ> fst) ps, t')"
  using assms
proof (induction ps arbitrary: t)
  case (Cons p ps)
  obtain seq raw where p: "p = (seq, raw)"
    by (cases p)
  have raw: "\<not> shows_device raw" "length raw \<le> 65525"
    using Cons.prems(4) [of seq raw] p by auto
  have t: "tn_transport (counted t)" "tn_send_acks (counted t)"
    using Cons.prems(1,2) by (simp_all add: counted_def)
  obtain t' where ih: "recv_until_signal net (map (\<lambda>(seq, raw). Ok (tunnelled ch seq raw)) ps) (counted t) =
      (Ok False, map (ack_of ch \<circ> fst) ps, t')"
    using Cons.IH [OF t Cons.prems(3)] Cons.prems(4) by force
  have "snd (send_tunnelling_ack net ch seq 0 (counted t)) = [ack_of ch seq]"
    using t(1) Cons.prems(3) by (simp add: send_tunnelling_ack_def raw_send_def ack_of_def Let_def)
  then show ?case
    using recv_tunnelled [OF raw(2) Cons.prems(1), of net ch seq] raw(1) ih Cons.prems(2) p
    by (simp add: Let_def del: recv_until_signal.simps)
qed simp

text \<open>
  C33: A probe puts the tunnel out of step.  While a probe waits, it acknowledges every request of the gateway, but it does not
  advance the counter of the client.  After between 1 and 254 requests, numbered from the expected number on, the next request has
  a number that the client takes for an error.
\<close>

theorem probe_desynchronises:
  assumes "tn_transport t" "tn_send_acks t" "net_send net = Ok ()" "0 < length raws" "length raws \<le> 254"
    "\<And>raw. raw \<in> set raws \<Longrightarrow> \<not> shows_device raw \<and> length raw \<le> 65525"
  shows "\<exists>t'. recv_until_signal net
      (map (\<lambda>(i, raw). Ok (tunnelled ch (tn_expected_sequence_number t + of_nat i) raw)) (enumerate 0 raws)) t =
        (Ok False, map (\<lambda>i. ack_of ch (tn_expected_sequence_number t + of_nat i)) [0..<length raws], t') \<and>
    validate_sequence_number (tn_expected_sequence_number t + of_nat (length raws)) t' =
      (Invalid (tn_expected_sequence_number t) (tn_expected_sequence_number t + of_nat (length raws)), t')"
proof -
  let ?e = "tn_expected_sequence_number t"
  let ?ps = "map (\<lambda>(i, raw). (?e + of_nat i :: u8, raw)) (enumerate 0 raws)"
  have "\<not> shows_device raw \<and> length raw \<le> 65525" if "(seq, raw) \<in> set ?ps" for seq raw
    using that assms(6) by (auto simp: in_set_enumerate_eq)
  then obtain t' where t': "recv_until_signal net (map (\<lambda>(seq, raw). Ok (tunnelled ch seq raw)) ?ps) t =
      (Ok False, map (ack_of ch \<circ> fst) ?ps, t')"
    using silent_frames_acked [OF assms(1-3)] by blast
  have e: "tn_expected_sequence_number t' = ?e"
    using recv_until_signal_fields [OF t'] by simp
  have acks: "map (ack_of ch \<circ> fst) ?ps = map (\<lambda>i. ack_of ch (?e + of_nat i)) [0..<length raws]"
    by (rule nth_equalityI) (simp_all add: nth_enumerate_eq)
  have "unat (of_nat (length raws) :: u8) = length raws"
    using assms(5) by (simp add: unat_of_nat)
  moreover have "unat (- 1 :: u8) = 255"
    by (simp add: unsigned_minus_1_eq_mask mask_eq_exp_minus_1)
  ultimately have n: "(of_nat (length raws) :: u8) \<noteq> 0" "(of_nat (length raws) :: u8) \<noteq> - 1"
    using assms(4,5) by (fastforce, fastforce)
  then have "?e + of_nat (length raws) \<noteq> ?e" "?e + of_nat (length raws) \<noteq> ?e - 1"
    by (simp_all add: diff_conv_add_uminus del: add_uminus_conv_diff)
  then show ?thesis
    using t' e acks by (intro exI [of _ t']) (simp add: validate_sequence_number_def Let_def comp_def split_def)
qed

section \<open>Examples\<close>

definition probing_tunnel :: tunnel where
  "probing_tunnel = (tunnel_new_udp 1000)\<lparr>tn_transport := True, tn_channel_id := 1, tn_expected_sequence_number := 250\<rparr>"

lemma probing_fields: "tn_transport probing_tunnel" "tn_send_acks probing_tunnel" "net_send sample_net = Ok ()"
  by (simp_all add: probing_tunnel_def tunnel_new_udp_def tunnel_build_def sample_net_def)

theorem confirmations_exhaust_selection_witness:
  "fst (auto_select_address True
     (\<lambda>x. (sample_net, [Ok (tunnelled 1 0 (confirmation (build_tdisconnect_cemi ia_broadcast (IndividualAddress 0x11F0))))]))
     AddressRegistry_new 1 1 probing_tunnel) = Err (Transport InvalidConfiguration_Transport)"
  by (rule confirmations_exhaust_selection [OF probing_fields(1,3)]) auto

lemma connect_shows_nothing: "\<not> shows_device (build_tconnect_cemi src dst)" "length (build_tconnect_cemi src dst) \<le> 65525"
  using probe_frames_read_back(1) [of src dst] by (auto simp: shows_device_def build_tconnect_cemi_def build_ldata_req_cemi_def)

theorem probe_desynchronises_witness:
  "\<exists>t'. recv_until_signal sample_net
      (map (\<lambda>(i, raw). Ok (tunnelled 1 (tn_expected_sequence_number probing_tunnel + of_nat i) raw))
        (enumerate 0 [build_tconnect_cemi ia_broadcast ia_broadcast])) probing_tunnel =
        (Ok False, map (\<lambda>i. ack_of 1 (tn_expected_sequence_number probing_tunnel + of_nat i))
          [0..<length [build_tconnect_cemi ia_broadcast ia_broadcast]], t') \<and>
    validate_sequence_number (tn_expected_sequence_number probing_tunnel +
        of_nat (length [build_tconnect_cemi ia_broadcast ia_broadcast])) t' =
      (Invalid (tn_expected_sequence_number probing_tunnel)
        (tn_expected_sequence_number probing_tunnel + of_nat (length [build_tconnect_cemi ia_broadcast ia_broadcast])), t')"
  by (rule probe_desynchronises [OF probing_fields]) (auto simp: connect_shows_nothing)

end
