(* ===== verification/Spec2Isabelle.thy ===== *)
theory Spec2Isabelle
  imports Tpci Frame_Transport Router Heartbeat Queue_Wakeup Server Knx Dpt_Registry Group_Values Secure_Link Receiving Address_Probe
begin

text \<open>
  A verification development for \<open>knust\<close>, an asynchronous KNX/IP library in Rust.

  \<^bold>\<open>The program.\<close>  A client (\<open>src/application/knx.rs\<close>) keeps a connection to a KNX/IP gateway: usually a
  tunnel (\<open>src/transport/tunnel.rs\<close>) over UDP or TCP.  Telegrams to send go through a priority queue
  (\<open>src/transport/queue.rs\<close>), are encoded as an application service (\<open>src/protocol/apci.rs\<close>) inside a CEMI
  frame (\<open>src/protocol/cemi.rs\<close>) inside a tunnelling request inside a KNX/IP frame
  (\<open>src/protocol/knxip.rs\<close>), and leave through a frame transport
  (\<open>src/transport/frame_transport.rs\<close>).  Received frames take the way back through the sequence check, a
  receive limiter (\<open>src/transport/receive_limiter.rs\<close>) or the queue, to the callbacks
  (\<open>src/application/callbacks.rs\<close>), pending reads and the registry of typed group addresses
  (\<open>src/protocol/dpt/group_registry.rs\<close>), which decodes payloads by datapoint type (\<open>src/protocol/dpt\<close>).  The library also
  contains the other end, a tunnelling server (\<open>src/transport/server.rs\<close>), and KNX Secure for both ends
  (\<open>src/security\<close>).

  \<^bold>\<open>Theories.\<close>
  \<^item> \<open>Prelude\<close>: machine words, results with a panic outcome (\<open>Ok\<close>, \<open>Err\<close>, \<open>Panic\<close>), checked indexing and
    slicing, decimal text, and the lemma collections \<open>res_simps\<close> and \<open>codec_simps\<close>.
  \<^item> \<open>Errors\<close> (\<open>error.rs\<close>), \<open>Address\<close> (\<open>protocol/address.rs\<close>), \<open>Apci\<close> (\<open>protocol/apci.rs\<close>), \<open>Tpci\<close>
    (\<open>protocol/tpci.rs\<close>, \<open>protocol/management.rs\<close>), \<open>Cemi\<close> (\<open>protocol/cemi.rs\<close>), \<open>Knxip\<close> and
    \<open>Knxip_Messages\<close> (\<open>protocol/knxip.rs\<close>), \<open>Telegram\<close> (\<open>protocol/telegram.rs\<close>): the data and codecs.  \<open>Codec\<close>
    has the contract of a wire format as a locale; every message type with \<open>parse\<close> and \<open>serialize\<close> is an
    interpretation.
  \<^item> \<open>Frame_Transport\<close>, \<open>Router\<close>, \<open>Heartbeat\<close>, \<open>Address_Registry\<close>, \<open>Queue\<close>, \<open>Queue_Wakeup\<close>,
    \<open>Receive_Limiter\<close>: the parts of the transport layer with state of their own, in files of the same
    name under \<open>src/transport\<close>.
  \<^item> \<open>Sequence\<close>: the contract of the sequence check, a locale that the client (\<open>Tunnel\<close>) and the server
    (\<open>Server\<close>) interpret.
  \<^item> \<open>Telegram_Codec\<close>: telegrams to frames and back, the functions that client and server share.
  \<^item> \<open>Tunnel\<close> (\<open>transport/tunnel.rs\<close>), \<open>Client\<close> and \<open>Knx\<close> (\<open>application/knx.rs\<close>), \<open>Server\<close>
    (\<open>transport/server.rs\<close>): the two ends.  \<open>Routing\<close> (\<open>transport/routing.rs\<close>): the
    multicast connection that a client can use instead of a tunnel; \<open>Receiving\<close>: the receiving task over either;
    \<open>Address_Probe\<close> (\<open>transport/address_probe.rs\<close>): probing for a free address through a tunnel.
  \<^item> \<open>Ieee\<close>, \<open>Dpt_Type\<close>, \<open>Dpt_View\<close>, \<open>Dpt_Runtime\<close>, \<open>Dpt_Values\<close>, \<open>Dpt_Float\<close>, \<open>Dpt_Registry\<close>
    (\<open>protocol/dpt\<close>): IEEE floats as exact rationals, type numbers, the runtime view of a payload with decoding and encoding, the typed
    values, the 2-byte float, and the registry of all types.
  \<^item> \<open>Group_Registry\<close> (\<open>protocol/dpt/group_registry.rs\<close>), \<open>Callbacks\<close> (\<open>application/callbacks.rs\<close>), \<open>Group_Values\<close>
    (\<open>application/knx.rs\<close>): bindings of addresses, delivery to callbacks, and the tasks of a node that use them, as events in any
    order.
  \<^item> \<open>Crypto\<close>, \<open>Secure_Session\<close> (\<open>security\<close>): modes of operation, key ring, group payloads and sessions over a record of the
    third-party primitives; the laws of the primitives that are used are the predicate \<open>crypto_laws\<close>.  \<open>Secure_Server\<close>,
    \<open>Secure_Link\<close>: the secure parts of both ends, built on \<open>Server\<close> and \<open>Tunnel\<close>.
  \<^item> This theory: properties that need both ends.

  \<^bold>\<open>How the code is represented.\<close>  Integers of fixed width are words and wrap; \<open>u64\<close> and \<open>usize\<close> counters of
  statistics are natural numbers.  A function that can fail returns a result; a slice or index out of
  range is the outcome \<open>Panic\<close>.  State is a record passed through; a lock held over a method body makes
  the body one step, and where interleaving matters (\<open>Queue_Wakeup\<close>, \<open>Address_Registry\<close>, \<open>Server\<close>) the steps
  are interleaved explicitly.  The network, the clock and the libraries \<open>tokio\<close> and \<open>std::net\<close> appear as
  arguments: outcomes of sends and receives, times, the chunks of a stream.  Log output is left out.
  Names follow the source; fields carry a short prefix.  Definitions compute, and no fuel is used: the
  loops end by their own measure (the bytes left, the attempts left, the chunks left).

  \<^bold>\<open>What is shown.\<close>  Codecs: round trips with the exact set of values that survive, and absence of panics.
  Streams: reassembly of frames for any chunking.  Queue: delivery order, size and statistics invariant.
  Limiter: rate bound and accounting.  Registry: exclusiveness.  Heartbeat: the verdict over any history.
  Router: refinement of one queue per service.  Tunnel: connect, its failures, and disconnect.  Server:
  session invariant over all histories, isolation, sending with retry.  Both ends: exactly-once delivery in
  both directions for any number of telegrams, counters in step, the connect handshake, no panic over TCP.
  Datapoints: round trips, agreement of the typed and the runtime decoders.  Group values: what a read returns, the last value of an
  address, a typed value from one node to another, fairness of the refresh.  Security: the handshake, transparency of the
  encryption, nothing without authentication, authentication only by password, increasing numbers.
  Where the code departs from what it means to do, the property states what it does: a panic that ends
  the UDP task, telegrams lost after one lost frame, responses sent as writes, one-byte payloads cut to
  six bits, a consumer left asleep, a reconnection that happens once, a callback that stops all processing, secure tunnels that
  lose their acks and heartbeats, routing that only understands its own kind, and others.

  \<^bold>\<open>What is not modelled.\<close>  Discovery, configuration files, memory statistics and logging; text formatting of
  values; the \<open>f64\<close> computations of the rate limiter, the backoff multiplier and the processing-time average, which are
  arguments where they are used.
\<close>

section \<open>Helper lemmas\<close>

text \<open>The connect request of a client and what the server makes of it.\<close>

definition connect_frame :: "tunnel \<Rightarrow> bytes" where
  "connect_frame t = KnxIpFrame_serialize (KnxIpFrame_new ConnectRequest
     (ConnectRequest_serialize (connect_request_for t)))"

lemma connect_request_for_fits:
  "tn_configured_address t = None \<Longrightarrow> connect_request_fits (connect_request_for t)"
  by (cases "tn_kind t")
     (simp_all add: connect_request_for_def connect_request_fits_def ConnectRequest_new_route_back_def
       ConnectRequest_new_tcp_route_back_def hpai_fits_def Hpai_route_back_def
       Hpai_new_tcp_route_back_def cri_fits_def ConnectionRequestInfo_new_tunnel_def Let_def)

lemma connect_request_for_link: "resolve_link (creq_data_endpoint (connect_request_for t)) link = link"
  by (cases "tn_kind t"; cases "tn_configured_address t"; cases link)
     (simp_all add: connect_request_for_def resolve_link_def ConnectRequest_new_route_back_def
       ConnectRequest_new_tcp_route_back_def Hpai_route_back_def Hpai_new_tcp_route_back_def Let_def)

lemma length_connect_request: "length (ConnectRequest_serialize r) \<le> 65529"
  by (simp add: ConnectRequest_serialize_def Hpai_serialize_def ConnectionRequestInfo_serialize_def
      split: option.split ip_addr.split)

lemma parse_assigned_crd: "parse_assigned_address (build_tunnel_crd ia) = Ok (Some ia)"
  by (simp add: parse_assigned_address_def build_tunnel_crd_def u16_to_be_bytes_def
      IndividualAddress_from_raw_def)

lemma check_connect_response_frame:
  assumes "length (ConnectResponse_serialize r) \<le> 65529"
  shows "check_connect_response (KnxIpFrame_serialize (KnxIpFrame_new ConnectResponse
           (ConnectResponse_serialize r))) =
         bind_res (ConnectResponse_parse (ConnectResponse_serialize r)) (\<lambda>resp.
           if cresp_status resp \<noteq> 0 then Err (Transport ConnectionFailed)
           else Ok (cresp_channel_id resp, cresp_assigned_address resp))"
  using KnxIpFrame_parse_serialize [OF KnxIpFrame_new_fits [OF assms], where rest = "[]"]
  by (simp add: check_connect_response_def ConnectResponse_is_success_def guard_res_def)

lemma length_connect_response: "length (cresp_crd r) \<le> 100 \<Longrightarrow> length (ConnectResponse_serialize r) \<le> 65529"
  by (simp add: ConnectResponse_serialize_def Hpai_serialize_def split: ip_addr.split)

lemma refused_response:
  "check_connect_response (KnxIpFrame_serialize (KnxIpFrame_new ConnectResponse (ConnectResponse_serialize
     \<lparr>cresp_channel_id = ch, cresp_status = 0x24, cresp_data_endpoint = ep, cresp_crd = [],
      cresp_assigned_address = None\<rparr>))) = Err (Transport ConnectionFailed)"
  by (subst check_connect_response_frame)
     (simp_all add: length_connect_response ConnectResponse_parse_def ConnectResponse_serialize_def)

lemma granted_response:
  assumes "hpai_fits ep"
  shows "check_connect_response (KnxIpFrame_serialize (KnxIpFrame_new ConnectResponse (ConnectResponse_serialize
     \<lparr>cresp_channel_id = ch, cresp_status = 0, cresp_data_endpoint = ep,
      cresp_crd = build_tunnel_crd ia, cresp_assigned_address = Some ia\<rparr>))) = Ok (ch, Some ia)"
proof -
  let ?r = "\<lparr>cresp_channel_id = ch, cresp_status = 0, cresp_data_endpoint = ep,
      cresp_crd = build_tunnel_crd ia, cresp_assigned_address = Some ia\<rparr>"
  have "connect_response_fits ?r"
    using assms by (simp add: connect_response_fits_def parse_assigned_crd)
  then show ?thesis
    by (subst check_connect_response_frame)
       (simp_all add: length_connect_response connect_response.parse_ser build_tunnel_crd_def u16_to_be_bytes_def)
qed

lemma handle_connect_full:
  assumes "connect_request_fits req" "allocate_channel_id (sv_sessions sv) = None"
    and "snd_to (resolve_link (creq_data_endpoint req) link) = Ok ()"
  shows "server_handle_frame snd_to now wall
      (KnxIpFrame_serialize (KnxIpFrame_new ConnectRequest (ConnectRequest_serialize req))) link sv =
    (Ok None,
     [Reply (resolve_link (creq_data_endpoint req) link)
        (KnxIpFrame_serialize (KnxIpFrame_new ConnectResponse (ConnectResponse_serialize
           \<lparr>cresp_channel_id = 0, cresp_status = 0x24,
            cresp_data_endpoint = Hpai_new (sv_local_addr sv), cresp_crd = [],
            cresp_assigned_address = None\<rparr>)))], sv)"
  using KnxIpFrame_parse_serialize [OF KnxIpFrame_new_fits [OF length_connect_request], where rest = "[]"]
    assms connect_request.parse_ser [OF assms(1)]
  by (simp add: server_handle_frame_def dispatch_plain_frame_def server_handle_connect_request_def
      send_reply_def Let_def)

lemma client_no_panic:
  assumes "KnxIpFrame_parse data \<noteq> Panic"
  shows "fst (handle_incoming_frame env data cl) \<noteq> Panic"
proof -
  have "fst (handled h) = Panic \<longleftrightarrow> fst h = Panic" for h
    by (cases h; cases "fst h") (simp_all add: handled_def)
  moreover have "fst (client_handle_tunnelling_request env body cl) \<noteq> Panic" for body
    using tunnelling_request.parse_no_panic [of body] parse_cemi_to_telegram_no_panic
    by (simp add: client_handle_tunnelling_request_def Let_def
        split: res.split prod.split sequence_validation_result.split connection.split)
  moreover have "fst (handle_routing_indication env body cl) \<noteq> Panic" for body
    using parse_cemi_to_telegram_no_panic
    by (simp add: handle_routing_indication_def split: res.split prod.split)
  moreover have "fst (client_handle_disconnect_request env body) \<noteq> Panic" for body
    using disconnect_request.parse_no_panic [of body]
    by (simp add: client_handle_disconnect_request_def Let_def split: res.split)
  moreover have "client_handle_disconnect_response body \<noteq> Panic"
    "client_handle_connectionstate_request body \<noteq> Panic"
    "client_handle_connectionstate_response body \<noteq> Panic" for body
    using disconnect_response.parse_no_panic [of body] connectionstate_request.parse_no_panic [of body]
      connectionstate_response.parse_no_panic [of body]
    by (simp_all add: client_handle_disconnect_response_def client_handle_connectionstate_request_def
        client_handle_connectionstate_response_def)
  ultimately show ?thesis
    using assms
    by (simp add: handle_incoming_frame_def Let_def split: res.split service_type.split prod.split)
       (metis fst_conv)
qed

text \<open>Telegrams and states to run the properties on.\<close>

definition sample_write :: telegram where
  "sample_write = Telegram_group_write 0 (GroupAddress 0x0A03) [0x01]"

definition sample_temperature :: telegram where
  "sample_temperature = Telegram_group_write 0 (GroupAddress 0x0A04) [0x0C, 0x1A]"

definition sample_tunnel :: tunnel where
  "sample_tunnel = (tunnel_new_udp 5000)\<lparr>tn_state := Connected, tn_transport := True, tn_channel_id := 1\<rparr>"

definition sample_client :: client where
  "sample_client = \<lparr>cl_connection = Tunnel_Connection sample_tunnel, cl_queue = queue_new, cl_limiter = None\<rparr>"

definition sample_env :: "system_time \<Rightarrow> client_env" where
  "sample_env wall = \<lparr>ce_net = sample_net, ce_queue_config = QueueConfig_default,
     ce_limit_config = ReceiveLimitConfig_default, ce_now = 0, ce_wall = wall,
     ce_channel_outcome = Channel_Ok, ce_current_channel_id = Some 1\<rparr>"

lemma sample_sendable [simp]: "sendable sample_write" "sendable sample_temperature"
  by (simp_all add: sendable_def sample_write_def sample_temperature_def Telegram_group_write_def
      address_valid_def ga_valid_def)

lemma sample_client_fields [simp]:
  "cl_connection sample_client = Tunnel_Connection sample_tunnel" "cl_limiter sample_client = None"
  "q_incoming (cl_queue sample_client) = []" "\<not> q_closed (cl_queue sample_client)"
  "tn_transport sample_tunnel" "tn_state sample_tunnel = Connected"
  "tn_expected_sequence_number sample_tunnel = 0" "tn_sequence_counter sample_tunnel = 0"
  "tn_channel_id sample_tunnel = 1" "tn_configured_address sample_tunnel = None"
  "net_send (ce_net (sample_env w)) = Ok ()" "ce_queue_config (sample_env w) = QueueConfig_default"
  "ce_wall (sample_env w) = w"
  by (simp_all add: sample_client_def sample_tunnel_def tunnel_new_udp_def tunnel_build_def queue_new_def
      sample_env_def sample_net_def)

lemma sample_connected_fields [simp]:
  "sv_sessions sample_connected 1 = Some sample_session" "ss_recv_seq sample_session = 0"
  "ss_send_seq sample_session = 0" "ss_channel_id sample_session = 1"
  by (simp_all add: sample_connected_def sample_session_def ClientSession_new_def)

section \<open>Properties\<close>

text \<open>
  C1: Client to server, exactly once.  A client sends any number of telegrams over its channel, numbered
  consecutively from the counter the server expects (wrapping at 256), and each frame arrives one or
  more times before the next; the frames are those that \<open>build_outgoing_frame_for_connection\<close> makes.
  Then the server publishes every telegram exactly once and in order, each with source, destination and
  (up to the wire form) payload of the telegram sent.
\<close>

theorem tunnel_exactly_once:
  assumes "sv_sessions sv ch = Some s" "snd_to (ss_link s) = Ok ()"
    and "map (\<lambda>(n, t, _). (n, t)) fs = stutter ks (number_from (ss_recv_seq s) ts)"
    and "\<forall>f \<in> set fs. sendable (fst (snd f))"
  shows "map untimed (published (fst (handle_all snd_to (map (tunnel_arrival ch) fs) sv))) =
           map (received_as 0) ts"
  using assms by (rule published_exactly_once)

theorem tunnel_exactly_once_witness:
  "map untimed (published (fst (handle_all (\<lambda>_. Ok ()) (map (tunnel_arrival 1)
     [(0, sample_write, UdpLink (V4 10 0 0 2, 5000), 1, 10),
      (0, sample_write, UdpLink (V4 10 0 0 2, 5000), 2, 11),
      (1, sample_temperature, UdpLink (V4 10 0 0 2, 5000), 3, 12)]) sample_connected))) =
   map (received_as 0) [sample_write, sample_temperature]"
  by (rule tunnel_exactly_once [where s = sample_session and ks = "[1, 0]"]) simp_all







text \<open>
  A requested address is refused.  When address management asks for a particular individual address,
  the client sends the extended form of the connection request information; the library's own server
  does not parse this form: it returns an error, sends no answer, and opens no session.
\<close>

lemma requested_address_refused:
  assumes "tn_configured_address t = Some addr"
  shows "\<exists>e. server_handle_frame snd_to now wall (connect_frame t) link sv = (Err e, [], sv)"
proof -
  have "\<exists>e. ConnectRequest_parse (ConnectRequest_serialize (connect_request_for t)) = Err e"
    using assms
    by (cases "tn_kind t")
       (simp_all add: connect_request_for_def ConnectRequest_new_route_back_def
         ConnectRequest_new_tcp_route_back_def ConnectRequest_parse_def ConnectRequest_serialize_def
         ConnectionRequestInfo_new_tunnel_def ConnectionRequestInfo_parse_def
         ConnectionRequestInfo_serialize_def Hpai_parse_serialize hpai_fits_def Hpai_route_back_def
         Hpai_new_tcp_route_back_def Hpai_serialize_def Hpai_parse_def u16_to_be_bytes_def Let_def)
  then show ?thesis
    using KnxIpFrame_parse_serialize [OF KnxIpFrame_new_fits [OF length_connect_request],
        where rest = "[]"]
    by (auto simp: connect_frame_def server_handle_frame_def dispatch_plain_frame_def
        server_handle_connect_request_def)
qed

text \<open>
  C27: One lost frame costs 255 more.  The client never repeats a frame and takes a new number for every
  telegram, sent or not.  If one frame is lost on the way, the server publishes none of the following
  telegrams, up to 255 of them.
\<close>

theorem lost_frame_desynchronises:
  assumes "sv_sessions sv ch = Some s" "snd_to (ss_link s) = Ok ()"
    and "fs = number_from (ss_recv_seq s + 1) ps" "length ps \<le> 255"
    and "\<forall>p \<in> set ps. sendable (fst p)"
  shows "published (fst (handle_all snd_to (map (tunnel_arrival ch) fs) sv)) = []
       \<and> (\<exists>tn'. snd (send_outgoing net t (Tunnel_Connection tn)) = Tunnel_Connection tn'
            \<and> tn_sequence_counter tn' = tn_sequence_counter tn + 1)"
proof -
  have "set (map snd fs) = set ps"
    using assms(3) by simp
  then have "\<forall>f \<in> set fs. sendable (fst (snd f))"
    using assms(5) by auto
  from published_accepted [of sv ch s snd_to s fs, OF assms(1,2) refl this]
  have "published (fst (handle_all snd_to (map (tunnel_arrival ch) fs) sv)) = []"
    using server_window.skipped_frame [of s "ss_recv_seq s" ps] assms(3,4) by simp
  then show ?thesis
    using send_outgoing_bumps [of net t tn] by (metis prod.collapse)
qed

theorem lost_frame_desynchronises_witness:
  "let p = (sample_write, UdpLink (V4 10 0 0 2, 5000), 1, 10) in
   published (fst (handle_all (\<lambda>_. Ok ()) (map (tunnel_arrival 1)
     (number_from (ss_recv_seq sample_session + 1) [p, p, p])) sample_connected)) = []
   \<and> (\<exists>tn'. snd (send_outgoing (sample_net\<lparr>net_send := Err (Transport SocketError)\<rparr>) sample_write
            (Tunnel_Connection sample_tunnel)) = Tunnel_Connection tn'
        \<and> tn_sequence_counter tn' = tn_sequence_counter sample_tunnel + 1)"
  unfolding Let_def
  by (rule lost_frame_desynchronises [where s = sample_session, OF _ _ refl]) simp_all



end
